(* ===== verification/Prelude.thy ===== *)
theory Prelude
  imports Main "HOL-Library.Word" "HOL-Library.AList" "HOL-Library.Multiset" "HOL-Library.Char_ord" "HOL-Library.List_Lexorder"
begin

text \<open>
  The shared vocabulary of the development: the Go values the components exchange (strings and
  byte slices as character lists, unsigned 64-bit integers as words), the pieces of the Go standard
  library the sources call on them (\<^verbatim>\<open>strconv\<close>, \<^verbatim>\<open>strings\<close>, \<^verbatim>\<open>fmt\<close> with \<open>%d\<close>), the outcome of a
  call that may panic, and the generic lemmas the component theories rewrite with.  The named
  collections below are the automation the components share.
\<close>

named_theorems go_simps \<open>unfolding rules for the Go standard library pieces\<close>
named_theorems key_simps \<open>facts about the datastore keys of the node\<close>

section \<open>Types\<close>

type_synonym bytes = string
type_synonym u64 = "64 word"

text \<open>A call that returns normally, or panics (a nil dereference, a division by zero, an index out
  of range).  A panic in a goroutine ends the whole process.\<close>

datatype 'a outcome = Return 'a | Panic

fun bind_outcome :: "'a outcome \<Rightarrow> ('a \<Rightarrow> 'b outcome) \<Rightarrow> 'b outcome" where
  "bind_outcome (Return x) f = f x"
| "bind_outcome Panic f = Panic"

section \<open>Conversions between integers\<close>

text \<open>Go's \<^verbatim>\<open>uint64(x)\<close> of an int64 and \<^verbatim>\<open>int64(x)\<close> of a uint64: two's complement.\<close>

definition to_uint64 :: "int \<Rightarrow> u64" where
  "to_uint64 i = word_of_int i"

definition to_int64 :: "u64 \<Rightarrow> int" where
  "to_int64 w = sint w"

section \<open>Decimal text\<close>

text \<open>\<^verbatim>\<open>fmt.Sprintf("%d", n)\<close> for unsigned and signed \<open>n\<close>, and the value of a digit string.\<close>

definition digit_char :: "nat \<Rightarrow> char" where
  "digit_char d = char_of (48 + d)"

fun show_nat :: "nat \<Rightarrow> string" where
  "show_nat n = (if n < 10 then [digit_char n] else show_nat (n div 10) @ [digit_char (n mod 10)])"

declare show_nat.simps [simp del]

definition show_u64 :: "u64 \<Rightarrow> string" where
  "show_u64 w = show_nat (unat w)"

definition show_int :: "int \<Rightarrow> string" where
  "show_int i = (if i < 0 then CHR ''-'' # show_nat (nat (- i)) else show_nat (nat i))"

definition is_digit :: "char \<Rightarrow> bool" where
  "is_digit c \<longleftrightarrow> 48 \<le> (of_char c :: nat) \<and> (of_char c :: nat) \<le> 57"

definition digit_val :: "char \<Rightarrow> nat" where
  "digit_val c = of_char c - 48"

definition digits_val :: "string \<Rightarrow> nat" where
  "digits_val s = foldl (\<lambda>v c. 10 * v + digit_val c) 0 s"

section \<open>The strings package\<close>

definition HasPrefix :: "string \<Rightarrow> string \<Rightarrow> bool" where
  "HasPrefix s p \<longleftrightarrow> take (length p) s = p"

fun Contains :: "string \<Rightarrow> string \<Rightarrow> bool" where
  "Contains [] p \<longleftrightarrow> p = []"
| "Contains (c # cs) p \<longleftrightarrow> HasPrefix (c # cs) p \<or> Contains cs p"

text \<open>\<^verbatim>\<open>strings.Split(s, sep)\<close> for a one-byte separator.\<close>

fun Split :: "char \<Rightarrow> string \<Rightarrow> string list" where
  "Split c [] = [[]]"
| "Split c (x # xs) =
     (if x = c then [] # Split c xs
      else (case Split c xs of [] \<Rightarrow> [[x]] | w # ws \<Rightarrow> (x # w) # ws))"

section \<open>Lemmas: outcomes\<close>

lemma bind_outcome_Return: "bind_outcome r f = Return y \<longleftrightarrow> (\<exists>x. r = Return x \<and> f x = Return y)"
  by (cases r) auto

lemma bind_outcome_case: "bind_outcome r f = (case r of Return x \<Rightarrow> f x | Panic \<Rightarrow> Panic)"
  by (cases r) simp_all

section \<open>Lemmas: decimal text\<close>

lemma of_char_digit_char [simp]: "d < 10 \<Longrightarrow> of_char (digit_char d) = 48 + d"
  by (simp add: digit_char_def)

lemma is_digit_digit_char [simp]: "d < 10 \<Longrightarrow> is_digit (digit_char d)"
  by (simp add: is_digit_def)

lemma digit_val_digit_char [simp]: "d < 10 \<Longrightarrow> digit_val (digit_char d) = d"
  by (simp add: digit_val_def)

lemma show_nat_digits: "list_all is_digit (show_nat n)"
proof (induction n rule: show_nat.induct)
  case (1 n)
  then show ?case by (cases "n < 10") (simp_all add: show_nat.simps [of n])
qed

lemma show_nat_nonempty [simp]: "show_nat n \<noteq> []"
  by (subst show_nat.simps) simp

lemma digits_val_snoc: "digits_val (s @ [c]) = 10 * digits_val s + digit_val c"
  by (simp add: digits_val_def)

lemma digits_val_show_nat [simp]: "digits_val (show_nat n) = n"
proof (induction n rule: show_nat.induct)
  case (1 n)
  show ?case
  proof (cases "n < 10")
    case True
    then show ?thesis by (simp add: show_nat.simps [of n] digits_val_def)
  next
    case False
    with "1.IH" show ?thesis by (simp add: show_nat.simps [of n] digits_val_snoc)
  qed
qed

lemma show_nat_inj [simp]: "show_nat m = show_nat n \<longleftrightarrow> m = n"
  by (metis digits_val_show_nat)

lemma show_u64_inj [simp]: "show_u64 v = show_u64 w \<longleftrightarrow> v = w"
  by (simp add: show_u64_def word_unat_eq_iff)

lemma is_digit_not_sep:
  "is_digit c \<Longrightarrow> c \<noteq> CHR ''-''" "is_digit c \<Longrightarrow> c \<noteq> CHR ''/''" "is_digit c \<Longrightarrow> c \<noteq> CHR 26"
  by (auto simp: is_digit_def)

lemma show_nat_set: "c \<in> set (show_nat n) \<Longrightarrow> is_digit c"
  using show_nat_digits [of n] by (simp add: list_all_iff)

lemma show_nat_no_sep [simp]:
  "CHR ''-'' \<notin> set (show_nat n)" "CHR ''/'' \<notin> set (show_nat n)" "CHR 26 \<notin> set (show_nat n)"
  using show_nat_set is_digit_not_sep by blast+

lemma show_u64_no_sep [simp]:
  "CHR ''-'' \<notin> set (show_u64 w)" "CHR ''/'' \<notin> set (show_u64 w)" "CHR 26 \<notin> set (show_u64 w)"
  by (simp_all add: show_u64_def)

section \<open>Lemmas: strings\<close>

lemma HasPrefix_append [simp]: "HasPrefix (p @ s) p"
  by (simp add: HasPrefix_def)

lemma Contains_HasPrefix: "HasPrefix s p \<Longrightarrow> Contains s p"
  by (cases s) (auto simp: HasPrefix_def)

lemma Contains_append1: "Contains s p \<Longrightarrow> Contains (t @ s) p"
  by (induction t) auto

lemma Contains_infix [simp]: "Contains (a @ p @ b) p"
  by (rule Contains_append1, rule Contains_HasPrefix) simp

lemma Split_nonempty [simp]: "Split c s \<noteq> []"
  by (cases s) (auto split: list.splits)

lemma Split_no_sep [simp]: "c \<notin> set s \<Longrightarrow> Split c s = [s]"
  by (induction s) auto

lemma Split_append_sep: "c \<notin> set a \<Longrightarrow> Split c (a @ c # b) = a # Split c b"
  by (induction a) auto

lemma Split_one: "Split c s = [a] \<Longrightarrow> s = a"
  by (induction s arbitrary: a) (auto split: if_splits list.splits)

lemma Split_two: "Split c s = [a, b] \<Longrightarrow> s = a @ c # b"
  by (induction s arbitrary: a) (auto split: if_splits list.splits dest: Split_one)

text \<open>Two strings cut at the first occurrence of a separator are equal only piece by piece.\<close>

lemma append_sep_eq_iff:
  assumes "c \<notin> set a" and "c \<notin> set a'"
  shows "a @ c # b = a' @ c # b' \<longleftrightarrow> a = a' \<and> b = b'"
  using assms
proof (induction a arbitrary: a')
  case Nil
  then show ?case by (cases a') auto
next
  case (Cons x a)
  then show ?case by (cases a') auto
qed

section \<open>Lemmas: association lists\<close>

text \<open>A Go map is an association list with distinct keys, whose order is the (unspecified) order in
  which \<^verbatim>\<open>range\<close> visits the entries.\<close>

lemma map_of_update [simp]: "map_of (AList.update k v m) = (map_of m)(k \<mapsto> v)"
  by (rule ext) (simp add: update_conv')

lemma distinct_map_fst_sort_key [simp]:
  "distinct (map fst (sort_key f m)) = distinct (map fst m)"
  by (rule mset_eq_imp_distinct_iff) simp

lemma map_of_sort_key_fst:
  "distinct (map fst m) \<Longrightarrow> map_of (sort_key f m) = map_of m"
  by (rule map_of_inject_set [THEN iffD2]) simp_all

end
