(* ===== verification/Go_Errors.thy ===== *)
theory Go_Errors
  imports Prelude
begin

text \<open>
  The errors of the node (\<^verbatim>\<open>src/types/errors.go\<close>): the registered sentinels with their module, code
  and description, and the two wrappers \<open>Wrap\<close> and \<open>Wrapf\<close> every component builds its errors with.
  \<open>goerr\<close> is Go's \<^verbatim>\<open>error\<close>: a plain text, a registered error, or an error wrapped with a
  description.  \<open>Error\<close> is the text of an error as \<^verbatim>\<open>err.Error()\<close> gives it; a wrapped error prints its
  description, a colon and its parent.  A nil error is \<open>None\<close> of \<open>goerr option\<close>, a result with an error
  is \<open>goerr + 'a\<close>.
\<close>

section \<open>Errors as values\<close>

datatype sentinel = Register (snt_module: string) (snt_code: nat) (snt_desc: string)

datatype goerr = ErrText string | ErrReg sentinel | ErrWrap string goerr

type_synonym 'a res = "goerr + 'a"

fun Error :: "goerr \<Rightarrow> string" where
  "Error (ErrText s) = s"
| "Error (ErrReg s) = snt_desc s"
| "Error (ErrWrap d e) = d @ '': '' @ Error e"

fun err_root :: "goerr \<Rightarrow> sentinel option" where
  "err_root (ErrText _) = None"
| "err_root (ErrReg s) = Some s"
| "err_root (ErrWrap _ e) = err_root e"

definition err_of :: "'a res \<Rightarrow> goerr option" where
  "err_of r = (case r of Inl e \<Rightarrow> Some e | Inr _ \<Rightarrow> None)"

section \<open>Parsing unsigned integers\<close>

text \<open>\<^verbatim>\<open>strconv.ParseUint(s, 10, 64)\<close>: a syntax error for an empty string or at the first byte that is
  not a digit, a range error where the value passes 64 bits.\<close>

definition NumError :: "string \<Rightarrow> string \<Rightarrow> goerr" where
  "NumError s why = ErrText (''strconv.ParseUint: parsing \"'' @ s @ ''\": '' @ why)"

fun ParseUint_loop :: "string \<Rightarrow> nat \<Rightarrow> string \<Rightarrow> nat res" where
  "ParseUint_loop s n [] = Inr n"
| "ParseUint_loop s n (c # cs) =
     (if \<not> is_digit c then Inl (NumError s ''invalid syntax'')
      else if 10 * n + digit_val c \<ge> 2 ^ 64 then Inl (NumError s ''value out of range'')
      else ParseUint_loop s (10 * n + digit_val c) cs)"

definition ParseUint :: "string \<Rightarrow> u64 res" where
  "ParseUint s =
     (if s = [] then Inl (NumError s ''invalid syntax'')
      else map_sum id of_nat (ParseUint_loop s 0 s))"

text \<open>\<^verbatim>\<open>strconv.ParseInt(s, 10, 64)\<close>: an optional sign and the digits, in the range of int64.\<close>

definition ParseInt :: "string \<Rightarrow> int res" where
  "ParseInt s0 =
     (let neg = (s0 \<noteq> [] \<and> hd s0 = CHR ''-'');
          s = (if s0 \<noteq> [] \<and> (hd s0 = CHR ''-'' \<or> hd s0 = CHR ''+'') then tl s0 else s0);
          err = (\<lambda>why. ErrText (''strconv.ParseInt: parsing '' @ [CHR 34] @ s0 @ [CHR 34] @ '': '' @ why))
      in if s = [] then Inl (err ''invalid syntax'')
         else if digits_val (takeWhile is_digit s) \<ge> 2 ^ 64 then Inl (err ''value out of range'')
         else if \<not> list_all is_digit s then Inl (err ''invalid syntax'')
         else if (if neg then digits_val s > 2 ^ 63 else digits_val s \<ge> 2 ^ 63) then Inl (err ''value out of range'')
         else Inr (if neg then - int (digits_val s) else int (digits_val s)))"

section \<open>The wrappers\<close>

text \<open>\<open>Wrap err0 err1\<close>: a nil \<open>err1\<close> is \<open>None\<close>.\<close>

definition Wrap :: "sentinel \<Rightarrow> goerr option \<Rightarrow> goerr" where
  "Wrap err0 err1 =
     (case err1 of
        None \<Rightarrow> ErrWrap (snt_module err0 @ '' error: code: Code('' @ show_nat (snt_code err0) @ '') desc'')
                       (ErrReg err0)
      | Some e \<Rightarrow> ErrWrap (Error e @ '': '' @ snt_module err0 @ '' error: code: (''
                            @ show_nat (snt_code err0) @ '') desc'')
                       (ErrReg err0))"

text \<open>\<open>Wrapf err msg\<close>: \<open>msg\<close> is the caller's format applied to its arguments.\<close>

definition Wrapf :: "sentinel \<Rightarrow> string \<Rightarrow> goerr" where
  "Wrapf err msg =
     ErrWrap (msg @ '': '' @ snt_module err @ '' error: code: Code('' @ show_nat (snt_code err) @ '') desc'')
             (ErrReg err)"

section \<open>The registered errors\<close>

definition ErrInvalidRepoPath :: sentinel where
  "ErrInvalidRepoPath = Register ''common'' 10000 ''invalid repo path''"

definition ErrCreateDirFailed :: sentinel where
  "ErrCreateDirFailed = Register ''common'' 10001 ''failed to create the directory''"

definition ErrCreateFileFailed :: sentinel where
  "ErrCreateFileFailed = Register ''common'' 10002 ''failed to create the file''"

definition ErrOpenFileFailed :: sentinel where
  "ErrOpenFileFailed = Register ''common'' 10003 ''failed to open the file''"

definition ErrReadFileFailed :: sentinel where
  "ErrReadFileFailed = Register ''common'' 10004 ''failed to read the file''"

definition ErrWriteFileFailed :: sentinel where
  "ErrWriteFileFailed = Register ''common'' 10005 ''failed to write the file''"

definition ErrCloseFileFailed :: sentinel where
  "ErrCloseFileFailed = Register ''common'' 10006 ''failed to close the file''"

definition ErrInitRepoFailed :: sentinel where
  "ErrInitRepoFailed = Register ''common'' 10007 ''failed to initialize the repo''"

definition ErrInvalidBinaryName :: sentinel where
  "ErrInvalidBinaryName = Register ''common'' 10008 ''invalid binary name''"

definition ErrMarshalFailed :: sentinel where
  "ErrMarshalFailed = Register ''common'' 10009 ''failed to marshal payload''"

definition ErrUnMarshalFailed :: sentinel where
  "ErrUnMarshalFailed = Register ''common'' 10010 ''failed to unmarshal payload''"

definition ErrUnSupport :: sentinel where
  "ErrUnSupport = Register ''common'' 10011 ''not implemented yet''"

definition ErrCreateChainServiceFailed :: sentinel where
  "ErrCreateChainServiceFailed = Register ''chain'' 11000 ''failed to create the chain service''"

definition ErrStopChainServiceFailed :: sentinel where
  "ErrStopChainServiceFailed = Register ''chain'' 11001 ''failed to stop the chain service''"

definition ErrCreateAccountRegistryFailed :: sentinel where
  "ErrCreateAccountRegistryFailed = Register ''chain'' 11002 ''failed to create the account registry''"

definition ErrAccountNotFound :: sentinel where
  "ErrAccountNotFound = Register ''chain'' 11003 ''account not found, check the keyring please''"

definition ErrListAccountsFailed :: sentinel where
  "ErrListAccountsFailed = Register ''chain'' 11004 ''failed to list the local accounts''"

definition ErrCreateAccountFailed :: sentinel where
  "ErrCreateAccountFailed = Register ''chain'' 11005 ''failed to create the account''"

definition ErrImportAccountFailed :: sentinel where
  "ErrImportAccountFailed = Register ''chain'' 11006 ''failed to import the account''"

definition ErrExportAccountFailed :: sentinel where
  "ErrExportAccountFailed = Register ''chain'' 11007 ''failed to export the account''"

definition ErrGetAddressFailed :: sentinel where
  "ErrGetAddressFailed = Register ''chain'' 11008 ''failed to get address''"

definition ErrGetBalanceFailed :: sentinel where
  "ErrGetBalanceFailed = Register ''chain'' 11009 ''failed to get the balance''"

definition ErrSignedFailed :: sentinel where
  "ErrSignedFailed = Register ''chain'' 11010 ''failed to sign the payload''"

definition ErrTxCreateFailed :: sentinel where
  "ErrTxCreateFailed = Register ''chain'' 11011 ''failed to create the tx''"

definition ErrTxProcessFailed :: sentinel where
  "ErrTxProcessFailed = Register ''chain'' 11012 ''failed to process the tx''"

definition ErrTxQueryFailed :: sentinel where
  "ErrTxQueryFailed = Register ''chain'' 11013 ''failed to query the tx''"

definition ErrGetSidDocumentFailed :: sentinel where
  "ErrGetSidDocumentFailed = Register ''chain'' 11014 ''failed to get the sid document''"

definition ErrQueryMetadataFailed :: sentinel where
  "ErrQueryMetadataFailed = Register ''chain'' 11015 ''failed to query the meta data''"

definition ErrQueryNodeFailed :: sentinel where
  "ErrQueryNodeFailed = Register ''chain'' 11016 ''failed to query the node information''"

definition ErrQueryOrderFailed :: sentinel where
  "ErrQueryOrderFailed = Register ''chain'' 11017 ''failed to query the order information''"

definition ErrInvalidSecrect :: sentinel where
  "ErrInvalidSecrect = Register ''chain'' 11018 ''invalid secrect''"

definition ErrInvalidPassphrase :: sentinel where
  "ErrInvalidPassphrase = Register ''chain'' 11019 ''invalid passphrase''"

definition ErrCreateProviderFailed :: sentinel where
  "ErrCreateProviderFailed = Register ''chain'' 11020 ''failed to create the provider''"

definition ErrAuthenticateFailed :: sentinel where
  "ErrAuthenticateFailed = Register ''chain'' 11021 ''failed to authenticate''"

definition ErrInvalidChainAddress :: sentinel where
  "ErrInvalidChainAddress = Register ''chain'' 11022 ''invalid chain address''"

definition ErrCreateJwsFailed :: sentinel where
  "ErrCreateJwsFailed = Register ''chain'' 11023 ''failed to create JWS''"

definition ErrMarshalJwsFailed :: sentinel where
  "ErrMarshalJwsFailed = Register ''chain'' 11024 ''failed to marshal JWS''"

definition ErrInvalidJwt :: sentinel where
  "ErrInvalidJwt = Register ''chain'' 11025 ''invalid JWT''"

definition ErrQueryHeightFailed :: sentinel where
  "ErrQueryHeightFailed = Register ''chain'' 11026 ''failed to query the latest height''"

definition ErrInconsistentAddress :: sentinel where
  "ErrInconsistentAddress = Register ''chain'' 11027 ''inconsistent address''"

definition ErrGenerateMnemonicFailed :: sentinel where
  "ErrGenerateMnemonicFailed = Register ''chain'' 11028 ''failed to generate mnemonic''"

definition ErrQueryShardFailed :: sentinel where
  "ErrQueryShardFailed = Register ''chain'' 11029 ''failed to query the shard information''"

definition ErrQueryFaultFailed :: sentinel where
  "ErrQueryFaultFailed = Register ''chain'' 11030 ''failed to query the fault''"

definition ErrQueryFaultsFailed :: sentinel where
  "ErrQueryFaultsFailed = Register ''chain'' 11031 ''failed to query the faults''"

definition ErrQueryPledgeFailed :: sentinel where
  "ErrQueryPledgeFailed = Register ''chain'' 11032 ''failed to query the pledge information''"

definition ErrInvalidValidator :: sentinel where
  "ErrInvalidValidator = Register ''chain'' 11033 ''invalid validator''"

definition ErrQueryDidParamFailed :: sentinel where
  "ErrQueryDidParamFailed = Register ''chain'' 11034 ''failed to query the did param''"

definition ErrInvalidConfig :: sentinel where
  "ErrInvalidConfig = Register ''client'' 12004 ''invalid configurations''"

definition ErrEncodeConfigFailed :: sentinel where
  "ErrEncodeConfigFailed = Register ''client'' 12005 ''failed to encode the configurations''"

definition ErrDecodeConfigFailed :: sentinel where
  "ErrDecodeConfigFailed = Register ''client'' 12006 ''failed to decode the configurations''"

definition ErrWriteConfigFailed :: sentinel where
  "ErrWriteConfigFailed = Register ''client'' 12007 ''failed to write the configurations into file''"

definition ErrReadConfigFailed :: sentinel where
  "ErrReadConfigFailed = Register ''client'' 12008 ''failed to read the configurations into file''"

definition ErrInvalidGateway :: sentinel where
  "ErrInvalidGateway = Register ''client'' 12009 ''invalid gateway''"

definition ErrInvalidToken :: sentinel where
  "ErrInvalidToken = Register ''client'' 12010 ''invalid token''"

definition ErrCreateApiServiceFailed :: sentinel where
  "ErrCreateApiServiceFailed = Register ''client'' 12011 ''failed to create API service''"

definition ErrGenerateDocFailed :: sentinel where
  "ErrGenerateDocFailed = Register ''client'' 12012 ''failed to generate the documents''"

definition ErrOpenDataStoreFailed :: sentinel where
  "ErrOpenDataStoreFailed = Register ''client'' 12013 ''failed to open the data store''"

definition ErrInvalidParameters :: sentinel where
  "ErrInvalidParameters = Register ''client'' 12014 ''invalid parameters''"

definition ErrCreateClientFailed :: sentinel where
  "ErrCreateClientFailed = Register ''client'' 12015 ''failed to create client''"

definition ErrOpenIpfsBackendFailed :: sentinel where
  "ErrOpenIpfsBackendFailed = Register ''store'' 13000 ''failed to open IPFS backend''"

definition ErrCreateIpfsApiServiceFailed :: sentinel where
  "ErrCreateIpfsApiServiceFailed = Register ''store'' 13001 ''failed to create IPFS API service backend''"

definition ErrStoreFailed :: sentinel where
  "ErrStoreFailed = Register ''store'' 13002 ''store data failed''"

definition ErrStatFailed :: sentinel where
  "ErrStatFailed = Register ''store'' 13003 ''stat data failed''"

definition ErrGetFailed :: sentinel where
  "ErrGetFailed = Register ''store'' 13004 ''get data failed''"

definition ErrInvalidPath :: sentinel where
  "ErrInvalidPath = Register ''store'' 13005 ''invalid path''"

definition ErrLoadPluginsFailed :: sentinel where
  "ErrLoadPluginsFailed = Register ''store'' 13006 ''failed to load plugins''"

definition ErrInitPluginsFailed :: sentinel where
  "ErrInitPluginsFailed = Register ''store'' 13007 ''failed to initializ plugins''"

definition ErrInjectPluginsFailed :: sentinel where
  "ErrInjectPluginsFailed = Register ''store'' 13008 ''failed to inject plugins''"

definition ErrInitIpfsDaemonFailed :: sentinel where
  "ErrInitIpfsDaemonFailed = Register ''store'' 13009 ''failed to initializ IPFS daemon''"

definition ErrInitIpfsRepoFailed :: sentinel where
  "ErrInitIpfsRepoFailed = Register ''store'' 13010 ''failed to initializ IPFS repo''"

definition ErrOpenRepoFailed :: sentinel where
  "ErrOpenRepoFailed = Register ''store'' 13011 ''failed to open IPFS repo''"

definition ErrUnSupportProtocol :: sentinel where
  "ErrUnSupportProtocol = Register ''store'' 13012 ''unsupported ipfs connection protocol''"

definition ErrRemoveFailed :: sentinel where
  "ErrRemoveFailed = Register ''store'' 13013 ''remove data failed''"

definition ErrDataMissing :: sentinel where
  "ErrDataMissing = Register ''store'' 13014 ''cannot found the data''"

definition ErrCreatePatchFailed :: sentinel where
  "ErrCreatePatchFailed = Register ''model'' 14000 ''failed to create the patch''"

definition ErrDecodePatchFailed :: sentinel where
  "ErrDecodePatchFailed = Register ''model'' 14001 ''failed to decode the patch''"

definition ErrApplyPatchFailed :: sentinel where
  "ErrApplyPatchFailed = Register ''model'' 14002 ''failed to apply the patch''"

definition ErrCalculateCidFailed :: sentinel where
  "ErrCalculateCidFailed = Register ''model'' 14003 ''failed to calculate cid''"

definition ErrConflictName :: sentinel where
  "ErrConflictName = Register ''model'' 14004 ''conflict name''"

definition ErrNotFound :: sentinel where
  "ErrNotFound = Register ''model'' 14005 ''not found''"

definition ErrCacheGetFailed :: sentinel where
  "ErrCacheGetFailed = Register ''model'' 14006 ''failed to get value from cache''"

definition ErrInvalidDid :: sentinel where
  "ErrInvalidDid = Register ''model'' 14007 ''invalid did''"

definition ErrInvalidSignature :: sentinel where
  "ErrInvalidSignature = Register ''model'' 14008 ''invalid signature''"

definition ErrGenerateTokenFaild :: sentinel where
  "ErrGenerateTokenFaild = Register ''model'' 14009 ''failed to genrate the token''"

definition ErrGetHttpUrlFaild :: sentinel where
  "ErrGetHttpUrlFaild = Register ''model'' 14010 ''failed to get the HTTP URL''"

definition ErrGetIpfsUrlFaild :: sentinel where
  "ErrGetIpfsUrlFaild = Register ''model'' 14011 ''failed to get the IPFS URL''"

definition ErrInvalidCommitInfo :: sentinel where
  "ErrInvalidCommitInfo = Register ''model'' 14012 ''invalid commit information''"

definition ErrInvalidCid :: sentinel where
  "ErrInvalidCid = Register ''model'' 14013 ''invalid cid''"

definition ErrInvalidAlias :: sentinel where
  "ErrInvalidAlias = Register ''model'' 14014 ''invalid alias''"

definition ErrAddResourceFaild :: sentinel where
  "ErrAddResourceFaild = Register ''model'' 14015 ''failed to add the resource''"

definition ErrCompileFaild :: sentinel where
  "ErrCompileFaild = Register ''model'' 14016 ''failed to compile''"

definition ErrAddRuleFaild :: sentinel where
  "ErrAddRuleFaild = Register ''model'' 14017 ''failed to add the rule''"

definition ErrAddFactFaild :: sentinel where
  "ErrAddFactFaild = Register ''model'' 14018 ''failed to add the fact''"

definition ErrRuleExcuteFaild :: sentinel where
  "ErrRuleExcuteFaild = Register ''model'' 14019 ''failed to excute the rule''"

definition ErrRuleCheckFaild :: sentinel where
  "ErrRuleCheckFaild = Register ''model'' 14020 ''failed to pass the rule check''"

definition ErrInvalidRule :: sentinel where
  "ErrInvalidRule = Register ''model'' 14021 ''invlaid rule''"

definition ErrSchemaCheckFaild :: sentinel where
  "ErrSchemaCheckFaild = Register ''model'' 14022 ''failed to pass the schema check''"

definition ErrInvalidVersion :: sentinel where
  "ErrInvalidVersion = Register ''model'' 14023 ''invalid version''"

definition ErrInvalidDataId :: sentinel where
  "ErrInvalidDataId = Register ''model'' 14024 ''invalid dataId''"

definition ErrConflictId :: sentinel where
  "ErrConflictId = Register ''model'' 14025 ''conflict dataId or alias''"

definition ErrInvalidContent :: sentinel where
  "ErrInvalidContent = Register ''model'' 14026 ''invalid content''"

definition ErrInvalidSchema :: sentinel where
  "ErrInvalidSchema = Register ''model'' 14027 ''invalid schema''"

definition ErrProcessOrderFailed :: sentinel where
  "ErrProcessOrderFailed = Register ''model'' 14028 ''failed to process the order''"

definition ErrExpiredOrder :: sentinel where
  "ErrExpiredOrder = Register ''model'' 14029 ''expired order''"

definition ErrRetriesExceed :: sentinel where
  "ErrRetriesExceed = Register ''model'' 14030 ''shard retries too many times''"

definition ErrInvalidProvider :: sentinel where
  "ErrInvalidProvider = Register ''model'' 14031 ''invalid provider''"

definition ErrInvalidPeerInfo :: sentinel where
  "ErrInvalidPeerInfo = Register ''model'' 14032 ''invalid peer info''"

definition ErrCreateP2PServiceFaild :: sentinel where
  "ErrCreateP2PServiceFaild = Register ''chain'' 15000 ''failed to create the P2P service''"

definition ErrStartLibP2PRPCServerFailed :: sentinel where
  "ErrStartLibP2PRPCServerFailed = Register ''network'' 15001 ''failed to start libp2p RPC server''"

definition ErrInvalidServerAddress :: sentinel where
  "ErrInvalidServerAddress = Register ''network'' 15002 ''invalid transport server address''"

definition ErrStartPRPCServerFailed :: sentinel where
  "ErrStartPRPCServerFailed = Register ''network'' 15003 ''failed to start RPC server''"

definition ErrConnectFailed :: sentinel where
  "ErrConnectFailed = Register ''network'' 15004 ''failed to connect''"

definition ErrCreateStreamFailed :: sentinel where
  "ErrCreateStreamFailed = Register ''network'' 15005 ''failed to create the stream''"

definition ErrCloseStreamFailed :: sentinel where
  "ErrCloseStreamFailed = Register ''network'' 15006 ''failed to close the stream''"

definition ErrSendRequestFailed :: sentinel where
  "ErrSendRequestFailed = Register ''network'' 15007 ''failed to send the request''"

definition ErrReadResponseFailed :: sentinel where
  "ErrReadResponseFailed = Register ''network'' 15008 ''failed to read the response''"

definition ErrFailuresResponsed :: sentinel where
  "ErrFailuresResponsed = Register ''network'' 15009 ''received failed response''"

text \<open>Every error the package registers, in the order of the source.\<close>

definition registered :: "sentinel list" where
  "registered =
     [ErrInvalidRepoPath, ErrCreateDirFailed, ErrCreateFileFailed,
      ErrOpenFileFailed, ErrReadFileFailed, ErrWriteFileFailed,
      ErrCloseFileFailed, ErrInitRepoFailed, ErrInvalidBinaryName,
      ErrMarshalFailed, ErrUnMarshalFailed, ErrUnSupport,
      ErrCreateChainServiceFailed, ErrStopChainServiceFailed, ErrCreateAccountRegistryFailed,
      ErrAccountNotFound, ErrListAccountsFailed, ErrCreateAccountFailed,
      ErrImportAccountFailed, ErrExportAccountFailed, ErrGetAddressFailed,
      ErrGetBalanceFailed, ErrSignedFailed, ErrTxCreateFailed,
      ErrTxProcessFailed, ErrTxQueryFailed, ErrGetSidDocumentFailed,
      ErrQueryMetadataFailed, ErrQueryNodeFailed, ErrQueryOrderFailed,
      ErrInvalidSecrect, ErrInvalidPassphrase, ErrCreateProviderFailed,
      ErrAuthenticateFailed, ErrInvalidChainAddress, ErrCreateJwsFailed,
      ErrMarshalJwsFailed, ErrInvalidJwt, ErrQueryHeightFailed,
      ErrInconsistentAddress, ErrGenerateMnemonicFailed, ErrQueryShardFailed,
      ErrQueryFaultFailed, ErrQueryFaultsFailed, ErrQueryPledgeFailed,
      ErrInvalidValidator, ErrQueryDidParamFailed, ErrInvalidConfig,
      ErrEncodeConfigFailed, ErrDecodeConfigFailed, ErrWriteConfigFailed,
      ErrReadConfigFailed, ErrInvalidGateway, ErrInvalidToken,
      ErrCreateApiServiceFailed, ErrGenerateDocFailed, ErrOpenDataStoreFailed,
      ErrInvalidParameters, ErrCreateClientFailed, ErrOpenIpfsBackendFailed,
      ErrCreateIpfsApiServiceFailed, ErrStoreFailed, ErrStatFailed,
      ErrGetFailed, ErrInvalidPath, ErrLoadPluginsFailed,
      ErrInitPluginsFailed, ErrInjectPluginsFailed, ErrInitIpfsDaemonFailed,
      ErrInitIpfsRepoFailed, ErrOpenRepoFailed, ErrUnSupportProtocol,
      ErrRemoveFailed, ErrDataMissing, ErrCreatePatchFailed,
      ErrDecodePatchFailed, ErrApplyPatchFailed, ErrCalculateCidFailed,
      ErrConflictName, ErrNotFound, ErrCacheGetFailed,
      ErrInvalidDid, ErrInvalidSignature, ErrGenerateTokenFaild,
      ErrGetHttpUrlFaild, ErrGetIpfsUrlFaild, ErrInvalidCommitInfo,
      ErrInvalidCid, ErrInvalidAlias, ErrAddResourceFaild,
      ErrCompileFaild, ErrAddRuleFaild, ErrAddFactFaild,
      ErrRuleExcuteFaild, ErrRuleCheckFaild, ErrInvalidRule,
      ErrSchemaCheckFaild, ErrInvalidVersion, ErrInvalidDataId,
      ErrConflictId, ErrInvalidContent, ErrInvalidSchema,
      ErrProcessOrderFailed, ErrExpiredOrder, ErrRetriesExceed,
      ErrInvalidProvider, ErrInvalidPeerInfo, ErrCreateP2PServiceFaild,
      ErrStartLibP2PRPCServerFailed, ErrInvalidServerAddress, ErrStartPRPCServerFailed,
      ErrConnectFailed, ErrCreateStreamFailed, ErrCloseStreamFailed,
      ErrSendRequestFailed, ErrReadResponseFailed, ErrFailuresResponsed]"

lemmas sentinel_defs =
  ErrInvalidRepoPath_def ErrCreateDirFailed_def ErrCreateFileFailed_def
  ErrOpenFileFailed_def ErrReadFileFailed_def ErrWriteFileFailed_def
  ErrCloseFileFailed_def ErrInitRepoFailed_def ErrInvalidBinaryName_def
  ErrMarshalFailed_def ErrUnMarshalFailed_def ErrUnSupport_def
  ErrCreateChainServiceFailed_def ErrStopChainServiceFailed_def ErrCreateAccountRegistryFailed_def
  ErrAccountNotFound_def ErrListAccountsFailed_def ErrCreateAccountFailed_def
  ErrImportAccountFailed_def ErrExportAccountFailed_def ErrGetAddressFailed_def
  ErrGetBalanceFailed_def ErrSignedFailed_def ErrTxCreateFailed_def
  ErrTxProcessFailed_def ErrTxQueryFailed_def ErrGetSidDocumentFailed_def
  ErrQueryMetadataFailed_def ErrQueryNodeFailed_def ErrQueryOrderFailed_def
  ErrInvalidSecrect_def ErrInvalidPassphrase_def ErrCreateProviderFailed_def
  ErrAuthenticateFailed_def ErrInvalidChainAddress_def ErrCreateJwsFailed_def
  ErrMarshalJwsFailed_def ErrInvalidJwt_def ErrQueryHeightFailed_def
  ErrInconsistentAddress_def ErrGenerateMnemonicFailed_def ErrQueryShardFailed_def
  ErrQueryFaultFailed_def ErrQueryFaultsFailed_def ErrQueryPledgeFailed_def
  ErrInvalidValidator_def ErrQueryDidParamFailed_def ErrInvalidConfig_def
  ErrEncodeConfigFailed_def ErrDecodeConfigFailed_def ErrWriteConfigFailed_def
  ErrReadConfigFailed_def ErrInvalidGateway_def ErrInvalidToken_def
  ErrCreateApiServiceFailed_def ErrGenerateDocFailed_def ErrOpenDataStoreFailed_def
  ErrInvalidParameters_def ErrCreateClientFailed_def ErrOpenIpfsBackendFailed_def
  ErrCreateIpfsApiServiceFailed_def ErrStoreFailed_def ErrStatFailed_def
  ErrGetFailed_def ErrInvalidPath_def ErrLoadPluginsFailed_def
  ErrInitPluginsFailed_def ErrInjectPluginsFailed_def ErrInitIpfsDaemonFailed_def
  ErrInitIpfsRepoFailed_def ErrOpenRepoFailed_def ErrUnSupportProtocol_def
  ErrRemoveFailed_def ErrDataMissing_def ErrCreatePatchFailed_def
  ErrDecodePatchFailed_def ErrApplyPatchFailed_def ErrCalculateCidFailed_def
  ErrConflictName_def ErrNotFound_def ErrCacheGetFailed_def
  ErrInvalidDid_def ErrInvalidSignature_def ErrGenerateTokenFaild_def
  ErrGetHttpUrlFaild_def ErrGetIpfsUrlFaild_def ErrInvalidCommitInfo_def
  ErrInvalidCid_def ErrInvalidAlias_def ErrAddResourceFaild_def
  ErrCompileFaild_def ErrAddRuleFaild_def ErrAddFactFaild_def
  ErrRuleExcuteFaild_def ErrRuleCheckFaild_def ErrInvalidRule_def
  ErrSchemaCheckFaild_def ErrInvalidVersion_def ErrInvalidDataId_def
  ErrConflictId_def ErrInvalidContent_def ErrInvalidSchema_def
  ErrProcessOrderFailed_def ErrExpiredOrder_def ErrRetriesExceed_def
  ErrInvalidProvider_def ErrInvalidPeerInfo_def ErrCreateP2PServiceFaild_def
  ErrStartLibP2PRPCServerFailed_def ErrInvalidServerAddress_def ErrStartPRPCServerFailed_def
  ErrConnectFailed_def ErrCreateStreamFailed_def ErrCloseStreamFailed_def
  ErrSendRequestFailed_def ErrReadResponseFailed_def ErrFailuresResponsed_def

section \<open>Properties\<close>

lemma digits_foldl_mono: "(v::nat) \<le> foldl (\<lambda>v c. 10 * v + digit_val c) v s"
proof (induction s arbitrary: v)
  case (Cons c s)
  from Cons.IH [of "10 * v + digit_val c"] show ?case by simp
qed simp

lemma ParseUint_loop_digits:
  assumes "list_all is_digit s" and "foldl (\<lambda>v c. 10 * v + digit_val c) n s < 2 ^ 64"
  shows "ParseUint_loop t n s = Inr (foldl (\<lambda>v c. 10 * v + digit_val c) n s)"
  using assms
proof (induction s arbitrary: n)
  case (Cons c s)
  have "10 * n + digit_val c < 2 ^ 64"
    using digits_foldl_mono [of "10 * n + digit_val c" s] Cons.prems(2) by simp
  with Cons show ?case by simp
qed simp

lemma ParseUint_show_u64 [simp]: "ParseUint (show_u64 w) = Inr w"
proof -
  have "ParseUint_loop (show_nat (unat w)) 0 (show_nat (unat w)) = Inr (unat w)"
    using ParseUint_loop_digits [of "show_nat (unat w)" 0] digits_val_show_nat [of "unat w"]
      unsigned_less [of w] show_nat_digits
    by (simp add: digits_val_def)
  then show ?thesis by (simp add: ParseUint_def show_u64_def)
qed

lemma err_root_Wrap [simp]: "err_root (Wrap s e) = Some s"
  by (simp add: Wrap_def split: option.splits)

lemma err_root_Wrapf [simp]: "err_root (Wrapf s m) = Some s"
  by (simp add: Wrapf_def)

lemma Error_Wrapf_contains [simp]: "Contains (Error (Wrapf s (a @ m @ b))) m"
  using Contains_infix [of a m] by (simp add: Wrapf_def)

definition sentinel_key :: "sentinel \<Rightarrow> string \<times> nat" where
  "sentinel_key s = (snt_module s, snt_code s)"

text \<open>The codes alone tell the registered errors apart.\<close>

lemma registered_codes_distinct: "distinct (map snt_code registered)"
  by (simp add: registered_def sentinel_defs)

end
