(* ===== verification/Node_Types.thy ===== *)
theory Node_Types
  imports Go_Errors
begin

text \<open>
  The data of the node: the persisted states of orders, shards, migrations and shard expirations
  (\<^verbatim>\<open>src/types/state.go\<close>), the messages of the peer-to-peer protocols (\<^verbatim>\<open>src/types/protocol.go\<close>) and the
  metadata commits (\<^verbatim>\<open>src/types/types.go\<close>).  A struct is a record whose field names carry a prefix for
  the struct; a zero value of a struct is the constant \<open>\<dots>_zero\<close>.  A content identifier is its binary
  string, as in go-cid, where the undefined identifier is the empty one.
\<close>

section \<open>Content identifiers\<close>

type_synonym cid = string

definition Undef :: cid where
  "Undef = []"

section \<open>Shard expiration\<close>

record ShardExpireKey =
  sek_ShardId :: u64

record ShardExpireIndex =
  sex_Alls :: "ShardExpireKey list"

record ShardExpireInfo =
  sei_ShardId :: u64
  sei_Cid :: string
  sei_OrderId :: u64

definition ShardExpireKey_zero :: ShardExpireKey where
  "ShardExpireKey_zero = \<lparr>sek_ShardId = 0\<rparr>"

definition ShardExpireIndex_zero :: ShardExpireIndex where
  "ShardExpireIndex_zero = \<lparr>sex_Alls = []\<rparr>"

definition ShardExpireInfo_zero :: ShardExpireInfo where
  "ShardExpireInfo_zero = \<lparr>sei_ShardId = 0, sei_Cid = [], sei_OrderId = 0\<rparr>"

section \<open>Orders\<close>

record OrderKey =
  ok_DataId :: string

record OrderIndex =
  ox_Alls :: "OrderKey list"

definition OrderKey_zero :: OrderKey where
  "OrderKey_zero = \<lparr>ok_DataId = []\<rparr>"

definition OrderIndex_zero :: OrderIndex where
  "OrderIndex_zero = \<lparr>ox_Alls = []\<rparr>"

text \<open>\<^verbatim>\<open>OrderState\<close> is a uint64; the named states are its first values.\<close>

type_synonym OrderState = u64

definition OrderStateStaged :: OrderState where "OrderStateStaged = 0"

definition OrderStateReady :: OrderState where "OrderStateReady = 1"

definition OrderStateComplete :: OrderState where "OrderStateComplete = 2"

definition OrderStateTerminate :: OrderState where "OrderStateTerminate = 3"

definition OrderStateExpired :: OrderState where "OrderStateExpired = 4"

lemmas order_state_defs =
  OrderStateStaged_def OrderStateReady_def OrderStateComplete_def OrderStateTerminate_def
  OrderStateExpired_def

definition orderStateString :: "OrderState \<Rightarrow> string" where
  "orderStateString s =
     (if s = OrderStateStaged then ''Staged'' else if s = OrderStateReady then ''Ready''
      else if s = OrderStateComplete then ''Complete'' else [])"

type_synonym OrderShardState = string

definition ShardStateAssigned :: OrderShardState where "ShardStateAssigned = ''assigned''"

definition ShardStateNotified :: OrderShardState where "ShardStateNotified = ''notified''"

definition ShardStateCompleted :: OrderShardState where "ShardStateCompleted = ''completed''"

definition ShardStateError :: OrderShardState where "ShardStateError = ''error''"

lemmas order_shard_state_defs =
  ShardStateAssigned_def ShardStateNotified_def ShardStateCompleted_def ShardStateError_def

record OrderShardInfo =
  osi_ShardId :: u64
  osi_Peer :: string
  osi_Cid :: string
  osi_Provider :: string
  osi_State :: OrderShardState
  osi_CompleteHash :: string

definition OrderShardInfo_zero :: OrderShardInfo where
  "OrderShardInfo_zero = \<lparr>osi_ShardId = 0, osi_Peer = [], osi_Cid = [], osi_Provider = [],
     osi_State = [], osi_CompleteHash = []\<rparr>"

text \<open>The shards of an order are a Go map from provider to shard: an association list, in the order
  the execution ranges over it.\<close>

record OrderInfo =
  oi_DataId :: string
  oi_Owner :: string
  oi_Cid :: cid
  oi_StagePath :: string
  oi_OrderId :: u64
  oi_OrderHash :: string
  oi_OrderTxType :: string
  oi_OrderHeight :: int
  oi_Shards :: "(string \<times> OrderShardInfo) list"
  oi_ExpireHeight :: u64
  oi_State :: OrderState
  oi_Tries :: u64
  oi_RetryAt :: int
  oi_LastErr :: string

definition OrderInfo_zero :: OrderInfo where
  "OrderInfo_zero = \<lparr>oi_DataId = [], oi_Owner = [], oi_Cid = Undef, oi_StagePath = [],
     oi_OrderId = 0, oi_OrderHash = [], oi_OrderTxType = [], oi_OrderHeight = 0, oi_Shards = [],
     oi_ExpireHeight = 0, oi_State = 0, oi_Tries = 0, oi_RetryAt = 0, oi_LastErr = []\<rparr>"

section \<open>Shards\<close>

record ShardKey =
  sk_OrderId :: u64
  sk_Cid :: cid

record ShardIndex =
  sx_All :: "ShardKey list"

definition ShardKey_zero :: ShardKey where
  "ShardKey_zero = \<lparr>sk_OrderId = 0, sk_Cid = Undef\<rparr>"

definition ShardIndex_zero :: ShardIndex where
  "ShardIndex_zero = \<lparr>sx_All = []\<rparr>"

type_synonym ShardState = u64

definition ShardStateValidated :: ShardState where "ShardStateValidated = 0"

definition ShardStateStored :: ShardState where "ShardStateStored = 1"

definition ShardStateTxSent :: ShardState where "ShardStateTxSent = 2"

definition ShardStateComplete :: ShardState where "ShardStateComplete = 3"

definition ShardStateTerminate :: ShardState where "ShardStateTerminate = 4"

definition ShardStateExpired :: ShardState where "ShardStateExpired = 5"

lemmas shard_state_defs =
  ShardStateValidated_def ShardStateStored_def ShardStateTxSent_def ShardStateComplete_def
  ShardStateTerminate_def ShardStateExpired_def

definition shardStateString :: "ShardState \<Rightarrow> string" where
  "shardStateString s =
     (if s = ShardStateValidated then ''validated'' else if s = ShardStateStored then ''stored''
      else if s = ShardStateTxSent then ''txSent'' else if s = ShardStateComplete then ''completed''
      else if s = ShardStateTerminate then ''terminated'' else if s = ShardStateExpired then ''expired''
      else [])"

record ShardInfo =
  si_OrderId :: u64
  si_DataId :: string
  si_Cid :: cid
  si_Owner :: string
  si_Gateway :: string
  si_OrderOperation :: string
  si_ShardOperation :: string
  si_CompleteHash :: string
  si_CompleteHeight :: int
  si_Size :: u64
  si_Tries :: u64
  si_ExpireHeight :: u64
  si_State :: ShardState
  si_RetryAt :: int
  si_LastErr :: string

definition ShardInfo_zero :: ShardInfo where
  "ShardInfo_zero = \<lparr>si_OrderId = 0, si_DataId = [], si_Cid = Undef, si_Owner = [], si_Gateway = [],
     si_OrderOperation = [], si_ShardOperation = [], si_CompleteHash = [], si_CompleteHeight = 0,
     si_Size = 0, si_Tries = 0, si_ExpireHeight = 0, si_State = 0, si_RetryAt = 0, si_LastErr = []\<rparr>"

section \<open>Migrations\<close>

record MigrateKey =
  mk_DataId :: string
  mk_FromProvider :: string

record MigrateIndex =
  mx_All :: "MigrateKey list"

definition MigrateKey_zero :: MigrateKey where
  "MigrateKey_zero = \<lparr>mk_DataId = [], mk_FromProvider = []\<rparr>"

definition MigrateIndex_zero :: MigrateIndex where
  "MigrateIndex_zero = \<lparr>mx_All = []\<rparr>"

type_synonym MigrateState = u64

definition MigrateStateTxSent :: MigrateState where "MigrateStateTxSent = 0"

definition MigrateStateComplete :: MigrateState where "MigrateStateComplete = 1"

definition migrateStateString :: "MigrateState \<Rightarrow> string" where
  "migrateStateString s =
     (if s = MigrateStateTxSent then ''txSent'' else if s = MigrateStateComplete then ''complete'' else [])"

record MigrateInfo =
  mi_DataId :: string
  mi_OrderId :: u64
  mi_Cid :: string
  mi_FromProvider :: string
  mi_ToProvider :: string
  mi_MigrateTxHash :: string
  mi_MigrateTxHeight :: int
  mi_CompleteTxHash :: string
  mi_CompleteTxHeight :: int
  mi_State :: MigrateState

definition MigrateInfo_zero :: MigrateInfo where
  "MigrateInfo_zero = \<lparr>mi_DataId = [], mi_OrderId = 0, mi_Cid = [], mi_FromProvider = [],
     mi_ToProvider = [], mi_MigrateTxHash = [], mi_MigrateTxHeight = 0, mi_CompleteTxHash = [],
     mi_CompleteTxHeight = 0, mi_State = 0\<rparr>"

lemmas zero_defs =
  ShardExpireKey_zero_def ShardExpireIndex_zero_def ShardExpireInfo_zero_def
  OrderKey_zero_def OrderIndex_zero_def OrderShardInfo_zero_def OrderInfo_zero_def
  ShardKey_zero_def ShardIndex_zero_def ShardInfo_zero_def
  MigrateKey_zero_def MigrateIndex_zero_def MigrateInfo_zero_def

section \<open>Protocol messages\<close>

definition ErrorCodeInvalidRequest :: u64 where "ErrorCodeInvalidRequest = 1"

definition ErrorCodeInvalidTx :: u64 where "ErrorCodeInvalidTx = 2"

definition ErrorCodeInternalErr :: u64 where "ErrorCodeInternalErr = 3"

definition ErrorCodeInvalidProvider :: u64 where "ErrorCodeInvalidProvider = 4"

definition ErrorCodeInvalidShardCid :: u64 where "ErrorCodeInvalidShardCid = 5"

definition ErrorCodeInvalidOrderProvider :: u64 where "ErrorCodeInvalidOrderProvider = 6"

definition ErrorCodeInvalidShardAssignee :: u64 where "ErrorCodeInvalidShardAssignee = 7"

lemmas error_code_defs =
  ErrorCodeInvalidRequest_def ErrorCodeInvalidTx_def ErrorCodeInternalErr_def
  ErrorCodeInvalidProvider_def ErrorCodeInvalidShardCid_def ErrorCodeInvalidOrderProvider_def
  ErrorCodeInvalidShardAssignee_def

definition AssignTxTypeStore :: string where "AssignTxTypeStore = ''MsgStore''"

definition AssignTxTypeReady :: string where "AssignTxTypeReady = ''MsgReady''"

record JwsSignature =
  jws_Protected :: string
  jws_Signature :: string

record QueryProposal =
  qp_Owner :: string
  qp_Keyword :: string
  qp_GroupId :: string
  qp_KeywordType :: u64
  qp_LastValidHeight :: u64
  qp_Gateway :: string
  qp_CommitId :: string
  qp_Version :: string

record RelayProposal =
  rp_NodeAddress :: string
  rp_LocalPeerId :: string
  rp_RelayPeerIds :: string
  rp_TargetPeerInfo :: string

record MetadataProposalCbor =
  mpc_Proposal :: QueryProposal
  mpc_JwsSignature :: JwsSignature

record RelayProposalCbor =
  rpc_Proposal :: RelayProposal
  rpc_Signature :: bytes

definition JwsSignature_zero :: JwsSignature where
  "JwsSignature_zero = \<lparr>jws_Protected = [], jws_Signature = []\<rparr>"

definition QueryProposal_zero :: QueryProposal where
  "QueryProposal_zero = \<lparr>qp_Owner = [], qp_Keyword = [], qp_GroupId = [], qp_KeywordType = 0,
     qp_LastValidHeight = 0, qp_Gateway = [], qp_CommitId = [], qp_Version = []\<rparr>"

definition RelayProposal_zero :: RelayProposal where
  "RelayProposal_zero = \<lparr>rp_NodeAddress = [], rp_LocalPeerId = [], rp_RelayPeerIds = [],
     rp_TargetPeerInfo = []\<rparr>"

text \<open>The content of a load response may be a nil slice, which the gateway tells apart from an empty
  one: \<open>None\<close>.\<close>

record ShardLoadReq =
  slq_Owner :: string
  slq_DataId :: string
  slq_OrderId :: u64
  slq_Cid :: cid
  slq_Proposal :: MetadataProposalCbor
  slq_RequestId :: int
  slq_RelayProposal :: RelayProposalCbor

record ShardLoadResp =
  slr_Code :: u64
  slr_Message :: string
  slr_OrderId :: u64
  slr_Cid :: cid
  slr_Content :: "bytes option"
  slr_RequestId :: int
  slr_ResponseId :: int

record ShardAssignReq =
  saq_OrderId :: u64
  saq_DataId :: string
  saq_Assignee :: string
  saq_TxHash :: string
  saq_Height :: int
  saq_AssignTxType :: string
  saq_TimeoutHeight :: u64

record ShardAssignResp =
  sar_Code :: u64
  sar_Message :: string

record ShardCompleteReq =
  scq_OrderId :: u64
  scq_DataId :: string
  scq_Cids :: "cid list"
  scq_TxHash :: string
  scq_Height :: int

record ShardCompleteResp =
  scr_Code :: u64
  scr_Message :: string
  scr_Recoverable :: bool

record ShardMigrateReq =
  smq_MigrateFrom :: string
  smq_OrderId :: u64
  smq_DataId :: string
  smq_TxHash :: string
  smq_TxHeight :: int
  smq_Cid :: string
  smq_Content :: bytes

record ShardMigrateResp =
  smr_Code :: u64
  smr_Message :: string
  smr_CompleteHash :: string
  smr_CompleteHeight :: int

section \<open>Metadata commits\<close>

record MetaCommit =
  mc_CommitId :: string
  mc_Height :: u64

text \<open>A commit on chain is \<open>commitId\<close>, the byte 26 (the octal escape \<^verbatim>\<open>\032\<close>) and the block height.\<close>

definition ParseMetaCommit :: "string \<Rightarrow> MetaCommit res" where
  "ParseMetaCommit mc =
     (let s = Split (CHR 26) mc
      in if length s \<noteq> 2 then Inl (Wrapf ErrInvalidCommitInfo (''invalid metadata commit: '' @ mc))
         else (case ParseUint (s ! 1) of
                 Inl err \<Rightarrow> Inl (Wrapf ErrInvalidCommitInfo
                    (''can't parse height in metadata commit: '' @ mc @ '': '' @ Error err))
               | Inr height \<Rightarrow> Inr \<lparr>mc_CommitId = s ! 0, mc_Height = height\<rparr>))"

text \<open>The writer's side, in \<^verbatim>\<open>ModelManager.Create\<close> and \<^verbatim>\<open>Update\<close>: the id, the byte 26, the height in
  decimal.\<close>

definition format_commit :: "string \<Rightarrow> int \<Rightarrow> string" where
  "format_commit commitId height = commitId @ [CHR 26] @ show_int height"

section \<open>Properties\<close>

text \<open>A commit as the model manager writes it parses back to its commit id and height.\<close>

theorem ParseMetaCommit_format:
  assumes "CHR 26 \<notin> set commitId" and "0 \<le> height" and "height < 2 ^ 64"
  shows "ParseMetaCommit (format_commit commitId height)
           = Inr \<lparr>mc_CommitId = commitId, mc_Height = to_uint64 height\<rparr>"
proof -
  have "show_int height = show_u64 (to_uint64 height)"
    using assms(2,3) by (simp add: show_int_def show_u64_def to_uint64_def unat_eq_nat_uint
      uint_word_of_int take_bit_int_eq_self)
  then show ?thesis
    using assms(1) by (simp add: ParseMetaCommit_def format_commit_def Split_append_sep)
qed

theorem ParseMetaCommit_format_witness:
  "ParseMetaCommit (format_commit ''ab12'' 4711) = Inr \<lparr>mc_CommitId = ''ab12'', mc_Height = to_uint64 4711\<rparr>"
  using ParseMetaCommit_format [of "''ab12''" 4711] by simp

end
