(* ===== verification/Cbor_Base.thy ===== *)
theory Cbor_Base
  imports Node_Types
begin

text \<open>
  The pieces the generated CBOR code of \<^verbatim>\<open>src/types/cbor_gen.go\<close> is made of.  The library cbor-gen, which
  the generated code calls, is not part of the repository: its operations are the fields of the record
  \<open>cbg_ops\<close>, and what the node relies on is the locale \<open>cbor_lib\<close> (a header, a text string and a content
  identifier read back as they were written).  The node's own code is the combinators below: the
  field encoders with their length checks, and the decoders with their type checks, each as the
  generator emits it for one kind of field.  The lemmas of the locale say that every decoder reads
  back what its encoder wrote.  \<open>rfc_cbor\<close> is an implementation of the library by RFC 8949, on which the
  locale is interpreted.

  Writing to a buffer does not fail, so an encoder is the bytes it appends or the error it returns;
  a decoder maps the unread input to the value and the rest of the input, or to an error.
\<close>

section \<open>The library\<close>

record cbg_ops =
  cbg_MaxLength :: nat
  cbg_WriteMajorTypeHeader :: "nat \<Rightarrow> u64 \<Rightarrow> bytes"
  cbg_ReadHeader :: "bytes \<Rightarrow> ((nat \<times> u64) \<times> bytes) res"
  cbg_ReadString :: "bytes \<Rightarrow> (string \<times> bytes) res"
  cbg_WriteCid :: "cid \<Rightarrow> bytes res"
  cbg_ReadCid :: "bytes \<Rightarrow> (cid \<times> bytes) res"
  cbg_ScanForLinks :: "bytes \<Rightarrow> bytes"
  cbg_ByteArrayMaxLen :: nat
  cbg_WriteBool :: "bool \<Rightarrow> bytes"

definition MajUnsignedInt :: nat where "MajUnsignedInt = 0"

definition MajNegativeInt :: nat where "MajNegativeInt = 1"

definition MajByteString :: nat where "MajByteString = 2"

definition MajTextString :: nat where "MajTextString = 3"

definition MajArray :: nat where "MajArray = 4"

definition MajMap :: nat where "MajMap = 5"

definition MajTag :: nat where "MajTag = 6"

definition MajOther :: nat where "MajOther = 7"

lemmas maj_defs =
  MajUnsignedInt_def MajNegativeInt_def MajByteString_def MajTextString_def MajArray_def MajMap_def
  MajTag_def MajOther_def

type_synonym 'a decoder = "bytes \<Rightarrow> ('a \<times> bytes) res"

section \<open>Encoders\<close>

fun enc_seq :: "bytes res list \<Rightarrow> bytes res" where
  "enc_seq [] = Inr []"
| "enc_seq (Inl e # rs) = Inl e"
| "enc_seq (Inr b # rs) = (case enc_seq rs of Inl e \<Rightarrow> Inl e | Inr bs \<Rightarrow> Inr (b @ bs))"

definition text_bytes :: "cbg_ops \<Rightarrow> string \<Rightarrow> bytes" where
  "text_bytes C s = cbg_WriteMajorTypeHeader C MajTextString (of_nat (length s)) @ s"

text \<open>The name of a field, written before its value.\<close>

definition enc_name :: "cbg_ops \<Rightarrow> string \<Rightarrow> bytes res" where
  "enc_name C nm =
     (if length nm > cbg_MaxLength C then Inl (ErrText (''Value in field \"'' @ nm @ ''\" was too long''))
      else Inr (text_bytes C nm))"

definition enc_string :: "cbg_ops \<Rightarrow> string \<Rightarrow> string \<Rightarrow> bytes res" where
  "enc_string C fld s =
     (if length s > cbg_MaxLength C then Inl (ErrText (''Value in field '' @ fld @ '' was too long''))
      else Inr (text_bytes C s))"

definition enc_uint64 :: "cbg_ops \<Rightarrow> u64 \<Rightarrow> bytes res" where
  "enc_uint64 C w = Inr (cbg_WriteMajorTypeHeader C MajUnsignedInt w)"

definition enc_int64 :: "cbg_ops \<Rightarrow> int \<Rightarrow> bytes res" where
  "enc_int64 C i =
     (if i \<ge> 0 then Inr (cbg_WriteMajorTypeHeader C MajUnsignedInt (to_uint64 i))
      else Inr (cbg_WriteMajorTypeHeader C MajNegativeInt (to_uint64 (- i - 1))))"

definition enc_cid :: "cbg_ops \<Rightarrow> string \<Rightarrow> cid \<Rightarrow> bytes res" where
  "enc_cid C fld c =
     (case cbg_WriteCid C c of
        Inl e \<Rightarrow> Inl (ErrText (''failed to write cid field '' @ fld @ '': '' @ Error e))
      | Inr b \<Rightarrow> Inr b)"

definition enc_slice :: "cbg_ops \<Rightarrow> string \<Rightarrow> ('a \<Rightarrow> bytes res) \<Rightarrow> 'a list \<Rightarrow> bytes res" where
  "enc_slice C fld enc xs =
     (if length xs > cbg_MaxLength C then Inl (ErrText (''Slice value in field '' @ fld @ '' was too long''))
      else enc_seq (Inr (cbg_WriteMajorTypeHeader C MajArray (of_nat (length xs))) # map enc xs))"

definition enc_bytes :: "cbg_ops \<Rightarrow> string \<Rightarrow> bytes \<Rightarrow> bytes res" where
  "enc_bytes C fld b =
     (if length b > cbg_ByteArrayMaxLen C then Inl (ErrText (''Byte array in field '' @ fld @ '' was too long''))
      else Inr (cbg_WriteMajorTypeHeader C MajByteString (of_nat (length b)) @ b))"

definition enc_bool :: "cbg_ops \<Rightarrow> bool \<Rightarrow> bytes res" where
  "enc_bool C b = Inr (cbg_WriteBool C b)"

definition enc_cids :: "cbg_ops \<Rightarrow> string \<Rightarrow> cid list \<Rightarrow> bytes res" where
  "enc_cids C fld cs =
     enc_slice C fld (\<lambda>c. map_sum (\<lambda>e. ErrText (''failed writing cid field '' @ fld @ '': '' @ Error e)) id (cbg_WriteCid C c)) cs"

text \<open>A map from strings, written in the order of its sorted keys.\<close>

definition enc_map :: "cbg_ops \<Rightarrow> string \<Rightarrow> ('a \<Rightarrow> bytes res) \<Rightarrow> (string \<times> 'a) list \<Rightarrow> bytes res" where
  "enc_map C fld enc m =
     (if length m > 4096 then Inl (ErrText (''cannot marshal '' @ fld @ '' map too large''))
      else enc_seq (Inr (cbg_WriteMajorTypeHeader C MajMap (of_nat (length m)))
                    # concat (map (\<lambda>(k, v). [enc_string C ''k'' k, enc v]) (sort_key fst m))))"

text \<open>A struct: the byte that opens a map of as many entries, then each field's name and value.\<close>

definition enc_struct :: "cbg_ops \<Rightarrow> nat \<Rightarrow> (string \<times> bytes res) list \<Rightarrow> bytes res" where
  "enc_struct C hdr fs =
     enc_seq (Inr [char_of hdr] # concat (map (\<lambda>(nm, e). [enc_name C nm, e]) fs))"

section \<open>Decoders\<close>

definition dec_uint64 :: "cbg_ops \<Rightarrow> u64 decoder" where
  "dec_uint64 C bs =
     (case cbg_ReadHeader C bs of
        Inl e \<Rightarrow> Inl e
      | Inr ((maj, extra), bs') \<Rightarrow>
          if maj \<noteq> MajUnsignedInt then Inl (ErrText ''wrong type for uint64 field'')
          else Inr (extra, bs'))"

definition dec_int64 :: "cbg_ops \<Rightarrow> int decoder" where
  "dec_int64 C bs =
     (case cbg_ReadHeader C bs of
        Inl e \<Rightarrow> Inl e
      | Inr ((maj, extra), bs') \<Rightarrow>
          if maj = MajUnsignedInt then
            (if to_int64 extra < 0 then Inl (ErrText ''int64 positive overflow'')
             else Inr (to_int64 extra, bs'))
          else if maj = MajNegativeInt then
            (if to_int64 extra < 0 then Inl (ErrText ''int64 negative oveflow'')
             else Inr (- 1 - to_int64 extra, bs'))
          else Inl (ErrText (''wrong type for int64 field: '' @ show_nat maj)))"

definition dec_cid :: "cbg_ops \<Rightarrow> string \<Rightarrow> cid decoder" where
  "dec_cid C fld bs =
     (case cbg_ReadCid C bs of
        Inl e \<Rightarrow> Inl (ErrText (''failed to read cid field '' @ fld @ '': '' @ Error e))
      | Inr r \<Rightarrow> Inr r)"

fun dec_times :: "nat \<Rightarrow> 'a decoder \<Rightarrow> 'a list decoder" where
  "dec_times 0 dec bs = Inr ([], bs)"
| "dec_times (Suc n) dec bs =
     (case dec bs of
        Inl e \<Rightarrow> Inl e
      | Inr (x, bs') \<Rightarrow> (case dec_times n dec bs' of
                           Inl e \<Rightarrow> Inl e
                         | Inr (xs, bs'') \<Rightarrow> Inr (x # xs, bs'')))"

definition dec_slice :: "cbg_ops \<Rightarrow> string \<Rightarrow> 'a decoder \<Rightarrow> 'a list decoder" where
  "dec_slice C fld dec bs =
     (case cbg_ReadHeader C bs of
        Inl e \<Rightarrow> Inl e
      | Inr ((maj, extra), bs') \<Rightarrow>
          if unat extra > cbg_MaxLength C
          then Inl (ErrText (fld @ '': array too large ('' @ show_u64 extra @ '')''))
          else if maj \<noteq> MajArray then Inl (ErrText ''expected cbor array'')
          else dec_times (unat extra) dec bs')"

definition io_EOF :: goerr where "io_EOF = ErrText ''EOF''"

definition io_ErrUnexpectedEOF :: goerr where "io_ErrUnexpectedEOF = ErrText ''unexpected EOF''"

text \<open>\<^verbatim>\<open>io.ReadFull\<close>.\<close>

definition read_full :: "nat \<Rightarrow> bytes decoder" where
  "read_full n bs =
     (if n = 0 then Inr ([], bs)
      else if bs = [] then Inl io_EOF
      else if length bs < n then Inl io_ErrUnexpectedEOF
      else Inr (take n bs, drop n bs))"

text \<open>A byte string is read into a new slice of its length; an empty one into the slice the field has already.\<close>

definition dec_bytes :: "cbg_ops \<Rightarrow> string \<Rightarrow> bytes \<Rightarrow> bytes decoder" where
  "dec_bytes C fld cur bs =
     (case cbg_ReadHeader C bs of
        Inl e \<Rightarrow> Inl e
      | Inr ((maj, extra), bs') \<Rightarrow>
          if unat extra > cbg_ByteArrayMaxLen C
          then Inl (ErrText (fld @ '': byte array too large ('' @ show_u64 extra @ '')''))
          else if maj \<noteq> MajByteString then Inl (ErrText ''expected byte array'')
          else read_full (if extra > 0 then unat extra else length cur) bs')"

definition dec_bool :: "cbg_ops \<Rightarrow> bool decoder" where
  "dec_bool C bs =
     (case cbg_ReadHeader C bs of
        Inl e \<Rightarrow> Inl e
      | Inr ((maj, extra), bs') \<Rightarrow>
          if maj \<noteq> MajOther then Inl (ErrText ''booleans must be major type 7'')
          else if extra = 20 then Inr (False, bs')
          else if extra = 21 then Inr (True, bs')
          else Inl (ErrText (''booleans are either major type 7, value 20 or 21 (got '' @ show_u64 extra @ '')'')))"

text \<open>A struct inside a struct.\<close>

definition dec_nested :: "string \<Rightarrow> 'a decoder \<Rightarrow> 'a decoder" where
  "dec_nested fld dec bs = map_sum (\<lambda>e. ErrText (''unmarshaling '' @ fld @ '': '' @ Error e)) id (dec bs)"

definition dec_cids :: "cbg_ops \<Rightarrow> string \<Rightarrow> cid list decoder" where
  "dec_cids C fld =
     dec_slice C fld (\<lambda>bs. map_sum (\<lambda>e. ErrText (''reading cid field '' @ fld @ '' failed: '' @ Error e)) id (cbg_ReadCid C bs))"

fun dec_entries :: "cbg_ops \<Rightarrow> nat \<Rightarrow> 'a decoder \<Rightarrow> (string \<times> 'a) list \<Rightarrow> (string \<times> 'a) list decoder" where
  "dec_entries C 0 dec m bs = Inr (m, bs)"
| "dec_entries C (Suc n) dec m bs =
     (case cbg_ReadString C bs of
        Inl e \<Rightarrow> Inl e
      | Inr (k, bs') \<Rightarrow> (case dec bs' of
                           Inl e \<Rightarrow> Inl (ErrText (''unmarshaling v: '' @ Error e))
                         | Inr (v, bs'') \<Rightarrow> dec_entries C n dec (AList.update k v m) bs''))"

definition dec_map :: "cbg_ops \<Rightarrow> string \<Rightarrow> 'a decoder \<Rightarrow> (string \<times> 'a) list decoder" where
  "dec_map C fld dec bs =
     (case cbg_ReadHeader C bs of
        Inl e \<Rightarrow> Inl e
      | Inr ((maj, extra), bs') \<Rightarrow>
          if maj \<noteq> MajMap then Inl (ErrText ''expected a map (major type 5)'')
          else if unat extra > 4096 then Inl (ErrText (fld @ '': map too large''))
          else dec_entries C (unat extra) dec [] bs')"

text \<open>Store the value a decoder reads into a struct.\<close>

definition set_field :: "('a \<times> bytes) res \<Rightarrow> ('a \<Rightarrow> 't) \<Rightarrow> ('t \<times> bytes) res" where
  "set_field r upd = (case r of Inl e \<Rightarrow> Inl e | Inr (x, bs) \<Rightarrow> Inr (upd x, bs))"

text \<open>The loop over the entries of a struct: \<open>sw\<close> is the switch on the field's name.\<close>

fun dec_fields :: "cbg_ops \<Rightarrow> (string \<Rightarrow> 't \<Rightarrow> 't decoder) \<Rightarrow> nat \<Rightarrow> 't \<Rightarrow> 't decoder" where
  "dec_fields C sw 0 t bs = Inr (t, bs)"
| "dec_fields C sw (Suc n) t bs =
     (case cbg_ReadString C bs of
        Inl e \<Rightarrow> Inl e
      | Inr (name, bs') \<Rightarrow> (case sw name t bs' of
                              Inl e \<Rightarrow> Inl e
                            | Inr (t', bs'') \<Rightarrow> dec_fields C sw n t' bs''))"

definition dec_struct :: "cbg_ops \<Rightarrow> string \<Rightarrow> (string \<Rightarrow> 't \<Rightarrow> 't decoder) \<Rightarrow> 't \<Rightarrow> 't decoder" where
  "dec_struct C ty sw zero bs =
     (case cbg_ReadHeader C bs of
        Inl e \<Rightarrow> Inl e
      | Inr ((maj, extra), bs') \<Rightarrow>
          map_sum (\<lambda>e. if e = io_EOF then io_ErrUnexpectedEOF else e) id
            (if maj \<noteq> MajMap then Inl (ErrText ''cbor input should be of type map'')
             else if unat extra > cbg_MaxLength C
             then Inl (ErrText (ty @ '': map struct too large ('' @ show_u64 extra @ '')''))
             else dec_fields C sw (unat extra) zero bs'))"

section \<open>What the node relies on\<close>

locale cbor_lib =
  fixes C :: cbg_ops
  assumes read_header: "\<And>maj n r. maj < 8 \<Longrightarrow>
          cbg_ReadHeader C (cbg_WriteMajorTypeHeader C maj n @ r) = Inr ((maj, n), r)"
    and short_header: "\<And>maj k. maj < 8 \<Longrightarrow> k < 24 \<Longrightarrow>
          cbg_WriteMajorTypeHeader C maj (of_nat k) = [char_of (32 * maj + k)]"
    and read_string: "\<And>s r. length s \<le> cbg_MaxLength C \<Longrightarrow>
          cbg_ReadString C (cbg_WriteMajorTypeHeader C 3 (of_nat (length s)) @ s @ r) = Inr (s, r)"
    and read_cid: "\<And>c b r. cbg_WriteCid C c = Inr b \<Longrightarrow> cbg_ReadCid C (b @ r) = Inr (c, r)"
    and max_length: "4096 \<le> cbg_MaxLength C" "cbg_MaxLength C < 2 ^ 63"
    and byte_max_length: "cbg_ByteArrayMaxLen C < 2 ^ 63"
    and write_bool: "\<And>b. cbg_WriteBool C b = cbg_WriteMajorTypeHeader C 7 (if b then 21 else 20)"
    and undefined_cid: "isl (cbg_WriteCid C Undef)"

section \<open>Reading back\<close>

text \<open>\<open>reads dec b x\<close>: on any input that starts with \<open>b\<close>, the decoder consumes exactly \<open>b\<close> and returns \<open>x\<close>.\<close>

definition reads :: "'a decoder \<Rightarrow> bytes \<Rightarrow> 'a \<Rightarrow> bool" where
  "reads dec b x \<longleftrightarrow> (\<forall>r. dec (b @ r) = Inr (x, r))"

lemma readsI: "(\<And>r. dec (b @ r) = Inr (x, r)) \<Longrightarrow> reads dec b x"
  by (simp add: reads_def)

lemma readsD: "reads dec b x \<Longrightarrow> dec (b @ r) = Inr (x, r)"
  by (simp add: reads_def)

lemma enc_seq_Cons: "enc_seq (r # rs) = Inr b \<longleftrightarrow> (\<exists>b1 b2. r = Inr b1 \<and> enc_seq rs = Inr b2 \<and> b = b1 @ b2)"
  by (cases r) (auto split: sum.splits)

declare enc_seq.simps(2,3) [simp del]

lemma enc_name_Inr: "enc_name C nm = Inr b \<longleftrightarrow> length nm \<le> cbg_MaxLength C \<and> b = text_bytes C nm"
  by (auto simp: enc_name_def)

lemma enc_seq_map: "enc_seq (map f xs) = Inr b \<longleftrightarrow> (\<exists>bl. list_all2 (\<lambda>x y. f x = Inr y) xs bl \<and> b = concat bl)"
proof (induction xs arbitrary: b)
  case (Cons x xs)
  then show ?case by (fastforce simp: enc_seq_Cons list_all2_Cons1)
qed auto

lemma enc_struct_fields: "enc_seq (concat (map (\<lambda>(nm, e). [enc_name C nm, e]) fs)) = Inr b \<longleftrightarrow>
   (\<exists>bl. list_all2 (\<lambda>(nm, e) y. length nm \<le> cbg_MaxLength C \<and> e = Inr y) fs bl
         \<and> b = concat (map2 (\<lambda>(nm, e) y. text_bytes C nm @ y) fs bl))"
proof (induction fs arbitrary: b)
  case (Cons f fs)
  obtain nm e where f: "f = (nm, e)" by (cases f)
  show ?case
    by (simp add: f enc_seq_Cons Cons.IH list_all2_Cons1 enc_name_Inr) fastforce
qed auto

lemma enc_struct_Inr: "enc_struct C hdr fs = Inr b \<longleftrightarrow>
   (\<exists>bl. list_all2 (\<lambda>(nm, e) y. length nm \<le> cbg_MaxLength C \<and> e = Inr y) fs bl
         \<and> b = char_of hdr # concat (map2 (\<lambda>(nm, e) y. text_bytes C nm @ y) fs bl))"
  by (simp add: enc_struct_def enc_seq_Cons enc_struct_fields) blast

lemma dec_fields_numeral [simp]:
  "dec_fields C sw (numeral k) t bs =
     (case cbg_ReadString C bs of
        Inl e \<Rightarrow> Inl e
      | Inr (name, bs') \<Rightarrow> (case sw name t bs' of
                              Inl e \<Rightarrow> Inl e
                            | Inr (t', bs'') \<Rightarrow> dec_fields C sw (pred_numeral k) t' bs''))"
  by (simp add: numeral_eq_Suc)

lemma to_int64_to_uint64: "- (2 ^ 63) \<le> i \<Longrightarrow> i < 2 ^ 63 \<Longrightarrow> to_int64 (to_uint64 i) = i"
  by (simp add: to_int64_def to_uint64_def signed_take_bit_int_eq_self sint_sbintrunc')

lemma set_field_Inr [simp]: "set_field (Inr (x, bs)) f = Inr (f x, bs)" "set_field (Inl e) f = Inl e"
  by (simp_all add: set_field_def)

lemma unat_of_nat_small: "n < 2 ^ 63 \<Longrightarrow> unat (of_nat n :: u64) = n"
  by (simp add: unat_of_nat)

context cbor_lib
begin

lemma reads_text: "length s \<le> cbg_MaxLength C \<Longrightarrow> reads (cbg_ReadString C) (text_bytes C s) s"
  using read_string by (simp add: reads_def text_bytes_def MajTextString_def)

lemma reads_name [simp]: "length s \<le> cbg_MaxLength C \<Longrightarrow> cbg_ReadString C (text_bytes C s @ r) = Inr (s, r)"
  by (rule readsD [OF reads_text])

lemma reads_string: "enc_string C fld s = Inr b \<Longrightarrow> reads (cbg_ReadString C) b s"
  by (auto simp: enc_string_def not_less intro: reads_text split: if_splits)

lemma reads_uint64: "enc_uint64 C w = Inr b \<Longrightarrow> reads (dec_uint64 C) b w"
  by (auto simp: enc_uint64_def reads_def dec_uint64_def read_header maj_defs)

lemma reads_int64:
  assumes "enc_int64 C i = Inr b" and "- (2 ^ 63) \<le> i" and "i < 2 ^ 63"
  shows "reads (dec_int64 C) b i"
proof (cases "i \<ge> 0")
  case True
  with assms show ?thesis
    by (auto simp: enc_int64_def reads_def dec_int64_def read_header maj_defs to_int64_to_uint64)
next
  case False
  with assms have "to_int64 (to_uint64 (- i - 1)) = - i - 1" by (simp add: to_int64_to_uint64)
  with False assms show ?thesis
    by (auto simp: enc_int64_def reads_def dec_int64_def read_header maj_defs)
qed

lemma reads_cid: "enc_cid C fld c = Inr b \<Longrightarrow> reads (dec_cid C fld') b c"
  by (auto simp: enc_cid_def reads_def dec_cid_def read_cid split: sum.splits)

lemma dec_times_reads:
  "list_all2 (\<lambda>x y. reads dec y x) xs bl \<Longrightarrow> dec_times (length xs) dec (concat bl @ r) = Inr (xs, r)"
  by (induction xs arbitrary: bl) (auto simp: list_all2_Cons1 readsD)

lemma reads_slice:
  assumes enc: "enc_slice C fld enc xs = Inr b"
    and elem: "\<And>x y. x \<in> set xs \<Longrightarrow> enc x = Inr y \<Longrightarrow> reads dec y x"
  shows "reads (dec_slice C fld' dec) b xs"
proof -
  from enc have len: "length xs \<le> cbg_MaxLength C" by (auto simp: enc_slice_def split: if_splits)
  with enc obtain bl where bl: "list_all2 (\<lambda>x y. enc x = Inr y) xs bl"
    and b: "b = cbg_WriteMajorTypeHeader C MajArray (of_nat (length xs)) @ concat bl"
    by (auto simp: enc_slice_def enc_seq_Cons enc_seq_map split: if_splits)
  from bl elem have "list_all2 (\<lambda>x y. reads dec y x) xs bl"
    by (auto elim!: list.rel_mono_strong)
  with b len max_length show ?thesis
    by (auto simp: reads_def dec_slice_def read_header maj_defs dec_times_reads unat_of_nat_small)
qed

lemma reads_cids: "enc_cids C fld cs = Inr b \<Longrightarrow> reads (dec_cids C fld') b cs"
  unfolding enc_cids_def dec_cids_def
proof (erule reads_slice)
  fix c y
  assume "map_sum (\<lambda>e. ErrText (''failed writing cid field '' @ fld @ '': '' @ Error e)) id (cbg_WriteCid C c) = Inr y"
  then have "cbg_WriteCid C c = Inr y" by (cases "cbg_WriteCid C c") auto
  from read_cid [OF this] show "reads (\<lambda>bs. map_sum (\<lambda>e. ErrText (''reading cid field '' @ fld' @ '' failed: '' @ Error e)) id (cbg_ReadCid C bs)) y c"
    by (simp add: reads_def)
qed

lemma reads_bool: "enc_bool C x = Inr b \<Longrightarrow> reads (dec_bool C) b x"
  by (auto simp: enc_bool_def reads_def dec_bool_def write_bool read_header maj_defs)

lemma reads_bytes:
  assumes "enc_bytes C fld x = Inr b"
  shows "reads (dec_bytes C fld' []) b x"
proof -
  from assms have len: "length x \<le> cbg_ByteArrayMaxLen C"
    and b: "b = cbg_WriteMajorTypeHeader C MajByteString (of_nat (length x)) @ x"
    by (auto simp: enc_bytes_def split: if_splits)
  from len byte_max_length have u: "unat (of_nat (length x) :: u64) = length x" by (simp add: unat_of_nat_small)
  have z: "(if (of_nat (length x) :: u64) > 0 then length x else 0) = length x"
    using u by (simp add: word_less_nat_alt)
  show ?thesis unfolding reads_def b
    using len u z by (auto simp: dec_bytes_def read_header maj_defs read_full_def)
qed

lemma reads_nested: "reads dec b x \<Longrightarrow> reads (dec_nested fld dec) b x"
  by (simp add: reads_def dec_nested_def)

text \<open>A map comes back in the order of its sorted keys.\<close>

lemma dec_entries_reads:
  assumes "list_all2 (\<lambda>(k, v) y. length k \<le> cbg_MaxLength C \<and> reads dec y v) es bl"
    and "distinct (map fst (m @ es))"
  shows "dec_entries C (length es) dec m
           (concat (map2 (\<lambda>(k, v) y. text_bytes C k @ y) es bl) @ r) = Inr (m @ es, r)"
  using assms
proof (induction es arbitrary: m bl)
  case (Cons e es)
  obtain k v where e: "e = (k, v)" by (cases e)
  from Cons.prems(1) obtain y bl' where bl: "bl = y # bl'" and k: "length k \<le> cbg_MaxLength C"
    and y: "reads dec y v"
    and tl: "list_all2 (\<lambda>(k, v) y. length k \<le> cbg_MaxLength C \<and> reads dec y v) es bl'"
    by (auto simp: list_all2_Cons1 e)
  from Cons.prems(2) have new: "k \<notin> set (map fst m)" by (simp add: e)
  then have upd: "AList.update k v m = m @ [(k, v)]" by (induction m) auto
  from Cons.prems(2) have d: "distinct (map fst ((m @ [(k, v)]) @ es))" by (simp add: e)
  show ?case using Cons.IH [OF tl d] by (simp add: e bl k upd readsD [OF y])
qed simp

lemma reads_map:
  assumes enc: "enc_map C fld enc m = Inr b" and dist: "distinct (map fst m)"
    and elem: "\<And>v y. v \<in> snd ` set m \<Longrightarrow> enc v = Inr y \<Longrightarrow> reads dec y v"
  shows "reads (dec_map C fld' dec) b (sort_key fst m)"
proof -
  let ?es = "sort_key fst m"
  from enc have len: "length m \<le> 4096" by (auto simp: enc_map_def split: if_splits)
  have "enc_seq (concat (map (\<lambda>(k, v). [enc_string C ''k'' k, enc v]) es)) = Inr b' \<Longrightarrow>
      \<exists>bl. list_all2 (\<lambda>(k, v) y. length k \<le> cbg_MaxLength C \<and> enc v = Inr y) es bl
         \<and> b' = concat (map2 (\<lambda>(k, v) y. text_bytes C k @ y) es bl)" for es b'
  proof (induction es arbitrary: b')
    case (Cons e es)
    obtain k v where e: "e = (k, v)" by (cases e)
    from Cons.prems obtain y b2 where k: "length k \<le> cbg_MaxLength C" and y: "enc v = Inr y"
      and b2: "enc_seq (concat (map (\<lambda>(k, v). [enc_string C ''k'' k, enc v]) es)) = Inr b2"
      and b': "b' = text_bytes C k @ y @ b2"
      by (auto simp: e enc_seq_Cons enc_string_def not_less split: if_splits)
    from Cons.IH [OF b2] obtain bl where
      "list_all2 (\<lambda>(k, v) y. length k \<le> cbg_MaxLength C \<and> enc v = Inr y) es bl"
      "b2 = concat (map2 (\<lambda>(k, v) y. text_bytes C k @ y) es bl)" by blast
    with k y b' show ?case by (intro exI [of _ "y # bl"]) (simp add: e)
  qed simp
  with enc len obtain bl where bl: "list_all2 (\<lambda>(k, v) y. length k \<le> cbg_MaxLength C \<and> enc v = Inr y) ?es bl"
    and b: "b = cbg_WriteMajorTypeHeader C MajMap (of_nat (length m))
              @ concat (map2 (\<lambda>(k, v) y. text_bytes C k @ y) ?es bl)"
    by (fastforce simp: enc_map_def enc_seq_Cons split: if_splits)
  from bl have "list_all2 (\<lambda>(k, v) y. length k \<le> cbg_MaxLength C \<and> reads dec y v) ?es bl"
    by (rule list.rel_mono_strong) (use elem in force)
  from dec_entries_reads [OF this, of "[]"] dist have
    "dec_entries C (length m) dec [] (concat (map2 (\<lambda>(k, v) y. text_bytes C k @ y) ?es bl) @ r)
       = Inr (?es, r)" for r by simp
  with len show ?thesis
    by (simp add: reads_def dec_map_def b read_header maj_defs unat_of_nat_small)
qed

text \<open>A struct: its decoder runs the switch over the fields in the order they were written.\<close>

lemma dec_struct_step:
  assumes "n < 24"
  shows "dec_struct C ty sw zero (char_of (160 + n) # r)
           = map_sum (\<lambda>e. if e = io_EOF then io_ErrUnexpectedEOF else e) id (dec_fields C sw n zero r)"
proof -
  have "cbg_ReadHeader C ([char_of (160 + n)] @ r) = Inr ((5, of_nat n), r)"
    using read_header [of 5 "of_nat n" r] short_header [of 5 n] assms by simp
  then show ?thesis
    using assms max_length by (simp add: dec_struct_def maj_defs unat_of_nat_small)
qed

lemma dec_struct_numeral:
  assumes "n < 24" and "hdr = 160 + n" and "dec_fields C sw n zero bs = Inr r"
  shows "dec_struct C ty sw zero (char_of hdr # bs) = Inr r"
  using assms by (simp add: dec_struct_step)

lemmas reads_field = reads_string [THEN readsD] reads_uint64 [THEN readsD] reads_int64 [THEN readsD]
  reads_cid [THEN readsD]

lemmas reads_message_field = reads_field reads_cids [THEN readsD] reads_bool [THEN readsD] reads_bytes [THEN readsD]

end

end
