(* ===== verification/Cbor_Rfc.thy ===== *)
theory Cbor_Rfc
  imports Cbor_Base
begin

text \<open>
  An implementation of the CBOR library's interface by RFC 8949, the encoding cbor-gen documents: a
  header is the major type in the top three bits and the argument in the low five bits or in the one,
  two, four or eight big-endian bytes that follow; a content identifier is a byte string with a leading
  zero byte under the tag 42, and the undefined one is refused.  The locale \<open>cbor_lib\<close> is interpreted on
  it, so the read-back laws the node relies on hold together.
\<close>

fun be_bytes :: "nat \<Rightarrow> nat \<Rightarrow> bytes" where
  "be_bytes 0 n = []"
| "be_bytes (Suc k) n = be_bytes k (n div 256) @ [char_of (n mod 256)]"

definition of_be :: "bytes \<Rightarrow> nat" where
  "of_be bs = foldl (\<lambda>v c. 256 * v + of_char c) 0 bs"

definition rfc_WriteHeader :: "nat \<Rightarrow> u64 \<Rightarrow> bytes" where
  "rfc_WriteHeader maj w =
     (let n = unat w
      in if n < 24 then [char_of (32 * maj + n)]
         else if n < 256 then char_of (32 * maj + 24) # be_bytes 1 n
         else if n < 65536 then char_of (32 * maj + 25) # be_bytes 2 n
         else if n < 4294967296 then char_of (32 * maj + 26) # be_bytes 4 n
         else char_of (32 * maj + 27) # be_bytes 8 n)"

definition rfc_arg :: "nat \<Rightarrow> nat \<Rightarrow> bytes \<Rightarrow> ((nat \<times> u64) \<times> bytes) res" where
  "rfc_arg k maj bs =
     (if length bs < k then Inl io_ErrUnexpectedEOF
      else Inr ((maj, of_nat (of_be (take k bs))), drop k bs))"

definition rfc_ReadHeader :: "bytes \<Rightarrow> ((nat \<times> u64) \<times> bytes) res" where
  "rfc_ReadHeader bs =
     (case bs of
        [] \<Rightarrow> Inl io_EOF
      | c # r \<Rightarrow>
          (let maj = of_char c div 32; low = (of_char c :: nat) mod 32
           in if low < 24 then Inr ((maj, of_nat low), r)
              else if low = 24 then rfc_arg 1 maj r
              else if low = 25 then rfc_arg 2 maj r
              else if low = 26 then rfc_arg 4 maj r
              else if low = 27 then rfc_arg 8 maj r
              else Inl (ErrText ''invalid header'')))"

definition rfc_MaxLength :: nat where
  "rfc_MaxLength = 8388608"

definition rfc_ReadString :: "bytes \<Rightarrow> (string \<times> bytes) res" where
  "rfc_ReadString bs =
     (case rfc_ReadHeader bs of
        Inl e \<Rightarrow> Inl e
      | Inr ((maj, l), r) \<Rightarrow>
          if maj \<noteq> 3 then Inl (ErrText ''got tag while reading string value'')
          else if unat l > rfc_MaxLength then Inl (ErrText ''string in input was too long'')
          else if length r < unat l then Inl io_ErrUnexpectedEOF
          else Inr (take (unat l) r, drop (unat l) r))"

definition rfc_WriteCid :: "cid \<Rightarrow> bytes res" where
  "rfc_WriteCid c =
     (if c = Undef then Inl (ErrText ''undefined cid'')
      else if length c > 512 then Inl (ErrText ''cid too long'')
      else Inr (rfc_WriteHeader 6 42 @ rfc_WriteHeader 2 (of_nat (Suc (length c))) @ char_of (0::nat) # c))"

definition rfc_ReadCid :: "bytes \<Rightarrow> (cid \<times> bytes) res" where
  "rfc_ReadCid bs =
     (case rfc_ReadHeader bs of
        Inl e \<Rightarrow> Inl e
      | Inr ((maj, t), r) \<Rightarrow>
          if maj \<noteq> 6 \<or> t \<noteq> 42 then Inl (ErrText ''expected a cid'')
          else (case rfc_ReadHeader r of
                  Inl e \<Rightarrow> Inl e
                | Inr ((maj', l), r') \<Rightarrow>
                    if maj' \<noteq> 2 \<or> l = 0 \<or> length r' < unat l then Inl (ErrText ''invalid cid'')
                    else Inr (drop 1 (take (unat l) r'), drop (unat l) r')))"

text \<open>Skipping the value of an unknown field: one header, which is all the unknown scalar fields need.\<close>

definition rfc_ScanForLinks :: "bytes \<Rightarrow> bytes" where
  "rfc_ScanForLinks bs = (case rfc_ReadHeader bs of Inl e \<Rightarrow> bs | Inr (_, r) \<Rightarrow> r)"

definition rfc_cbor :: cbg_ops where
  "rfc_cbor = \<lparr>cbg_MaxLength = rfc_MaxLength, cbg_WriteMajorTypeHeader = rfc_WriteHeader,
     cbg_ReadHeader = rfc_ReadHeader, cbg_ReadString = rfc_ReadString, cbg_WriteCid = rfc_WriteCid,
     cbg_ReadCid = rfc_ReadCid, cbg_ScanForLinks = rfc_ScanForLinks, cbg_ByteArrayMaxLen = 2097152,
     cbg_WriteBool = (\<lambda>b. [char_of (if b then 245 else 244 :: nat)])\<rparr>"

section \<open>The laws\<close>

lemma length_be_bytes [simp]: "length (be_bytes k n) = k"
  by (induction k arbitrary: n) auto

lemma of_be_be_bytes: "n < 256 ^ k \<Longrightarrow> of_be (be_bytes k n) = n"
proof (induction k arbitrary: n)
  case (Suc k)
  then have "n div 256 < 256 ^ k" by (simp add: less_mult_imp_div_less mult.commute)
  with Suc.IH show ?case by (simp add: of_be_def)
qed (simp add: of_be_def)

lemma rfc_arg_be_bytes: "n < 256 ^ k \<Longrightarrow> rfc_arg k maj (be_bytes k n @ r) = Inr ((maj, of_nat n), r)"
  by (simp add: rfc_arg_def of_be_be_bytes)

lemma rfc_ReadHeader_low:
  "maj < 8 \<Longrightarrow> low < 32 \<Longrightarrow>
   rfc_ReadHeader (char_of (32 * maj + low) # r) =
     (if low < 24 then Inr ((maj, of_nat low), r)
      else if low = 24 then rfc_arg 1 maj r else if low = 25 then rfc_arg 2 maj r
      else if low = 26 then rfc_arg 4 maj r else if low = 27 then rfc_arg 8 maj r
      else Inl (ErrText ''invalid header''))"
  by (simp add: rfc_ReadHeader_def)

lemma rfc_read_header:
  assumes "maj < 8"
  shows "rfc_ReadHeader (rfc_WriteHeader maj w @ r) = Inr ((maj, w), r)"
proof -
  have "unat w < 256 ^ 8" using unsigned_less [of w] by simp
  with assms show ?thesis
    by (auto simp: rfc_WriteHeader_def Let_def rfc_ReadHeader_low rfc_arg_be_bytes
        simp del: be_bytes.simps One_nat_def)
qed

lemma rfc_short_header: "k < 24 \<Longrightarrow> rfc_WriteHeader maj (of_nat k) = [char_of (32 * maj + k)]"
  by (simp add: rfc_WriteHeader_def unat_of_nat_small)

lemma rfc_read_string:
  "length s \<le> rfc_MaxLength \<Longrightarrow>
   rfc_ReadString (rfc_WriteHeader 3 (of_nat (length s)) @ s @ r) = Inr (s, r)"
  by (simp add: rfc_ReadString_def rfc_read_header rfc_MaxLength_def unat_of_nat_small)

lemma rfc_read_cid: "rfc_WriteCid c = Inr b \<Longrightarrow> rfc_ReadCid (b @ r) = Inr (c, r)"
  by (auto simp: rfc_WriteCid_def rfc_ReadCid_def rfc_read_header unat_of_nat_small word_unat_eq_iff
      simp del: of_nat_Suc split: if_splits)

lemma rfc_write_bool: "[char_of (if b then 245 else 244 :: nat)] = rfc_WriteHeader 7 (if b then 21 else 20)"
  using rfc_short_header [of 20 7] rfc_short_header [of 21 7] by simp

interpretation rfc: cbor_lib rfc_cbor
  by unfold_locales
    (simp_all add: rfc_cbor_def rfc_read_header rfc_short_header rfc_read_string rfc_read_cid rfc_MaxLength_def rfc_write_bool rfc_WriteCid_def)

end
