(* ===== verification/Cbor_Codec.thy ===== *)
theory Cbor_Codec
  imports Cbor_Base Cbor_Rfc
begin

text \<open>
  The CBOR encoders and decoders of the persisted states (\<^verbatim>\<open>src/types/cbor_gen.go\<close>), one pair of
  definitions per generated pair of methods: \<open>T_MarshalCBOR\<close> writes the fields in the order of the source
  with their length checks, \<open>T_switch\<close> is the switch on the field name and \<open>T_UnmarshalCBOR\<close> the loop
  around it.  The properties are the round trips: what an encoder writes, the decoder of the same type
  reads back, leaving the rest of the input; an order's shard map comes back in the order of its keys.
  A nil receiver, for which the generated encoder writes a CBOR null, does not occur in the node.
\<close>

section \<open>Encoders and decoders\<close>

definition ShardExpireKey_MarshalCBOR :: "cbg_ops \<Rightarrow> ShardExpireKey \<Rightarrow> bytes res" where
  "ShardExpireKey_MarshalCBOR C t =
     enc_struct C 161
       [(''ShardId'', enc_uint64 C (sek_ShardId t))]"

definition ShardExpireKey_switch :: "cbg_ops \<Rightarrow> string \<Rightarrow> ShardExpireKey \<Rightarrow> ShardExpireKey decoder" where
  "ShardExpireKey_switch C name t bs =
     (if name = ''ShardId'' then set_field (dec_uint64 C bs) (\<lambda>x. t\<lparr>sek_ShardId := x\<rparr>)
      else Inr (t, cbg_ScanForLinks C bs))"

definition ShardExpireKey_UnmarshalCBOR :: "cbg_ops \<Rightarrow> ShardExpireKey decoder" where
  "ShardExpireKey_UnmarshalCBOR C = dec_struct C ''ShardExpireKey'' (ShardExpireKey_switch C) ShardExpireKey_zero"

definition ShardExpireIndex_MarshalCBOR :: "cbg_ops \<Rightarrow> ShardExpireIndex \<Rightarrow> bytes res" where
  "ShardExpireIndex_MarshalCBOR C t =
     enc_struct C 161
       [(''Alls'', enc_slice C ''t.Alls'' (ShardExpireKey_MarshalCBOR C) (sex_Alls t))]"

definition ShardExpireIndex_switch :: "cbg_ops \<Rightarrow> string \<Rightarrow> ShardExpireIndex \<Rightarrow> ShardExpireIndex decoder" where
  "ShardExpireIndex_switch C name t bs =
     (if name = ''Alls'' then
        set_field (dec_slice C ''t.Alls'' (ShardExpireKey_UnmarshalCBOR C) bs)
          (\<lambda>x. if x = [] then t else t\<lparr>sex_Alls := x\<rparr>)
      else Inr (t, cbg_ScanForLinks C bs))"

definition ShardExpireIndex_UnmarshalCBOR :: "cbg_ops \<Rightarrow> ShardExpireIndex decoder" where
  "ShardExpireIndex_UnmarshalCBOR C = dec_struct C ''ShardExpireIndex'' (ShardExpireIndex_switch C) ShardExpireIndex_zero"

definition ShardExpireInfo_MarshalCBOR :: "cbg_ops \<Rightarrow> ShardExpireInfo \<Rightarrow> bytes res" where
  "ShardExpireInfo_MarshalCBOR C t =
     enc_struct C 163
       [(''ShardId'', enc_uint64 C (sei_ShardId t)),
        (''Cid'', enc_string C ''t.Cid'' (sei_Cid t)),
        (''OrderId'', enc_uint64 C (sei_OrderId t))]"

definition ShardExpireInfo_switch :: "cbg_ops \<Rightarrow> string \<Rightarrow> ShardExpireInfo \<Rightarrow> ShardExpireInfo decoder" where
  "ShardExpireInfo_switch C name t bs =
     (if name = ''ShardId'' then set_field (dec_uint64 C bs) (\<lambda>x. t\<lparr>sei_ShardId := x\<rparr>)
      else if name = ''Cid'' then set_field (cbg_ReadString C bs) (\<lambda>x. t\<lparr>sei_Cid := x\<rparr>)
      else if name = ''OrderId'' then set_field (dec_uint64 C bs) (\<lambda>x. t\<lparr>sei_OrderId := x\<rparr>)
      else Inr (t, cbg_ScanForLinks C bs))"

definition ShardExpireInfo_UnmarshalCBOR :: "cbg_ops \<Rightarrow> ShardExpireInfo decoder" where
  "ShardExpireInfo_UnmarshalCBOR C = dec_struct C ''ShardExpireInfo'' (ShardExpireInfo_switch C) ShardExpireInfo_zero"

definition OrderKey_MarshalCBOR :: "cbg_ops \<Rightarrow> OrderKey \<Rightarrow> bytes res" where
  "OrderKey_MarshalCBOR C t =
     enc_struct C 161
       [(''DataId'', enc_string C ''t.DataId'' (ok_DataId t))]"

definition OrderKey_switch :: "cbg_ops \<Rightarrow> string \<Rightarrow> OrderKey \<Rightarrow> OrderKey decoder" where
  "OrderKey_switch C name t bs =
     (if name = ''DataId'' then set_field (cbg_ReadString C bs) (\<lambda>x. t\<lparr>ok_DataId := x\<rparr>)
      else Inr (t, cbg_ScanForLinks C bs))"

definition OrderKey_UnmarshalCBOR :: "cbg_ops \<Rightarrow> OrderKey decoder" where
  "OrderKey_UnmarshalCBOR C = dec_struct C ''OrderKey'' (OrderKey_switch C) OrderKey_zero"

definition OrderIndex_MarshalCBOR :: "cbg_ops \<Rightarrow> OrderIndex \<Rightarrow> bytes res" where
  "OrderIndex_MarshalCBOR C t =
     enc_struct C 161
       [(''Alls'', enc_slice C ''t.Alls'' (OrderKey_MarshalCBOR C) (ox_Alls t))]"

definition OrderIndex_switch :: "cbg_ops \<Rightarrow> string \<Rightarrow> OrderIndex \<Rightarrow> OrderIndex decoder" where
  "OrderIndex_switch C name t bs =
     (if name = ''Alls'' then
        set_field (dec_slice C ''t.Alls'' (OrderKey_UnmarshalCBOR C) bs)
          (\<lambda>x. if x = [] then t else t\<lparr>ox_Alls := x\<rparr>)
      else Inr (t, cbg_ScanForLinks C bs))"

definition OrderIndex_UnmarshalCBOR :: "cbg_ops \<Rightarrow> OrderIndex decoder" where
  "OrderIndex_UnmarshalCBOR C = dec_struct C ''OrderIndex'' (OrderIndex_switch C) OrderIndex_zero"

definition OrderShardInfo_MarshalCBOR :: "cbg_ops \<Rightarrow> OrderShardInfo \<Rightarrow> bytes res" where
  "OrderShardInfo_MarshalCBOR C t =
     enc_struct C 166
       [(''ShardId'', enc_uint64 C (osi_ShardId t)),
        (''Peer'', enc_string C ''t.Peer'' (osi_Peer t)),
        (''Cid'', enc_string C ''t.Cid'' (osi_Cid t)),
        (''Provider'', enc_string C ''t.Provider'' (osi_Provider t)),
        (''State'', enc_string C ''t.State'' (osi_State t)),
        (''CompleteHash'', enc_string C ''t.CompleteHash'' (osi_CompleteHash t))]"

definition OrderShardInfo_switch :: "cbg_ops \<Rightarrow> string \<Rightarrow> OrderShardInfo \<Rightarrow> OrderShardInfo decoder" where
  "OrderShardInfo_switch C name t bs =
     (if name = ''ShardId'' then set_field (dec_uint64 C bs) (\<lambda>x. t\<lparr>osi_ShardId := x\<rparr>)
      else if name = ''Peer'' then set_field (cbg_ReadString C bs) (\<lambda>x. t\<lparr>osi_Peer := x\<rparr>)
      else if name = ''Cid'' then set_field (cbg_ReadString C bs) (\<lambda>x. t\<lparr>osi_Cid := x\<rparr>)
      else if name = ''Provider'' then set_field (cbg_ReadString C bs) (\<lambda>x. t\<lparr>osi_Provider := x\<rparr>)
      else if name = ''State'' then set_field (cbg_ReadString C bs) (\<lambda>x. t\<lparr>osi_State := x\<rparr>)
      else if name = ''CompleteHash'' then set_field (cbg_ReadString C bs) (\<lambda>x. t\<lparr>osi_CompleteHash := x\<rparr>)
      else Inr (t, cbg_ScanForLinks C bs))"

definition OrderShardInfo_UnmarshalCBOR :: "cbg_ops \<Rightarrow> OrderShardInfo decoder" where
  "OrderShardInfo_UnmarshalCBOR C = dec_struct C ''OrderShardInfo'' (OrderShardInfo_switch C) OrderShardInfo_zero"

definition OrderInfo_MarshalCBOR :: "cbg_ops \<Rightarrow> OrderInfo \<Rightarrow> bytes res" where
  "OrderInfo_MarshalCBOR C t =
     enc_struct C 174
       [(''DataId'', enc_string C ''t.DataId'' (oi_DataId t)),
        (''Owner'', enc_string C ''t.Owner'' (oi_Owner t)),
        (''Cid'', enc_cid C ''t.Cid'' (oi_Cid t)),
        (''StagePath'', enc_string C ''t.StagePath'' (oi_StagePath t)),
        (''OrderId'', enc_uint64 C (oi_OrderId t)),
        (''OrderHash'', enc_string C ''t.OrderHash'' (oi_OrderHash t)),
        (''OrderTxType'', enc_string C ''t.OrderTxType'' (oi_OrderTxType t)),
        (''OrderHeight'', enc_int64 C (oi_OrderHeight t)),
        (''Shards'', enc_map C ''t.Shards'' (OrderShardInfo_MarshalCBOR C) (oi_Shards t)),
        (''ExpireHeight'', enc_uint64 C (oi_ExpireHeight t)),
        (''State'', enc_uint64 C (oi_State t)),
        (''Tries'', enc_uint64 C (oi_Tries t)),
        (''RetryAt'', enc_int64 C (oi_RetryAt t)),
        (''LastErr'', enc_string C ''t.LastErr'' (oi_LastErr t))]"

definition OrderInfo_switch :: "cbg_ops \<Rightarrow> string \<Rightarrow> OrderInfo \<Rightarrow> OrderInfo decoder" where
  "OrderInfo_switch C name t bs =
     (if name = ''DataId'' then set_field (cbg_ReadString C bs) (\<lambda>x. t\<lparr>oi_DataId := x\<rparr>)
      else if name = ''Owner'' then set_field (cbg_ReadString C bs) (\<lambda>x. t\<lparr>oi_Owner := x\<rparr>)
      else if name = ''Cid'' then set_field (dec_cid C ''t.Cid'' bs) (\<lambda>x. t\<lparr>oi_Cid := x\<rparr>)
      else if name = ''StagePath'' then set_field (cbg_ReadString C bs) (\<lambda>x. t\<lparr>oi_StagePath := x\<rparr>)
      else if name = ''OrderId'' then set_field (dec_uint64 C bs) (\<lambda>x. t\<lparr>oi_OrderId := x\<rparr>)
      else if name = ''OrderHash'' then set_field (cbg_ReadString C bs) (\<lambda>x. t\<lparr>oi_OrderHash := x\<rparr>)
      else if name = ''OrderTxType'' then set_field (cbg_ReadString C bs) (\<lambda>x. t\<lparr>oi_OrderTxType := x\<rparr>)
      else if name = ''OrderHeight'' then set_field (dec_int64 C bs) (\<lambda>x. t\<lparr>oi_OrderHeight := x\<rparr>)
      else if name = ''Shards'' then set_field (dec_map C ''t.Shards'' (OrderShardInfo_UnmarshalCBOR C) bs) (\<lambda>x. t\<lparr>oi_Shards := x\<rparr>)
      else if name = ''ExpireHeight'' then set_field (dec_uint64 C bs) (\<lambda>x. t\<lparr>oi_ExpireHeight := x\<rparr>)
      else if name = ''State'' then set_field (dec_uint64 C bs) (\<lambda>x. t\<lparr>oi_State := x\<rparr>)
      else if name = ''Tries'' then set_field (dec_uint64 C bs) (\<lambda>x. t\<lparr>oi_Tries := x\<rparr>)
      else if name = ''RetryAt'' then set_field (dec_int64 C bs) (\<lambda>x. t\<lparr>oi_RetryAt := x\<rparr>)
      else if name = ''LastErr'' then set_field (cbg_ReadString C bs) (\<lambda>x. t\<lparr>oi_LastErr := x\<rparr>)
      else Inr (t, cbg_ScanForLinks C bs))"

definition OrderInfo_UnmarshalCBOR :: "cbg_ops \<Rightarrow> OrderInfo decoder" where
  "OrderInfo_UnmarshalCBOR C = dec_struct C ''OrderInfo'' (OrderInfo_switch C) OrderInfo_zero"

definition ShardKey_MarshalCBOR :: "cbg_ops \<Rightarrow> ShardKey \<Rightarrow> bytes res" where
  "ShardKey_MarshalCBOR C t =
     enc_struct C 162
       [(''OrderId'', enc_uint64 C (sk_OrderId t)),
        (''Cid'', enc_cid C ''t.Cid'' (sk_Cid t))]"

definition ShardKey_switch :: "cbg_ops \<Rightarrow> string \<Rightarrow> ShardKey \<Rightarrow> ShardKey decoder" where
  "ShardKey_switch C name t bs =
     (if name = ''OrderId'' then set_field (dec_uint64 C bs) (\<lambda>x. t\<lparr>sk_OrderId := x\<rparr>)
      else if name = ''Cid'' then set_field (dec_cid C ''t.Cid'' bs) (\<lambda>x. t\<lparr>sk_Cid := x\<rparr>)
      else Inr (t, cbg_ScanForLinks C bs))"

definition ShardKey_UnmarshalCBOR :: "cbg_ops \<Rightarrow> ShardKey decoder" where
  "ShardKey_UnmarshalCBOR C = dec_struct C ''ShardKey'' (ShardKey_switch C) ShardKey_zero"

definition ShardInfo_MarshalCBOR :: "cbg_ops \<Rightarrow> ShardInfo \<Rightarrow> bytes res" where
  "ShardInfo_MarshalCBOR C t =
     enc_struct C 175
       [(''OrderId'', enc_uint64 C (si_OrderId t)),
        (''DataId'', enc_string C ''t.DataId'' (si_DataId t)),
        (''Cid'', enc_cid C ''t.Cid'' (si_Cid t)),
        (''Owner'', enc_string C ''t.Owner'' (si_Owner t)),
        (''Gateway'', enc_string C ''t.Gateway'' (si_Gateway t)),
        (''OrderOperation'', enc_string C ''t.OrderOperation'' (si_OrderOperation t)),
        (''ShardOperation'', enc_string C ''t.ShardOperation'' (si_ShardOperation t)),
        (''CompleteHash'', enc_string C ''t.CompleteHash'' (si_CompleteHash t)),
        (''CompleteHeight'', enc_int64 C (si_CompleteHeight t)),
        (''Size'', enc_uint64 C (si_Size t)),
        (''Tries'', enc_uint64 C (si_Tries t)),
        (''ExpireHeight'', enc_uint64 C (si_ExpireHeight t)),
        (''State'', enc_uint64 C (si_State t)),
        (''RetryAt'', enc_int64 C (si_RetryAt t)),
        (''LastErr'', enc_string C ''t.LastErr'' (si_LastErr t))]"

definition ShardInfo_switch :: "cbg_ops \<Rightarrow> string \<Rightarrow> ShardInfo \<Rightarrow> ShardInfo decoder" where
  "ShardInfo_switch C name t bs =
     (if name = ''OrderId'' then set_field (dec_uint64 C bs) (\<lambda>x. t\<lparr>si_OrderId := x\<rparr>)
      else if name = ''DataId'' then set_field (cbg_ReadString C bs) (\<lambda>x. t\<lparr>si_DataId := x\<rparr>)
      else if name = ''Cid'' then set_field (dec_cid C ''t.Cid'' bs) (\<lambda>x. t\<lparr>si_Cid := x\<rparr>)
      else if name = ''Owner'' then set_field (cbg_ReadString C bs) (\<lambda>x. t\<lparr>si_Owner := x\<rparr>)
      else if name = ''Gateway'' then set_field (cbg_ReadString C bs) (\<lambda>x. t\<lparr>si_Gateway := x\<rparr>)
      else if name = ''OrderOperation'' then set_field (cbg_ReadString C bs) (\<lambda>x. t\<lparr>si_OrderOperation := x\<rparr>)
      else if name = ''ShardOperation'' then set_field (cbg_ReadString C bs) (\<lambda>x. t\<lparr>si_ShardOperation := x\<rparr>)
      else if name = ''CompleteHash'' then set_field (cbg_ReadString C bs) (\<lambda>x. t\<lparr>si_CompleteHash := x\<rparr>)
      else if name = ''CompleteHeight'' then set_field (dec_int64 C bs) (\<lambda>x. t\<lparr>si_CompleteHeight := x\<rparr>)
      else if name = ''Size'' then set_field (dec_uint64 C bs) (\<lambda>x. t\<lparr>si_Size := x\<rparr>)
      else if name = ''Tries'' then set_field (dec_uint64 C bs) (\<lambda>x. t\<lparr>si_Tries := x\<rparr>)
      else if name = ''ExpireHeight'' then set_field (dec_uint64 C bs) (\<lambda>x. t\<lparr>si_ExpireHeight := x\<rparr>)
      else if name = ''State'' then set_field (dec_uint64 C bs) (\<lambda>x. t\<lparr>si_State := x\<rparr>)
      else if name = ''RetryAt'' then set_field (dec_int64 C bs) (\<lambda>x. t\<lparr>si_RetryAt := x\<rparr>)
      else if name = ''LastErr'' then set_field (cbg_ReadString C bs) (\<lambda>x. t\<lparr>si_LastErr := x\<rparr>)
      else Inr (t, cbg_ScanForLinks C bs))"

definition ShardInfo_UnmarshalCBOR :: "cbg_ops \<Rightarrow> ShardInfo decoder" where
  "ShardInfo_UnmarshalCBOR C = dec_struct C ''ShardInfo'' (ShardInfo_switch C) ShardInfo_zero"

definition ShardIndex_MarshalCBOR :: "cbg_ops \<Rightarrow> ShardIndex \<Rightarrow> bytes res" where
  "ShardIndex_MarshalCBOR C t =
     enc_struct C 161
       [(''All'', enc_slice C ''t.All'' (ShardKey_MarshalCBOR C) (sx_All t))]"

definition ShardIndex_switch :: "cbg_ops \<Rightarrow> string \<Rightarrow> ShardIndex \<Rightarrow> ShardIndex decoder" where
  "ShardIndex_switch C name t bs =
     (if name = ''All'' then
        set_field (dec_slice C ''t.All'' (ShardKey_UnmarshalCBOR C) bs)
          (\<lambda>x. if x = [] then t else t\<lparr>sx_All := x\<rparr>)
      else Inr (t, cbg_ScanForLinks C bs))"

definition ShardIndex_UnmarshalCBOR :: "cbg_ops \<Rightarrow> ShardIndex decoder" where
  "ShardIndex_UnmarshalCBOR C = dec_struct C ''ShardIndex'' (ShardIndex_switch C) ShardIndex_zero"

definition MigrateKey_MarshalCBOR :: "cbg_ops \<Rightarrow> MigrateKey \<Rightarrow> bytes res" where
  "MigrateKey_MarshalCBOR C t =
     enc_struct C 162
       [(''DataId'', enc_string C ''t.DataId'' (mk_DataId t)),
        (''FromProvider'', enc_string C ''t.FromProvider'' (mk_FromProvider t))]"

definition MigrateKey_switch :: "cbg_ops \<Rightarrow> string \<Rightarrow> MigrateKey \<Rightarrow> MigrateKey decoder" where
  "MigrateKey_switch C name t bs =
     (if name = ''DataId'' then set_field (cbg_ReadString C bs) (\<lambda>x. t\<lparr>mk_DataId := x\<rparr>)
      else if name = ''FromProvider'' then set_field (cbg_ReadString C bs) (\<lambda>x. t\<lparr>mk_FromProvider := x\<rparr>)
      else Inr (t, cbg_ScanForLinks C bs))"

definition MigrateKey_UnmarshalCBOR :: "cbg_ops \<Rightarrow> MigrateKey decoder" where
  "MigrateKey_UnmarshalCBOR C = dec_struct C ''MigrateKey'' (MigrateKey_switch C) MigrateKey_zero"

definition MigrateInfo_MarshalCBOR :: "cbg_ops \<Rightarrow> MigrateInfo \<Rightarrow> bytes res" where
  "MigrateInfo_MarshalCBOR C t =
     enc_struct C 170
       [(''DataId'', enc_string C ''t.DataId'' (mi_DataId t)),
        (''OrderId'', enc_uint64 C (mi_OrderId t)),
        (''Cid'', enc_string C ''t.Cid'' (mi_Cid t)),
        (''FromProvider'', enc_string C ''t.FromProvider'' (mi_FromProvider t)),
        (''ToProvider'', enc_string C ''t.ToProvider'' (mi_ToProvider t)),
        (''MigrateTxHash'', enc_string C ''t.MigrateTxHash'' (mi_MigrateTxHash t)),
        (''MigrateTxHeight'', enc_int64 C (mi_MigrateTxHeight t)),
        (''CompleteTxHash'', enc_string C ''t.CompleteTxHash'' (mi_CompleteTxHash t)),
        (''CompleteTxHeight'', enc_int64 C (mi_CompleteTxHeight t)),
        (''State'', enc_uint64 C (mi_State t))]"

definition MigrateInfo_switch :: "cbg_ops \<Rightarrow> string \<Rightarrow> MigrateInfo \<Rightarrow> MigrateInfo decoder" where
  "MigrateInfo_switch C name t bs =
     (if name = ''DataId'' then set_field (cbg_ReadString C bs) (\<lambda>x. t\<lparr>mi_DataId := x\<rparr>)
      else if name = ''OrderId'' then set_field (dec_uint64 C bs) (\<lambda>x. t\<lparr>mi_OrderId := x\<rparr>)
      else if name = ''Cid'' then set_field (cbg_ReadString C bs) (\<lambda>x. t\<lparr>mi_Cid := x\<rparr>)
      else if name = ''FromProvider'' then set_field (cbg_ReadString C bs) (\<lambda>x. t\<lparr>mi_FromProvider := x\<rparr>)
      else if name = ''ToProvider'' then set_field (cbg_ReadString C bs) (\<lambda>x. t\<lparr>mi_ToProvider := x\<rparr>)
      else if name = ''MigrateTxHash'' then set_field (cbg_ReadString C bs) (\<lambda>x. t\<lparr>mi_MigrateTxHash := x\<rparr>)
      else if name = ''MigrateTxHeight'' then set_field (dec_int64 C bs) (\<lambda>x. t\<lparr>mi_MigrateTxHeight := x\<rparr>)
      else if name = ''CompleteTxHash'' then set_field (cbg_ReadString C bs) (\<lambda>x. t\<lparr>mi_CompleteTxHash := x\<rparr>)
      else if name = ''CompleteTxHeight'' then set_field (dec_int64 C bs) (\<lambda>x. t\<lparr>mi_CompleteTxHeight := x\<rparr>)
      else if name = ''State'' then set_field (dec_uint64 C bs) (\<lambda>x. t\<lparr>mi_State := x\<rparr>)
      else Inr (t, cbg_ScanForLinks C bs))"

definition MigrateInfo_UnmarshalCBOR :: "cbg_ops \<Rightarrow> MigrateInfo decoder" where
  "MigrateInfo_UnmarshalCBOR C = dec_struct C ''MigrateInfo'' (MigrateInfo_switch C) MigrateInfo_zero"

definition MigrateIndex_MarshalCBOR :: "cbg_ops \<Rightarrow> MigrateIndex \<Rightarrow> bytes res" where
  "MigrateIndex_MarshalCBOR C t =
     enc_struct C 161
       [(''All'', enc_slice C ''t.All'' (MigrateKey_MarshalCBOR C) (mx_All t))]"

definition MigrateIndex_switch :: "cbg_ops \<Rightarrow> string \<Rightarrow> MigrateIndex \<Rightarrow> MigrateIndex decoder" where
  "MigrateIndex_switch C name t bs =
     (if name = ''All'' then
        set_field (dec_slice C ''t.All'' (MigrateKey_UnmarshalCBOR C) bs)
          (\<lambda>x. if x = [] then t else t\<lparr>mx_All := x\<rparr>)
      else Inr (t, cbg_ScanForLinks C bs))"

definition MigrateIndex_UnmarshalCBOR :: "cbg_ops \<Rightarrow> MigrateIndex decoder" where
  "MigrateIndex_UnmarshalCBOR C = dec_struct C ''MigrateIndex'' (MigrateIndex_switch C) MigrateIndex_zero"

lemmas marshal_defs =
  ShardExpireKey_MarshalCBOR_def ShardExpireIndex_MarshalCBOR_def
  ShardExpireInfo_MarshalCBOR_def OrderKey_MarshalCBOR_def
  OrderIndex_MarshalCBOR_def OrderShardInfo_MarshalCBOR_def
  OrderInfo_MarshalCBOR_def ShardKey_MarshalCBOR_def
  ShardInfo_MarshalCBOR_def ShardIndex_MarshalCBOR_def
  MigrateKey_MarshalCBOR_def MigrateInfo_MarshalCBOR_def
  MigrateIndex_MarshalCBOR_def

lemmas switch_defs =
  ShardExpireKey_switch_def ShardExpireIndex_switch_def
  ShardExpireInfo_switch_def OrderKey_switch_def
  OrderIndex_switch_def OrderShardInfo_switch_def
  OrderInfo_switch_def ShardKey_switch_def
  ShardInfo_switch_def ShardIndex_switch_def
  MigrateKey_switch_def MigrateInfo_switch_def
  MigrateIndex_switch_def

lemmas unmarshal_defs =
  ShardExpireKey_UnmarshalCBOR_def ShardExpireIndex_UnmarshalCBOR_def
  ShardExpireInfo_UnmarshalCBOR_def OrderKey_UnmarshalCBOR_def
  OrderIndex_UnmarshalCBOR_def OrderShardInfo_UnmarshalCBOR_def
  OrderInfo_UnmarshalCBOR_def ShardKey_UnmarshalCBOR_def
  ShardInfo_UnmarshalCBOR_def ShardIndex_UnmarshalCBOR_def
  MigrateKey_UnmarshalCBOR_def MigrateInfo_UnmarshalCBOR_def
  MigrateIndex_UnmarshalCBOR_def

section \<open>The values a struct holds\<close>

text \<open>An int64 field is in range, and the keys of a map are distinct.\<close>

definition int64_ok :: "int \<Rightarrow> bool" where
  "int64_ok i \<longleftrightarrow> - (2 ^ 63) \<le> i \<and> i < 2 ^ 63"

definition OrderInfo_ok :: "OrderInfo \<Rightarrow> bool" where
  "OrderInfo_ok t \<longleftrightarrow> int64_ok (oi_OrderHeight t) \<and> int64_ok (oi_RetryAt t) \<and> distinct (map fst (oi_Shards t))"

definition ShardInfo_ok :: "ShardInfo \<Rightarrow> bool" where
  "ShardInfo_ok t \<longleftrightarrow> int64_ok (si_CompleteHeight t) \<and> int64_ok (si_RetryAt t)"

definition MigrateInfo_ok :: "MigrateInfo \<Rightarrow> bool" where
  "MigrateInfo_ok t \<longleftrightarrow> int64_ok (mi_MigrateTxHeight t) \<and> int64_ok (mi_CompleteTxHeight t)"

text \<open>An order with its shards in the order of their keys: the same Go value.\<close>

definition OrderInfo_norm :: "OrderInfo \<Rightarrow> OrderInfo" where
  "OrderInfo_norm t = t\<lparr>oi_Shards := sort_key fst (oi_Shards t)\<rparr>"

section \<open>Round trips\<close>

context cbor_lib
begin

lemma ShardExpireKey_roundtrip:
  "ShardExpireKey_MarshalCBOR C t = Inr b \<Longrightarrow> reads (ShardExpireKey_UnmarshalCBOR C) b t"
  by (auto simp: ShardExpireKey_MarshalCBOR_def ShardExpireKey_UnmarshalCBOR_def ShardExpireKey_switch_def zero_defs
      enc_struct_Inr list_all2_Cons1 reads_field intro!: readsI dec_struct_numeral [where n = 1])

lemma ShardExpireInfo_roundtrip:
  "ShardExpireInfo_MarshalCBOR C t = Inr b \<Longrightarrow> reads (ShardExpireInfo_UnmarshalCBOR C) b t"
  by (auto simp: ShardExpireInfo_MarshalCBOR_def ShardExpireInfo_UnmarshalCBOR_def ShardExpireInfo_switch_def zero_defs
      enc_struct_Inr list_all2_Cons1 reads_field intro!: readsI dec_struct_numeral [where n = 3])

lemma OrderKey_roundtrip:
  "OrderKey_MarshalCBOR C t = Inr b \<Longrightarrow> reads (OrderKey_UnmarshalCBOR C) b t"
  by (auto simp: OrderKey_MarshalCBOR_def OrderKey_UnmarshalCBOR_def OrderKey_switch_def zero_defs
      enc_struct_Inr list_all2_Cons1 reads_field intro!: readsI dec_struct_numeral [where n = 1])

lemma OrderShardInfo_roundtrip:
  "OrderShardInfo_MarshalCBOR C t = Inr b \<Longrightarrow> reads (OrderShardInfo_UnmarshalCBOR C) b t"
  by (auto simp: OrderShardInfo_MarshalCBOR_def OrderShardInfo_UnmarshalCBOR_def OrderShardInfo_switch_def zero_defs
      enc_struct_Inr list_all2_Cons1 reads_field intro!: readsI dec_struct_numeral [where n = 6])

lemma ShardKey_roundtrip:
  "ShardKey_MarshalCBOR C t = Inr b \<Longrightarrow> reads (ShardKey_UnmarshalCBOR C) b t"
  by (auto simp: ShardKey_MarshalCBOR_def ShardKey_UnmarshalCBOR_def ShardKey_switch_def zero_defs
      enc_struct_Inr list_all2_Cons1 reads_field intro!: readsI dec_struct_numeral [where n = 2])

lemma MigrateKey_roundtrip:
  "MigrateKey_MarshalCBOR C t = Inr b \<Longrightarrow> reads (MigrateKey_UnmarshalCBOR C) b t"
  by (auto simp: MigrateKey_MarshalCBOR_def MigrateKey_UnmarshalCBOR_def MigrateKey_switch_def zero_defs
      enc_struct_Inr list_all2_Cons1 reads_field intro!: readsI dec_struct_numeral [where n = 2])

lemma MigrateInfo_roundtrip:
  "MigrateInfo_MarshalCBOR C t = Inr b \<Longrightarrow> MigrateInfo_ok t \<Longrightarrow> reads (MigrateInfo_UnmarshalCBOR C) b t"
  by (auto simp: MigrateInfo_MarshalCBOR_def MigrateInfo_UnmarshalCBOR_def MigrateInfo_switch_def zero_defs
      enc_struct_Inr list_all2_Cons1 reads_field MigrateInfo_ok_def int64_ok_def intro!: readsI dec_struct_numeral [where n = 10])

lemma ShardInfo_roundtrip:
  "ShardInfo_MarshalCBOR C t = Inr b \<Longrightarrow> ShardInfo_ok t \<Longrightarrow> reads (ShardInfo_UnmarshalCBOR C) b t"
  by (auto simp: ShardInfo_MarshalCBOR_def ShardInfo_UnmarshalCBOR_def ShardInfo_switch_def zero_defs
      enc_struct_Inr list_all2_Cons1 reads_field ShardInfo_ok_def int64_ok_def intro!: readsI dec_struct_numeral [where n = 15])

lemma ShardExpireIndex_roundtrip:
  "ShardExpireIndex_MarshalCBOR C t = Inr b \<Longrightarrow> reads (ShardExpireIndex_UnmarshalCBOR C) b t"
  by (auto simp: ShardExpireIndex_MarshalCBOR_def ShardExpireIndex_UnmarshalCBOR_def ShardExpireIndex_switch_def zero_defs
      enc_struct_Inr list_all2_Cons1 reads_slice [OF _ ShardExpireKey_roundtrip, THEN readsD]
      intro!: readsI dec_struct_numeral [where n = 1])

lemma OrderIndex_roundtrip:
  "OrderIndex_MarshalCBOR C t = Inr b \<Longrightarrow> reads (OrderIndex_UnmarshalCBOR C) b t"
  by (auto simp: OrderIndex_MarshalCBOR_def OrderIndex_UnmarshalCBOR_def OrderIndex_switch_def zero_defs
      enc_struct_Inr list_all2_Cons1 reads_slice [OF _ OrderKey_roundtrip, THEN readsD]
      intro!: readsI dec_struct_numeral [where n = 1])

lemma ShardIndex_roundtrip:
  "ShardIndex_MarshalCBOR C t = Inr b \<Longrightarrow> reads (ShardIndex_UnmarshalCBOR C) b t"
  by (auto simp: ShardIndex_MarshalCBOR_def ShardIndex_UnmarshalCBOR_def ShardIndex_switch_def zero_defs
      enc_struct_Inr list_all2_Cons1 reads_slice [OF _ ShardKey_roundtrip, THEN readsD]
      intro!: readsI dec_struct_numeral [where n = 1])

lemma MigrateIndex_roundtrip:
  "MigrateIndex_MarshalCBOR C t = Inr b \<Longrightarrow> reads (MigrateIndex_UnmarshalCBOR C) b t"
  by (auto simp: MigrateIndex_MarshalCBOR_def MigrateIndex_UnmarshalCBOR_def MigrateIndex_switch_def zero_defs
      enc_struct_Inr list_all2_Cons1 reads_slice [OF _ MigrateKey_roundtrip, THEN readsD]
      intro!: readsI dec_struct_numeral [where n = 1])

lemma OrderInfo_roundtrip:
  assumes "OrderInfo_MarshalCBOR C t = Inr b" and "OrderInfo_ok t"
  shows "reads (OrderInfo_UnmarshalCBOR C) b (OrderInfo_norm t)"
  using assms
  by (auto simp: OrderInfo_MarshalCBOR_def OrderInfo_UnmarshalCBOR_def OrderInfo_switch_def zero_defs
      OrderInfo_ok_def OrderInfo_norm_def int64_ok_def enc_struct_Inr list_all2_Cons1 reads_field
      reads_map [OF _ _ OrderShardInfo_roundtrip, THEN readsD]
      intro!: readsI dec_struct_numeral [where n = 14])

end

section \<open>Properties\<close>

definition sample_OrderInfo :: OrderInfo where
  "sample_OrderInfo = OrderInfo_zero\<lparr>oi_DataId := ''6f1e'', oi_Cid := ''xyz'', oi_OrderId := 70000,
     oi_OrderHeight := - 5, oi_State := OrderStateReady,
     oi_Shards := [(''sp2'', OrderShardInfo_zero\<lparr>osi_ShardId := 300\<rparr>), (''sp1'', OrderShardInfo_zero)]\<rparr>"

definition sample_ShardInfo :: ShardInfo where
  "sample_ShardInfo = ShardInfo_zero\<lparr>si_OrderId := 70000, si_Cid := ''xyz'', si_CompleteHeight := - 1,
     si_State := ShardStateTxSent\<rparr>"

definition sample_MigrateInfo :: MigrateInfo where
  "sample_MigrateInfo = MigrateInfo_zero\<lparr>mi_DataId := ''6f1e'', mi_FromProvider := ''sao1'', mi_OrderId := 255\<rparr>"

lemmas rfc_encode_eval = enc_seq.simps enc_struct_def enc_name_def enc_string_def enc_uint64_def enc_int64_def
  enc_cid_def enc_slice_def enc_map_def rfc_cbor_def rfc_MaxLength_def rfc_WriteCid_def Undef_def zero_defs

lemma sample_encoded:
  "OrderInfo_MarshalCBOR rfc_cbor sample_OrderInfo = Inr (projr (OrderInfo_MarshalCBOR rfc_cbor sample_OrderInfo))"
  "ShardInfo_MarshalCBOR rfc_cbor sample_ShardInfo = Inr (projr (ShardInfo_MarshalCBOR rfc_cbor sample_ShardInfo))"
  "MigrateInfo_MarshalCBOR rfc_cbor sample_MigrateInfo = Inr (projr (MigrateInfo_MarshalCBOR rfc_cbor sample_MigrateInfo))"
  by (simp_all add: marshal_defs sample_OrderInfo_def sample_ShardInfo_def sample_MigrateInfo_def rfc_encode_eval)

lemma sample_int64_ok:
  "OrderInfo_ok sample_OrderInfo" "ShardInfo_ok sample_ShardInfo" "MigrateInfo_ok sample_MigrateInfo"
  by (simp_all add: OrderInfo_ok_def ShardInfo_ok_def MigrateInfo_ok_def int64_ok_def zero_defs
      sample_OrderInfo_def sample_ShardInfo_def sample_MigrateInfo_def)

text \<open>C32. The bytes an order is written to are read back as that order, leaving what follows them: all
  fourteen fields, and the shard map with the same entries, in the order of its keys.\<close>

theorem OrderInfo_cbor:
  assumes "cbor_lib C" and "OrderInfo_ok t" and "OrderInfo_MarshalCBOR C t = Inr b"
  shows "OrderInfo_UnmarshalCBOR C (b @ r) = Inr (OrderInfo_norm t, r)
    \<and> map_of (oi_Shards (OrderInfo_norm t)) = map_of (oi_Shards t)"
  using cbor_lib.OrderInfo_roundtrip [OF assms(1,3,2), THEN readsD] assms(2)
  by (simp add: OrderInfo_norm_def OrderInfo_ok_def map_of_sort_key_fst)

theorem OrderInfo_cbor_witness:
  "OrderInfo_UnmarshalCBOR rfc_cbor (projr (OrderInfo_MarshalCBOR rfc_cbor sample_OrderInfo) @ ''rest'')
     = Inr (OrderInfo_norm sample_OrderInfo, ''rest'')"
  using OrderInfo_cbor [OF rfc.cbor_lib_axioms sample_int64_ok(1) sample_encoded(1)] by simp

text \<open>The bytes a shard is written to are read back as that shard, all fifteen fields of it.\<close>

theorem ShardInfo_cbor:
  assumes "cbor_lib C" and "ShardInfo_ok t" and "ShardInfo_MarshalCBOR C t = Inr b"
  shows "ShardInfo_UnmarshalCBOR C (b @ r) = Inr (t, r)"
  by (rule cbor_lib.ShardInfo_roundtrip [OF assms(1,3,2), THEN readsD])

theorem ShardInfo_cbor_witness:
  "ShardInfo_UnmarshalCBOR rfc_cbor (projr (ShardInfo_MarshalCBOR rfc_cbor sample_ShardInfo)) = Inr (sample_ShardInfo, [])"
  using ShardInfo_cbor [OF rfc.cbor_lib_axioms sample_int64_ok(2) sample_encoded(2), of "[]"] by simp

text \<open>The bytes a migration is written to are read back as that migration.\<close>

theorem MigrateInfo_cbor:
  assumes "cbor_lib C" and "MigrateInfo_ok t" and "MigrateInfo_MarshalCBOR C t = Inr b"
  shows "MigrateInfo_UnmarshalCBOR C (b @ r) = Inr (t, r)"
  by (rule cbor_lib.MigrateInfo_roundtrip [OF assms(1,3,2), THEN readsD])

theorem MigrateInfo_cbor_witness:
  "MigrateInfo_UnmarshalCBOR rfc_cbor (projr (MigrateInfo_MarshalCBOR rfc_cbor sample_MigrateInfo)) = Inr (sample_MigrateInfo, [])"
  using MigrateInfo_cbor [OF rfc.cbor_lib_axioms sample_int64_ok(3) sample_encoded(3), of "[]"] by simp

end
