(* ===== verification/State_Store.thy ===== *)
theory State_Store
  imports Cbor_Codec
begin

text \<open>
  The persisted state of the node (\<^verbatim>\<open>src/utils/state_utils.go\<close>): orders, shards, migrations and shard
  expirations, each a record under its own datastore key and an index that lists the keys.  The
  datastore and the content-identifier library are not part of the repository: their operations are
  the fields of \<open>ds_ops\<close> and \<open>cid_ops\<close>, and the locale \<open>node_libs\<close> states what the node relies on.  Every
  datastore call may fail, and every failure is a branch of the operations below.

  The operations follow the source: \<open>save_record\<close>, \<open>load_record\<close>, \<open>update_index\<close> and \<open>load_index\<close> are the code
  the four groups of functions repeat, and each function of the source is an instance with its key,
  codec and index.  A datastore call is written with the key string it passes to \<open>datastore.NewKey\<close>.
\<close>

section \<open>Libraries\<close>

record ('d, 'k) ds_ops =
  ds_NewKey :: "string \<Rightarrow> 'k"
  ds_Has :: "'d \<Rightarrow> 'k \<Rightarrow> bool res"
  ds_Get :: "'d \<Rightarrow> 'k \<Rightarrow> bytes res"
  ds_Put :: "'d \<Rightarrow> 'k \<Rightarrow> bytes \<Rightarrow> goerr option \<times> 'd"

record cid_ops =
  cid_String :: "cid \<Rightarrow> string"
  cid_Decode :: "string \<Rightarrow> cid res"

record ('d, 'k) libs =
  lib_ds :: "('d, 'k) ds_ops"
  lib_cbg :: cbg_ops
  lib_cid :: cid_ops

section \<open>Keys\<close>

definition ORDER_INDEX_KEY :: string where "ORDER_INDEX_KEY = ''order-index''"

definition SHARD_INDEX_KEY :: string where "SHARD_INDEX_KEY = ''shard-index''"

definition MIGRATE_INDEX_KEY :: string where "MIGRATE_INDEX_KEY = ''migrate-index''"

definition SHARD_EXPIRE_INDEX_KEY :: string where "SHARD_EXPIRE_INDEX_KEY = ''shard-expire''"

definition shardExpireDatastoreKey :: "u64 \<Rightarrow> string" where
  "shardExpireDatastoreKey shardId = ''shard-expire-'' @ show_u64 shardId"

definition orderDatastoreKey :: "string \<Rightarrow> string" where
  "orderDatastoreKey dataId = ''order-'' @ dataId"

definition migrateDatastoreKey :: "string \<Rightarrow> string \<Rightarrow> string" where
  "migrateDatastoreKey dataId from = ''migrate-dataid-'' @ dataId @ ''-from-'' @ from"

definition orderShardDatastoreKey :: "cid_ops \<Rightarrow> u64 \<Rightarrow> cid \<Rightarrow> string" where
  "orderShardDatastoreKey I orderId c = ''order-'' @ show_u64 orderId @ ''-shard-'' @ cid_String I c"

lemmas index_key_defs =
  ORDER_INDEX_KEY_def SHARD_INDEX_KEY_def MIGRATE_INDEX_KEY_def SHARD_EXPIRE_INDEX_KEY_def

lemmas datastore_key_defs =
  shardExpireDatastoreKey_def orderDatastoreKey_def migrateDatastoreKey_def orderShardDatastoreKey_def

section \<open>The shared code\<close>

definition save_record ::
  "('d, 'k) libs \<Rightarrow> 'd \<Rightarrow> string \<Rightarrow> bytes res \<Rightarrow> ('d \<Rightarrow> goerr option \<times> 'd) \<Rightarrow> goerr option \<times> 'd" where
  "save_record S d key marshalled add_index =
     (case ds_Has (lib_ds S) d (ds_NewKey (lib_ds S) key) of
        Inl err \<Rightarrow> (Some err, d)
      | Inr exists \<Rightarrow>
          (case marshalled of
             Inl err \<Rightarrow> (Some err, d)
           | Inr buf \<Rightarrow>
               (case ds_Put (lib_ds S) d (ds_NewKey (lib_ds S) key) buf of
                  (Some err, d') \<Rightarrow> (Some err, d')
                | (None, d') \<Rightarrow> if \<not> exists then add_index d' else (None, d'))))"

definition load_record :: "('d, 'k) libs \<Rightarrow> 'd \<Rightarrow> string \<Rightarrow> 'a decoder \<Rightarrow> 'a \<Rightarrow> 'a res" where
  "load_record S d key unmarshal zero =
     (case ds_Has (lib_ds S) d (ds_NewKey (lib_ds S) key) of
        Inl err \<Rightarrow> Inl err
      | Inr exists \<Rightarrow>
          if \<not> exists then Inr zero
          else (case ds_Get (lib_ds S) d (ds_NewKey (lib_ds S) key) of
                  Inl err \<Rightarrow> Inl err
                | Inr bs \<Rightarrow> map_sum id fst (unmarshal bs)))"

definition update_index ::
  "('d, 'k) libs \<Rightarrow> 'd \<Rightarrow> string \<Rightarrow> 'i decoder \<Rightarrow> 'i \<Rightarrow> ('i \<Rightarrow> bytes res) \<Rightarrow> ('i \<Rightarrow> 'i) \<Rightarrow> goerr option \<times> 'd"
where
  "update_index S d key unmarshal zero marshal change =
     (case load_record S d key unmarshal zero of
        Inl err \<Rightarrow> (Some err, d)
      | Inr index \<Rightarrow>
          (case marshal (change index) of
             Inl err \<Rightarrow> (Some err, d)
           | Inr buf \<Rightarrow> ds_Put (lib_ds S) d (ds_NewKey (lib_ds S) key) buf))"

section \<open>Shard expiration\<close>

definition GetShardExpireIndex :: "('d, 'k) libs \<Rightarrow> 'd \<Rightarrow> ShardExpireIndex res" where
  "GetShardExpireIndex S d =
     load_record S d SHARD_EXPIRE_INDEX_KEY (ShardExpireIndex_UnmarshalCBOR (lib_cbg S)) ShardExpireIndex_zero"

definition AddShardExpireIndex :: "('d, 'k) libs \<Rightarrow> 'd \<Rightarrow> u64 \<Rightarrow> goerr option \<times> 'd" where
  "AddShardExpireIndex S d shardId =
     update_index S d SHARD_EXPIRE_INDEX_KEY (ShardExpireIndex_UnmarshalCBOR (lib_cbg S))
       ShardExpireIndex_zero (ShardExpireIndex_MarshalCBOR (lib_cbg S))
       (\<lambda>index. index\<lparr>sex_Alls := sex_Alls index @ [\<lparr>sek_ShardId = shardId\<rparr>]\<rparr>)"

text \<open>The loop that drops the first entry with the id and breaks.\<close>

fun remove_expire_key :: "u64 \<Rightarrow> ShardExpireKey list \<Rightarrow> ShardExpireKey list" where
  "remove_expire_key shardId [] = []"
| "remove_expire_key shardId (k # ks) =
     (if sek_ShardId k = shardId then ks else k # remove_expire_key shardId ks)"

definition RemoveShardExpireIndex :: "('d, 'k) libs \<Rightarrow> 'd \<Rightarrow> u64 \<Rightarrow> goerr option \<times> 'd" where
  "RemoveShardExpireIndex S d shardId =
     update_index S d SHARD_EXPIRE_INDEX_KEY (ShardExpireIndex_UnmarshalCBOR (lib_cbg S))
       ShardExpireIndex_zero (ShardExpireIndex_MarshalCBOR (lib_cbg S))
       (\<lambda>index. index\<lparr>sex_Alls := remove_expire_key shardId (sex_Alls index)\<rparr>)"

definition SaveShardExpire :: "('d, 'k) libs \<Rightarrow> 'd \<Rightarrow> u64 \<Rightarrow> string \<Rightarrow> u64 \<Rightarrow> goerr option \<times> 'd" where
  "SaveShardExpire S d shardId cid orderId =
     save_record S d (shardExpireDatastoreKey shardId)
       (ShardExpireInfo_MarshalCBOR (lib_cbg S)
          \<lparr>sei_ShardId = shardId, sei_Cid = cid, sei_OrderId = orderId\<rparr>)
       (\<lambda>d'. AddShardExpireIndex S d' shardId)"

definition GetShardExpire :: "('d, 'k) libs \<Rightarrow> 'd \<Rightarrow> u64 \<Rightarrow> ShardExpireInfo res" where
  "GetShardExpire S d shardId =
     load_record S d (shardExpireDatastoreKey shardId) (ShardExpireInfo_UnmarshalCBOR (lib_cbg S))
       ShardExpireInfo_zero"

section \<open>Orders\<close>

definition GetOrderIndex :: "('d, 'k) libs \<Rightarrow> 'd \<Rightarrow> OrderIndex res" where
  "GetOrderIndex S d =
     load_record S d ORDER_INDEX_KEY (OrderIndex_UnmarshalCBOR (lib_cbg S)) OrderIndex_zero"

definition UpdateOrderIndex :: "('d, 'k) libs \<Rightarrow> 'd \<Rightarrow> string \<Rightarrow> goerr option \<times> 'd" where
  "UpdateOrderIndex S d dataId =
     update_index S d ORDER_INDEX_KEY (OrderIndex_UnmarshalCBOR (lib_cbg S)) OrderIndex_zero
       (OrderIndex_MarshalCBOR (lib_cbg S))
       (\<lambda>index. index\<lparr>ox_Alls := ox_Alls index @ [\<lparr>ok_DataId = dataId\<rparr>]\<rparr>)"

definition SaveOrder :: "('d, 'k) libs \<Rightarrow> 'd \<Rightarrow> OrderInfo \<Rightarrow> goerr option \<times> 'd" where
  "SaveOrder S d order =
     save_record S d (orderDatastoreKey (oi_DataId order)) (OrderInfo_MarshalCBOR (lib_cbg S) order)
       (\<lambda>d'. UpdateOrderIndex S d' (oi_DataId order))"

definition GetOrder :: "('d, 'k) libs \<Rightarrow> 'd \<Rightarrow> string \<Rightarrow> OrderInfo res" where
  "GetOrder S d dataId =
     load_record S d (orderDatastoreKey dataId) (OrderInfo_UnmarshalCBOR (lib_cbg S)) OrderInfo_zero"

section \<open>Migrations\<close>

definition GetMigrateIndex :: "('d, 'k) libs \<Rightarrow> 'd \<Rightarrow> MigrateIndex res" where
  "GetMigrateIndex S d =
     load_record S d MIGRATE_INDEX_KEY (MigrateIndex_UnmarshalCBOR (lib_cbg S)) MigrateIndex_zero"

definition UpdateMigrateIndex :: "('d, 'k) libs \<Rightarrow> 'd \<Rightarrow> string \<Rightarrow> string \<Rightarrow> goerr option \<times> 'd" where
  "UpdateMigrateIndex S d dataId from =
     update_index S d MIGRATE_INDEX_KEY (MigrateIndex_UnmarshalCBOR (lib_cbg S)) MigrateIndex_zero
       (MigrateIndex_MarshalCBOR (lib_cbg S))
       (\<lambda>index. index\<lparr>mx_All := mx_All index @ [\<lparr>mk_DataId = dataId, mk_FromProvider = from\<rparr>]\<rparr>)"

definition SaveMigrate :: "('d, 'k) libs \<Rightarrow> 'd \<Rightarrow> MigrateInfo \<Rightarrow> goerr option \<times> 'd" where
  "SaveMigrate S d migrate =
     save_record S d (migrateDatastoreKey (mi_DataId migrate) (mi_FromProvider migrate))
       (MigrateInfo_MarshalCBOR (lib_cbg S) migrate)
       (\<lambda>d'. UpdateMigrateIndex S d' (mi_DataId migrate) (mi_FromProvider migrate))"

definition GetMigrate :: "('d, 'k) libs \<Rightarrow> 'd \<Rightarrow> string \<Rightarrow> string \<Rightarrow> MigrateInfo res" where
  "GetMigrate S d dataId from =
     load_record S d (migrateDatastoreKey dataId from) (MigrateInfo_UnmarshalCBOR (lib_cbg S))
       MigrateInfo_zero"

section \<open>Shards\<close>

definition GetShardIndex :: "('d, 'k) libs \<Rightarrow> 'd \<Rightarrow> ShardIndex res" where
  "GetShardIndex S d =
     load_record S d SHARD_INDEX_KEY (ShardIndex_UnmarshalCBOR (lib_cbg S)) ShardIndex_zero"

definition UpdateShardIndex :: "('d, 'k) libs \<Rightarrow> 'd \<Rightarrow> u64 \<Rightarrow> cid \<Rightarrow> goerr option \<times> 'd" where
  "UpdateShardIndex S d orderId c =
     update_index S d SHARD_INDEX_KEY (ShardIndex_UnmarshalCBOR (lib_cbg S)) ShardIndex_zero
       (ShardIndex_MarshalCBOR (lib_cbg S))
       (\<lambda>index. index\<lparr>sx_All := sx_All index @ [\<lparr>sk_OrderId = orderId, sk_Cid = c\<rparr>]\<rparr>)"

definition SaveShard :: "('d, 'k) libs \<Rightarrow> 'd \<Rightarrow> ShardInfo \<Rightarrow> goerr option \<times> 'd" where
  "SaveShard S d shard =
     save_record S d (orderShardDatastoreKey (lib_cid S) (si_OrderId shard) (si_Cid shard))
       (ShardInfo_MarshalCBOR (lib_cbg S) shard)
       (\<lambda>d'. UpdateShardIndex S d' (si_OrderId shard) (si_Cid shard))"

definition GetShard :: "('d, 'k) libs \<Rightarrow> 'd \<Rightarrow> u64 \<Rightarrow> cid \<Rightarrow> ShardInfo res" where
  "GetShard S d orderId c =
     load_record S d (orderShardDatastoreKey (lib_cid S) orderId c) (ShardInfo_UnmarshalCBOR (lib_cbg S))
       ShardInfo_zero"

section \<open>Retry times\<close>

text \<open>\<^verbatim>\<open>time.Duration\<close> is an int64 in nanoseconds, so the interval wraps; \<open>now\<close> is the clock in nanoseconds
  and the result whole seconds.  \<^verbatim>\<open>Unix()\<close> of a time is its second count rounded down.\<close>

fun retry_interval :: "nat \<Rightarrow> u64" where
  "retry_interval 0 = 1000000000"
| "retry_interval (Suc n) = 3 * retry_interval n"

definition GetRetryAt :: "int \<Rightarrow> u64 \<Rightarrow> int" where
  "GetRetryAt now tries = (now + to_int64 (retry_interval (unat tries))) div 1000000000"

end
