(* ===== verification/Store_Tables.thy ===== *)
theory Store_Tables
  imports State_Store
begin

text \<open>
  What the persisted state promises.  \<open>node_libs\<close> is the contract of the libraries below the node: the
  datastore (a map from keys to bytes, behind calls that may fail), the content identifiers and the
  CBOR library.  A \<open>kind\<close> collects what the node's code fixes for orders, shards, migrations and shard
  expirations: the key of a record, the key of the index and their codecs; the abstraction of a kind is
  a table (a map from identifiers to records) and an index (a list of identifiers).  The locale
  \<open>record_table\<close> proves once, for every kind, that saving updates the table and appends a new identifier
  to the index, that loading reads the table, that a failing call keeps the state sound and that a call
  touches no key of another kind; \<open>State_Store\<close>'s operations are its four instances.
\<close>

section \<open>The libraries' contract\<close>

text \<open>\<^verbatim>\<open>datastore.NewKey\<close> cleans its argument as a path, so it keeps apart only strings that are one path
  component.\<close>

definition flat :: "string \<Rightarrow> bool" where
  "flat s \<longleftrightarrow> s \<noteq> [] \<and> CHR ''/'' \<notin> set s \<and> s \<noteq> ''.'' \<and> s \<noteq> ''..''"

locale datastore =
  fixes D :: "('d, 'k) ds_ops" and contents :: "'d \<Rightarrow> 'k \<Rightarrow> bytes option"
  assumes new_key: "\<And>s t. flat s \<Longrightarrow> flat t \<Longrightarrow> ds_NewKey D s = ds_NewKey D t \<longleftrightarrow> s = t"
    and has: "\<And>d k b. ds_Has D d k = Inr b \<Longrightarrow> b \<longleftrightarrow> contents d k \<noteq> None"
    and get: "\<And>d k v. ds_Get D d k = Inr v \<Longrightarrow> contents d k = Some v"
    and put: "\<And>d k v d'. ds_Put D d k v = (None, d') \<Longrightarrow> contents d' k = Some v"
    and put_failed: "\<And>d k v e d'. ds_Put D d k v = (e, d') \<Longrightarrow> contents d' k \<in> {contents d k, Some v}"
    and put_frame: "\<And>d k v e d' k'. ds_Put D d k v = (e, d') \<Longrightarrow> k' \<noteq> k \<Longrightarrow> contents d' k' = contents d k'"

locale cid_lib =
  fixes I :: cid_ops
  assumes string_inj: "\<And>c c'. cid_String I c = cid_String I c' \<longleftrightarrow> c = c'"
    and decode_string: "\<And>c. c \<noteq> Undef \<Longrightarrow> cid_Decode I (cid_String I c) = Inr c"
    and string_flat: "\<And>c. CHR ''/'' \<notin> set (cid_String I c)"

locale node_libs =
  datastore "lib_ds S" contents + cbor_lib "lib_cbg S" + cid_lib "lib_cid S"
  for S :: "('d, 'k) libs" and contents :: "'d \<Rightarrow> 'k \<Rightarrow> bytes option"

section \<open>Keys never clash\<close>

text \<open>Everything the node stores: the records with their identifiers, and the indexes.\<close>

datatype entry =
  EOrder string | EShard u64 cid | EMigrate string string | EExpire u64
  | EOrderIndex | EShardIndex | EMigrateIndex | EExpireIndex

fun entry_key :: "cid_ops \<Rightarrow> entry \<Rightarrow> string" where
  "entry_key I (EOrder dataId) = orderDatastoreKey dataId"
| "entry_key I (EShard orderId c) = orderShardDatastoreKey I orderId c"
| "entry_key I (EMigrate dataId from) = migrateDatastoreKey dataId from"
| "entry_key I (EExpire shardId) = shardExpireDatastoreKey shardId"
| "entry_key I EOrderIndex = ORDER_INDEX_KEY"
| "entry_key I EShardIndex = SHARD_INDEX_KEY"
| "entry_key I EMigrateIndex = MIGRATE_INDEX_KEY"
| "entry_key I EExpireIndex = SHARD_EXPIRE_INDEX_KEY"

text \<open>Data ids are UUIDs: lower-case hexadecimal digits and dashes.  A provider address has no slash.\<close>

definition is_dataid :: "string \<Rightarrow> bool" where
  "is_dataid s \<longleftrightarrow> list_all (\<lambda>c. c \<in> set ''0123456789abcdef-'') s"

definition is_address :: "string \<Rightarrow> bool" where
  "is_address s \<longleftrightarrow> CHR ''/'' \<notin> set s"

fun entry_ok :: "entry \<Rightarrow> bool" where
  "entry_ok (EOrder dataId) \<longleftrightarrow> is_dataid dataId"
| "entry_ok (EMigrate dataId from) \<longleftrightarrow> is_dataid dataId \<and> is_address from"
| "entry_ok _ \<longleftrightarrow> True"

lemma is_dataid_not: "is_dataid s \<Longrightarrow> c \<notin> set ''0123456789abcdef-'' \<Longrightarrow> c \<notin> set s"
  unfolding is_dataid_def list_all_iff by blast

lemma is_dataid_letters:
  assumes "is_dataid s"
  shows "CHR ''/'' \<notin> set s" "CHR ''s'' \<notin> set s" "CHR ''i'' \<notin> set s" "CHR ''r'' \<notin> set s"
  by (rule is_dataid_not [OF assms], simp)+

lemma migrate_key_inj:
  assumes "is_dataid a" and "is_dataid a'"
  shows "migrateDatastoreKey a b = migrateDatastoreKey a' b' \<longleftrightarrow> a = a' \<and> b = b'"
  using append_sep_eq_iff [of "CHR ''r''" "a @ ''-f''" "a' @ ''-f''" "''om-'' @ b" "''om-'' @ b'"]
    is_dataid_letters [OF assms(1)] is_dataid_letters [OF assms(2)]
  by (simp add: migrateDatastoreKey_def)

lemma order_key_not:
  assumes "is_dataid a"
  shows "orderDatastoreKey a \<noteq> ORDER_INDEX_KEY" "orderDatastoreKey a \<noteq> orderShardDatastoreKey I n c"
  using is_dataid_letters [OF assms] by (auto simp: datastore_key_defs index_key_defs)

lemma shard_key_inj:
  assumes "\<And>c c'. cid_String I c = cid_String I c' \<longleftrightarrow> c = c'"
  shows "orderShardDatastoreKey I n c = orderShardDatastoreKey I n' c' \<longleftrightarrow> n = n' \<and> c = c'"
  using append_sep_eq_iff [of "CHR ''-''" "show_u64 n" "show_u64 n'" "''shard-'' @ cid_String I c"
    "''shard-'' @ cid_String I c'"] assms
  by (simp add: orderShardDatastoreKey_def)

lemma show_u64_hd: "show_u64 n \<noteq> CHR ''i'' # s"
  using show_nat_set [of "CHR ''i''" "unat n"] by (auto simp: show_u64_def is_digit_def)

lemma shard_key_not_index: "orderShardDatastoreKey I n c \<noteq> ORDER_INDEX_KEY"
proof
  assume "orderShardDatastoreKey I n c = ORDER_INDEX_KEY"
  then have eq: "show_u64 n @ ''-shard-'' @ cid_String I c = ''index''"
    by (simp add: orderShardDatastoreKey_def ORDER_INDEX_KEY_def)
  have "CHR ''-'' \<in> set (show_u64 n @ ''-shard-'' @ cid_String I c)" by simp
  then show False unfolding eq by simp
qed

lemma entry_key_flat:
  assumes "entry_ok e" and "\<And>c. CHR ''/'' \<notin> set (cid_String I c)"
  shows "flat (entry_key I e)"
  using assms is_dataid_letters
  by (cases e) (auto simp: flat_def datastore_key_defs index_key_defs is_address_def)

lemmas key_neq = order_key_not order_key_not [THEN not_sym] shard_key_not_index shard_key_not_index [THEN not_sym]

lemma entry_key_inj:
  assumes "cid_lib I" and "entry_ok e" and "entry_ok e'"
  shows "entry_key I e = entry_key I e' \<longleftrightarrow> e = e'"
  using assms(2,3) migrate_key_inj shard_key_inj [OF cid_lib.string_inj [OF assms(1)]]
  by (cases e; cases e') (simp_all add: key_neq, simp_all add: datastore_key_defs index_key_defs)

section \<open>Tables and indexes\<close>

definition cell :: "('d, 'k) libs \<Rightarrow> ('d \<Rightarrow> 'k \<Rightarrow> bytes option) \<Rightarrow> 'd \<Rightarrow> entry \<Rightarrow> bytes option" where
  "cell S contents d e = contents d (ds_NewKey (lib_ds S) (entry_key (lib_cid S) e))"

definition decoded :: "'a decoder \<Rightarrow> bytes option \<Rightarrow> 'a option" where
  "decoded dec ob =
     (case ob of None \<Rightarrow> None | Some b \<Rightarrow> (case dec b of Inl _ \<Rightarrow> None | Inr (x, _) \<Rightarrow> Some x))"

record ('q, 'r, 'i) kind =
  k_entry :: "'q \<Rightarrow> entry"
  k_index :: entry
  k_id :: "'r \<Rightarrow> 'q"
  k_enc :: "'r \<Rightarrow> bytes res"
  k_dec :: "'r decoder"
  k_zero :: 'r
  k_ok :: "'r \<Rightarrow> bool"
  k_norm :: "'r \<Rightarrow> 'r"
  k_ienc :: "'i \<Rightarrow> bytes res"
  k_idec :: "'i decoder"
  k_izero :: 'i
  k_ids :: "'i \<Rightarrow> 'q list"
  k_push :: "'i \<Rightarrow> 'q \<Rightarrow> 'i"

definition table ::
  "('d, 'k) libs \<Rightarrow> ('d \<Rightarrow> 'k \<Rightarrow> bytes option) \<Rightarrow> ('q, 'r, 'i) kind \<Rightarrow> 'd \<Rightarrow> 'q \<Rightarrow> 'r option" where
  "table S contents K d q =
     (if entry_ok (k_entry K q) then decoded (k_dec K) (cell S contents d (k_entry K q)) else None)"

definition index_value ::
  "('d, 'k) libs \<Rightarrow> ('d \<Rightarrow> 'k \<Rightarrow> bytes option) \<Rightarrow> ('q, 'r, 'i) kind \<Rightarrow> 'd \<Rightarrow> 'i" where
  "index_value S contents K d =
     (case decoded (k_idec K) (cell S contents d (k_index K)) of None \<Rightarrow> k_izero K | Some i \<Rightarrow> i)"

definition index_ids ::
  "('d, 'k) libs \<Rightarrow> ('d \<Rightarrow> 'k \<Rightarrow> bytes option) \<Rightarrow> ('q, 'r, 'i) kind \<Rightarrow> 'd \<Rightarrow> 'q list" where
  "index_ids S contents K d = k_ids K (index_value S contents K d)"

text \<open>A sound kind: every record and the index decode, a record lies under its own identifier, and the
  index lists identifiers of stored records, each once.\<close>

definition sound ::
  "('d, 'k) libs \<Rightarrow> ('d \<Rightarrow> 'k \<Rightarrow> bytes option) \<Rightarrow> ('q, 'r, 'i) kind \<Rightarrow> 'd \<Rightarrow> bool" where
  "sound S contents K d \<longleftrightarrow>
     (\<forall>q. entry_ok (k_entry K q) \<and> cell S contents d (k_entry K q) \<noteq> None
          \<longrightarrow> (\<exists>r. table S contents K d q = Some r \<and> k_id K r = q))
     \<and> (cell S contents d (k_index K) \<noteq> None \<longrightarrow> decoded (k_idec K) (cell S contents d (k_index K)) \<noteq> None)
     \<and> distinct (index_ids S contents K d)
     \<and> (\<forall>q \<in> set (index_ids S contents K d). table S contents K d q \<noteq> None)"

text \<open>The operations of a kind, and a read that reports nothing but the datastore's own errors.\<close>

definition save_kind :: "('d, 'k) libs \<Rightarrow> ('q, 'r, 'i) kind \<Rightarrow> 'd \<Rightarrow> 'r \<Rightarrow> goerr option \<times> 'd" where
  "save_kind S K d r =
     save_record S d (entry_key (lib_cid S) (k_entry K (k_id K r))) (k_enc K r)
       (\<lambda>d'. update_index S d' (entry_key (lib_cid S) (k_index K)) (k_idec K) (k_izero K) (k_ienc K)
               (\<lambda>i. k_push K i (k_id K r)))"

definition read_through :: "('d, 'k) libs \<Rightarrow> 'd \<Rightarrow> entry \<Rightarrow> 'a \<Rightarrow> 'a res" where
  "read_through S d e x =
     (case ds_Has (lib_ds S) d (ds_NewKey (lib_ds S) (entry_key (lib_cid S) e)) of
        Inl err \<Rightarrow> Inl err
      | Inr exists \<Rightarrow>
          if \<not> exists then Inr x
          else map_sum id (\<lambda>_. x) (ds_Get (lib_ds S) d (ds_NewKey (lib_ds S) (entry_key (lib_cid S) e))))"

definition same_but ::
  "('d, 'k) libs \<Rightarrow> ('d \<Rightarrow> 'k \<Rightarrow> bytes option) \<Rightarrow> entry set \<Rightarrow> 'd \<Rightarrow> 'd \<Rightarrow> bool" where
  "same_but S contents E d d' \<longleftrightarrow>
     (\<forall>e. entry_ok e \<and> e \<notin> E \<longrightarrow> cell S contents d' e = cell S contents d e)"

definition kind_entries :: "('q, 'r, 'i) kind \<Rightarrow> 'q \<Rightarrow> entry set" where
  "kind_entries K q = {k_entry K q, k_index K}"

lemma same_butD: "same_but S contents E d d' \<Longrightarrow> entry_ok e \<Longrightarrow> e \<notin> E \<Longrightarrow> cell S contents d' e = cell S contents d e"
  by (simp add: same_but_def)

lemma same_but_refl [simp]: "same_but S contents E d d"
  by (simp add: same_but_def)

lemma same_but_trans:
  "same_but S contents E d d1 \<Longrightarrow> same_but S contents F d1 d2 \<Longrightarrow> E \<union> F \<subseteq> G \<Longrightarrow> same_but S contents G d d2"
  unfolding same_but_def by (metis Un_iff subsetD)

lemma same_but_mono: "same_but S contents E d d' \<Longrightarrow> E \<subseteq> G \<Longrightarrow> same_but S contents G d d'"
  by (auto simp: same_but_def)

lemma decoded_reads: "reads dec b x \<Longrightarrow> decoded dec (Some b) = Some x"
  using readsD [of dec b x "[]"] by (simp add: decoded_def)

lemma decoded_None [simp]: "decoded dec None = None"
  by (simp add: decoded_def)

context node_libs
begin

abbreviation at :: "'d \<Rightarrow> entry \<Rightarrow> bytes option" where "at \<equiv> cell S contents"

lemma put_cells:
  assumes "ds_Put (lib_ds S) d (ds_NewKey (lib_ds S) (entry_key (lib_cid S) e)) v = (err, d')" and "entry_ok e"
  shows "same_but S contents {e} d d'" "at d' e \<in> {at d e, Some v}" "err = None \<Longrightarrow> at d' e = Some v"
proof -
  have "ds_NewKey (lib_ds S) (entry_key (lib_cid S) e') \<noteq> ds_NewKey (lib_ds S) (entry_key (lib_cid S) e)"
    if "entry_ok e'" "e' \<noteq> e" for e'
    using that assms(2) new_key [OF entry_key_flat entry_key_flat, OF _ string_flat _ string_flat]
      entry_key_inj [OF cid_lib_axioms] by simp
  then show "same_but S contents {e} d d'"
    using put_frame [OF assms(1)] by (auto simp: same_but_def cell_def)
  show "at d' e \<in> {at d e, Some v}" using put_failed [OF assms(1)] by (simp add: cell_def)
  show "err = None \<Longrightarrow> at d' e = Some v" using assms(1) put by (simp add: cell_def)
qed

lemma load_record_exact:
  assumes "at d e = None \<or> decoded dec (at d e) \<noteq> None"
  shows "load_record S d (entry_key (lib_cid S) e) dec zero
           = read_through S d e (case decoded dec (at d e) of None \<Rightarrow> zero | Some x \<Rightarrow> x)"
  using assms has [of d "ds_NewKey (lib_ds S) (entry_key (lib_cid S) e)"]
    get [of d "ds_NewKey (lib_ds S) (entry_key (lib_cid S) e)"]
  by (auto simp: load_record_def read_through_def cell_def decoded_def split: sum.splits option.splits prod.splits)

lemma load_record_Inr:
  assumes "load_record S d (entry_key (lib_cid S) e) dec zero = Inr x"
  shows "x = (case decoded dec (at d e) of None \<Rightarrow> zero | Some x \<Rightarrow> x)"
  using assms has [of d "ds_NewKey (lib_ds S) (entry_key (lib_cid S) e)"]
    get [of d "ds_NewKey (lib_ds S) (entry_key (lib_cid S) e)"]
  by (auto simp: load_record_def cell_def decoded_def split: sum.splits option.splits prod.splits if_splits)

lemma update_index_cases:
  assumes "update_index S d (entry_key (lib_cid S) e) dec zero enc change = (err, d')" and "entry_ok e"
  obtains (kept) "err \<noteq> None" "same_but S contents {} d d'"
    | (changed) b where "enc (change (case decoded dec (at d e) of None \<Rightarrow> zero | Some x \<Rightarrow> x)) = Inr b"
        "at d' e = Some b" "same_but S contents {e} d d'"
proof (cases "load_record S d (entry_key (lib_cid S) e) dec zero")
  case (Inl a)
  with assms kept show ?thesis by (auto simp: update_index_def)
next
  case (Inr i)
  note i = load_record_Inr [OF Inr]
  show ?thesis
  proof (cases "enc (change i)")
    case Inl
    with assms Inr kept show ?thesis by (auto simp: update_index_def)
  next
    case b: (Inr b)
    then have put: "ds_Put (lib_ds S) d (ds_NewKey (lib_ds S) (entry_key (lib_cid S) e)) b = (err, d')"
      using assms Inr by (simp add: update_index_def)
    note p = put_cells [OF put assms(2)]
    show ?thesis
    proof (cases "at d' e = Some b")
      case True
      with b i p(1) changed show ?thesis by simp
    next
      case False
      with p have "at d' e = at d e" "err \<noteq> None" by auto
      with p(1) have "same_but S contents {} d d'" by (force simp: same_but_def)
      with \<open>err \<noteq> None\<close> kept show ?thesis by simp
    qed
  qed
qed

lemma save_record_cases:
  assumes "save_record S d (entry_key (lib_cid S) e) m add = (err, d')" and "entry_ok e"
  obtains (kept) "err \<noteq> None" "same_but S contents {} d d'"
    | (failed) b where "err \<noteq> None" "m = Inr b" "at d' e = Some b" "same_but S contents {e} d d'"
    | (updated) b where "err = None" "m = Inr b" "at d e \<noteq> None" "at d' e = Some b" "same_but S contents {e} d d'"
    | (added) b d1 where "m = Inr b" "at d e = None" "at d1 e = Some b" "same_but S contents {e} d d1"
        "add d1 = (err, d')"
proof -
  let ?k = "ds_NewKey (lib_ds S) (entry_key (lib_cid S) e)"
  consider a where "ds_Has (lib_ds S) d ?k = Inl a \<or> m = Inl a"
    | ex b where "ds_Has (lib_ds S) d ?k = Inr ex" "m = Inr b"
    by (cases "ds_Has (lib_ds S) d ?k"; cases m) auto
  then show ?thesis
  proof cases
    case 1
    with assms(1) have "err \<noteq> None" "d' = d" by (auto simp: save_record_def split: sum.splits)
    with kept show ?thesis by simp
  next
    case 2
    obtain e1 d1 where put: "ds_Put (lib_ds S) d ?k b = (e1, d1)" by (cases "ds_Put (lib_ds S) d ?k b")
    note p = put_cells [OF put assms(2)]
    have ex: "ex \<longleftrightarrow> at d e \<noteq> None" using has [OF 2(1)] by (simp add: cell_def)
    show ?thesis
    proof (cases e1)
      case None
      then show ?thesis
        using assms(1) 2 put ex p updated added by (cases ex) (auto simp: save_record_def)
    next
      case Some
      then have r: "err = e1" "d' = d1" "err \<noteq> None" using assms(1) 2 put by (auto simp: save_record_def)
      show ?thesis
      proof (cases "at d' e = Some b")
        case True
        with r 2 p failed show ?thesis by simp
      next
        case False
        with p r have "same_but S contents {} d d'" by (force simp: same_but_def)
        with r kept show ?thesis by simp
      qed
    qed
  qed
qed

end

section \<open>One kind of record\<close>

locale record_table = node_libs S contents
  for S :: "('d, 'k) libs" and contents :: "'d \<Rightarrow> 'k \<Rightarrow> bytes option" +
  fixes K :: "('q, 'r, 'i) kind"
  assumes entry_inj: "\<And>q q'. k_entry K q = k_entry K q' \<longleftrightarrow> q = q'"
    and entry_not_index: "\<And>q. k_entry K q \<noteq> k_index K"
    and index_ok: "entry_ok (k_index K)"
    and roundtrip: "\<And>r b. k_enc K r = Inr b \<Longrightarrow> k_ok K r \<Longrightarrow> reads (k_dec K) b (k_norm K r)"
    and index_roundtrip: "\<And>i b. k_ienc K i = Inr b \<Longrightarrow> reads (k_idec K) b i"
    and norm_id: "\<And>r. k_id K (k_norm K r) = k_id K r"
    and ids_zero: "k_ids K (k_izero K) = []"
    and ids_push: "\<And>i q. k_ids K (k_push K i q) = k_ids K i @ [q]"
begin

abbreviation tbl :: "'d \<Rightarrow> 'q \<Rightarrow> 'r option" where "tbl \<equiv> table S contents K"

abbreviation ids :: "'d \<Rightarrow> 'q list" where "ids \<equiv> index_ids S contents K"

lemma index_stable: "same_but S contents E d d' \<Longrightarrow> k_index K \<notin> E \<Longrightarrow> ids d' = ids d"
  by (simp add: index_ids_def index_value_def same_butD index_ok)

lemma tbl_stable: "same_but S contents E d d' \<Longrightarrow> k_entry K q \<notin> E \<Longrightarrow> tbl d' q = tbl d q"
  by (simp add: table_def same_butD)

lemma sound_stable:
  assumes "same_but S contents E d d'" and "k_index K \<notin> E" and "\<And>q. k_entry K q \<notin> E" and "sound S contents K d"
  shows "sound S contents K d'"
  using assms(4) same_butD [OF assms(1)] assms(2,3) index_ok index_stable [OF assms(1,2)] tbl_stable [OF assms(1,3)]
  by (simp add: sound_def) metis

lemma not_stored: "sound S contents K d \<Longrightarrow> entry_ok (k_entry K q) \<Longrightarrow> tbl d q = None \<longleftrightarrow> at d (k_entry K q) = None"
  by (auto simp: sound_def table_def)

lemma stored: "k_enc K r = Inr b \<Longrightarrow> k_ok K r \<Longrightarrow> entry_ok (k_entry K q) \<Longrightarrow> at d' (k_entry K q) = Some b
    \<Longrightarrow> tbl d' q = Some (k_norm K r)"
  by (simp add: table_def decoded_reads [OF roundtrip])

lemma ids_changed: "k_ienc K i = Inr b \<Longrightarrow> at d (k_index K) = Some b \<Longrightarrow> ids d = k_ids K i"
  by (simp add: index_ids_def index_value_def decoded_reads [OF index_roundtrip])

text \<open>Writing the record alone keeps a sound state sound.\<close>

lemma record_written:
  assumes "sound S contents K d" and "k_enc K r = Inr b" and "k_ok K r" and ok: "entry_ok (k_entry K (k_id K r))"
    and "at d' (k_entry K (k_id K r)) = Some b" and same: "same_but S contents {k_entry K (k_id K r)} d d'"
  shows "sound S contents K d'" and "ids d' = ids d"
    and "tbl d' = (tbl d)(k_id K r \<mapsto> k_norm K r)"
proof -
  show t: "tbl d' = (tbl d)(k_id K r \<mapsto> k_norm K r)"
    using stored [OF assms(2,3) ok assms(5)] tbl_stable [OF same] by (auto simp: fun_eq_iff entry_inj)
  show i: "ids d' = ids d"
    using index_stable [OF same] entry_not_index by (metis singletonD)
  have "at d' (k_index K) = at d (k_index K)"
    using same_butD [OF same index_ok] entry_not_index by (metis singletonD)
  moreover have "at d' (k_entry K q) = at d (k_entry K q)" if "entry_ok (k_entry K q)" "q \<noteq> k_id K r" for q
    using same_butD [OF same that(1)] that(2) by (simp add: entry_inj)
  ultimately show "sound S contents K d'"
    using assms(1) norm_id by (auto simp: sound_def t i)
qed

lemma index_written:
  assumes "sound S contents K d" and "k_ienc K i = Inr b" and "at d' (k_index K) = Some b"
    and same: "same_but S contents {k_index K} d d'" and "distinct (k_ids K i)"
    and "\<And>q. q \<in> set (k_ids K i) \<Longrightarrow> tbl d q \<noteq> None"
  shows "sound S contents K d'" and "ids d' = k_ids K i" and "tbl d' = tbl d"
proof -
  show i: "ids d' = k_ids K i" by (rule ids_changed [OF assms(2,3)])
  show t: "tbl d' = tbl d" using tbl_stable [OF same] entry_not_index by (auto simp: fun_eq_iff)
  have "at d' (k_entry K q) = at d (k_entry K q)" if "entry_ok (k_entry K q)" for q
    using same_butD [OF same that] entry_not_index by simp
  then show "sound S contents K d'"
    using assms(1,3,5,6) decoded_reads [OF index_roundtrip [OF assms(2)]] by (auto simp: sound_def t i)
qed

text \<open>Changing the index by a function on its identifiers.\<close>

lemma update_index_sound:
  assumes "update_index S d (entry_key (lib_cid S) (k_index K)) (k_idec K) (k_izero K) (k_ienc K) change = (err, d')"
    and "sound S contents K d" and ids: "\<And>i. k_ids K (change i) = f (k_ids K i)"
    and "distinct (f (ids d))" and "\<And>q. q \<in> set (f (ids d)) \<Longrightarrow> tbl d q \<noteq> None"
  shows "sound S contents K d' \<and> tbl d' = tbl d \<and> ids d' \<in> {ids d, f (ids d)}
    \<and> (err = None \<longrightarrow> ids d' = f (ids d)) \<and> same_but S contents {k_index K} d d'"
  using assms(1) index_ok
proof (cases rule: update_index_cases)
  case kept
  then have "same_but S contents {k_index K} d d'" by (auto intro: same_but_mono)
  with kept show ?thesis
    using sound_stable assms(2) index_stable tbl_stable by (auto simp: fun_eq_iff)
next
  case (changed b)
  have "k_ids K (change (index_value S contents K d)) = f (ids d)" by (simp add: ids index_ids_def)
  with changed index_written [OF assms(2) _ changed(2,3)] assms(4,5) index_value_def [of S contents K d]
  show ?thesis by (metis insertCI)
qed

lemma push_sound:
  assumes "update_index S d (entry_key (lib_cid S) (k_index K)) (k_idec K) (k_izero K) (k_ienc K)
             (\<lambda>i. k_push K i q) = (err, d')"
    and "sound S contents K d" and "q \<notin> set (ids d)" and "tbl d q \<noteq> None"
  shows "sound S contents K d' \<and> tbl d' = tbl d \<and> ids d' \<in> {ids d, ids d @ [q]}
    \<and> (err = None \<longrightarrow> ids d' = ids d @ [q]) \<and> same_but S contents {k_index K} d d'"
proof -
  have "distinct (ids d @ [q])" "\<And>p. p \<in> set (ids d @ [q]) \<Longrightarrow> tbl d p \<noteq> None"
    using assms(2-4) by (auto simp: sound_def)
  then show ?thesis
    by (rule update_index_sound [where f = "\<lambda>l. l @ [q]", OF assms(1,2) ids_push])
qed

text \<open>Saving: the refinement of the table and the index on success, and what a failure leaves.\<close>

lemma save_kind_any:
  assumes "save_kind S K d r = (err, d')" and "sound S contents K d" and "k_ok K r"
    and ok: "entry_ok (k_entry K (k_id K r))"
  shows "sound S contents K d' \<and> same_but S contents (kind_entries K (k_id K r)) d d'
    \<and> (\<forall>q. q \<noteq> k_id K r \<longrightarrow> tbl d' q = tbl d q)
    \<and> tbl d' (k_id K r) \<in> {tbl d (k_id K r), Some (k_norm K r)}
    \<and> ids d' \<in> {ids d, ids d @ [k_id K r]}
    \<and> (err = None \<longrightarrow> tbl d' (k_id K r) = Some (k_norm K r)
         \<and> ids d' = (if tbl d (k_id K r) = None then ids d @ [k_id K r] else ids d))"
  using assms(1) [unfolded save_kind_def] ok
proof (cases rule: save_record_cases)
  case kept
  moreover from kept have "same_but S contents (kind_entries K (k_id K r)) d d'" by (auto intro: same_but_mono)
  ultimately show ?thesis
    using sound_stable assms(2) index_stable tbl_stable by auto
next
  case (failed b)
  moreover from failed have "same_but S contents (kind_entries K (k_id K r)) d d'"
    by (auto simp: kind_entries_def intro: same_but_mono)
  ultimately show ?thesis using record_written [OF assms(2) failed(2) assms(3) ok failed(3,4)] by simp
next
  case (updated b)
  moreover from updated have "same_but S contents (kind_entries K (k_id K r)) d d'"
    by (auto simp: kind_entries_def intro: same_but_mono)
  moreover have "tbl d (k_id K r) \<noteq> None" using updated not_stored [OF assms(2) ok] by simp
  ultimately show ?thesis using record_written [OF assms(2) updated(2) assms(3) ok updated(4,5)] by simp
next
  case (added b d1)
  note w = record_written [OF assms(2) added(1) assms(3) ok added(3,4)]
  have new: "tbl d (k_id K r) = None" using added not_stored [OF assms(2) ok] by simp
  then have "k_id K r \<notin> set (ids d)" using assms(2) by (auto simp: sound_def)
  then have fresh: "k_id K r \<notin> set (ids d1)" "tbl d1 (k_id K r) \<noteq> None" by (simp_all add: w)
  note p = push_sound [OF added(5) w(1) fresh]
  have "same_but S contents (kind_entries K (k_id K r)) d d'"
    by (rule same_but_trans [OF added(4)]) (use p in \<open>auto simp: kind_entries_def\<close>)
  with p w new show ?thesis by auto
qed

lemmas save_kind_sound = save_kind_any [THEN conjunct1]

lemmas save_kind_frame = save_kind_any [THEN conjunct2, THEN conjunct1]

lemma save_kind_ok:
  assumes "save_kind S K d r = (None, d')" and "sound S contents K d" and "k_ok K r"
    and "entry_ok (k_entry K (k_id K r))"
  shows "tbl d' = (tbl d)(k_id K r \<mapsto> k_norm K r)"
    and "ids d' = (if tbl d (k_id K r) = None then ids d @ [k_id K r] else ids d)"
  using save_kind_any [OF assms] by (auto simp: fun_eq_iff)

text \<open>Loading reads the table, or passes on an error of the datastore.\<close>

lemma load_kind:
  assumes "sound S contents K d" and "entry_ok (k_entry K q)"
  shows "load_record S d (entry_key (lib_cid S) (k_entry K q)) (k_dec K) (k_zero K)
           = read_through S d (k_entry K q) (case tbl d q of None \<Rightarrow> k_zero K | Some r \<Rightarrow> r)"
proof -
  have "at d (k_entry K q) = None \<or> decoded (k_dec K) (at d (k_entry K q)) \<noteq> None"
    using assms by (auto simp: sound_def table_def)
  from load_record_exact [OF this] assms(2) show ?thesis by (simp add: table_def)
qed

lemma load_index:
  assumes "sound S contents K d"
  shows "load_record S d (entry_key (lib_cid S) (k_index K)) (k_idec K) (k_izero K)
           = read_through S d (k_index K) (index_value S contents K d)"
proof -
  have "at d (k_index K) = None \<or> decoded (k_idec K) (at d (k_index K)) \<noteq> None"
    using assms by (auto simp: sound_def)
  from load_record_exact [OF this] show ?thesis by (simp add: index_value_def)
qed

end

end
