(* ===== verification/Store_Mem.thy ===== *)
theory Store_Mem
  imports Store_Tables
begin

text \<open>
  A model of the libraries below the persisted state, on which their contracts are interpreted and on
  which the witnesses run: a datastore in memory whose calls do not fail (the keys are paths, as
  \<^verbatim>\<open>datastore.NewKey\<close> makes them), content identifiers printed in base 16 with the multibase prefix, and
  the CBOR of RFC 8949.
\<close>

section \<open>Base 16\<close>

definition hex_digit :: "nat \<Rightarrow> char" where
  "hex_digit n = ''0123456789abcdef'' ! n"

definition hex_byte :: "char \<Rightarrow> string" where
  "hex_byte c = [hex_digit (of_char c div 16), hex_digit (of_char c mod 16)]"

fun hex_pos :: "string \<Rightarrow> char \<Rightarrow> nat option" where
  "hex_pos [] c = None"
| "hex_pos (x # xs) c = (if x = c then Some 0 else map_option Suc (hex_pos xs c))"

definition unhex_digit :: "char \<Rightarrow> nat option" where
  "unhex_digit c = hex_pos ''0123456789abcdef'' c"

fun unhex :: "string \<Rightarrow> string option" where
  "unhex [] = Some []"
| "unhex [x] = None"
| "unhex (x # y # s) =
     (case (unhex_digit x, unhex_digit y, unhex s) of
        (Some h, Some l, Some t) \<Rightarrow> Some (char_of (16 * h + l) # t)
      | _ \<Rightarrow> None)"

definition hex_cid :: cid_ops where
  "hex_cid = \<lparr>cid_String = (\<lambda>c. CHR ''f'' # concat (map hex_byte c)),
     cid_Decode = (\<lambda>s. case s of
        [] \<Rightarrow> Inl (ErrText ''cid too short'')
      | f # h \<Rightarrow> if f \<noteq> CHR ''f'' then Inl (ErrText ''unknown multibase'')
                 else (case unhex h of
                         Some (c # cs) \<Rightarrow> Inr (c # cs)
                       | _ \<Rightarrow> Inl (ErrText ''invalid cid'')))\<rparr>"

lemma below_16: "(n::nat) < 16 \<Longrightarrow> n \<in> {0, 1, 2, 3, 4, 5, 6, 7, 8, 9, 10, 11, 12, 13, 14, 15}"
  by (simp; presburger)

lemma unhex_digit_hex_digit: "n < 16 \<Longrightarrow> unhex_digit (hex_digit n) = Some n"
  using below_16 [of n] by (auto simp: unhex_digit_def hex_digit_def)

lemma hex_digit_flat: "n < 16 \<Longrightarrow> hex_digit n \<noteq> CHR ''/''"
  using below_16 [of n] by (auto simp: hex_digit_def)

lemma unhex_hex: "unhex (concat (map hex_byte c)) = Some c"
proof (induction c)
  case (Cons x c)
  have "(of_char x :: nat) div 16 < 16" by (rule less_mult_imp_div_less) simp
  then have "unhex_digit (hex_digit (of_char x div 16)) = Some (of_char x div 16)"
    "unhex_digit (hex_digit (of_char x mod 16)) = Some (of_char x mod 16)"
    by (simp_all add: unhex_digit_hex_digit)
  with Cons show ?case by (simp add: hex_byte_def)
qed simp

interpretation hex: cid_lib hex_cid
proof
  show "cid_String hex_cid c = cid_String hex_cid c' \<longleftrightarrow> c = c'" for c c'
    using unhex_hex by (metis hex_cid_def cid_ops.select_convs(1) list.inject option.inject)
  show "c \<noteq> Undef \<Longrightarrow> cid_Decode hex_cid (cid_String hex_cid c) = Inr c" for c
    using unhex_hex [of c] by (cases c) (auto simp: hex_cid_def Undef_def)
  have "CHR ''/'' \<notin> set (hex_byte x)" for x
    using less_mult_imp_div_less [of "of_char x" 16 16] hex_digit_flat [of "of_char x div 16"] hex_digit_flat [of "of_char x mod 16"] by (force simp: hex_byte_def)
  then show "CHR ''/'' \<notin> set (cid_String hex_cid c)" for c by (simp add: hex_cid_def)
qed

section \<open>A datastore in memory\<close>

type_synonym mem = "string \<Rightarrow> bytes option"

definition mem_ds :: "(mem, string) ds_ops" where
  "mem_ds = \<lparr>ds_NewKey = (\<lambda>s. CHR ''/'' # s), ds_Has = (\<lambda>d k. Inr (d k \<noteq> None)),
     ds_Get = (\<lambda>d k. case d k of None \<Rightarrow> Inl (ErrText ''datastore: key not found'') | Some v \<Rightarrow> Inr v),
     ds_Put = (\<lambda>d k v. (None, d(k \<mapsto> v)))\<rparr>"

definition mem_libs :: "(mem, string) libs" where
  "mem_libs = \<lparr>lib_ds = mem_ds, lib_cbg = rfc_cbor, lib_cid = hex_cid\<rparr>"

definition mem_contents :: "mem \<Rightarrow> string \<Rightarrow> bytes option" where
  "mem_contents d k = d k"

interpretation mem_store: datastore mem_ds mem_contents
  by unfold_locales (auto simp: mem_ds_def mem_contents_def split: option.splits)

interpretation mem: node_libs mem_libs mem_contents
  using mem_store.datastore_axioms hex.cid_lib_axioms rfc.cbor_lib_axioms
  by (simp add: node_libs_def mem_libs_def)

lemma mem_empty [simp]: "cell mem_libs mem_contents Map.empty e = None"
  by (simp add: cell_def mem_contents_def)

end
