(* ===== verification/Node_State.thy ===== *)
theory Node_State
  imports Store_Mem
begin

text \<open>
  The four kinds of persisted records as instances of \<open>record_table\<close>, the step relation of the operations
  of \<^verbatim>\<open>src/utils/state_utils.go\<close>, and the properties of the persisted state: every save refines the abstract
  table and index, every read returns the table's record or the datastore's own error, the state stays
  sound through any sequence of calls, failing ones included, and no call touches another record.
  An in-memory datastore, base-16 content identifiers and the CBOR of RFC 8949 are a model of the
  libraries on which the interfaces are interpreted.
\<close>

section \<open>The kinds\<close>

definition order_kind :: "('d, 'k) libs \<Rightarrow> (string, OrderInfo, OrderIndex) kind" where
  "order_kind S =
     \<lparr>k_entry = EOrder, k_index = EOrderIndex, k_id = oi_DataId,
      k_enc = OrderInfo_MarshalCBOR (lib_cbg S), k_dec = OrderInfo_UnmarshalCBOR (lib_cbg S),
      k_zero = OrderInfo_zero, k_ok = OrderInfo_ok, k_norm = OrderInfo_norm,
      k_ienc = OrderIndex_MarshalCBOR (lib_cbg S), k_idec = OrderIndex_UnmarshalCBOR (lib_cbg S),
      k_izero = OrderIndex_zero, k_ids = (\<lambda>i. map ok_DataId (ox_Alls i)),
      k_push = (\<lambda>i q. i\<lparr>ox_Alls := ox_Alls i @ [\<lparr>ok_DataId = q\<rparr>]\<rparr>)\<rparr>"

definition shard_kind :: "('d, 'k) libs \<Rightarrow> (u64 \<times> cid, ShardInfo, ShardIndex) kind" where
  "shard_kind S =
     \<lparr>k_entry = (\<lambda>(orderId, c). EShard orderId c), k_index = EShardIndex,
      k_id = (\<lambda>r. (si_OrderId r, si_Cid r)),
      k_enc = ShardInfo_MarshalCBOR (lib_cbg S), k_dec = ShardInfo_UnmarshalCBOR (lib_cbg S),
      k_zero = ShardInfo_zero, k_ok = ShardInfo_ok, k_norm = (\<lambda>r. r),
      k_ienc = ShardIndex_MarshalCBOR (lib_cbg S), k_idec = ShardIndex_UnmarshalCBOR (lib_cbg S),
      k_izero = ShardIndex_zero, k_ids = (\<lambda>i. map (\<lambda>k. (sk_OrderId k, sk_Cid k)) (sx_All i)),
      k_push = (\<lambda>i (orderId, c). i\<lparr>sx_All := sx_All i @ [\<lparr>sk_OrderId = orderId, sk_Cid = c\<rparr>]\<rparr>)\<rparr>"

definition migrate_kind :: "('d, 'k) libs \<Rightarrow> (string \<times> string, MigrateInfo, MigrateIndex) kind" where
  "migrate_kind S =
     \<lparr>k_entry = (\<lambda>(dataId, from). EMigrate dataId from), k_index = EMigrateIndex,
      k_id = (\<lambda>r. (mi_DataId r, mi_FromProvider r)),
      k_enc = MigrateInfo_MarshalCBOR (lib_cbg S), k_dec = MigrateInfo_UnmarshalCBOR (lib_cbg S),
      k_zero = MigrateInfo_zero, k_ok = MigrateInfo_ok, k_norm = (\<lambda>r. r),
      k_ienc = MigrateIndex_MarshalCBOR (lib_cbg S), k_idec = MigrateIndex_UnmarshalCBOR (lib_cbg S),
      k_izero = MigrateIndex_zero, k_ids = (\<lambda>i. map (\<lambda>k. (mk_DataId k, mk_FromProvider k)) (mx_All i)),
      k_push = (\<lambda>i (dataId, from). i\<lparr>mx_All := mx_All i @ [\<lparr>mk_DataId = dataId, mk_FromProvider = from\<rparr>]\<rparr>)\<rparr>"

definition expire_kind :: "('d, 'k) libs \<Rightarrow> (u64, ShardExpireInfo, ShardExpireIndex) kind" where
  "expire_kind S =
     \<lparr>k_entry = EExpire, k_index = EExpireIndex, k_id = sei_ShardId,
      k_enc = ShardExpireInfo_MarshalCBOR (lib_cbg S), k_dec = ShardExpireInfo_UnmarshalCBOR (lib_cbg S),
      k_zero = ShardExpireInfo_zero, k_ok = (\<lambda>_. True), k_norm = (\<lambda>r. r),
      k_ienc = ShardExpireIndex_MarshalCBOR (lib_cbg S), k_idec = ShardExpireIndex_UnmarshalCBOR (lib_cbg S),
      k_izero = ShardExpireIndex_zero, k_ids = (\<lambda>i. map sek_ShardId (sex_Alls i)),
      k_push = (\<lambda>i q. i\<lparr>sex_Alls := sex_Alls i @ [\<lparr>sek_ShardId = q\<rparr>]\<rparr>)\<rparr>"

lemmas kind_defs = order_kind_def shard_kind_def migrate_kind_def expire_kind_def

text \<open>The fields of the kinds, without unfolding a kind that stands elsewhere in a goal.\<close>

lemma kind_fields [simp]:
  "k_entry (order_kind S) = EOrder" "k_index (order_kind S) = EOrderIndex"
  "k_id (order_kind S) = oi_DataId" "k_ok (order_kind S) = OrderInfo_ok"
  "k_norm (order_kind S) = OrderInfo_norm" "k_zero (order_kind S) = OrderInfo_zero"
  "k_entry (shard_kind S) = (\<lambda>(orderId, c). EShard orderId c)" "k_index (shard_kind S) = EShardIndex"
  "k_id (shard_kind S) = (\<lambda>r. (si_OrderId r, si_Cid r))" "k_ok (shard_kind S) = ShardInfo_ok"
  "k_norm (shard_kind S) = (\<lambda>r. r)" "k_zero (shard_kind S) = ShardInfo_zero"
  "k_entry (migrate_kind S) = (\<lambda>(dataId, from). EMigrate dataId from)" "k_index (migrate_kind S) = EMigrateIndex"
  "k_id (migrate_kind S) = (\<lambda>r. (mi_DataId r, mi_FromProvider r))" "k_ok (migrate_kind S) = MigrateInfo_ok"
  "k_norm (migrate_kind S) = (\<lambda>r. r)" "k_zero (migrate_kind S) = MigrateInfo_zero"
  "k_entry (expire_kind S) = EExpire" "k_index (expire_kind S) = EExpireIndex"
  "k_id (expire_kind S) = sei_ShardId" "k_ok (expire_kind S) = (\<lambda>_. True)"
  "k_norm (expire_kind S) = (\<lambda>r. r)" "k_zero (expire_kind S) = ShardExpireInfo_zero"
  by (simp_all add: kind_defs)

sublocale node_libs \<subseteq> orders: record_table S contents "order_kind S"
  by unfold_locales
    (auto simp: order_kind_def OrderInfo_norm_def OrderIndex_zero_def
      intro: OrderInfo_roundtrip [unfolded OrderInfo_norm_def] OrderIndex_roundtrip)

sublocale node_libs \<subseteq> shards: record_table S contents "shard_kind S"
  by unfold_locales
    (auto simp: shard_kind_def ShardIndex_zero_def intro: ShardInfo_roundtrip ShardIndex_roundtrip)

sublocale node_libs \<subseteq> migrates: record_table S contents "migrate_kind S"
  by unfold_locales
    (auto simp: migrate_kind_def MigrateIndex_zero_def intro: MigrateInfo_roundtrip MigrateIndex_roundtrip)

sublocale node_libs \<subseteq> expires: record_table S contents "expire_kind S"
  by unfold_locales
    (auto simp: expire_kind_def ShardExpireIndex_zero_def intro: ShardExpireInfo_roundtrip ShardExpireIndex_roundtrip)

section \<open>The operations are those of their kind\<close>

lemma SaveOrder_kind: "SaveOrder S d order = save_kind S (order_kind S) d order"
  by (simp add: SaveOrder_def save_kind_def UpdateOrderIndex_def order_kind_def)

lemma GetOrder_kind: "GetOrder S d dataId = load_record S d (entry_key (lib_cid S) (k_entry (order_kind S) dataId))
    (k_dec (order_kind S)) (k_zero (order_kind S))"
  by (simp add: GetOrder_def order_kind_def)

lemma SaveShard_kind: "SaveShard S d shard = save_kind S (shard_kind S) d shard"
  by (simp add: SaveShard_def save_kind_def UpdateShardIndex_def shard_kind_def)

lemma GetShard_kind: "GetShard S d orderId c = load_record S d (entry_key (lib_cid S) (k_entry (shard_kind S) (orderId, c)))
    (k_dec (shard_kind S)) (k_zero (shard_kind S))"
  by (simp add: GetShard_def shard_kind_def)

lemma SaveMigrate_kind: "SaveMigrate S d migrate = save_kind S (migrate_kind S) d migrate"
  by (simp add: SaveMigrate_def save_kind_def UpdateMigrateIndex_def migrate_kind_def)

lemma GetMigrate_kind: "GetMigrate S d dataId from =
    load_record S d (entry_key (lib_cid S) (k_entry (migrate_kind S) (dataId, from)))
    (k_dec (migrate_kind S)) (k_zero (migrate_kind S))"
  by (simp add: GetMigrate_def migrate_kind_def)

lemma SaveShardExpire_kind: "SaveShardExpire S d shardId c orderId =
    save_kind S (expire_kind S) d \<lparr>sei_ShardId = shardId, sei_Cid = c, sei_OrderId = orderId\<rparr>"
  by (simp add: SaveShardExpire_def save_kind_def AddShardExpireIndex_def expire_kind_def)

lemma GetShardExpire_kind: "GetShardExpire S d shardId =
    load_record S d (entry_key (lib_cid S) (k_entry (expire_kind S) shardId))
    (k_dec (expire_kind S)) (k_zero (expire_kind S))"
  by (simp add: GetShardExpire_def expire_kind_def)

lemma index_kinds:
  "GetOrderIndex S d = load_record S d (entry_key (lib_cid S) (k_index (order_kind S)))
     (k_idec (order_kind S)) (k_izero (order_kind S))"
  "GetShardIndex S d = load_record S d (entry_key (lib_cid S) (k_index (shard_kind S)))
     (k_idec (shard_kind S)) (k_izero (shard_kind S))"
  "GetMigrateIndex S d = load_record S d (entry_key (lib_cid S) (k_index (migrate_kind S)))
     (k_idec (migrate_kind S)) (k_izero (migrate_kind S))"
  "GetShardExpireIndex S d = load_record S d (entry_key (lib_cid S) (k_index (expire_kind S)))
     (k_idec (expire_kind S)) (k_izero (expire_kind S))"
  by (simp_all add: kind_defs GetOrderIndex_def GetShardIndex_def GetMigrateIndex_def GetShardExpireIndex_def)

lemma remove_expire_ids: "map sek_ShardId (remove_expire_key shardId ks) = remove1 shardId (map sek_ShardId ks)"
  by (induction ks) auto

lemma RemoveShardExpireIndex_kind: "RemoveShardExpireIndex S d shardId =
    update_index S d (entry_key (lib_cid S) (k_index (expire_kind S))) (k_idec (expire_kind S))
      (k_izero (expire_kind S)) (k_ienc (expire_kind S))
      (\<lambda>index. index\<lparr>sex_Alls := remove_expire_key shardId (sex_Alls index)\<rparr>)"
  by (simp add: RemoveShardExpireIndex_def expire_kind_def)

section \<open>All kinds together\<close>

definition store_sound :: "('d, 'k) libs \<Rightarrow> ('d \<Rightarrow> 'k \<Rightarrow> bytes option) \<Rightarrow> 'd \<Rightarrow> bool" where
  "store_sound S contents d \<longleftrightarrow>
     sound S contents (order_kind S) d \<and> sound S contents (shard_kind S) d
     \<and> sound S contents (migrate_kind S) d \<and> sound S contents (expire_kind S) d"

text \<open>One call of the node on its persisted state, whatever it returns.\<close>

inductive store_step :: "('d, 'k) libs \<Rightarrow> 'd \<Rightarrow> 'd \<Rightarrow> bool" for S where
  order: "OrderInfo_ok r \<Longrightarrow> is_dataid (oi_DataId r) \<Longrightarrow> SaveOrder S d r = (err, d') \<Longrightarrow> store_step S d d'"
| shard: "ShardInfo_ok r \<Longrightarrow> SaveShard S d r = (err, d') \<Longrightarrow> store_step S d d'"
| migrate: "MigrateInfo_ok r \<Longrightarrow> is_dataid (mi_DataId r) \<Longrightarrow> is_address (mi_FromProvider r) \<Longrightarrow>
    SaveMigrate S d r = (err, d') \<Longrightarrow> store_step S d d'"
| expire: "SaveShardExpire S d shardId c orderId = (err, d') \<Longrightarrow> store_step S d d'"
| unexpire: "RemoveShardExpireIndex S d shardId = (err, d') \<Longrightarrow> store_step S d d'"

inductive store_reach :: "('d, 'k) libs \<Rightarrow> ('d \<Rightarrow> 'k \<Rightarrow> bytes option) \<Rightarrow> 'd \<Rightarrow> bool" for S contents where
  fresh: "(\<And>e. cell S contents d e = None) \<Longrightarrow> store_reach S contents d"
| more: "store_reach S contents d \<Longrightarrow> store_step S d d' \<Longrightarrow> store_reach S contents d'"

lemma sound_fresh: "(\<And>e. cell S contents d e = None) \<Longrightarrow> k_ids K (k_izero K) = [] \<Longrightarrow> sound S contents K d"
  by (simp add: sound_def index_ids_def index_value_def)

lemma store_sound_fresh: "(\<And>e. cell S contents d e = None) \<Longrightarrow> store_sound S contents d"
  by (auto simp: store_sound_def kind_defs zero_defs intro!: sound_fresh)

context node_libs
begin

lemma RemoveShardExpireIndex_any:
  assumes "RemoveShardExpireIndex S d shardId = (err, d')" and "sound S contents (expire_kind S) d"
  shows "sound S contents (expire_kind S) d' \<and> expires.tbl d' = expires.tbl d
    \<and> expires.ids d' \<in> {expires.ids d, remove1 shardId (expires.ids d)}
    \<and> (err = None \<longrightarrow> expires.ids d' = remove1 shardId (expires.ids d))
    \<and> same_but S contents {EExpireIndex} d d'"
proof -
  have "distinct (remove1 shardId (expires.ids d))"
    "\<And>q. q \<in> set (remove1 shardId (expires.ids d)) \<Longrightarrow> expires.tbl d q \<noteq> None"
    using assms(2) by (auto simp: sound_def distinct_remove1 dest: notin_set_remove1 set_remove1_subset [THEN subsetD])
  from expires.update_index_sound [where f = "remove1 shardId", OF assms(1) [unfolded RemoveShardExpireIndex_kind] assms(2) _ this]
  show ?thesis by (simp add: expire_kind_def remove_expire_ids)
qed

lemma orders_untouched:
  assumes "same_but S contents E d d'" and "\<And>q. EOrder q \<notin> E" and "EOrderIndex \<notin> E"
  shows "sound S contents (order_kind S) d \<Longrightarrow> sound S contents (order_kind S) d'"
    and "orders.tbl d' = orders.tbl d" and "orders.ids d' = orders.ids d"
  using orders.sound_stable [OF assms(1)] orders.tbl_stable [OF assms(1)] orders.index_stable [OF assms(1)] assms(2,3)
  by (auto simp: fun_eq_iff)

lemma shards_untouched:
  assumes "same_but S contents E d d'" and "\<And>n c. EShard n c \<notin> E" and "EShardIndex \<notin> E"
  shows "sound S contents (shard_kind S) d \<Longrightarrow> sound S contents (shard_kind S) d'"
    and "shards.tbl d' = shards.tbl d" and "shards.ids d' = shards.ids d"
  using shards.sound_stable [OF assms(1)] shards.tbl_stable [OF assms(1)] shards.index_stable [OF assms(1)] assms(2,3)
  by (auto simp: fun_eq_iff)

lemma migrates_untouched:
  assumes "same_but S contents E d d'" and "\<And>x y. EMigrate x y \<notin> E" and "EMigrateIndex \<notin> E"
  shows "sound S contents (migrate_kind S) d \<Longrightarrow> sound S contents (migrate_kind S) d'"
    and "migrates.tbl d' = migrates.tbl d" and "migrates.ids d' = migrates.ids d"
  using migrates.sound_stable [OF assms(1)] migrates.tbl_stable [OF assms(1)] migrates.index_stable [OF assms(1)] assms(2,3)
  by (auto simp: fun_eq_iff)

lemma expires_untouched:
  assumes "same_but S contents E d d'" and "\<And>n. EExpire n \<notin> E" and "EExpireIndex \<notin> E"
  shows "sound S contents (expire_kind S) d \<Longrightarrow> sound S contents (expire_kind S) d'"
    and "expires.tbl d' = expires.tbl d" and "expires.ids d' = expires.ids d"
  using expires.sound_stable [OF assms(1)] expires.tbl_stable [OF assms(1)] expires.index_stable [OF assms(1)] assms(2,3)
  by (auto simp: fun_eq_iff)

lemmas untouched = orders_untouched shards_untouched migrates_untouched expires_untouched

lemma SaveOrder_any:
  assumes "SaveOrder S d r = (err, d')" "OrderInfo_ok r" "is_dataid (oi_DataId r)" "sound S contents (order_kind S) d"
  shows "sound S contents (order_kind S) d' \<and> same_but S contents {EOrder (oi_DataId r), EOrderIndex} d d'"
  using orders.save_kind_any [of d r err d'] assms by (simp add: SaveOrder_kind kind_entries_def)

lemma SaveShard_any:
  assumes "SaveShard S d r = (err, d')" "ShardInfo_ok r" "sound S contents (shard_kind S) d"
  shows "sound S contents (shard_kind S) d' \<and> same_but S contents {EShard (si_OrderId r) (si_Cid r), EShardIndex} d d'"
  using shards.save_kind_any [of d r err d'] assms by (simp add: SaveShard_kind kind_entries_def)

lemma SaveMigrate_any:
  assumes "SaveMigrate S d r = (err, d')" "MigrateInfo_ok r" "is_dataid (mi_DataId r)" "is_address (mi_FromProvider r)"
    "sound S contents (migrate_kind S) d"
  shows "sound S contents (migrate_kind S) d'
    \<and> same_but S contents {EMigrate (mi_DataId r) (mi_FromProvider r), EMigrateIndex} d d'"
  using migrates.save_kind_any [of d r err d'] assms by (simp add: SaveMigrate_kind kind_entries_def)

lemma SaveShardExpire_any:
  assumes "SaveShardExpire S d shardId c orderId = (err, d')" "sound S contents (expire_kind S) d"
  shows "sound S contents (expire_kind S) d' \<and> same_but S contents {EExpire shardId, EExpireIndex} d d'"
  using expires.save_kind_any [OF assms(1) [unfolded SaveShardExpire_kind] assms(2)] by (simp add: SaveShardExpire_kind kind_entries_def)

lemma store_step_sound:
  assumes "store_step S d d'" and "store_sound S contents d"
  shows "store_sound S contents d'"
  using assms
proof cases
  case (order r err)
  with assms(2) SaveOrder_any [of d r err d'] show ?thesis
    by (auto simp: store_sound_def dest: untouched)
next
  case (shard r err)
  with assms(2) SaveShard_any [of d r err d'] show ?thesis
    by (auto simp: store_sound_def dest: untouched)
next
  case (migrate r err)
  with assms(2) SaveMigrate_any [of d r err d'] show ?thesis
    by (auto simp: store_sound_def dest: untouched)
next
  case (expire n c orderId err)
  with assms(2) SaveShardExpire_any [of d n c orderId err d'] show ?thesis
    by (auto simp: store_sound_def dest: untouched)
next
  case (unexpire n err)
  with assms(2) RemoveShardExpireIndex_any [of d n err d'] show ?thesis
    by (auto simp: store_sound_def dest: untouched)
qed

lemma store_reach_sound: "store_reach S contents d \<Longrightarrow> store_sound S contents d"
  by (induction rule: store_reach.induct) (auto intro: store_sound_fresh store_step_sound)

end

context node_libs
begin

lemma order_saved:
  assumes "SaveOrder S d r = (None, d')" and "OrderInfo_ok r" and "is_dataid (oi_DataId r)"
    and "sound S contents (order_kind S) d"
  shows "orders.tbl d' = (orders.tbl d)(oi_DataId r \<mapsto> OrderInfo_norm r)"
    and "orders.ids d' = (if orders.tbl d (oi_DataId r) = None then orders.ids d @ [oi_DataId r] else orders.ids d)"
    and "GetOrder S d' (oi_DataId r) = read_through S d' (EOrder (oi_DataId r)) (OrderInfo_norm r)"
proof -
  note save = assms(1) [unfolded SaveOrder_kind]
  show t: "orders.tbl d' = (orders.tbl d)(oi_DataId r \<mapsto> OrderInfo_norm r)"
    and "orders.ids d' = (if orders.tbl d (oi_DataId r) = None then orders.ids d @ [oi_DataId r] else orders.ids d)"
    using orders.save_kind_ok [OF save assms(4)] assms by simp_all
  have "sound S contents (order_kind S) d'" using SaveOrder_any [OF assms] by simp
  from orders.load_kind [OF this, of "oi_DataId r"] t assms
  show "GetOrder S d' (oi_DataId r) = read_through S d' (EOrder (oi_DataId r)) (OrderInfo_norm r)"
    by (simp add: GetOrder_kind)
qed

lemma shard_saved:
  assumes "SaveShard S d r = (None, d')" and "ShardInfo_ok r" and "sound S contents (shard_kind S) d"
  shows "shards.tbl d' = (shards.tbl d)((si_OrderId r, si_Cid r) \<mapsto> r)"
    and "shards.ids d' = (if shards.tbl d (si_OrderId r, si_Cid r) = None
                          then shards.ids d @ [(si_OrderId r, si_Cid r)] else shards.ids d)"
    and "GetShard S d' (si_OrderId r) (si_Cid r) = read_through S d' (EShard (si_OrderId r) (si_Cid r)) r"
proof -
  note save = assms(1) [unfolded SaveShard_kind]
  show t: "shards.tbl d' = (shards.tbl d)((si_OrderId r, si_Cid r) \<mapsto> r)"
    and "shards.ids d' = (if shards.tbl d (si_OrderId r, si_Cid r) = None
                          then shards.ids d @ [(si_OrderId r, si_Cid r)] else shards.ids d)"
    using shards.save_kind_ok [OF save assms(3)] assms by simp_all
  have "sound S contents (shard_kind S) d'" using SaveShard_any [OF assms] by simp
  from shards.load_kind [OF this, of "(si_OrderId r, si_Cid r)"] t assms
  show "GetShard S d' (si_OrderId r) (si_Cid r) = read_through S d' (EShard (si_OrderId r) (si_Cid r)) r"
    by (simp add: GetShard_kind)
qed

lemma expire_saved:
  assumes "SaveShardExpire S d shardId c orderId = (None, d')" and "sound S contents (expire_kind S) d"
  shows "expires.tbl d' = (expires.tbl d)(shardId \<mapsto> \<lparr>sei_ShardId = shardId, sei_Cid = c, sei_OrderId = orderId\<rparr>)"
    and "expires.ids d' = (if expires.tbl d shardId = None then expires.ids d @ [shardId] else expires.ids d)"
  using expires.save_kind_ok [OF assms(1) [unfolded SaveShardExpire_kind] assms(2)] by simp_all

lemma order_frame:
  assumes "SaveOrder S d r = (err, d')" and "OrderInfo_ok r" and "is_dataid (oi_DataId r)"
    and "sound S contents (order_kind S) d" and "dataId \<noteq> oi_DataId r"
  shows "orders.tbl d' dataId = orders.tbl d dataId"
  using orders.tbl_stable [of "{EOrder (oi_DataId r), EOrderIndex}" d d' dataId] SaveOrder_any [OF assms(1-4)] assms(5)
  by simp

end

section \<open>Properties\<close>

text \<open>Sample values: a data id, a staged order and a shard, and the empty datastore.\<close>

definition sample_id :: string where
  "sample_id = ''6f1ed002-ab59-4d7c-9f64-4aaf7d6a3c11''"

definition sample_order :: OrderInfo where
  "sample_order = OrderInfo_zero\<lparr>oi_DataId := sample_id, oi_Owner := ''did:sid:a'', oi_Cid := ''xyz'',
     oi_StagePath := ''~/.sao/stage'', oi_State := OrderStateReady, oi_OrderHeight := - 1,
     oi_Shards := [(''sp2'', OrderShardInfo_zero\<lparr>osi_ShardId := 300\<rparr>), (''sp1'', OrderShardInfo_zero)]\<rparr>"

definition sample_shard :: ShardInfo where
  "sample_shard = ShardInfo_zero\<lparr>si_OrderId := 70000, si_DataId := sample_id, si_Cid := ''xyz'',
     si_Size := 1024, si_State := ShardStateStored\<rparr>"

lemma sample_ok: "OrderInfo_ok sample_order" "is_dataid (oi_DataId sample_order)" "ShardInfo_ok sample_shard"
  by code_simp+

lemmas mem_simps = mem_libs_def mem_ds_def hex_cid_def rfc_cbor_def rfc_MaxLength_def rfc_WriteCid_def

lemmas encode_simps = enc_seq.simps enc_struct_def enc_name_def enc_string_def enc_uint64_def enc_int64_def
  enc_cid_def enc_slice_def enc_map_def

lemmas store_eval = save_record_def update_index_def load_record_def mem_simps encode_simps marshal_defs zero_defs
  Undef_def datastore_key_defs index_key_defs

lemmas decode_eval = rfc_WriteHeader_def rfc_ReadHeader_def rfc_ReadString_def unmarshal_defs switch_defs
  dec_struct_def dec_slice_def dec_uint64_def maj_defs text_bytes_def set_field_def show_u64_def show_nat.simps
  digit_char_def

lemmas expire_eval = SaveShardExpire_def AddShardExpireIndex_def RemoveShardExpireIndex_def

lemma sample_saved:
  "fst (SaveOrder mem_libs Map.empty sample_order) = None"
  "fst (SaveShard mem_libs Map.empty sample_shard) = None"
  by (simp_all add: SaveOrder_def SaveShard_def UpdateOrderIndex_def UpdateShardIndex_def store_eval
     sample_order_def sample_shard_def sample_id_def)

definition sample_expired :: mem where
  "sample_expired = snd (SaveShardExpire mem_libs Map.empty 7 ''xyz'' 9)"

definition sample_removed :: mem where
  "sample_removed = snd (RemoveShardExpireIndex mem_libs sample_expired 7)"

lemma sample_expired_saved: "SaveShardExpire mem_libs Map.empty 7 ''xyz'' 9 = (None, sample_expired)"
  unfolding sample_expired_def by (rule prod_eqI) (simp_all add: expire_eval store_eval)

lemma sample_expired_removed: "RemoveShardExpireIndex mem_libs sample_expired 7 = (None, sample_removed)"
  unfolding sample_removed_def sample_expired_def
  by (rule prod_eqI) (simp_all add: expire_eval store_eval decode_eval)

lemma sample_expired_again: "fst (SaveShardExpire mem_libs sample_removed 7 ''xyz'' 10) = None"
  unfolding sample_removed_def sample_expired_def by (simp add: expire_eval store_eval decode_eval)

lemma sample_store_sound:
  "store_sound mem_libs mem_contents Map.empty" "store_sound mem_libs mem_contents sample_expired"
  "store_sound mem_libs mem_contents sample_removed"
proof -
  show e: "store_sound mem_libs mem_contents Map.empty" by (rule store_sound_fresh) simp
  show x: "store_sound mem_libs mem_contents sample_expired"
    by (rule mem.store_step_sound [OF store_step.expire [OF sample_expired_saved] e])
  show "store_sound mem_libs mem_contents sample_removed"
    by (rule mem.store_step_sound [OF store_step.unexpire [OF sample_expired_removed] x])
qed

lemmas sample_kind_sound = sample_store_sound [unfolded store_sound_def]

lemma sample_expired_ids:
  "index_ids mem_libs mem_contents (expire_kind mem_libs) sample_expired = [7]"
  "table mem_libs mem_contents (expire_kind mem_libs) sample_expired 7
     = Some \<lparr>sei_ShardId = 7, sei_Cid = ''xyz'', sei_OrderId = 9\<rparr>"
  using mem.expire_saved [OF sample_expired_saved] sample_kind_sound(1)
  by (simp_all add: table_def index_ids_def index_value_def expire_kind_def zero_defs)

lemma sample_removed_ids:
  "index_ids mem_libs mem_contents (expire_kind mem_libs) sample_removed = []"
  "table mem_libs mem_contents (expire_kind mem_libs) sample_removed 7 \<noteq> None"
  using mem.RemoveShardExpireIndex_any [OF sample_expired_removed] sample_kind_sound(2) sample_expired_ids
  by simp_all

abbreviation order_table :: "('d, 'k) libs \<Rightarrow> ('d \<Rightarrow> 'k \<Rightarrow> bytes option) \<Rightarrow> 'd \<Rightarrow> string \<Rightarrow> OrderInfo option" where
  "order_table S contents \<equiv> table S contents (order_kind S)"

abbreviation order_ids :: "('d, 'k) libs \<Rightarrow> ('d \<Rightarrow> 'k \<Rightarrow> bytes option) \<Rightarrow> 'd \<Rightarrow> string list" where
  "order_ids S contents \<equiv> index_ids S contents (order_kind S)"

abbreviation shard_table :: "('d, 'k) libs \<Rightarrow> ('d \<Rightarrow> 'k \<Rightarrow> bytes option) \<Rightarrow> 'd \<Rightarrow> u64 \<times> cid \<Rightarrow> ShardInfo option" where
  "shard_table S contents \<equiv> table S contents (shard_kind S)"

abbreviation shard_ids :: "('d, 'k) libs \<Rightarrow> ('d \<Rightarrow> 'k \<Rightarrow> bytes option) \<Rightarrow> 'd \<Rightarrow> (u64 \<times> cid) list" where
  "shard_ids S contents \<equiv> index_ids S contents (shard_kind S)"

abbreviation migrate_table ::
  "('d, 'k) libs \<Rightarrow> ('d \<Rightarrow> 'k \<Rightarrow> bytes option) \<Rightarrow> 'd \<Rightarrow> string \<times> string \<Rightarrow> MigrateInfo option" where
  "migrate_table S contents \<equiv> table S contents (migrate_kind S)"

abbreviation expire_table ::
  "('d, 'k) libs \<Rightarrow> ('d \<Rightarrow> 'k \<Rightarrow> bytes option) \<Rightarrow> 'd \<Rightarrow> u64 \<Rightarrow> ShardExpireInfo option" where
  "expire_table S contents \<equiv> table S contents (expire_kind S)"

abbreviation expire_ids :: "('d, 'k) libs \<Rightarrow> ('d \<Rightarrow> 'k \<Rightarrow> bytes option) \<Rightarrow> 'd \<Rightarrow> u64 list" where
  "expire_ids S contents \<equiv> index_ids S contents (expire_kind S)"

lemma mem_node_libs: "node_libs mem_libs mem_contents"
  by (rule mem.node_libs_axioms)

text \<open>C1. Saving an order refines the abstract table of orders: on success the table holds the order (with
  its shard map in key order) under its data id and is otherwise unchanged, the index gains the data id
  at its end exactly when the order is new, and a read of that data id returns the order unless the
  datastore itself fails.\<close>

theorem SaveOrder_refines:
  assumes "node_libs S contents" and "store_sound S contents d"
    and "OrderInfo_ok r" and "is_dataid (oi_DataId r)" and "SaveOrder S d r = (None, d')"
  shows "order_table S contents d' = (order_table S contents d)(oi_DataId r \<mapsto> OrderInfo_norm r)
    \<and> order_ids S contents d' = (if order_table S contents d (oi_DataId r) = None
                                then order_ids S contents d @ [oi_DataId r] else order_ids S contents d)
    \<and> GetOrder S d' (oi_DataId r) = read_through S d' (EOrder (oi_DataId r)) (OrderInfo_norm r)"
  using node_libs.order_saved [OF assms(1,5,3,4)] assms(2) by (simp add: store_sound_def)

theorem SaveOrder_refines_witness:
  "order_table mem_libs mem_contents (snd (SaveOrder mem_libs Map.empty sample_order)) sample_id
     = Some (OrderInfo_norm sample_order)
   \<and> order_ids mem_libs mem_contents (snd (SaveOrder mem_libs Map.empty sample_order)) = [sample_id]"
  using SaveOrder_refines [OF mem_node_libs sample_store_sound(1) sample_ok(1,2),
      of "snd (SaveOrder mem_libs Map.empty sample_order)"] sample_saved(1)
  by (auto simp: prod_eq_iff table_def index_ids_def index_value_def order_kind_def zero_defs sample_order_def)

text \<open>The same for a shard, under its order id and content identifier.\<close>

theorem SaveShard_refines:
  assumes "node_libs S contents" and "store_sound S contents d"
    and "ShardInfo_ok r" and "SaveShard S d r = (None, d')"
  shows "shard_table S contents d' = (shard_table S contents d)((si_OrderId r, si_Cid r) \<mapsto> r)
    \<and> shard_ids S contents d' = (if shard_table S contents d (si_OrderId r, si_Cid r) = None
                                then shard_ids S contents d @ [(si_OrderId r, si_Cid r)] else shard_ids S contents d)
    \<and> GetShard S d' (si_OrderId r) (si_Cid r) = read_through S d' (EShard (si_OrderId r) (si_Cid r)) r"
  using node_libs.shard_saved [OF assms(1,4,3)] assms(2) by (simp add: store_sound_def)

theorem SaveShard_refines_witness:
  "shard_table mem_libs mem_contents (snd (SaveShard mem_libs Map.empty sample_shard)) (70000, ''xyz'') = Some sample_shard
   \<and> shard_ids mem_libs mem_contents (snd (SaveShard mem_libs Map.empty sample_shard)) = [(70000, ''xyz'')]"
  using SaveShard_refines [OF mem_node_libs sample_store_sound(1) sample_ok(3),
      of "snd (SaveShard mem_libs Map.empty sample_shard)"] sample_saved(2)
  by (auto simp: prod_eq_iff table_def index_ids_def index_value_def shard_kind_def zero_defs sample_shard_def)

text \<open>C2. From an empty datastore, any sequence of saves and index removals, each succeeding or failing at
  any datastore call, leaves every record and index decodable, every record under its own key, and every
  index a list without duplicates of stored records.\<close>

theorem store_reach_store_sound:
  assumes "node_libs S contents" and "store_reach S contents d"
  shows "store_sound S contents d"
  by (rule node_libs.store_reach_sound [OF assms])

theorem store_reach_store_sound_witness:
  "store_sound mem_libs mem_contents (snd (SaveShard mem_libs (snd (SaveOrder mem_libs Map.empty sample_order)) sample_shard))"
proof (rule store_reach_store_sound [OF mem_node_libs])
  have "store_reach mem_libs mem_contents Map.empty" by (rule store_reach.fresh) simp
  then have "store_reach mem_libs mem_contents (snd (SaveOrder mem_libs Map.empty sample_order))"
    by (rule store_reach.more) (rule store_step.order [OF sample_ok(1,2) prod.collapse [symmetric]])
  then show "store_reach mem_libs mem_contents
      (snd (SaveShard mem_libs (snd (SaveOrder mem_libs Map.empty sample_order)) sample_shard))"
    by (rule store_reach.more) (rule store_step.shard [OF sample_ok(3) prod.collapse [symmetric]])
qed

text \<open>Saving an order, whether it succeeds or fails, changes no shard, migration or expiration record,
  none of their indexes and no other order.\<close>

theorem SaveOrder_frame:
  assumes "node_libs S contents" and "store_sound S contents d"
    and "OrderInfo_ok r" and "is_dataid (oi_DataId r)" and "SaveOrder S d r = (err, d')"
  shows "shard_table S contents d' = shard_table S contents d \<and> shard_ids S contents d' = shard_ids S contents d
    \<and> migrate_table S contents d' = migrate_table S contents d
    \<and> expire_table S contents d' = expire_table S contents d \<and> expire_ids S contents d' = expire_ids S contents d
    \<and> (\<forall>dataId. dataId \<noteq> oi_DataId r \<longrightarrow> order_table S contents d' dataId = order_table S contents d dataId)"
proof -
  have s: "sound S contents (order_kind S) d" using assms by (simp add: store_sound_def)
  then have f: "same_but S contents {EOrder (oi_DataId r), EOrderIndex} d d'"
    using node_libs.SaveOrder_any [OF assms(1,5,3,4)] by simp
  show ?thesis
    using node_libs.shards_untouched [OF assms(1) f] node_libs.migrates_untouched [OF assms(1) f]
      node_libs.expires_untouched [OF assms(1) f] node_libs.order_frame [OF assms(1,5,3,4) s] by simp
qed

theorem SaveOrder_frame_witness:
  "order_table mem_libs mem_contents (snd (SaveOrder mem_libs Map.empty sample_order)) ''0a'' = None"
  using SaveOrder_frame [OF mem_node_libs sample_store_sound(1) sample_ok(1,2) prod.collapse [symmetric]]
  by (simp add: table_def sample_order_def sample_id_def)

text \<open>Removing a shard from the expiration index drops exactly its identifier, keeps the order of the
  others and leaves the expiration records in place.\<close>

theorem RemoveShardExpireIndex_removes:
  assumes "node_libs S contents" and "store_sound S contents d" and "RemoveShardExpireIndex S d shardId = (None, d')"
  shows "expire_ids S contents d' = filter (\<lambda>q. q \<noteq> shardId) (expire_ids S contents d)
    \<and> expire_table S contents d' = expire_table S contents d"
proof -
  have s: "sound S contents (expire_kind S) d" using assms(2) by (simp add: store_sound_def)
  then have "distinct (expire_ids S contents d)" by (simp add: sound_def)
  with node_libs.RemoveShardExpireIndex_any [OF assms(1,3) s] show ?thesis by (simp add: distinct_remove1_removeAll removeAll_filter_not_eq) metis
qed

theorem RemoveShardExpireIndex_removes_witness:
  "expire_ids mem_libs mem_contents sample_expired = [7] \<and> expire_ids mem_libs mem_contents sample_removed = []"
  using RemoveShardExpireIndex_removes [OF mem_node_libs sample_store_sound(2) sample_expired_removed]
  by (simp add: sample_expired_ids)

text \<open>An expiration record that was taken out of the index does not come back: the record is still
  stored, so saving it again takes it for a known one and leaves the index alone.\<close>

theorem SaveShardExpire_after_removal:
  assumes "node_libs S contents" and "store_sound S contents d"
    and "expire_table S contents d shardId \<noteq> None" and "shardId \<notin> set (expire_ids S contents d)"
    and "SaveShardExpire S d shardId c orderId = (None, d')"
  shows "shardId \<notin> set (expire_ids S contents d')
    \<and> expire_table S contents d' shardId = Some \<lparr>sei_ShardId = shardId, sei_Cid = c, sei_OrderId = orderId\<rparr>"
  using node_libs.expire_saved [OF assms(1,5)] assms(2-4) by (simp add: store_sound_def)

theorem SaveShardExpire_after_removal_witness:
  "7 \<notin> set (expire_ids mem_libs mem_contents (snd (SaveShardExpire mem_libs sample_removed 7 ''xyz'' 10)))"
  using SaveShardExpire_after_removal [OF mem_node_libs sample_store_sound(3) sample_removed_ids(2) _ prod_eqI]
    sample_removed_ids(1) sample_expired_again by simp

end
