(* ===== verification/Lru_Cache.thy ===== *)
theory Lru_Cache
  imports Prelude
begin

text \<open>
  The LRU cache (\<^verbatim>\<open>src/node/cache/lru_cache.go\<close>): a map from keys to list nodes and a doubly linked list from
  the least to the most recently used node.  The nodes live in a heap (a list of nodes indexed by
  addresses; allocation appends), pointers are \<open>addr option\<close> with \<open>None\<close> for nil, and following a nil pointer
  is a panic.  The persistent map is the third-party package hamt: its operations are the fields of
  \<open>hamt_ops\<close> and its contract the locale \<open>hamt\<close>.

  The abstract cache is a list of key-value pairs in the order of use.  \<open>lru_inv\<close> relates it to the heap,
  and every operation refines the abstract one as long as it does not unlink the only node of the list;
  unlinking the only node leaves the head behind, and the last properties show what follows.
\<close>

section \<open>The hash of a key\<close>

definition primeRK :: "32 word" where
  "primeRK = 16777619"

definition GetHash32 :: "string \<Rightarrow> 32 word" where
  "GetHash32 data = foldl (\<lambda>hash c. hash * primeRK + of_nat (of_char c)) 0 data"

section \<open>The persistent map\<close>

type_synonym addr = nat

record 'm hamt_ops =
  h_NewMap :: 'm
  h_Find :: "'m \<Rightarrow> string \<Rightarrow> addr option"
  h_Insert :: "'m \<Rightarrow> string \<Rightarrow> addr \<Rightarrow> 'm"
  h_Delete :: "'m \<Rightarrow> string \<Rightarrow> 'm"
  h_Size :: "'m \<Rightarrow> nat"

locale hamt =
  fixes H :: "'m hamt_ops" and entries :: "'m \<Rightarrow> (string \<times> addr) list"
  assumes new_map: "entries (h_NewMap H) = []"
    and find: "\<And>m k. distinct (map fst (entries m)) \<Longrightarrow> h_Find H m k = map_of (entries m) k"
    and insert: "\<And>m k a. distinct (map fst (entries m)) \<Longrightarrow>
          distinct (map fst (entries (h_Insert H m k a))) \<and> map_of (entries (h_Insert H m k a)) = (map_of (entries m))(k \<mapsto> a)"
    and delete: "\<And>m k. distinct (map fst (entries m)) \<Longrightarrow>
          distinct (map fst (entries (h_Delete H m k))) \<and> map_of (entries (h_Delete H m k)) = (map_of (entries m))(k := None)"
    and size: "\<And>m. distinct (map fst (entries m)) \<Longrightarrow> h_Size H m = length (entries m)"

section \<open>The cache\<close>

record 'v Node =
  n_Key :: string
  n_Value :: 'v
  n_pre :: "addr option"
  n_next :: "addr option"

record ('v, 'm) LruCache =
  lru_Capacity :: int
  lru_Size :: nat
  lru_head :: "addr option"
  lru_end :: "addr option"
  lru_Map :: 'm
  lru_heap :: "'v Node list"

definition set_pre :: "addr \<Rightarrow> addr option \<Rightarrow> ('v, 'm) LruCache \<Rightarrow> ('v, 'm) LruCache" where
  "set_pre a p l = l\<lparr>lru_heap := (lru_heap l)[a := (lru_heap l ! a)\<lparr>n_pre := p\<rparr>]\<rparr>"

definition set_next :: "addr \<Rightarrow> addr option \<Rightarrow> ('v, 'm) LruCache \<Rightarrow> ('v, 'm) LruCache" where
  "set_next a p l = l\<lparr>lru_heap := (lru_heap l)[a := (lru_heap l ! a)\<lparr>n_next := p\<rparr>]\<rparr>"

definition addNode :: "('v, 'm) LruCache \<Rightarrow> addr \<Rightarrow> ('v, 'm) LruCache" where
  "addNode l node =
     (let l1 = (case lru_end l of
                  None \<Rightarrow> l
                | Some e \<Rightarrow> set_next node None (set_pre node (Some e) (set_next e (Some node) l)));
          l2 = l1\<lparr>lru_end := Some node\<rparr>
      in if lru_head l2 = None then l2\<lparr>lru_head := Some node\<rparr> else l2)"

definition removeNode :: "('v, 'm) LruCache \<Rightarrow> addr option \<Rightarrow> (string \<times> ('v, 'm) LruCache) outcome" where
  "removeNode l node =
     (case node of
        None \<Rightarrow> Panic
      | Some a \<Rightarrow>
          if node = lru_end l then
            Return (n_Key (lru_heap l ! a), l\<lparr>lru_end := n_pre (lru_heap l ! a)\<rparr>)
          else if node = lru_head l then
            Return (n_Key (lru_heap l ! a), l\<lparr>lru_head := n_next (lru_heap l ! a)\<rparr>)
          else
            (case (n_pre (lru_heap l ! a), n_next (lru_heap l ! a)) of
               (Some p, Some n) \<Rightarrow>
                 Return (n_Key (lru_heap l ! a), set_pre n (Some p) (set_next p (Some n) l))
             | _ \<Rightarrow> Panic))"

definition refreshNode :: "('v, 'm) LruCache \<Rightarrow> addr \<Rightarrow> ('v, 'm) LruCache outcome" where
  "refreshNode l node =
     (if Some node = lru_end l then Return l
      else bind_outcome (removeNode l (Some node)) (\<lambda>(_, l1). Return (addNode l1 node)))"

definition lru_get :: "'m hamt_ops \<Rightarrow> ('v, 'm) LruCache \<Rightarrow> string \<Rightarrow> ('v option \<times> ('v, 'm) LruCache) outcome" where
  "lru_get H l key =
     (case h_Find H (lru_Map l) key of
        None \<Rightarrow> Return (None, l)
      | Some node \<Rightarrow>
          bind_outcome (refreshNode l node) (\<lambda>l1. Return (Some (n_Value (lru_heap l1 ! node)), l1)))"

text \<open>A new node: it is appended to the heap and its address is the old length.\<close>

definition new_Node :: "('v, 'm) LruCache \<Rightarrow> string \<Rightarrow> 'v \<Rightarrow> addr \<times> ('v, 'm) LruCache" where
  "new_Node l key v =
     (length (lru_heap l),
      l\<lparr>lru_heap := lru_heap l @ [\<lparr>n_Key = key, n_Value = v, n_pre = None, n_next = None\<rparr>]\<rparr>)"

definition lru_put :: "'m hamt_ops \<Rightarrow> ('v, 'm) LruCache \<Rightarrow> string \<Rightarrow> 'v \<Rightarrow> ('v, 'm) LruCache outcome" where
  "lru_put H l key v =
     bind_outcome
       (case h_Find H (lru_Map l) key of
          None \<Rightarrow>
            (let (node, l0) = new_Node l key v
             in bind_outcome
                  (if lru_Capacity l0 > 0 \<and> int (h_Size H (lru_Map l0)) \<ge> lru_Capacity l0 then
                     bind_outcome (removeNode l0 (lru_head l0))
                       (\<lambda>(oldKey, l1). Return (l1\<lparr>lru_Map := h_Insert H (h_Delete H (lru_Map l1) oldKey) key node\<rparr>))
                   else Return (l0\<lparr>lru_Map := h_Insert H (lru_Map l0) key node\<rparr>))
                  (\<lambda>l2. Return (addNode l2 node)))
        | Some node \<Rightarrow>
            bind_outcome (refreshNode (l\<lparr>lru_heap := (lru_heap l)[node := (lru_heap l ! node)\<lparr>n_Value := v\<rparr>]\<rparr>) node)
              (\<lambda>l1. Return (l1\<lparr>lru_Map := h_Insert H (lru_Map l1) key node\<rparr>)))
       (\<lambda>l3. Return (l3\<lparr>lru_Size := h_Size H (lru_Map l3)\<rparr>))"

definition lru_evict :: "'m hamt_ops \<Rightarrow> ('v, 'm) LruCache \<Rightarrow> string \<Rightarrow> ('v, 'm) LruCache outcome" where
  "lru_evict H l key =
     (case h_Find H (lru_Map l) key of
        None \<Rightarrow> Return l
      | Some node \<Rightarrow>
          bind_outcome (removeNode l (Some node))
            (\<lambda>(oldKey, l1). let m = h_Delete H (lru_Map l1) oldKey
                            in Return (l1\<lparr>lru_Map := m, lru_Size := h_Size H m\<rparr>)))"

definition CreateLruCache :: "'m hamt_ops \<Rightarrow> int \<Rightarrow> ('v, 'm) LruCache" where
  "CreateLruCache H capacity =
     \<lparr>lru_Capacity = capacity, lru_Size = h_Size H (h_NewMap H), lru_head = None, lru_end = None,
      lru_Map = h_NewMap H, lru_heap = []\<rparr>"

section \<open>The abstract cache\<close>

type_synonym 'v lru = "(string \<times> 'v) list"

definition drop_key :: "string \<Rightarrow> 'v lru \<Rightarrow> 'v lru" where
  "drop_key k xs = filter (\<lambda>(k', _). k' \<noteq> k) xs"

definition abs_get :: "string \<Rightarrow> 'v lru \<Rightarrow> 'v option \<times> 'v lru" where
  "abs_get k xs = (case map_of xs k of None \<Rightarrow> (None, xs) | Some v \<Rightarrow> (Some v, drop_key k xs @ [(k, v)]))"

definition abs_put :: "int \<Rightarrow> string \<Rightarrow> 'v \<Rightarrow> 'v lru \<Rightarrow> 'v lru" where
  "abs_put cap k v xs =
     (case map_of xs k of
        Some _ \<Rightarrow> drop_key k xs @ [(k, v)]
      | None \<Rightarrow> (if cap > 0 \<and> int (length xs) \<ge> cap then tl xs else xs) @ [(k, v)])"

section \<open>Lists on the heap\<close>

fun linked :: "'v Node list \<Rightarrow> addr list \<Rightarrow> bool" where
  "linked h (a # b # ns) \<longleftrightarrow> n_next (h ! a) = Some b \<and> n_pre (h ! b) = Some a \<and> linked h (b # ns)"
| "linked h _ \<longleftrightarrow> True"

definition contents_of :: "'v Node list \<Rightarrow> addr list \<Rightarrow> 'v lru" where
  "contents_of h ns = map (\<lambda>a. (n_Key (h ! a), n_Value (h ! a))) ns"

lemma linked_append:
  "linked h (xs @ ys) \<longleftrightarrow> linked h xs \<and> linked h ys
     \<and> (xs \<noteq> [] \<and> ys \<noteq> [] \<longrightarrow> n_next (h ! last xs) = Some (hd ys) \<and> n_pre (h ! hd ys) = Some (last xs))"
proof (induction xs rule: induct_list012)
  case (2 x)
  then show ?case by (cases ys) auto
qed auto

lemma linked_cong:
  assumes "\<And>a. a \<in> set (butlast ns) \<Longrightarrow> n_next (h' ! a) = n_next (h ! a)"
    and "\<And>a. a \<in> set (tl ns) \<Longrightarrow> n_pre (h' ! a) = n_pre (h ! a)"
  shows "linked h' ns = linked h ns"
  using assms
proof (induction ns rule: induct_list012)
  case (3 a b ns)
  then show ?case by (cases ns) auto
qed auto

definition chain :: "('v, 'm) LruCache \<Rightarrow> addr list \<Rightarrow> bool" where
  "chain l ns \<longleftrightarrow> distinct ns \<and> (\<forall>a \<in> set ns. a < length (lru_heap l))
     \<and> lru_head l = (if ns = [] then None else Some (hd ns))
     \<and> lru_end l = (if ns = [] then None else Some (last ns)) \<and> linked (lru_heap l) ns"

definition same_data :: "('v, 'm) LruCache \<Rightarrow> ('v, 'm) LruCache \<Rightarrow> bool" where
  "same_data l l' \<longleftrightarrow> map (\<lambda>n. (n_Key n, n_Value n)) (lru_heap l') = map (\<lambda>n. (n_Key n, n_Value n)) (lru_heap l)
     \<and> lru_Map l' = lru_Map l \<and> lru_Capacity l' = lru_Capacity l \<and> lru_Size l' = lru_Size l"

lemma same_data_refl [simp]: "same_data l l"
  by (simp add: same_data_def)

lemma same_data_trans: "same_data l l1 \<Longrightarrow> same_data l1 l2 \<Longrightarrow> same_data l l2"
  by (simp add: same_data_def)

lemma same_data_length: "same_data l l' \<Longrightarrow> length (lru_heap l') = length (lru_heap l)"
  unfolding same_data_def by (metis length_map)

lemma same_data_nth:
  assumes "same_data l l'" and "a < length (lru_heap l)"
  shows "n_Key (lru_heap l' ! a) = n_Key (lru_heap l ! a)" "n_Value (lru_heap l' ! a) = n_Value (lru_heap l ! a)"
proof -
  have "map (\<lambda>n. (n_Key n, n_Value n)) (lru_heap l') ! a = map (\<lambda>n. (n_Key n, n_Value n)) (lru_heap l) ! a"
    using assms by (simp add: same_data_def)
  with assms same_data_length [OF assms(1)]
  show "n_Key (lru_heap l' ! a) = n_Key (lru_heap l ! a)" "n_Value (lru_heap l' ! a) = n_Value (lru_heap l ! a)"
    by simp_all
qed

lemma map_upd_same: "f x = f (xs ! i) \<Longrightarrow> map f (xs[i := x]) = map f xs"
  by (metis list_update_id map_update)

lemma same_dataI:
  "same_data l l' \<Longrightarrow> same_data l (set_pre a p l')" "same_data l l' \<Longrightarrow> same_data l (set_next a p l')"
  "same_data l l' \<Longrightarrow> same_data l (l'\<lparr>lru_end := x\<rparr>)" "same_data l l' \<Longrightarrow> same_data l (l'\<lparr>lru_head := x\<rparr>)"
  by (simp_all add: same_data_def set_pre_def set_next_def map_upd_same)

lemma addNode_data: "same_data l (addNode l a)"
  unfolding addNode_def Let_def by (auto intro!: same_dataI split: option.splits)

lemma butlast_not_last: "distinct ns \<Longrightarrow> b \<in> set (butlast ns) \<Longrightarrow> b \<noteq> last ns"
  by (induction ns) (auto split: if_splits)

lemma addNode_empty: "chain l [] \<Longrightarrow> a < length (lru_heap l) \<Longrightarrow> chain (addNode l a) [a]"
  by (simp add: chain_def addNode_def)

lemma addNode_chain:
  assumes "chain l ns" and "a \<notin> set ns" and "a < length (lru_heap l)"
  shows "chain (addNode l a) (ns @ [a])"
proof (cases "ns = []")
  case True
  with assms addNode_empty show ?thesis by simp
next
  case False
  let ?h = "lru_heap (set_next a None (set_pre a (Some (last ns)) (set_next (last ns) (Some a) l)))"
  have la: "last ns \<in> set ns" and "last ns \<noteq> a" using False assms(2) by auto
  then have lt: "last ns < length (lru_heap l)" using assms(1) by (auto simp: chain_def)
  have nb: "b \<noteq> last ns" if "b \<in> set (butlast ns)" for b
    using that assms(1) by (simp add: chain_def butlast_not_last)
  have "linked ?h ns = linked (lru_heap l) ns"
  proof (rule linked_cong)
    fix b assume b: "b \<in> set (butlast ns)"
    then have "b \<noteq> a" using assms(2) by (metis in_set_butlastD)
    with nb [OF b] show "n_next (?h ! b) = n_next (lru_heap l ! b)" by (simp add: set_pre_def set_next_def)
  next
    fix b assume "b \<in> set (tl ns)"
    then have "b \<noteq> a" using assms(2) by (metis list.set_sel(2) tl_Nil)
    then show "n_pre (?h ! b) = n_pre (lru_heap l ! b)" using lt
      by (cases "b = last ns") (simp_all add: set_pre_def set_next_def)
  qed
  then have "linked ?h (ns @ [a])"
    using False assms lt \<open>last ns \<noteq> a\<close> by (simp add: linked_append chain_def set_pre_def set_next_def)
  moreover have "addNode l a = set_next a None (set_pre a (Some (last ns)) (set_next (last ns) (Some a) l))\<lparr>lru_end := Some a\<rparr>"
    using False assms(1) by (simp add: addNode_def chain_def Let_def set_pre_def set_next_def)
  ultimately show ?thesis
    using False assms by (auto simp: chain_def set_pre_def set_next_def)
qed

lemma removeNode_end:
  assumes "chain l (xs @ [a])" and "xs \<noteq> []"
  shows "removeNode l (Some a) = Return (n_Key (lru_heap l ! a), l\<lparr>lru_end := Some (last xs)\<rparr>)"
    and "chain (l\<lparr>lru_end := Some (last xs)\<rparr>) xs"
  using assms by (auto simp: removeNode_def chain_def linked_append)

lemma removeNode_head:
  assumes "chain l (a # ys)" and "ys \<noteq> []"
  shows "removeNode l (Some a) = Return (n_Key (lru_heap l ! a), l\<lparr>lru_head := Some (hd ys)\<rparr>)"
    and "chain (l\<lparr>lru_head := Some (hd ys)\<rparr>) ys"
  using assms linked_append [of "lru_heap l" "[a]" ys] by (auto simp: removeNode_def chain_def)

lemma removeNode_middle:
  assumes c: "chain l (xs @ a # ys)" and "xs \<noteq> []" and "ys \<noteq> []"
  shows "removeNode l (Some a) = Return (n_Key (lru_heap l ! a),
           set_pre (hd ys) (Some (last xs)) (set_next (last xs) (Some (hd ys)) l))"
    and "chain (set_pre (hd ys) (Some (last xs)) (set_next (last xs) (Some (hd ys)) l)) (xs @ ys)"
proof -
  let ?l = "set_pre (hd ys) (Some (last xs)) (set_next (last xs) (Some (hd ys)) l)"
  from c assms(2,3) have d: "distinct xs" "distinct ys" "set xs \<inter> set ys = {}" "a \<notin> set xs" "a \<notin> set ys"
    by (auto simp: chain_def)
  have l: "linked (lru_heap l) xs" "linked (lru_heap l) ys"
    using c assms(2,3) linked_append [of "lru_heap l" "[a]" ys] linked_append [of "lru_heap l" xs "a # ys"]
    by (auto simp: chain_def)
  show "removeNode l (Some a) = Return (n_Key (lru_heap l ! a), ?l)"
    using c assms(2,3) d linked_append [of "lru_heap l" "[a]" ys] linked_append [of "lru_heap l" xs "a # ys"]
    by (auto simp: removeNode_def chain_def)
  have in_h: "hd ys < length (lru_heap l)" "last xs < length (lru_heap l)"
    using c assms(2,3) hd_in_set [of ys] last_in_set [of xs] by (auto simp: chain_def)
  have "hd ys \<noteq> last xs" using d(3) assms(2,3) by (metis disjoint_iff hd_in_set last_in_set)
  note in_h = in_h this
  have "linked (lru_heap ?l) xs = linked (lru_heap l) xs"
  proof (rule linked_cong)
    fix b assume "b \<in> set (butlast xs)"
    then have "b \<noteq> last xs" by (rule butlast_not_last [OF d(1)])
    then show "n_next (lru_heap ?l ! b) = n_next (lru_heap l ! b)"
      using in_h by (cases "b = hd ys") (simp_all add: set_pre_def set_next_def)
  next
    fix b assume "b \<in> set (tl xs)"
    then have "b \<in> set xs" using assms(2) by (rule list.set_sel(2) [rotated])
    then have "b \<noteq> hd ys" using d(3) assms(3) by (metis disjoint_iff hd_in_set)
    then show "n_pre (lru_heap ?l ! b) = n_pre (lru_heap l ! b)"
      using in_h by (cases "b = last xs") (simp_all add: set_pre_def set_next_def)
  qed
  moreover have "linked (lru_heap ?l) ys = linked (lru_heap l) ys"
  proof (rule linked_cong)
    fix b assume "b \<in> set (butlast ys)"
    then have "b \<in> set ys" by (rule in_set_butlastD)
    then have "b \<noteq> last xs" using d(3) assms(2) by (metis disjoint_iff last_in_set)
    then show "n_next (lru_heap ?l ! b) = n_next (lru_heap l ! b)"
      using in_h by (cases "b = hd ys") (simp_all add: set_pre_def set_next_def)
  next
    fix b assume "b \<in> set (tl ys)"
    then have "b \<noteq> hd ys" using d(2) assms(3) by (cases ys) auto
    then show "n_pre (lru_heap ?l ! b) = n_pre (lru_heap l ! b)"
      using in_h by (cases "b = last xs") (simp_all add: set_pre_def set_next_def)
  qed
  ultimately show "chain ?l (xs @ ys)"
    using l c assms(2,3) in_h by (auto simp: chain_def linked_append set_pre_def set_next_def)
qed

lemma removeNode_chain:
  assumes "chain l (xs @ a # ys)" and "xs @ ys \<noteq> []"
  shows "\<exists>l1. removeNode l (Some a) = Return (n_Key (lru_heap l ! a), l1) \<and> chain l1 (xs @ ys) \<and> same_data l l1"
proof -
  consider "ys = []" "xs \<noteq> []" | "xs = []" "ys \<noteq> []" | "xs \<noteq> []" "ys \<noteq> []" using assms(2) by auto
  then show ?thesis
  proof cases
    case 1
    with assms(1) removeNode_end [of l xs a] show ?thesis by (auto intro!: same_dataI)
  next
    case 2
    with assms(1) removeNode_head [of l a ys] show ?thesis by (auto intro!: same_dataI)
  next
    case 3
    with removeNode_middle [OF assms(1) 3] show ?thesis by (auto intro!: same_dataI)
  qed
qed

lemma refreshNode_chain:
  assumes "chain l (xs @ a # ys)"
  shows "\<exists>l1. refreshNode l a = Return l1 \<and> chain l1 (xs @ ys @ [a]) \<and> same_data l l1"
proof (cases "ys = []")
  case True
  with assms show ?thesis by (auto simp: refreshNode_def chain_def)
next
  case False
  with assms have ne: "Some a \<noteq> lru_end l" by (auto simp: chain_def)
  from assms False obtain l1 where r: "removeNode l (Some a) = Return (n_Key (lru_heap l ! a), l1)"
    and c: "chain l1 (xs @ ys)" and s: "same_data l l1" using removeNode_chain by blast
  have "a < length (lru_heap l1)" using assms same_data_length [OF s] by (simp add: chain_def)
  moreover have "a \<notin> set (xs @ ys)" using assms by (simp add: chain_def)
  ultimately have "chain (addNode l1 a) (xs @ ys @ [a])" using addNode_chain [OF c] by simp
  then show ?thesis using ne r s same_data_trans [OF s addNode_data] by (simp add: refreshNode_def)
qed

section \<open>The invariant and the refinement\<close>

definition keyed :: "'v Node list \<Rightarrow> addr list \<Rightarrow> (string \<times> addr) list" where
  "keyed h ns = map (\<lambda>a. (n_Key (h ! a), a)) ns"

definition lru_inv :: "('m \<Rightarrow> (string \<times> addr) list) \<Rightarrow> ('v, 'm) LruCache \<Rightarrow> addr list \<Rightarrow> bool" where
  "lru_inv entries l ns \<longleftrightarrow> chain l ns \<and> distinct (map fst (keyed (lru_heap l) ns))
     \<and> distinct (map fst (entries (lru_Map l))) \<and> map_of (entries (lru_Map l)) = map_of (keyed (lru_heap l) ns)
     \<and> lru_Size l = length ns"

text \<open>The cache holds the abstract list \<open>xs\<close>.\<close>

definition lru_rep :: "('m \<Rightarrow> (string \<times> addr) list) \<Rightarrow> ('v, 'm) LruCache \<Rightarrow> 'v lru \<Rightarrow> bool" where
  "lru_rep entries l xs \<longleftrightarrow> (\<exists>ns. lru_inv entries l ns \<and> xs = contents_of (lru_heap l) ns)"

lemma length_of_map_of:
  "distinct (map fst xs) \<Longrightarrow> distinct (map fst ys) \<Longrightarrow> map_of xs = map_of ys \<Longrightarrow> length xs = length ys"
  by (metis distinct_card dom_map_of_conv_image_fst length_map list.set_map)

lemma same_data_view:
  assumes "same_data l l'" and "\<And>a. a \<in> set ns \<Longrightarrow> a < length (lru_heap l)"
  shows "keyed (lru_heap l') ns = keyed (lru_heap l) ns" "contents_of (lru_heap l') ns = contents_of (lru_heap l) ns"
  using assms by (auto simp: keyed_def contents_of_def same_data_nth)

lemma fst_views: "map fst (keyed h ns) = map fst (contents_of h ns)"
  by (simp add: keyed_def contents_of_def)

lemma view_append: "contents_of h (xs @ ys) = contents_of h xs @ contents_of h ys" "keyed h (xs @ ys) = keyed h xs @ keyed h ys"
  by (simp_all add: contents_of_def keyed_def)

lemma view_Nil [simp]: "contents_of h [] = []" "keyed h [] = []"
  by (simp_all add: contents_of_def keyed_def)

lemma view_Cons: "contents_of h (a # xs) = (n_Key (h ! a), n_Value (h ! a)) # contents_of h xs"
  "keyed h (a # xs) = (n_Key (h ! a), a) # keyed h xs"
  by (simp_all add: contents_of_def keyed_def)

lemma drop_key_id: "map_of xs k = None \<Longrightarrow> drop_key k xs = xs"
  by (induction xs) (auto simp: drop_key_def split: if_splits)

lemma split_None:
  assumes "distinct (map fst (xs @ (k, v) # ys))"
  shows "map_of xs k = None" "map_of ys k = None"
  using assms by (auto simp: map_of_eq_None_iff)

lemma drop_key_split:
  assumes "distinct (map fst (xs @ (k, v) # ys))"
  shows "drop_key k (xs @ (k, v) # ys) = xs @ ys" "map_of (xs @ (k, v) # ys) k = Some v"
  using drop_key_id [OF split_None(1) [OF assms]] drop_key_id [OF split_None(2) [OF assms]] split_None [OF assms]
  by (simp_all add: drop_key_def map_add_def)

lemma map_of_split_perm:
  assumes "distinct (map fst (xs @ (k, v) # ys))"
  shows "map_of (xs @ ys @ [(k, w)]) = (map_of (xs @ (k, v) # ys))(k \<mapsto> w)"
    and "map_of (xs @ ys) = (map_of (xs @ (k, v) # ys))(k := None)"
  by (rule ext, simp add: map_add_def split_None [OF assms] split: option.splits)+

context hamt
begin

lemma inv_find:
  assumes "lru_inv entries l ns"
  shows "h_Find H (lru_Map l) key = map_of (keyed (lru_heap l) ns) key"
  using assms find by (simp add: lru_inv_def)

lemma inv_size:
  assumes "lru_inv entries l ns"
  shows "h_Size H (lru_Map l) = length ns"
  using assms size length_of_map_of [of "entries (lru_Map l)" "keyed (lru_heap l) ns"]
  by (simp add: lru_inv_def keyed_def)

lemma find_None: "lru_inv entries l ns \<Longrightarrow> h_Find H (lru_Map l) key = None \<longleftrightarrow> map_of (contents_of (lru_heap l) ns) key = None"
  using inv_find fst_views [of "lru_heap l" ns] by (metis list.set_map map_of_eq_None_iff)

lemma find_Some:
  assumes "lru_inv entries l ns" and "h_Find H (lru_Map l) key = Some a"
  obtains xs ys where "ns = xs @ a # ys" and "n_Key (lru_heap l ! a) = key" and "a < length (lru_heap l)"
proof -
  have "(key, a) \<in> set (keyed (lru_heap l) ns)" using assms inv_find by (metis map_of_SomeD)
  then have "a \<in> set ns" "n_Key (lru_heap l ! a) = key" by (auto simp: keyed_def)
  with assms(1) that show thesis by (metis chain_def lru_inv_def split_list)
qed

lemma inv_split:
  assumes "lru_inv entries l (us @ a # vs)"
  shows "distinct (map fst (keyed (lru_heap l) us @ (n_Key (lru_heap l ! a), a) # keyed (lru_heap l) vs))"
    and "distinct (map fst (contents_of (lru_heap l) us @ (n_Key (lru_heap l ! a), v) # contents_of (lru_heap l) vs))"
    and "chain l (us @ a # vs)" and "\<And>b. b \<in> set (us @ vs @ [a]) \<Longrightarrow> b < length (lru_heap l)"
proof -
  show d: "distinct (map fst (keyed (lru_heap l) us @ (n_Key (lru_heap l ! a), a) # keyed (lru_heap l) vs))"
    using assms by (simp only: lru_inv_def view_append view_Cons)
  show "distinct (map fst (contents_of (lru_heap l) us @ (n_Key (lru_heap l ! a), v) # contents_of (lru_heap l) vs))"
    using d by (simp add: keyed_def contents_of_def comp_def image_image)
  show c: "chain l (us @ a # vs)" using assms by (simp add: lru_inv_def)
  show "\<And>b. b \<in> set (us @ vs @ [a]) \<Longrightarrow> b < length (lru_heap l)" using c by (auto simp: chain_def)
qed

text \<open>The node moved to the end, whatever its new value: the keys are the old ones.\<close>

lemma inv_moved:
  assumes "lru_inv entries l (us @ a # vs)" and "chain l' (us @ vs @ [a])"
    and "keyed (lru_heap l') (us @ vs @ [a]) = keyed (lru_heap l) (us @ vs @ [a])"
    and "distinct (map fst (entries (lru_Map l')))"
    and "map_of (entries (lru_Map l')) = (map_of (entries (lru_Map l)))(n_Key (lru_heap l ! a) \<mapsto> a)"
    and "lru_Size l' = lru_Size l"
  shows "lru_inv entries l' (us @ vs @ [a])"
proof -
  note d = inv_split(1) [OF assms(1)]
  have "map_of (entries (lru_Map l')) = map_of (keyed (lru_heap l) (us @ vs @ [a]))"
    using assms(1,5) map_of_split_perm(1) [OF d, of a] by (simp only: lru_inv_def view_append view_Cons) (simp add: keyed_def)
  moreover have "distinct (map fst (keyed (lru_heap l) (us @ vs @ [a])))"
    using d by (auto simp: view_append view_Cons keyed_def)
  ultimately show ?thesis using assms by (simp add: lru_inv_def)
qed

lemma lru_get_refines:
  assumes "lru_rep entries l xs"
  shows "\<exists>l1. lru_get H l key = Return (fst (abs_get key xs), l1) \<and> lru_rep entries l1 (snd (abs_get key xs))
    \<and> lru_Capacity l1 = lru_Capacity l"
proof -
  from assms obtain ns where inv: "lru_inv entries l ns" and xs: "xs = contents_of (lru_heap l) ns"
    by (auto simp: lru_rep_def)
  show ?thesis
  proof (cases "h_Find H (lru_Map l) key")
    case None
    with find_None [OF inv] have "map_of xs key = None" by (simp add: xs)
    with None assms show ?thesis by (auto simp: lru_get_def abs_get_def)
  next
    case (Some a)
    from find_Some [OF inv Some] obtain us vs where ns: "ns = us @ a # vs" and key: "n_Key (lru_heap l ! a) = key"
      and a: "a < length (lru_heap l)" by blast
    note sp = inv_split [OF inv [unfolded ns]]
    from refreshNode_chain [OF sp(3)] obtain l1 where r: "refreshNode l a = Return l1"
      and c: "chain l1 (us @ vs @ [a])" and s: "same_data l l1" by blast
    note view = same_data_view [where ns = "us @ vs @ [a]", OF s sp(4), simplified]
    have "map_of (entries (lru_Map l)) key = Some a" using inv_find [OF inv] Some inv by (simp add: lru_inv_def)
    then have "lru_inv entries l1 (us @ vs @ [a])"
      using inv s key by (intro inv_moved [OF inv [unfolded ns] c view(1)]) (auto simp: lru_inv_def same_data_def)
    moreover have "snd (abs_get key xs) = contents_of (lru_heap l1) (us @ vs @ [a])"
      "fst (abs_get key xs) = Some (n_Value (lru_heap l ! a))"
      using drop_key_split [OF sp(2) [unfolded key]] view(2)
      by (simp_all add: xs ns abs_get_def view_append view_Cons key)
    ultimately show ?thesis
      using Some r same_data_nth [OF s a] s by (auto simp: lru_get_def lru_rep_def same_data_def)
  qed
qed

lemma put_known:
  assumes inv: "lru_inv entries l ns" and found: "h_Find H (lru_Map l) key = Some a"
  shows "\<exists>l1. lru_put H l key v = Return l1 \<and> lru_Capacity l1 = lru_Capacity l
    \<and> lru_rep entries l1 (drop_key key (contents_of (lru_heap l) ns) @ [(key, v)])"
proof -
  from find_Some [OF inv found] obtain us vs where ns: "ns = us @ a # vs" and key: "n_Key (lru_heap l ! a) = key"
    and a: "a < length (lru_heap l)" by blast
  note sp = inv_split [OF inv [unfolded ns]]
  let ?h = "(lru_heap l)[a := (lru_heap l ! a)\<lparr>n_Value := v\<rparr>]"
  let ?l = "l\<lparr>lru_heap := ?h\<rparr>"
  have na: "a \<notin> set us" "a \<notin> set vs" using sp(3) by (auto simp: chain_def)
  have hk: "n_Key (?h ! b) = n_Key (lru_heap l ! b)" "n_next (?h ! b) = n_next (lru_heap l ! b)"
    "n_pre (?h ! b) = n_pre (lru_heap l ! b)" for b using a by (cases "b = a"; simp)+
  have "chain ?l (us @ a # vs)" using sp(3) linked_cong [of _ ?h "lru_heap l"] by (simp add: chain_def hk)
  from refreshNode_chain [OF this] obtain l1 where r: "refreshNode ?l a = Return l1"
    and c: "chain l1 (us @ vs @ [a])" and s: "same_data ?l l1" by blast
  have "\<And>b. b \<in> set (us @ vs @ [a]) \<Longrightarrow> b < length (lru_heap ?l)" using sp(4) by simp
  note view = same_data_view [where ns = "us @ vs @ [a]", OF s this, simplified]
  let ?l2 = "l1\<lparr>lru_Map := h_Insert H (lru_Map l1) key a, lru_Size := h_Size H (h_Insert H (lru_Map l1) key a)\<rparr>"
  have dm: "distinct (map fst (entries (lru_Map l)))" using inv by (simp add: lru_inv_def)
  have keyed: "keyed (lru_heap ?l2) (us @ vs @ [a]) = keyed (lru_heap l) (us @ vs @ [a])"
    using view(1) by (simp add: keyed_def hk)
  have m: "lru_Map l1 = lru_Map l" "lru_Capacity l1 = lru_Capacity l" using s by (simp_all add: same_data_def)
  have ins: "map_of (entries (h_Insert H (lru_Map l) key a)) = map_of (entries (lru_Map l))"
    using insert [OF dm, of key a] inv_find [OF inv, of key] found inv by (simp add: lru_inv_def fun_upd_idem)
  have "h_Size H (h_Insert H (lru_Map l) key a) = h_Size H (lru_Map l)"
    using size [OF dm] size insert [OF dm, of key a] length_of_map_of [OF _ dm ins] by simp
  then have "lru_inv entries ?l2 (us @ vs @ [a])"
    using insert [OF dm, of key a] c m key inv_size [OF inv] inv
    by (intro inv_moved [OF inv [unfolded ns] _ keyed]) (auto simp: chain_def lru_inv_def)
  moreover have "contents_of (lru_heap ?l2) (us @ vs @ [a]) = drop_key key (contents_of (lru_heap l) ns) @ [(key, v)]"
    using drop_key_split(1) [OF sp(2) [unfolded key]] view(2) a na hk(1)
    by (simp add: ns view_append view_Cons key) (auto simp: contents_of_def nth_list_update)
  ultimately show ?thesis using found r m by (auto simp: lru_put_def lru_rep_def)
qed

lemma map_of_snoc: "map_of xs k = None \<Longrightarrow> map_of (xs @ [(k, v)]) = (map_of xs)(k \<mapsto> v)"
  by (rule ext) (simp add: map_add_def split: option.splits)

text \<open>A new node linked at the end of a list whose map already holds it.\<close>

lemma inv_added:
  assumes c: "chain l ns" and "a \<notin> set ns" and a: "a < length (lru_heap l)" and key: "n_Key (lru_heap l ! a) = key"
    and d: "distinct (map fst (keyed (lru_heap l) ns))" and new: "map_of (keyed (lru_heap l) ns) key = None"
    and dm: "distinct (map fst (entries (lru_Map l)))"
    and m: "map_of (entries (lru_Map l)) = (map_of (keyed (lru_heap l) ns))(key \<mapsto> a)"
  shows "lru_rep entries ((addNode l a)\<lparr>lru_Size := h_Size H (lru_Map (addNode l a))\<rparr>)
           (contents_of (lru_heap l) ns @ [(key, n_Value (lru_heap l ! a))])"
proof -
  let ?l = "(addNode l a)\<lparr>lru_Size := h_Size H (lru_Map (addNode l a))\<rparr>"
  note s = addNode_data [of l a]
  have "\<And>b. b \<in> set (ns @ [a]) \<Longrightarrow> b < length (lru_heap l)" using c a by (auto simp: chain_def)
  note view = same_data_view [where ns = "ns @ [a]", OF s this, simplified]
  have map: "lru_Map (addNode l a) = lru_Map l" using s by (simp add: same_data_def)
  have d': "distinct (map fst (keyed (lru_heap l) (ns @ [a])))"
    using d new key by (simp add: view_append view_Cons map_of_eq_None_iff)
  have m': "map_of (entries (lru_Map l)) = map_of (keyed (lru_heap l) (ns @ [a]))"
    using m key map_of_snoc [OF new] by (simp add: view_append view_Cons)
  have "length (entries (lru_Map l)) = length (ns @ [a])"
    using length_of_map_of [OF dm d' m'] by (simp add: keyed_def)
  moreover have "chain ?l (ns @ [a])" using addNode_chain [OF c assms(2) a] by (simp add: chain_def)
  ultimately have "lru_inv entries ?l (ns @ [a])"
    using d' dm m' view(1) size [OF dm] by (simp add: lru_inv_def map)
  moreover have "contents_of (lru_heap ?l) (ns @ [a]) = contents_of (lru_heap l) ns @ [(key, n_Value (lru_heap l ! a))]"
    using view(2) key by (simp add: view_append view_Cons)
  ultimately show ?thesis unfolding lru_rep_def by metis
qed

lemma put_new:
  assumes inv: "lru_inv entries l ns" and absent: "h_Find H (lru_Map l) key = None" and cap: "lru_Capacity l \<noteq> 1"
  shows "\<exists>l1. lru_put H l key v = Return l1 \<and> lru_Capacity l1 = lru_Capacity l
    \<and> lru_rep entries l1 ((if lru_Capacity l > 0 \<and> int (length ns) \<ge> lru_Capacity l
                           then tl (contents_of (lru_heap l) ns) else contents_of (lru_heap l) ns) @ [(key, v)])"
proof -
  let ?a = "length (lru_heap l)"
  let ?n = "\<lparr>n_Key = key, n_Value = v, n_pre = None, n_next = None\<rparr>"
  let ?l0 = "l\<lparr>lru_heap := lru_heap l @ [?n]\<rparr>"
  have c: "chain l ns" and dm: "distinct (map fst (entries (lru_Map l)))"
    and d: "distinct (map fst (keyed (lru_heap l) ns))"
    and m: "map_of (entries (lru_Map l)) = map_of (keyed (lru_heap l) ns)" using inv by (simp_all add: lru_inv_def)
  have nth: "(lru_heap l @ [?n]) ! b = lru_heap l ! b" if "b \<in> set ns" for b
    using c that by (auto simp: chain_def nth_append)
  have "linked (lru_heap l @ [?n]) ns = linked (lru_heap l) ns"
    by (rule linked_cong) (metis nth in_set_butlastD, metis nth list.set_sel(2) tl_Nil)
  then have c0: "chain ?l0 ns" using c by (auto simp: chain_def)
  have view: "keyed (lru_heap ?l0) ns = keyed (lru_heap l) ns" "contents_of (lru_heap ?l0) ns = contents_of (lru_heap l) ns"
    by (simp_all add: keyed_def contents_of_def nth)
  have fresh: "?a \<notin> set ns" using c by (auto simp: chain_def)
  have new: "map_of (keyed (lru_heap l) ns) key = None" using absent inv_find [OF inv] by simp
  have sz: "h_Size H (lru_Map l) = length ns" by (rule inv_size [OF inv])
  show ?thesis
  proof (cases "lru_Capacity l > 0 \<and> int (length ns) \<ge> lru_Capacity l")
    case False
    let ?l2 = "?l0\<lparr>lru_Map := h_Insert H (lru_Map l) key ?a\<rparr>"
    have "lru_rep entries ((addNode ?l2 ?a)\<lparr>lru_Size := h_Size H (lru_Map (addNode ?l2 ?a))\<rparr>)
        (contents_of (lru_heap ?l2) ns @ [(key, n_Value (lru_heap ?l2 ! ?a))])"
      using c0 fresh d new m insert [OF dm, of key ?a] view by (intro inv_added) (simp_all add: chain_def)
    then show ?thesis
      using False absent sz addNode_data [of ?l2 ?a] view by (auto simp: lru_put_def new_Node_def same_data_def)
  next
    case True
    with cap obtain b vs where ns: "ns = b # vs" "vs \<noteq> []" by (cases ns; cases "tl ns") auto
    from removeNode_chain [of ?l0 "[]" b vs] c0 ns obtain l1 where
      r: "removeNode ?l0 (Some b) = Return (n_Key (lru_heap ?l0 ! b), l1)" and c1: "chain l1 vs" and s: "same_data ?l0 l1"
      by auto
    let ?k = "n_Key (lru_heap l ! b)"
    let ?l2 = "l1\<lparr>lru_Map := h_Insert H (h_Delete H (lru_Map l) ?k) key ?a\<rparr>"
    have "\<And>x. x \<in> set (vs @ [?a]) \<Longrightarrow> x < length (lru_heap ?l0)" using c ns by (auto simp: chain_def)
    note v1 = same_data_view [where ns = "vs @ [?a]", OF s this, simplified view_append view_Cons]
    have v2: "keyed (lru_heap ?l2) vs = keyed (lru_heap l) vs" "contents_of (lru_heap ?l2) vs = contents_of (lru_heap l) vs"
      "n_Key (lru_heap ?l2 ! ?a) = key" "n_Value (lru_heap ?l2 ! ?a) = v"
      using v1 view by (auto simp: ns view_Cons)
    have "map_of (keyed (lru_heap l) vs) = (map_of (keyed (lru_heap l) ns))(?k := None)"
      using map_of_split_perm(2) [of "[]" ?k b "keyed (lru_heap l) vs"] d by (simp add: ns view_Cons)
    then have "map_of (entries (h_Insert H (h_Delete H (lru_Map l) ?k) key ?a)) = (map_of (keyed (lru_heap l) vs))(key \<mapsto> ?a)"
      using insert [of "h_Delete H (lru_Map l) ?k" key ?a] delete [OF dm, of ?k] m by simp
    moreover have "map_of (keyed (lru_heap l) vs) key = None" using new by (simp add: ns view_Cons split: if_splits)
    ultimately have "lru_rep entries ((addNode ?l2 ?a)\<lparr>lru_Size := h_Size H (lru_Map (addNode ?l2 ?a))\<rparr>)
        (contents_of (lru_heap ?l2) vs @ [(key, n_Value (lru_heap ?l2 ! ?a))])"
      using c1 fresh d insert [of "h_Delete H (lru_Map l) ?k" key ?a] delete [OF dm, of ?k] v2 same_data_length [OF s] ns
      by (intro inv_added) (auto simp: chain_def view_Cons)
    moreover have "lru_put H l key v = Return ((addNode ?l2 ?a)\<lparr>lru_Size := h_Size H (lru_Map (addNode ?l2 ?a))\<rparr>)"
      using True absent sz r s c0 ns nth [of b] by (simp add: lru_put_def new_Node_def chain_def same_data_def)
    ultimately show ?thesis
      using True addNode_data [of ?l2 ?a] s v2 by (simp add: same_data_def ns view_Cons)
  qed
qed

lemma lru_put_refines:
  assumes "lru_rep entries l xs" and "lru_Capacity l \<noteq> 1"
  shows "\<exists>l1. lru_put H l key v = Return l1 \<and> lru_rep entries l1 (abs_put (lru_Capacity l) key v xs)
    \<and> lru_Capacity l1 = lru_Capacity l"
proof -
  from assms obtain ns where inv: "lru_inv entries l ns" and xs: "xs = contents_of (lru_heap l) ns"
    by (auto simp: lru_rep_def)
  have len: "length xs = length ns" by (simp add: xs contents_of_def)
  show ?thesis
  proof (cases "h_Find H (lru_Map l) key")
    case None
    with put_new [OF inv None assms(2), of v] find_None [OF inv, of key] len show ?thesis
      by (auto simp: abs_put_def xs)
  next
    case (Some a)
    with put_known [OF inv Some, of v] find_None [OF inv, of key] show ?thesis
      by (auto simp: abs_put_def xs split: option.splits)
  qed
qed

lemma lru_evict_refines:
  assumes "lru_rep entries l xs" and "drop_key key xs \<noteq> [] \<or> map_of xs key = None"
  shows "\<exists>l1. lru_evict H l key = Return l1 \<and> lru_rep entries l1 (drop_key key xs) \<and> lru_Capacity l1 = lru_Capacity l"
proof -
  from assms obtain ns where inv: "lru_inv entries l ns" and xs: "xs = contents_of (lru_heap l) ns"
    by (auto simp: lru_rep_def)
  show ?thesis
  proof (cases "h_Find H (lru_Map l) key")
    case None
    with find_None [OF inv, of key] assms(1) drop_key_id [of xs key] show ?thesis by (auto simp: lru_evict_def xs)
  next
    case (Some a)
    from find_Some [OF inv Some] obtain us vs where ns: "ns = us @ a # vs" and key: "n_Key (lru_heap l ! a) = key" by blast
    note sp = inv_split [OF inv [unfolded ns]]
    have dk: "drop_key key xs = contents_of (lru_heap l) (us @ vs)"
      using drop_key_split(1) [OF sp(2) [unfolded key]] by (simp add: xs ns view_append view_Cons key)
    have "map_of xs key \<noteq> None" using Some find_None [OF inv, of key] xs by simp
    with assms(2) dk have "us @ vs \<noteq> []" by auto
    from removeNode_chain [OF sp(3) this] obtain l1 where r: "removeNode l (Some a) = Return (key, l1)"
      and c: "chain l1 (us @ vs)" and s: "same_data l l1" by (auto simp: key)
    have "\<And>b. b \<in> set (us @ vs) \<Longrightarrow> b < length (lru_heap l)" using sp(4) by simp
    note view = same_data_view [where ns = "us @ vs", OF s this, simplified]
    let ?m = "h_Delete H (lru_Map l) key"
    have dm: "distinct (map fst (entries (lru_Map l)))" using inv by (simp add: lru_inv_def)
    have d: "distinct (map fst (keyed (lru_heap l) (us @ vs)))" using sp(1) by (auto simp: view_append)
    have mm: "map_of (entries ?m) = map_of (keyed (lru_heap l) (us @ vs))"
      using delete [OF dm, of key] map_of_split_perm(2) [OF sp(1)] inv
      by (simp add: lru_inv_def ns view_append view_Cons key)
    have "h_Size H ?m = length (us @ vs)"
      using size delete [OF dm, of key] length_of_map_of [OF _ d mm] by (simp add: keyed_def)
    then have "lru_inv entries (l1\<lparr>lru_Map := ?m, lru_Size := h_Size H ?m\<rparr>) (us @ vs)"
      using c d mm delete [OF dm, of key] view(1) by (simp add: lru_inv_def chain_def)
    moreover have "contents_of (lru_heap l1) (us @ vs) = drop_key key xs" using view(2) dk by simp
    ultimately show ?thesis
      using Some r s by (auto simp: lru_evict_def lru_rep_def same_data_def Let_def)
  qed
qed

end

section \<open>Sequences of operations\<close>

datatype 'v lru_op = OGet string | OPut string 'v | OEvict string

definition lru_exec :: "'m hamt_ops \<Rightarrow> ('v, 'm) LruCache \<Rightarrow> 'v lru_op \<Rightarrow> ('v option \<times> ('v, 'm) LruCache) outcome" where
  "lru_exec H l op =
     (case op of
        OGet k \<Rightarrow> lru_get H l k
      | OPut k v \<Rightarrow> bind_outcome (lru_put H l k v) (\<lambda>l1. Return (None, l1))
      | OEvict k \<Rightarrow> bind_outcome (lru_evict H l k) (\<lambda>l1. Return (None, l1)))"

fun lru_run :: "'m hamt_ops \<Rightarrow> ('v, 'm) LruCache \<Rightarrow> 'v lru_op list \<Rightarrow> ('v option list \<times> ('v, 'm) LruCache) outcome" where
  "lru_run H l [] = Return ([], l)"
| "lru_run H l (op # ops) =
     bind_outcome (lru_exec H l op)
       (\<lambda>(r, l1). bind_outcome (lru_run H l1 ops) (\<lambda>(rs, l2). Return (r # rs, l2)))"

definition abs_exec :: "int \<Rightarrow> 'v lru \<Rightarrow> 'v lru_op \<Rightarrow> 'v option \<times> 'v lru" where
  "abs_exec cap xs op =
     (case op of
        OGet k \<Rightarrow> abs_get k xs
      | OPut k v \<Rightarrow> (None, abs_put cap k v xs)
      | OEvict k \<Rightarrow> (None, drop_key k xs))"

fun abs_run :: "int \<Rightarrow> 'v lru \<Rightarrow> 'v lru_op list \<Rightarrow> 'v option list \<times> 'v lru" where
  "abs_run cap xs [] = ([], xs)"
| "abs_run cap xs (op # ops) =
     (let (r, xs1) = abs_exec cap xs op; (rs, xs2) = abs_run cap xs1 ops in (r # rs, xs2))"

text \<open>No eviction in the sequence takes out the only entry of the cache.\<close>

fun keeps_one :: "int \<Rightarrow> 'v lru \<Rightarrow> 'v lru_op list \<Rightarrow> bool" where
  "keeps_one cap xs [] \<longleftrightarrow> True"
| "keeps_one cap xs (op # ops) \<longleftrightarrow>
     (case op of OEvict k \<Rightarrow> drop_key k xs \<noteq> [] \<or> map_of xs k = None | _ \<Rightarrow> True)
     \<and> keeps_one cap (snd (abs_exec cap xs op)) ops"

lemma abs_put_bound: "distinct (map fst xs) \<Longrightarrow> cap > 0 \<Longrightarrow> int (length xs) \<le> cap \<Longrightarrow> int (length (abs_put cap k v xs)) \<le> cap"
proof (cases "map_of xs k")
  case (Some w)
  assume "int (length xs) \<le> cap"
  have "length (drop_key k xs) < length xs"
    unfolding drop_key_def by (rule length_filter_less [OF map_of_SomeD [OF Some]]) simp
  with Some \<open>int (length xs) \<le> cap\<close> show ?thesis by (simp add: abs_put_def)
qed (auto simp: abs_put_def)

lemma abs_get_bound: "length (snd (abs_get k xs)) \<le> length xs"
proof (cases "map_of xs k")
  case (Some w)
  have "length (drop_key k xs) < length xs"
    unfolding drop_key_def by (rule length_filter_less [OF map_of_SomeD [OF Some]]) simp
  with Some show ?thesis by (simp add: abs_get_def)
qed (simp add: abs_get_def)

lemma rep_distinct: "lru_rep entries l xs \<Longrightarrow> distinct (map fst xs)"
  by (auto simp: lru_rep_def lru_inv_def fst_views)

lemma rep_size: "lru_rep entries l xs \<Longrightarrow> lru_Size l = length xs"
  by (auto simp: lru_rep_def lru_inv_def contents_of_def)

lemma abs_exec_bound:
  assumes "distinct (map fst xs)" and "cap > 0" and "int (length xs) \<le> cap"
  shows "int (length (snd (abs_exec cap xs op))) \<le> cap"
proof (cases op)
  case (OGet k)
  with assms abs_get_bound [of k xs] show ?thesis by (simp add: abs_exec_def)
next
  case (OPut k v)
  with assms abs_put_bound show ?thesis by (simp add: abs_exec_def)
next
  case (OEvict k)
  have "length (drop_key k xs) \<le> length xs" by (simp add: drop_key_def)
  with OEvict assms show ?thesis by (simp add: abs_exec_def)
qed

context hamt
begin

lemma create_rep: "lru_rep entries (CreateLruCache H cap) []"
  using size [of "h_NewMap H"] new_map
  by (auto simp: lru_rep_def lru_inv_def chain_def CreateLruCache_def)

lemma lru_exec_refines:
  assumes "lru_rep entries l xs" and "lru_Capacity l \<noteq> 1" and "keeps_one (lru_Capacity l) xs [op]"
  shows "\<exists>l1. lru_exec H l op = Return (fst (abs_exec (lru_Capacity l) xs op), l1)
    \<and> lru_rep entries l1 (snd (abs_exec (lru_Capacity l) xs op)) \<and> lru_Capacity l1 = lru_Capacity l"
proof (cases op)
  case (OGet k)
  with lru_get_refines [OF assms(1), of k] show ?thesis by (auto simp: lru_exec_def abs_exec_def)
next
  case (OPut k v)
  with lru_put_refines [OF assms(1,2), of k v] show ?thesis by (auto simp: lru_exec_def abs_exec_def)
next
  case (OEvict k)
  with lru_evict_refines [OF assms(1), of k] assms(3) show ?thesis by (auto simp: lru_exec_def abs_exec_def)
qed

lemma lru_run_refines:
  assumes "lru_rep entries l xs" and "lru_Capacity l \<noteq> 1" and "keeps_one (lru_Capacity l) xs ops"
  shows "\<exists>l1. lru_run H l ops = Return (fst (abs_run (lru_Capacity l) xs ops), l1)
    \<and> lru_rep entries l1 (snd (abs_run (lru_Capacity l) xs ops))"
  using assms
proof (induction ops arbitrary: l xs)
  case (Cons op ops)
  from lru_exec_refines [OF Cons.prems(1,2), of op] Cons.prems(3) obtain l1 where
    e: "lru_exec H l op = Return (fst (abs_exec (lru_Capacity l) xs op), l1)"
    and r: "lru_rep entries l1 (snd (abs_exec (lru_Capacity l) xs op))" and c: "lru_Capacity l1 = lru_Capacity l"
    by auto
  from Cons.IH [OF r] Cons.prems(2,3) c show ?case by (auto simp: e split_beta Let_def)
qed auto

lemma abs_run_bound:
  assumes "lru_rep entries l xs" and "lru_Capacity l \<noteq> 1" and "keeps_one (lru_Capacity l) xs ops"
    and "lru_Capacity l > 0" and "int (length xs) \<le> lru_Capacity l"
  shows "int (length (snd (abs_run (lru_Capacity l) xs ops))) \<le> lru_Capacity l"
  using assms
proof (induction ops arbitrary: l xs)
  case (Cons op ops)
  from lru_exec_refines [OF Cons.prems(1,2), of op] Cons.prems(3) obtain l1 where
    r: "lru_rep entries l1 (snd (abs_exec (lru_Capacity l) xs op))" and c: "lru_Capacity l1 = lru_Capacity l"
    by auto
  have "int (length (snd (abs_exec (lru_Capacity l) xs op))) \<le> lru_Capacity l"
    using abs_exec_bound rep_distinct Cons.prems by blast
  with Cons.IH [OF r] Cons.prems c show ?case by (simp add: split_beta Let_def)
qed simp

end

section \<open>An implementation of the map\<close>

definition alist_hamt :: "(string \<times> addr) list hamt_ops" where
  "alist_hamt = \<lparr>h_NewMap = [], h_Find = map_of, h_Insert = (\<lambda>m k a. AList.update k a m),
     h_Delete = (\<lambda>m k. AList.delete k m), h_Size = length\<rparr>"

interpretation alist_map: hamt alist_hamt "\<lambda>m. m"
  by unfold_locales (simp_all add: alist_hamt_def distinct_update delete_conv' distinct_delete)

section \<open>Properties\<close>

text \<open>C33. From a new cache of any capacity but one, every sequence of gets, puts and evictions that never
  evicts the only entry returns what the abstract least-recently-used list returns, ends in a cache that
  represents that list, and keeps the number of entries within a positive capacity.\<close>

theorem lru_cache_refines:
  assumes "hamt H entries" and "cap \<noteq> 1" and "keeps_one cap [] ops"
  shows "\<exists>l. lru_run H (CreateLruCache H cap) ops = Return (fst (abs_run cap [] ops), l)
    \<and> lru_rep entries l (snd (abs_run cap [] ops)) \<and> lru_Size l = length (snd (abs_run cap [] ops))
    \<and> (cap > 0 \<longrightarrow> int (lru_Size l) \<le> cap)"
proof -
  have c: "lru_Capacity (CreateLruCache H cap) = cap" by (simp add: CreateLruCache_def)
  note rep = hamt.create_rep [OF assms(1), of cap]
  show ?thesis
    using hamt.lru_run_refines [OF assms(1) rep] hamt.abs_run_bound [OF assms(1) rep] assms(2,3) rep_size
    unfolding c by fastforce
qed

theorem lru_cache_refines_witness:
  "\<exists>l. lru_run alist_hamt (CreateLruCache alist_hamt 2) [OPut ''a'' (1::int), OPut ''b'' 2, OGet ''a'', OPut ''c'' 3, OGet ''b'']
     = Return ([None, None, Some 1, None, None], l)
   \<and> lru_rep (\<lambda>m. m) l [(''a'', 1), (''c'', 3)] \<and> lru_Size l = 2"
  using lru_cache_refines [OF alist_map.hamt_axioms, of 2 "[OPut ''a'' (1::int), OPut ''b'' 2, OGet ''a'', OPut ''c'' 3, OGet ''b'']"]
  by (auto simp: abs_exec_def abs_get_def abs_put_def drop_key_def numeral_2_eq_2 simp del: lru_run.simps)

text \<open>A cache of capacity one outgrows it: the second put unlinks the only node but keeps the old head,
  so the third put removes a key that is no longer in the map and the cache holds two entries.\<close>

theorem lru_capacity_one_overflows:
  "case lru_run alist_hamt (CreateLruCache alist_hamt 1) [OPut ''a'' (1::int), OPut ''b'' 2, OPut ''c'' 3] of
     Return (_, l) \<Rightarrow> lru_Capacity l = 1 \<and> lru_Size l = 2 | Panic \<Rightarrow> False"
  by code_simp

text \<open>Evicting the only entry breaks the list: its node stays the head.  Afterwards a cache of capacity two
  holds three entries, the next put drops the entry put last before it, and reading the oldest entry follows
  a nil pointer and panics.\<close>

theorem lru_evict_last_breaks:
  "let ops = [OPut ''a'' (1::int), OEvict ''a'', OPut ''b'' 2, OPut ''c'' 3, OPut ''d'' 4, OPut ''e'' 5]
   in (case lru_run alist_hamt (CreateLruCache alist_hamt 2) (ops @ [OGet ''d'']) of
         Return (rs, l) \<Rightarrow> last rs = None \<and> lru_Capacity l = 2 \<and> lru_Size l = 3 | Panic \<Rightarrow> False)
      \<and> (case lru_run alist_hamt (CreateLruCache alist_hamt 2) (ops @ [OGet ''b'']) of Return _ \<Rightarrow> False | Panic \<Rightarrow> True)"
  by code_simp

end
