(* ===== verification/Cache_Service.thy ===== *)
theory Cache_Service
  imports Lru_Cache Go_Errors
begin

text \<open>
  The cache services behind \<^verbatim>\<open>CacheSvcApi\<close> (\<^verbatim>\<open>src/node/cache/\<close>): the LRU service, a map from names to LRU caches,
  and the Redis and memcached services, whose clients are third-party code and parameters here
  (\<open>redis_ops\<close>, \<open>memcache_ops\<close>).  The interface is the locale \<open>cache_api\<close>: a cache that exists accepts a value
  and returns it, and leaves the other caches alone.  The LRU service implements it; the two network
  services do not, and the properties say what their reads return instead.
\<close>

section \<open>The LRU service\<close>

record ('v, 'm) LruCacheSvc =
  svc_Caches :: "string \<Rightarrow> ('v, 'm) LruCache option"

definition NewLruCacheSvc :: "('v, 'm) LruCacheSvc" where
  "NewLruCacheSvc = \<lparr>svc_Caches = Map.empty\<rparr>"

definition CreateCache ::
  "'m hamt_ops \<Rightarrow> ('v, 'm) LruCacheSvc \<Rightarrow> string \<Rightarrow> int \<Rightarrow> goerr option \<times> ('v, 'm) LruCacheSvc" where
  "CreateCache H svc name capacity =
     (case svc_Caches svc name of
        Some _ \<Rightarrow> (Some (Wrapf ErrConflictName (''the cache ['' @ name @ ''] is existing already'')), svc)
      | None \<Rightarrow> (None, svc\<lparr>svc_Caches := (svc_Caches svc)(name \<mapsto> CreateLruCache H capacity)\<rparr>))"

definition cache_not_found :: "string \<Rightarrow> goerr" where
  "cache_not_found name = Wrapf ErrNotFound (''the cache ['' @ name @ ''] not found'')"

text \<open>The value of a read is an \<^verbatim>\<open>interface{}\<close>: \<open>None\<close> is nil.\<close>

definition LruSvc_Get ::
  "'m hamt_ops \<Rightarrow> ('v, 'm) LruCacheSvc \<Rightarrow> string \<Rightarrow> string \<Rightarrow> ('v option res \<times> ('v, 'm) LruCacheSvc) outcome" where
  "LruSvc_Get H svc name key =
     (case svc_Caches svc name of
        None \<Rightarrow> Return (Inl (cache_not_found name), svc)
      | Some cache \<Rightarrow>
          bind_outcome (lru_get H cache key)
            (\<lambda>(v, cache'). Return (Inr v, svc\<lparr>svc_Caches := (svc_Caches svc)(name \<mapsto> cache')\<rparr>)))"

text \<open>\<^verbatim>\<open>Put\<close> and \<^verbatim>\<open>Evict\<close> log that the cache is missing and then call a method of the nil cache, which panics.\<close>

definition LruSvc_Put ::
  "'m hamt_ops \<Rightarrow> ('v, 'm) LruCacheSvc \<Rightarrow> string \<Rightarrow> string \<Rightarrow> 'v \<Rightarrow> ('v, 'm) LruCacheSvc outcome" where
  "LruSvc_Put H svc name key v =
     (case svc_Caches svc name of
        None \<Rightarrow> Panic
      | Some cache \<Rightarrow>
          bind_outcome (lru_put H cache key v)
            (\<lambda>cache'. Return (svc\<lparr>svc_Caches := (svc_Caches svc)(name \<mapsto> cache')\<rparr>)))"

definition LruSvc_Evict ::
  "'m hamt_ops \<Rightarrow> ('v, 'm) LruCacheSvc \<Rightarrow> string \<Rightarrow> string \<Rightarrow> ('v, 'm) LruCacheSvc outcome" where
  "LruSvc_Evict H svc name key =
     (case svc_Caches svc name of
        None \<Rightarrow> Panic
      | Some cache \<Rightarrow>
          bind_outcome (lru_evict H cache key)
            (\<lambda>cache'. Return (svc\<lparr>svc_Caches := (svc_Caches svc)(name \<mapsto> cache')\<rparr>)))"

definition GetCapacity :: "('v, 'm) LruCacheSvc \<Rightarrow> string \<Rightarrow> int" where
  "GetCapacity svc name = (case svc_Caches svc name of None \<Rightarrow> 0 | Some cache \<Rightarrow> lru_Capacity cache)"

definition GetSize :: "('v, 'm) LruCacheSvc \<Rightarrow> string \<Rightarrow> nat" where
  "GetSize svc name = (case svc_Caches svc name of None \<Rightarrow> 0 | Some cache \<Rightarrow> lru_Size cache)"

text \<open>The loop of \<^verbatim>\<open>ReSize\<close>, with fuel: \<open>None\<close> is a loop that has not ended.  The result of \<^verbatim>\<open>Map.Delete\<close> is
  dropped, so the map keeps its size.\<close>

fun ReSize_loop :: "nat \<Rightarrow> 'm hamt_ops \<Rightarrow> ('v, 'm) LruCache \<Rightarrow> ('v, 'm) LruCache outcome option" where
  "ReSize_loop 0 H cache = None"
| "ReSize_loop (Suc fuel) H cache =
     (if int (h_Size H (lru_Map cache)) \<le> lru_Capacity cache then Some (Return cache)
      else (case removeNode cache (lru_head cache) of
              Panic \<Rightarrow> Some Panic
            | Return (oldKey, cache') \<Rightarrow> ReSize_loop fuel H cache'))"

definition ReSize ::
  "nat \<Rightarrow> 'm hamt_ops \<Rightarrow> ('v, 'm) LruCacheSvc \<Rightarrow> string \<Rightarrow> int \<Rightarrow> (goerr option \<times> ('v, 'm) LruCacheSvc) outcome option"
where
  "ReSize fuel H svc name capacity =
     (case svc_Caches svc name of
        None \<Rightarrow> Some (Return (Some (cache_not_found name), svc))
      | Some cache \<Rightarrow>
          if capacity = - 1 \<or> lru_Capacity cache \<le> capacity then
            Some (Return (None, svc\<lparr>svc_Caches := (svc_Caches svc)(name \<mapsto> cache\<lparr>lru_Capacity := capacity\<rparr>)\<rparr>))
          else
            map_option (\<lambda>out. bind_outcome out
                          (\<lambda>cache'. Return (None, svc\<lparr>svc_Caches := (svc_Caches svc)(name \<mapsto> cache')\<rparr>)))
              (ReSize_loop fuel H cache))"

section \<open>The network services\<close>

text \<open>A Redis client: \<open>r_Exists\<close> counts the keys that exist, \<open>r_Set\<close> and \<open>r_Del\<close> may fail.\<close>

record ('c, 'v) redis_ops =
  r_Exists :: "'c \<Rightarrow> string \<Rightarrow> int res"
  r_Get :: "'c \<Rightarrow> string \<Rightarrow> 'v res"
  r_Set :: "'c \<Rightarrow> string \<Rightarrow> 'v \<Rightarrow> goerr option \<times> 'c"
  r_Del :: "'c \<Rightarrow> string list \<Rightarrow> goerr option \<times> 'c"

definition Redis_Get :: "('c, 'v) redis_ops \<Rightarrow> 'c \<Rightarrow> string \<Rightarrow> string \<Rightarrow> 'v option res" where
  "Redis_Get R c name key =
     (case r_Exists R c (name @ ''_'' @ key) of
        Inl err \<Rightarrow> Inl (Wrap ErrCacheGetFailed (Some err))
      | Inr exists \<Rightarrow>
          if exists = 1 then
            (case r_Get R c (name @ ''_'' @ key) of Inl err \<Rightarrow> Inl err | Inr v \<Rightarrow> Inr (Some v))
          else Inl (Wrapf ErrNotFound (''the key ['' @ name @ ''] not found'')))"

definition Redis_Put :: "('c, 'v) redis_ops \<Rightarrow> 'c \<Rightarrow> string \<Rightarrow> string \<Rightarrow> 'v \<Rightarrow> 'c" where
  "Redis_Put R c name key v = snd (r_Set R c key v)"

definition Redis_Evict :: "('c, 'v) redis_ops \<Rightarrow> 'c \<Rightarrow> string \<Rightarrow> string \<Rightarrow> 'c" where
  "Redis_Evict R c name key = snd (r_Del R c [key, name @ ''_'' @ key])"

text \<open>A memcached client with the JSON coding of values: \<open>mc_Get\<close> returns the stored bytes, \<open>None\<close> for a nil
  slice.\<close>

record ('c, 'v) memcache_ops =
  mc_Get :: "'c \<Rightarrow> string \<Rightarrow> bytes option res"
  mc_Set :: "'c \<Rightarrow> string \<Rightarrow> bytes \<Rightarrow> goerr option \<times> 'c"
  mc_Delete :: "'c \<Rightarrow> string \<Rightarrow> goerr option \<times> 'c"
  json_Marshal :: "'v \<Rightarrow> bytes res"
  json_Unmarshal :: "bytes \<Rightarrow> 'v res"

text \<open>When the bytes do not parse, the result is the value parsed so far: nil.\<close>

definition Memcached_Get :: "('c, 'v) memcache_ops \<Rightarrow> 'c \<Rightarrow> string \<Rightarrow> string \<Rightarrow> 'v option res" where
  "Memcached_Get M c name key =
     (case mc_Get M c (name @ ''_'' @ key) of
        Inl err \<Rightarrow> Inl (Wrap ErrCacheGetFailed (Some err))
      | Inr item \<Rightarrow>
          (case item of
             Some val \<Rightarrow>
               (case json_Unmarshal M val of
                  Inl err \<Rightarrow> Inr None
                | Inr res \<Rightarrow> Inl (Wrapf ErrNotFound (''the key ['' @ name @ ''] not found'')))
           | None \<Rightarrow> Inl (Wrapf ErrNotFound (''the key ['' @ name @ ''] not found''))))"

definition Memcached_Put :: "('c, 'v) memcache_ops \<Rightarrow> 'c \<Rightarrow> string \<Rightarrow> string \<Rightarrow> 'v \<Rightarrow> 'c" where
  "Memcached_Put M c name key v =
     (case json_Marshal M v of
        Inl err \<Rightarrow> c
      | Inr bs \<Rightarrow> snd (mc_Set M c (name @ ''_'' @ key) bs))"

definition Memcached_Evict :: "('c, 'v) memcache_ops \<Rightarrow> 'c \<Rightarrow> string \<Rightarrow> string \<Rightarrow> 'c" where
  "Memcached_Evict M c name key = snd (mc_Delete M c (name @ ''_'' @ key))"

section \<open>The interface\<close>

text \<open>\<open>holds s n k\<close> is the value the cache \<open>n\<close> has under \<open>k\<close>.  A put may push other keys of the same cache out.\<close>

locale cache_api =
  fixes ok :: "'s \<Rightarrow> bool" and has :: "'s \<Rightarrow> string \<Rightarrow> bool" and holds :: "'s \<Rightarrow> string \<Rightarrow> string \<Rightarrow> 'v option"
    and get :: "'s \<Rightarrow> string \<Rightarrow> string \<Rightarrow> ('v option res \<times> 's) outcome"
    and put :: "'s \<Rightarrow> string \<Rightarrow> string \<Rightarrow> 'v \<Rightarrow> 's outcome"
  assumes get_law: "\<And>s n k. ok s \<Longrightarrow> has s n \<Longrightarrow>
        \<exists>s'. get s n k = Return (Inr (holds s n k), s') \<and> ok s' \<and> has s' = has s \<and> holds s' = holds s"
    and put_law: "\<And>s n k v. ok s \<Longrightarrow> has s n \<Longrightarrow>
        \<exists>s'. put s n k v = Return s' \<and> ok s' \<and> has s' = has s \<and> holds s' n k = Some v
           \<and> (\<forall>k'. k' \<noteq> k \<longrightarrow> holds s' n k' \<in> {holds s n k', None}) \<and> (\<forall>n'. n' \<noteq> n \<longrightarrow> holds s' n' = holds s n')"
begin

lemma put_get:
  assumes "ok s" and "has s n"
  shows "\<exists>s1 s2. put s n k v = Return s1 \<and> get s1 n k = Return (Inr (Some v), s2)"
proof -
  from put_law [OF assms, of k v] obtain s1 where s1: "put s n k v = Return s1" "ok s1" "has s1 n" "holds s1 n k = Some v"
    using assms(2) by auto
  from get_law [OF s1(2,3), of k] s1 show ?thesis by auto
qed

text \<open>Puts of a sequence, and the value put last under a key.\<close>

fun put_all :: "'s \<Rightarrow> string \<Rightarrow> (string \<times> 'v) list \<Rightarrow> 's outcome" where
  "put_all s n [] = Return s"
| "put_all s n ((k, v) # kvs) = bind_outcome (put s n k v) (\<lambda>s1. put_all s1 n kvs)"

lemma put_all_latest:
  assumes "ok s" and "has s n"
  shows "\<exists>s'. put_all s n kvs = Return s' \<and> ok s' \<and> has s' = has s
    \<and> (\<forall>k. holds s' n k \<in> {None, (case map_of (rev kvs) k of None \<Rightarrow> holds s n k | Some v \<Rightarrow> Some v)})"
  using assms
proof (induction kvs arbitrary: s)
  case (Cons kv kvs)
  obtain k v where kv: "kv = (k, v)" by (cases kv)
  from put_law [OF Cons.prems, of k v] obtain s1 where p: "put s n k v = Return s1" and ok1: "ok s1" "has s1 = has s"
    and h1: "holds s1 n k = Some v" "\<And>k'. k' \<noteq> k \<Longrightarrow> holds s1 n k' \<in> {holds s n k', None}" by blast
  from Cons.IH [of s1] ok1 Cons.prems obtain s' where r: "put_all s1 n kvs = Return s'" "ok s'" "has s' = has s"
    and h: "\<And>k'. holds s' n k' \<in> {None, (case map_of (rev kvs) k' of None \<Rightarrow> holds s1 n k' | Some v \<Rightarrow> Some v)}"
    by auto
  have "holds s' n k' \<in> {None, (case map_of (rev (kv # kvs)) k' of None \<Rightarrow> holds s n k' | Some v \<Rightarrow> Some v)}" for k'
    using h [of k'] h1(1) h1(2) [of k'] by (cases "k' = k") (auto simp: kv map_add_def split: option.splits)
  with p r show ?case by (simp add: kv)
qed simp

end

section \<open>The LRU service implements it\<close>

definition lru_holds :: "('m \<Rightarrow> (string \<times> addr) list) \<Rightarrow> ('v, 'm) LruCache \<Rightarrow> string \<Rightarrow> 'v option" where
  "lru_holds entries cache key =
     (case map_of (entries (lru_Map cache)) key of None \<Rightarrow> None | Some a \<Rightarrow> Some (n_Value (lru_heap cache ! a)))"

definition svc_ok :: "('m \<Rightarrow> (string \<times> addr) list) \<Rightarrow> ('v, 'm) LruCacheSvc \<Rightarrow> bool" where
  "svc_ok entries svc \<longleftrightarrow>
     (\<forall>name cache. svc_Caches svc name = Some cache \<longrightarrow> lru_Capacity cache \<noteq> 1 \<and> (\<exists>xs. lru_rep entries cache xs))"

definition svc_has :: "('v, 'm) LruCacheSvc \<Rightarrow> string \<Rightarrow> bool" where
  "svc_has svc name \<longleftrightarrow> svc_Caches svc name \<noteq> None"

definition svc_holds :: "('m \<Rightarrow> (string \<times> addr) list) \<Rightarrow> ('v, 'm) LruCacheSvc \<Rightarrow> string \<Rightarrow> string \<Rightarrow> 'v option" where
  "svc_holds entries svc name key =
     (case svc_Caches svc name of None \<Rightarrow> None | Some cache \<Rightarrow> lru_holds entries cache key)"

lemma map_of_views:
  "map_of (contents_of h ns) k = (case map_of (keyed h ns) k of None \<Rightarrow> None | Some a \<Rightarrow> Some (n_Value (h ! a)))"
  by (induction ns) (auto simp: view_Cons)

lemma lru_holds_rep: "lru_rep entries cache xs \<Longrightarrow> lru_holds entries cache = map_of xs"
  by (auto simp: lru_rep_def lru_inv_def lru_holds_def map_of_views fun_eq_iff)

lemma map_of_drop_key: "map_of (drop_key k xs) = (map_of xs)(k := None)"
  by (induction xs) (auto simp: drop_key_def fun_eq_iff)

lemma map_of_abs_get: "map_of (snd (abs_get k xs)) = map_of xs" and fst_abs_get: "fst (abs_get k xs) = map_of xs k"
  by (auto simp: abs_get_def map_of_drop_key fun_eq_iff map_add_def split: option.splits)

lemma map_of_tl: "distinct (map fst xs) \<Longrightarrow> map_of (tl xs) k \<in> {map_of xs k, None}"
  by (cases xs) (auto simp: map_of_eq_None_iff)

lemma map_of_abs_put:
  assumes "distinct (map fst xs)"
  shows "map_of (abs_put cap k v xs) k = Some v" "k' \<noteq> k \<Longrightarrow> map_of (abs_put cap k v xs) k' \<in> {map_of xs k', None}"
proof -
  have "map_of (tl xs) k = None" if "map_of xs k = None" using map_of_tl [OF assms, of k] that by simp
  then show "map_of (abs_put cap k v xs) k = Some v"
    by (auto simp: abs_put_def map_of_drop_key map_add_def split: option.splits)
  show "map_of (abs_put cap k v xs) k' \<in> {map_of xs k', None}" if "k' \<noteq> k"
    using map_of_tl [OF assms, of k'] that
    by (auto simp: abs_put_def map_of_drop_key map_add_def split: option.splits)
qed

lemma svc_update:
  assumes "svc_ok entries svc" and "svc_Caches svc name = Some cache" and "lru_rep entries cache' xs"
    and "lru_Capacity cache' = lru_Capacity cache"
  shows "svc_ok entries (svc\<lparr>svc_Caches := (svc_Caches svc)(name \<mapsto> cache')\<rparr>)"
    and "svc_has (svc\<lparr>svc_Caches := (svc_Caches svc)(name \<mapsto> cache')\<rparr>) = svc_has svc"
    and "svc_holds entries (svc\<lparr>svc_Caches := (svc_Caches svc)(name \<mapsto> cache')\<rparr>) = (svc_holds entries svc)(name := map_of xs)"
  using assms by (auto simp: svc_ok_def svc_has_def svc_holds_def fun_eq_iff lru_holds_rep)

sublocale hamt \<subseteq> lru_svc: cache_api "svc_ok entries" svc_has "svc_holds entries" "LruSvc_Get H" "LruSvc_Put H"
proof
  fix s :: "('v, 'm) LruCacheSvc" and n k v
  assume ok: "svc_ok entries s" and "svc_has s n"
  then obtain c where c: "svc_Caches s n = Some c" by (auto simp: svc_has_def)
  with ok obtain xs where rep: "lru_rep entries c xs" and cap: "lru_Capacity c \<noteq> 1" unfolding svc_ok_def by blast
  have h: "svc_holds entries s n = map_of xs" using lru_holds_rep [OF rep] by (simp add: svc_holds_def c fun_eq_iff)
  from lru_get_refines [OF rep, of k] obtain c1 where g: "lru_get H c k = Return (fst (abs_get k xs), c1)"
    and r1: "lru_rep entries c1 (snd (abs_get k xs))" and k1: "lru_Capacity c1 = lru_Capacity c" by blast
  note u = svc_update [OF ok c r1 k1]
  show "\<exists>s'. LruSvc_Get H s n k = Return (Inr (svc_holds entries s n k), s') \<and> svc_ok entries s'
      \<and> svc_has s' = svc_has s \<and> svc_holds entries s' = svc_holds entries s"
    using g u h by (auto simp: LruSvc_Get_def c fst_abs_get map_of_abs_get fun_eq_iff)
  from lru_put_refines [OF rep cap, of k v] obtain c2 where p: "lru_put H c k v = Return c2"
    and r2: "lru_rep entries c2 (abs_put (lru_Capacity c) k v xs)" and k2: "lru_Capacity c2 = lru_Capacity c" by blast
  note u = svc_update [OF ok c r2 k2]
  note m = map_of_abs_put [OF rep_distinct [OF rep]]
  show "\<exists>s'. LruSvc_Put H s n k v = Return s' \<and> svc_ok entries s' \<and> svc_has s' = svc_has s
      \<and> svc_holds entries s' n k = Some v
      \<and> (\<forall>k'. k' \<noteq> k \<longrightarrow> svc_holds entries s' n k' \<in> {svc_holds entries s n k', None})
      \<and> (\<forall>n'. n' \<noteq> n \<longrightarrow> svc_holds entries s' n' = svc_holds entries s n')"
    using p u h m by (simp add: LruSvc_Put_def c)
qed

context hamt
begin

lemma svc_api: "cache_api (svc_ok entries) svc_has (svc_holds entries) (LruSvc_Get H) (LruSvc_Put H)"
  by (rule lru_svc.cache_api_axioms)

end

lemma svc_ok_new: "svc_ok entries NewLruCacheSvc"
  by (simp add: svc_ok_def NewLruCacheSvc_def)

lemma svc_ok_create:
  assumes "hamt H entries" and "svc_ok entries svc" and "capacity \<noteq> 1"
  shows "svc_ok entries (snd (CreateCache H svc name capacity))"
  using assms(2,3) hamt.create_rep [OF assms(1), of capacity]
  by (auto simp: svc_ok_def CreateCache_def CreateLruCache_def split: option.splits if_splits)

section \<open>The contract of a Redis client\<close>

locale redis_client =
  fixes R :: "('c, 'v) redis_ops" and store :: "'c \<Rightarrow> string \<Rightarrow> 'v option"
  assumes r_exists: "\<And>c k n. r_Exists R c k = Inr n \<Longrightarrow> n = 1 \<longleftrightarrow> store c k \<noteq> None"
    and r_get: "\<And>c k v. r_Get R c k = Inr v \<Longrightarrow> store c k = Some v"
    and r_set: "\<And>c k v e c'. r_Set R c k v = (e, c') \<Longrightarrow> k' \<noteq> k \<Longrightarrow> store c' k' = store c k'"

context redis_client
begin

lemma put_elsewhere: "store (Redis_Put R c name key v) (name @ ''_'' @ key) = store c (name @ ''_'' @ key)"
proof -
  have "length (name @ ''_'' @ key) \<noteq> length key" by simp
  then have "name @ ''_'' @ key \<noteq> key" by metis
  with r_set [of c key v "fst (r_Set R c key v)" "snd (r_Set R c key v)"] show ?thesis
    by (simp add: Redis_Put_def)
qed

lemma get_absent:
  assumes "store c (name @ ''_'' @ key) = None"
  shows "\<exists>err. Redis_Get R c name key = Inl err"
  using assms r_exists by (auto simp: Redis_Get_def split: sum.splits)

end

definition mem_redis :: "(string \<Rightarrow> 'v option, 'v) redis_ops" where
  "mem_redis = \<lparr>r_Exists = (\<lambda>c k. Inr (if c k = None then 0 else 1)),
     r_Get = (\<lambda>c k. case c k of None \<Rightarrow> Inl (ErrText ''redis: nil'') | Some v \<Rightarrow> Inr v),
     r_Set = (\<lambda>c k v. (None, c(k \<mapsto> v))), r_Del = (\<lambda>c ks. (None, \<lambda>k. if k \<in> set ks then None else c k))\<rparr>"

interpretation mem_redis: redis_client mem_redis "\<lambda>c k. c k"
  by unfold_locales (auto simp: mem_redis_def split: if_splits option.splits)

section \<open>Properties\<close>

text \<open>A value put into an existing cache of the LRU service is what the next read of that key returns,
  and the other caches of the service hold what they held; the caches' capacities are any but one.\<close>

theorem LruSvc_put_get:
  assumes "hamt H entries" and "svc_ok entries svc" and "svc_has svc name"
  shows "\<exists>svc1 svc2. LruSvc_Put H svc name key v = Return svc1 \<and> svc_ok entries svc1
    \<and> (\<forall>other. other \<noteq> name \<longrightarrow> svc_holds entries svc1 other = svc_holds entries svc other)
    \<and> LruSvc_Get H svc1 name key = Return (Inr (Some v), svc2) \<and> svc_ok entries svc2"
proof -
  note api = hamt.svc_api [OF assms(1)]
  from cache_api.put_law [OF api assms(2,3), of key v] obtain svc1 where
    s1: "LruSvc_Put H svc name key v = Return svc1" "svc_ok entries svc1" "svc_has svc1 name"
      "svc_holds entries svc1 name key = Some v"
      "\<forall>other. other \<noteq> name \<longrightarrow> svc_holds entries svc1 other = svc_holds entries svc other"
    using assms(3) by auto
  from cache_api.get_law [OF api s1(2,3), of key] s1 show ?thesis by auto
qed

theorem LruSvc_put_get_witness:
  "\<exists>svc1 svc2. LruSvc_Put alist_hamt (snd (CreateCache alist_hamt NewLruCacheSvc ''m'' 2)) ''m'' ''k'' (7::int) = Return svc1
    \<and> LruSvc_Get alist_hamt svc1 ''m'' ''k'' = Return (Inr (Some 7), svc2)"
proof -
  have "svc_has (snd (CreateCache alist_hamt NewLruCacheSvc ''m'' 2)) ''m''"
    by (simp add: svc_has_def CreateCache_def NewLruCacheSvc_def)
  from LruSvc_put_get [OF alist_map.hamt_axioms svc_ok_create [OF alist_map.hamt_axioms svc_ok_new] this]
  show ?thesis by fastforce
qed

text \<open>\<^verbatim>\<open>ReSize\<close> to a smaller capacity changes nothing: the loop compares with the old capacity and ends at
  once, and the new capacity is never stored.\<close>

theorem ReSize_smaller_ignored:
  assumes "hamt H entries" and "svc_Caches svc name = Some cache" and "lru_rep entries cache xs"
    and "int (length xs) \<le> lru_Capacity cache" and "capacity < lru_Capacity cache" and "capacity \<noteq> - 1"
  shows "ReSize (Suc fuel) H svc name capacity = Some (Return (None, svc)) \<and> GetCapacity svc name \<noteq> capacity"
proof -
  from assms(3) obtain ns where "lru_inv entries cache ns" "length ns = length xs"
    by (auto simp: lru_rep_def contents_of_def)
  with hamt.inv_size [OF assms(1)] have "h_Size H (lru_Map cache) = length xs" by metis
  with assms show ?thesis by (auto simp: ReSize_def GetCapacity_def fun_upd_idem)
qed

theorem ReSize_smaller_ignored_witness:
  "ReSize 1 alist_hamt (snd (CreateCache alist_hamt (NewLruCacheSvc :: (int, _) LruCacheSvc) ''m'' 9)) ''m'' 3
     = Some (Return (None, snd (CreateCache alist_hamt NewLruCacheSvc ''m'' 9)))"
  using ReSize_smaller_ignored [OF alist_map.hamt_axioms _ hamt.create_rep [OF alist_map.hamt_axioms, of 9],
      of "snd (CreateCache alist_hamt (NewLruCacheSvc :: (int, _) LruCacheSvc) ''m'' 9)" "''m''" 3 0]
  by (simp add: CreateCache_def NewLruCacheSvc_def) (simp add: CreateLruCache_def)

text \<open>A value put through the Redis service is not found again: \<^verbatim>\<open>Put\<close> writes it under the bare key and
  \<^verbatim>\<open>Get\<close> looks under the cache's name, an underscore and the key.\<close>

theorem Redis_put_lost:
  assumes "redis_client R store" and "store c (name @ ''_'' @ key) = None"
  shows "\<exists>err. Redis_Get R (Redis_Put R c name key v) name key = Inl err"
  using redis_client.get_absent [OF assms(1)] redis_client.put_elsewhere [OF assms(1)] assms(2) by metis

theorem Redis_put_lost_witness:
  "\<exists>err. Redis_Get mem_redis (Redis_Put mem_redis Map.empty ''m'' ''k'' (7::int)) ''m'' ''k'' = Inl err"
  by (rule Redis_put_lost [OF mem_redis.redis_client_axioms]) simp

text \<open>The memcached service never returns a stored value: a read that parses ends in an error, and one
  that does not parse returns nil.\<close>

theorem Memcached_get_never_hits:
  "Memcached_Get M c name key \<noteq> Inr (Some v)"
  by (simp add: Memcached_Get_def split: sum.splits option.splits)

end
