(* ===== verification/Request_Queue.thy ===== *)
theory Request_Queue
  imports Node_Types
begin

text \<open>
  The queue of work requests the services schedule from (\<^verbatim>\<open>src/node/queue/request_queue.go\<close>).  Every operation
  holds the queue's mutex from its first to its last statement, so the calls of concurrent goroutines take
  effect one after another and a run of the queue is a sequence of operations.  The interface is the
  locale \<open>fifo\<close>: in any such sequence the requests come out in the order they went in, none lost, none twice.
\<close>

section \<open>The queue\<close>

record 'j WorkRequest =
  wr_Order :: OrderInfo
  wr_Shard :: ShardInfo
  wr_Job :: "'j option"

record 'w RequestQueue =
  rq_queue :: "'w list"

definition RequestQueue_zero :: "'w RequestQueue" where
  "RequestQueue_zero = \<lparr>rq_queue = []\<rparr>"

definition Len :: "'w RequestQueue \<Rightarrow> nat" where
  "Len q = length (rq_queue q)"

definition Push :: "'w RequestQueue \<Rightarrow> 'w \<Rightarrow> 'w RequestQueue" where
  "Push q x = q\<lparr>rq_queue := rq_queue q @ [x]\<rparr>"

text \<open>The result \<open>None\<close> is a nil request.\<close>

definition PopFront :: "'w RequestQueue \<Rightarrow> 'w option \<times> 'w RequestQueue" where
  "PopFront q =
     (if length (rq_queue q) = 0 then (None, q)
      else (Some (rq_queue q ! 0), q\<lparr>rq_queue := drop 1 (rq_queue q)\<rparr>))"

definition Clean :: "'w RequestQueue \<Rightarrow> 'w RequestQueue" where
  "Clean q = q\<lparr>rq_queue := []\<rparr>"

section \<open>The interface\<close>

datatype 'w queue_op = QPush 'w | QPop

locale fifo =
  fixes empty :: 'q and push :: "'q \<Rightarrow> 'w \<Rightarrow> 'q" and pop :: "'q \<Rightarrow> 'w option \<times> 'q" and items :: "'q \<Rightarrow> 'w list"
  assumes items_empty: "items empty = []"
    and items_push: "\<And>q x. items (push q x) = items q @ [x]"
    and pop_items: "\<And>q. fst (pop q) = (case items q of [] \<Rightarrow> None | x # _ \<Rightarrow> Some x) \<and> items (snd (pop q)) = tl (items q)"
begin

fun run :: "'q \<Rightarrow> 'w queue_op list \<Rightarrow> 'w list \<times> 'q" where
  "run q [] = ([], q)"
| "run q (QPush x # ops) = run (push q x) ops"
| "run q (QPop # ops) =
     (case pop q of (None, q') \<Rightarrow> run q' ops | (Some x, q') \<Rightarrow> (let (xs, q'') = run q' ops in (x # xs, q'')))"

lemma run_order: "fst (run q ops) @ items (snd (run q ops)) = items q @ [x. QPush x \<leftarrow> ops]"
proof (induction q ops rule: run.induct)
  case (3 q ops)
  show ?case
  proof (cases "items q")
    case Nil
    with pop_items [of q] have "fst (pop q) = None" "items (snd (pop q)) = []" by simp_all
    with 3(1) [of None "snd (pop q)"] Nil show ?thesis by (cases "pop q") simp
  next
    case (Cons x xs)
    with pop_items [of q] have "fst (pop q) = Some x" "items (snd (pop q)) = xs" by simp_all
    with 3(2) [of "Some x" "snd (pop q)" x] Cons show ?thesis by (cases "pop q") (simp add: split_beta Let_def)
  qed
qed (simp_all add: items_push)

end

interpretation rq: fifo RequestQueue_zero Push PopFront rq_queue
  by unfold_locales (auto simp: RequestQueue_zero_def Push_def PopFront_def drop_Suc hd_conv_nth split: list.splits)

section \<open>Sequences of calls\<close>

fun queue_run :: "'w RequestQueue \<Rightarrow> 'w queue_op list \<Rightarrow> 'w list \<times> 'w RequestQueue" where
  "queue_run q [] = ([], q)"
| "queue_run q (QPush x # ops) = queue_run (Push q x) ops"
| "queue_run q (QPop # ops) =
     (case PopFront q of
        (None, q') \<Rightarrow> queue_run q' ops
      | (Some x, q') \<Rightarrow> (let (xs, q'') = queue_run q' ops in (x # xs, q'')))"

lemma queue_run_is_run: "queue_run q ops = rq.run q ops"
  by (induction q ops rule: queue_run.induct) (auto split: prod.splits option.splits)

section \<open>Properties\<close>

text \<open>In every sequence of pushes and pops on a new queue, the requests popped, in the order they were
  popped, followed by those still queued are exactly the requests pushed, in the order they were pushed.\<close>

theorem queue_fifo:
  "fst (queue_run RequestQueue_zero ops) @ rq_queue (snd (queue_run RequestQueue_zero ops)) = [x. QPush x \<leftarrow> ops]
   \<and> Len (snd (queue_run RequestQueue_zero ops)) = length [x. QPush x \<leftarrow> ops] - length (fst (queue_run RequestQueue_zero ops))"
proof -
  have eq: "fst (queue_run RequestQueue_zero ops) @ rq_queue (snd (queue_run RequestQueue_zero ops)) = [x. QPush x \<leftarrow> ops]"
    using rq.run_order [of RequestQueue_zero ops] by (simp add: queue_run_is_run rq.items_empty)
  then have "length (fst (queue_run RequestQueue_zero ops)) + length (rq_queue (snd (queue_run RequestQueue_zero ops)))
      = length [x. QPush x \<leftarrow> ops]" by (metis length_append)
  with eq show ?thesis by (simp add: Len_def)
qed

end
