(* ===== verification/Maplock.thy ===== *)
theory Maplock
  imports Prelude
begin

text \<open>
  The named locks of the gateway (\<^verbatim>\<open>src/utils/maplock.go\<close>): a map from names to lock counters, created on
  demand and deleted when the last user unlocks.  The state holds the main mutex \<^verbatim>\<open>l.mu\<close>, the map, and for
  every allocated counter the owner of its mutex and its number of waiters; every goroutine has a
  position in its call of \<^verbatim>\<open>Lock\<close> or \<^verbatim>\<open>Unlock\<close>.  A step is a maximal stretch of a call that no other goroutine
  can observe in parts: \<^verbatim>\<open>Lock\<close> up to the release of \<^verbatim>\<open>l.mu\<close> (only the map and the counter are touched, under the
  mutex), the acquisition of the counter's mutex, the decrement of the waiters, and in \<^verbatim>\<open>Unlock\<close> the lookup
  with the deletion, then the release of both mutexes.  Between these, other goroutines run.

  The properties hold in every state reachable by any interleaving in which goroutines unlock what they
  locked: at most one goroutine holds a name, \<^verbatim>\<open>Unlock\<close> finds the lock, and no counter is left behind.
  The waiters are an int32 in the source; a wrap would need more than two thousand million goroutines.
\<close>

section \<open>State\<close>

type_synonym thread = nat

datatype pc = Idle | Waiting string nat | Acquired string nat | Held string nat | Releasing string nat | NoSuchLock

record lockCtr =
  lc_owner :: "thread option"
  lc_waiters :: int

record Maplock =
  ml_mu :: "thread option"
  ml_locks :: "string \<Rightarrow> nat option"
  ml_ctrs :: "nat \<Rightarrow> lockCtr"
  ml_next :: nat
  ml_pc :: "thread \<Rightarrow> pc"

definition NewMapLock :: Maplock where
  "NewMapLock = \<lparr>ml_mu = None, ml_locks = Map.empty, ml_ctrs = (\<lambda>_. \<lparr>lc_owner = None, lc_waiters = 0\<rparr>),
     ml_next = 0, ml_pc = (\<lambda>_. Idle)\<rparr>"

definition inc :: "nat \<Rightarrow> Maplock \<Rightarrow> Maplock" where
  "inc i s = s\<lparr>ml_ctrs := (ml_ctrs s)(i := (ml_ctrs s i)\<lparr>lc_waiters := lc_waiters (ml_ctrs s i) + 1\<rparr>)\<rparr>"

definition dec :: "nat \<Rightarrow> Maplock \<Rightarrow> Maplock" where
  "dec i s = s\<lparr>ml_ctrs := (ml_ctrs s)(i := (ml_ctrs s i)\<lparr>lc_waiters := lc_waiters (ml_ctrs s i) - 1\<rparr>)\<rparr>"

definition set_owner :: "nat \<Rightarrow> thread option \<Rightarrow> Maplock \<Rightarrow> Maplock" where
  "set_owner i w s = s\<lparr>ml_ctrs := (ml_ctrs s)(i := (ml_ctrs s i)\<lparr>lc_owner := w\<rparr>)\<rparr>"

definition set_pc :: "thread \<Rightarrow> pc \<Rightarrow> Maplock \<Rightarrow> Maplock" where
  "set_pc t p s = s\<lparr>ml_pc := (ml_pc s)(t := p)\<rparr>"

section \<open>Steps\<close>

text \<open>\<^verbatim>\<open>Lock\<close>: under the main mutex, find or create the counter and increment its waiters.\<close>

definition Lock_enter :: "thread \<Rightarrow> string \<Rightarrow> Maplock \<Rightarrow> Maplock" where
  "Lock_enter t name s =
     (case ml_locks s name of
        Some i \<Rightarrow> set_pc t (Waiting name i) (inc i s)
      | None \<Rightarrow>
          (let i = ml_next s;
               s1 = s\<lparr>ml_next := Suc i, ml_ctrs := (ml_ctrs s)(i := \<lparr>lc_owner = None, lc_waiters = 0\<rparr>),
                      ml_locks := (ml_locks s)(name \<mapsto> i)\<rparr>
           in set_pc t (Waiting name i) (inc i s1)))"

text \<open>\<^verbatim>\<open>Unlock\<close>: take the main mutex and look the counter up; an entry without waiters is deleted.\<close>

definition Unlock_begin :: "thread \<Rightarrow> string \<Rightarrow> Maplock \<Rightarrow> Maplock" where
  "Unlock_begin t name s =
     (case ml_locks s name of
        None \<Rightarrow> set_pc t NoSuchLock s
      | Some i \<Rightarrow>
          (let s1 = s\<lparr>ml_mu := Some t\<rparr>;
               s2 = (if lc_waiters (ml_ctrs s i) = 0 then s1\<lparr>ml_locks := (ml_locks s1)(name := None)\<rparr> else s1)
           in set_pc t (Releasing name i) s2))"

inductive ml_step :: "Maplock \<Rightarrow> Maplock \<Rightarrow> bool" where
  lock_enter: "ml_pc s t = Idle \<Longrightarrow> ml_mu s = None \<Longrightarrow> ml_step s (Lock_enter t name s)"
| lock_acquire: "ml_pc s t = Waiting name i \<Longrightarrow> lc_owner (ml_ctrs s i) = None \<Longrightarrow>
    ml_step s (set_pc t (Acquired name i) (set_owner i (Some t) s))"
| lock_dec: "ml_pc s t = Acquired name i \<Longrightarrow> ml_step s (set_pc t (Held name i) (dec i s))"
| unlock_begin: "ml_pc s t = Held name i \<Longrightarrow> ml_mu s = None \<Longrightarrow> ml_step s (Unlock_begin t name s)"
| unlock_end: "ml_pc s t = Releasing name i \<Longrightarrow>
    ml_step s (set_pc t Idle ((set_owner i None s)\<lparr>ml_mu := None\<rparr>))"

inductive ml_reach :: "Maplock \<Rightarrow> bool" where
  start: "ml_reach NewMapLock"
| more: "ml_reach s \<Longrightarrow> ml_step s s' \<Longrightarrow> ml_reach s'"

section \<open>The invariant\<close>

fun ctr_of :: "pc \<Rightarrow> (string \<times> nat) option" where
  "ctr_of (Waiting n i) = Some (n, i)"
| "ctr_of (Acquired n i) = Some (n, i)"
| "ctr_of (Held n i) = Some (n, i)"
| "ctr_of (Releasing n i) = Some (n, i)"
| "ctr_of _ = None"

fun is_waiting :: "nat \<Rightarrow> pc \<Rightarrow> bool" where
  "is_waiting i (Waiting n j) \<longleftrightarrow> i = j"
| "is_waiting i (Acquired n j) \<longleftrightarrow> i = j"
| "is_waiting i _ \<longleftrightarrow> False"

fun is_owning :: "pc \<Rightarrow> bool" where
  "is_owning (Acquired n j) \<longleftrightarrow> True"
| "is_owning (Held n j) \<longleftrightarrow> True"
| "is_owning (Releasing n j) \<longleftrightarrow> True"
| "is_owning _ \<longleftrightarrow> False"

fun is_releasing :: "pc \<Rightarrow> bool" where
  "is_releasing (Releasing n j) \<longleftrightarrow> True"
| "is_releasing _ \<longleftrightarrow> False"

definition waiters :: "Maplock \<Rightarrow> nat \<Rightarrow> thread set" where
  "waiters s i = {t. is_waiting i (ml_pc s t)}"

definition inv_refs :: "Maplock \<Rightarrow> bool" where
  "inv_refs s \<longleftrightarrow> (\<forall>t n i. ctr_of (ml_pc s t) = Some (n, i) \<longrightarrow>
     i < ml_next s \<and> (\<not> is_releasing (ml_pc s t) \<longrightarrow> ml_locks s n = Some i))"

definition inv_owner :: "Maplock \<Rightarrow> bool" where
  "inv_owner s \<longleftrightarrow> (\<forall>t i. lc_owner (ml_ctrs s i) = Some t \<longleftrightarrow>
     (\<exists>n. ctr_of (ml_pc s t) = Some (n, i)) \<and> is_owning (ml_pc s t))"

definition inv_count :: "Maplock \<Rightarrow> bool" where
  "inv_count s \<longleftrightarrow> (\<forall>i. finite (waiters s i) \<and> lc_waiters (ml_ctrs s i) = int (card (waiters s i)))"

definition inv_map :: "Maplock \<Rightarrow> bool" where
  "inv_map s \<longleftrightarrow> (\<forall>n m i. ml_locks s n = Some i \<longrightarrow> i < ml_next s \<and> (ml_locks s m = Some i \<longrightarrow> m = n))"

definition inv_mu :: "Maplock \<Rightarrow> bool" where
  "inv_mu s \<longleftrightarrow> (\<forall>t. ml_mu s = Some t \<longleftrightarrow> is_releasing (ml_pc s t))"

text \<open>A counter being released is still in the map, with a waiter, or in no entry and used by no one else.\<close>

definition inv_release :: "Maplock \<Rightarrow> bool" where
  "inv_release s \<longleftrightarrow> (\<forall>t n i. ml_pc s t = Releasing n i \<longrightarrow>
     (ml_locks s n = Some i \<and> waiters s i \<noteq> {})
     \<or> ((\<forall>m. ml_locks s m \<noteq> Some i) \<and> (\<forall>t' m. ctr_of (ml_pc s t') = Some (m, i) \<longrightarrow> t' = t)))"

definition inv_used :: "Maplock \<Rightarrow> bool" where
  "inv_used s \<longleftrightarrow> (\<forall>n i. ml_locks s n = Some i \<longrightarrow> (\<exists>t. ctr_of (ml_pc s t) = Some (n, i) \<and> \<not> is_releasing (ml_pc s t)))"

definition inv_found :: "Maplock \<Rightarrow> bool" where
  "inv_found s \<longleftrightarrow> (\<forall>t. ml_pc s t \<noteq> NoSuchLock)"

definition ml_inv :: "Maplock \<Rightarrow> bool" where
  "ml_inv s \<longleftrightarrow> inv_refs s \<and> inv_owner s \<and> inv_count s \<and> inv_map s \<and> inv_mu s \<and> inv_release s
     \<and> inv_used s \<and> inv_found s"

lemmas inv_parts = inv_refs_def inv_owner_def inv_count_def inv_map_def inv_mu_def inv_release_def inv_used_def inv_found_def

lemmas step_defs = set_pc_def inc_def dec_def set_owner_def

lemma ml_inv_new: "ml_inv NewMapLock"
  by (simp add: ml_inv_def inv_parts NewMapLock_def waiters_def)

text \<open>How the waiters of a counter change with the position of one goroutine.\<close>

lemma waiters_set_pc: "waiters (set_pc t p s) i = (if is_waiting i p then insert t (waiters s i) else waiters s i - {t})"
  by (auto simp: waiters_def set_pc_def split: if_splits)

lemma waiters_same [simp]: "waiters (s\<lparr>ml_mu := a\<rparr>) i = waiters s i" "waiters (s\<lparr>ml_locks := b\<rparr>) i = waiters s i"
  "waiters (s\<lparr>ml_ctrs := c\<rparr>) i = waiters s i" "waiters (s\<lparr>ml_next := d\<rparr>) i = waiters s i"
  by (simp_all add: waiters_def)

lemma waiters_ops [simp]: "waiters (inc j s) i = waiters s i" "waiters (dec j s) i = waiters s i"
  "waiters (set_owner j w s) i = waiters s i"
  by (simp_all add: step_defs)

lemma inv_ref:
  assumes "ml_inv s" and "ctr_of (ml_pc s t) = Some (n, i)"
  shows "i < ml_next s" and "\<not> is_releasing (ml_pc s t) \<Longrightarrow> ml_locks s n = Some i"
  using assms by (auto simp: ml_inv_def inv_refs_def)

lemma inv_own:
  assumes "ml_inv s" and "ctr_of (ml_pc s t) = Some (n, i)" and "is_owning (ml_pc s t)"
  shows "lc_owner (ml_ctrs s i) = Some t"
  using assms by (auto simp: ml_inv_def inv_owner_def)

lemma inv_own_rev:
  assumes "ml_inv s" and "lc_owner (ml_ctrs s i) = Some t"
  shows "\<exists>n. ctr_of (ml_pc s t) = Some (n, i)" and "is_owning (ml_pc s t)"
  using assms by (auto simp: ml_inv_def inv_owner_def)

lemma used_keep:
  assumes "ml_inv s" and "\<And>n i. ml_locks s' n = Some i \<Longrightarrow> ml_locks s n = Some i"
    and "\<And>t n i. ctr_of (ml_pc s t) = Some (n, i) \<Longrightarrow> \<not> is_releasing (ml_pc s t) \<Longrightarrow>
           ctr_of (ml_pc s' t) = Some (n, i) \<and> \<not> is_releasing (ml_pc s' t)"
  shows "inv_used s'"
  using assms unfolding ml_inv_def inv_used_def by metis

lemma release_keep:
  assumes "ml_inv s" and "ml_locks s' = ml_locks s"
    and "\<And>t n i. ml_pc s' t = Releasing n i \<Longrightarrow> ml_pc s t = Releasing n i \<and> (waiters s i \<noteq> {} \<longrightarrow> waiters s' i \<noteq> {})"
    and "\<And>t n i. ctr_of (ml_pc s' t) = Some (n, i) \<Longrightarrow> ctr_of (ml_pc s t) = Some (n, i)"
  shows "inv_release s'"
  using assms unfolding ml_inv_def inv_release_def by metis

lemma acquire_inv:
  assumes "ml_inv s" and "ml_pc s t = Waiting name i" and "lc_owner (ml_ctrs s i) = None"
  shows "ml_inv (set_pc t (Acquired name i) (set_owner i (Some t) s))"
proof -
  let ?s = "set_pc t (Acquired name i) (set_owner i (Some t) s)"
  have w: "waiters ?s j = waiters s j" for j
    using assms(2) by (auto simp: waiters_def step_defs)
  have "i < ml_next s" "ml_locks s name = Some i" using inv_ref [OF assms(1), of t name i] assms(2) by simp_all
  then have "inv_refs ?s" using assms by (auto simp: ml_inv_def inv_refs_def step_defs)
  moreover have "inv_owner ?s" using assms by (auto simp: inv_owner_def step_defs dest: inv_own [OF assms(1)] inv_own_rev [OF assms(1)])
  moreover have "inv_count ?s" using assms by (auto simp: ml_inv_def inv_count_def w) (auto simp: step_defs)
  moreover have "inv_map ?s" using assms by (auto simp: ml_inv_def inv_map_def step_defs)
  moreover have "inv_mu ?s" using assms by (auto simp: ml_inv_def inv_mu_def step_defs)
  moreover have "inv_release ?s"
    by (rule release_keep [OF assms(1)]) (use assms(2) w in \<open>auto simp: step_defs split: if_splits\<close>)
  moreover have "inv_used ?s"
    by (rule used_keep [OF assms(1)]) (use assms(2) in \<open>auto simp: step_defs split: if_splits\<close>)
  moreover have "inv_found ?s" using assms by (auto simp: ml_inv_def inv_found_def step_defs)
  ultimately show ?thesis by (simp add: ml_inv_def)
qed

lemma dec_inv:
  assumes "ml_inv s" and "ml_pc s t = Acquired name i"
  shows "ml_inv (set_pc t (Held name i) (dec i s))"
proof -
  let ?s = "set_pc t (Held name i) (dec i s)"
  have w: "waiters ?s j = (if j = i then waiters s i - {t} else waiters s j)" for j
    using assms(2) by (auto simp: waiters_def step_defs split: if_splits)
  have t: "t \<in> waiters s i" using assms(2) by (simp add: waiters_def)
  have ref: "i < ml_next s" "ml_locks s name = Some i" using inv_ref [OF assms(1), of t name i] assms(2) by simp_all
  then have "inv_refs ?s" using assms by (auto simp: ml_inv_def inv_refs_def step_defs)
  moreover have "inv_owner ?s" using assms by (fastforce simp: ml_inv_def inv_owner_def step_defs)
  moreover have "inv_count ?s"
    using assms(1) t card_Suc_Diff1 [of "waiters s i" t] by (auto simp: ml_inv_def inv_count_def w) (auto simp: step_defs)
  moreover have "inv_map ?s" using assms by (auto simp: ml_inv_def inv_map_def step_defs)
  moreover have "inv_mu ?s" using assms by (auto simp: ml_inv_def inv_mu_def step_defs)
  moreover have "inv_used ?s"
    by (rule used_keep [OF assms(1)]) (use assms(2) in \<open>auto simp: step_defs split: if_splits\<close>)
  moreover have "inv_found ?s" using assms by (auto simp: ml_inv_def inv_found_def step_defs)
  moreover have "inv_release ?s"
  proof -
    have "j \<noteq> i" if "ml_pc s t' = Releasing n j" for t' n j
      using that assms(2) inv_own [OF assms(1), of t name i] inv_own [OF assms(1), of t' n j] by auto
    then show ?thesis
      by (intro release_keep [OF assms(1)]) (use assms(2) w in \<open>auto simp: step_defs split: if_splits\<close>)
  qed
  ultimately show ?thesis by (simp add: ml_inv_def)
qed

lemma unlock_end_inv:
  assumes "ml_inv s" and "ml_pc s t = Releasing name i"
  shows "ml_inv (set_pc t Idle ((set_owner i None s)\<lparr>ml_mu := None\<rparr>))"
proof -
  let ?s = "set_pc t Idle ((set_owner i None s)\<lparr>ml_mu := None\<rparr>)"
  have w: "waiters ?s j = waiters s j" for j using assms(2) by (auto simp: waiters_def step_defs)
  have mu: "ml_mu s = Some t" using assms by (simp add: ml_inv_def inv_mu_def)
  have own: "lc_owner (ml_ctrs s i) = Some t" using assms by (auto simp: ml_inv_def inv_owner_def)
  have "inv_refs ?s" using assms by (auto simp: ml_inv_def inv_refs_def step_defs)
  moreover have "inv_owner ?s" using assms own by (auto simp: inv_owner_def step_defs dest: inv_own [OF assms(1)] inv_own_rev [OF assms(1)])
  moreover have "inv_count ?s" using assms by (auto simp: ml_inv_def inv_count_def w) (auto simp: step_defs)
  moreover have "inv_map ?s" using assms by (auto simp: ml_inv_def inv_map_def step_defs)
  moreover have "inv_mu ?s" using assms mu by (auto simp: ml_inv_def inv_mu_def step_defs)
  moreover have "inv_used ?s"
    by (rule used_keep [OF assms(1)]) (use assms(2) in \<open>auto simp: step_defs split: if_splits\<close>)
  moreover have "inv_found ?s" using assms by (auto simp: ml_inv_def inv_found_def step_defs)
  moreover have "\<not> is_releasing (ml_pc ?s t')" for t'
    using assms(1) mu by (auto simp: ml_inv_def inv_mu_def step_defs)
  then have "inv_release ?s" unfolding inv_release_def by (metis is_releasing.simps(1))
  ultimately show ?thesis by (simp add: ml_inv_def)
qed

lemma no_releasing:
  assumes "ml_inv s" and "ml_mu s = None"
  shows "\<not> is_releasing (ml_pc s t)"
  using assms by (auto simp: ml_inv_def inv_mu_def)

lemma no_release:
  assumes "\<And>t. \<not> is_releasing (ml_pc s t)"
  shows "inv_release s"
  unfolding inv_release_def using assms by (metis is_releasing.simps(1))

lemma enter_known_inv:
  assumes "ml_inv s" and "ml_pc s t = Idle" and "ml_mu s = None" and "ml_locks s name = Some i"
  shows "ml_inv (set_pc t (Waiting name i) (inc i s))"
proof -
  let ?s = "set_pc t (Waiting name i) (inc i s)"
  have w: "waiters ?s j = (if j = i then insert t (waiters s i) else waiters s j)" for j
    using assms(2) by (auto simp: waiters_def step_defs split: if_splits)
  have t: "t \<notin> waiters s i" using assms(2) by (simp add: waiters_def)
  have "i < ml_next s" using assms by (auto simp: ml_inv_def inv_map_def)
  with assms have "inv_refs ?s" by (auto simp: ml_inv_def inv_refs_def step_defs)
  moreover have "inv_owner ?s"
    using assms by (auto simp: inv_owner_def step_defs dest: inv_own [OF assms(1)] inv_own_rev [OF assms(1)])
  moreover have "inv_count ?s"
    using assms(1) t by (auto simp: ml_inv_def inv_count_def w) (auto simp: step_defs)
  moreover have "inv_map ?s" using assms by (auto simp: ml_inv_def inv_map_def step_defs)
  moreover have nr: "\<not> is_releasing (ml_pc ?s u)" for u using no_releasing [OF assms(1,3)] by (simp add: step_defs)
  then have "inv_release ?s" by (rule no_release)
  moreover have "inv_mu ?s" using nr assms(3) by (auto simp: inv_mu_def step_defs)
  moreover have "inv_used ?s"
    by (rule used_keep [OF assms(1)]) (use assms(2) in \<open>auto simp: step_defs split: if_splits\<close>)
  moreover have "inv_found ?s" using assms by (auto simp: ml_inv_def inv_found_def step_defs)
  ultimately show ?thesis by (simp add: ml_inv_def)
qed

text \<open>Allocating a counter for a name without one, before it is waited for.\<close>

lemma enter_new_inv:
  assumes "ml_inv s" and "ml_pc s t = Idle" and "ml_mu s = None" and "ml_locks s name = None"
  shows "ml_inv (Lock_enter t name s)"
proof -
  let ?i = "ml_next s"
  let ?s = "Lock_enter t name s"
  have fresh: "ctr_of (ml_pc s u) = Some (n, j) \<Longrightarrow> j < ?i" for u n j using inv_ref(1) [OF assms(1)] by blast
  have pc: "ml_pc ?s = (ml_pc s)(t := Waiting name ?i)" and lk: "ml_locks ?s = (ml_locks s)(name \<mapsto> ?i)"
    and nx: "ml_next ?s = Suc ?i" and mu: "ml_mu ?s = None"
    and ct: "ml_ctrs ?s = (ml_ctrs s)(?i := \<lparr>lc_owner = None, lc_waiters = 1\<rparr>)"
    using assms by (simp_all add: Lock_enter_def Let_def step_defs)
  have "\<not> is_waiting ?i (ml_pc s u)" for u using fresh [of u] by (cases "ml_pc s u") auto
  then have w: "waiters ?s j = (if j = ?i then {t} else waiters s j)" for j
    using assms(2) by (auto simp: waiters_def pc split: if_splits)
  have "inv_refs ?s"
    using fresh inv_ref [OF assms(1)] assms(4) by (fastforce simp: inv_refs_def pc lk nx)
  moreover have "inv_owner ?s"
    using assms fresh by (fastforce simp: inv_owner_def pc ct dest: inv_own [OF assms(1)] inv_own_rev [OF assms(1)])
  moreover have "inv_count ?s" using assms(1) by (auto simp: ml_inv_def inv_count_def w ct)
  moreover have "inv_map ?s" using assms by (fastforce simp: ml_inv_def inv_map_def lk nx)
  moreover have nr: "\<not> is_releasing (ml_pc ?s u)" for u using no_releasing [OF assms(1,3)] by (simp add: pc)
  then have "inv_release ?s" by (rule no_release)
  moreover have "inv_mu ?s" using nr mu by (auto simp: inv_mu_def)
  moreover have "inv_used ?s"
  proof (unfold inv_used_def, intro allI impI)
    fix n j assume lkj: "ml_locks ?s n = Some j"
    show "\<exists>u. ctr_of (ml_pc ?s u) = Some (n, j) \<and> \<not> is_releasing (ml_pc ?s u)"
    proof (cases "n = name")
      case True
      with lkj show ?thesis by (intro exI [of _ t]) (auto simp: pc lk)
    next
      case False
      with lkj assms(1) obtain u where "ctr_of (ml_pc s u) = Some (n, j)" "\<not> is_releasing (ml_pc s u)"
        by (auto simp: lk ml_inv_def inv_used_def)
      with assms(2) show ?thesis by (intro exI [of _ u]) (auto simp: pc)
    qed
  qed
  moreover have "inv_found ?s" using assms by (auto simp: ml_inv_def inv_found_def pc)
  ultimately show ?thesis by (simp add: ml_inv_def)
qed

lemma enter_inv: "ml_inv s \<Longrightarrow> ml_pc s t = Idle \<Longrightarrow> ml_mu s = None \<Longrightarrow> ml_inv (Lock_enter t name s)"
  using enter_new_inv enter_known_inv [of s t name] by (cases "ml_locks s name") (simp_all add: Lock_enter_def)

lemma unlock_begin_inv:
  assumes "ml_inv s" and "ml_pc s t = Held name i" and "ml_mu s = None"
  shows "ml_inv (Unlock_begin t name s)"
proof -
  let ?s = "Unlock_begin t name s"
  have i: "i < ml_next s" "ml_locks s name = Some i" and own: "lc_owner (ml_ctrs s i) = Some t"
    using inv_ref [OF assms(1), of t name i] inv_own [OF assms(1), of t name i] assms(2) by simp_all
  have cnt: "lc_waiters (ml_ctrs s i) = 0 \<longleftrightarrow> waiters s i = {}" using assms(1) by (auto simp: ml_inv_def inv_count_def)
  have pc: "ml_pc ?s = (ml_pc s)(t := Releasing name i)" and ct: "ml_ctrs ?s = ml_ctrs s" and nx: "ml_next ?s = ml_next s"
    and mu: "ml_mu ?s = Some t" and lk: "ml_locks ?s = (if waiters s i = {} then (ml_locks s)(name := None) else ml_locks s)"
    using i cnt by (simp_all add: Unlock_begin_def Let_def step_defs)
  have w: "waiters ?s j = waiters s j" for j using assms(2) by (auto simp: waiters_def pc)
  have inj: "ml_locks s m = Some i \<Longrightarrow> m = name" for m using assms(1) i by (auto simp: ml_inv_def inv_map_def)
  have alone: "u = t" if "ctr_of (ml_pc s u) = Some (m, i)" "waiters s i = {}" for u m
  proof -
    have "\<not> is_waiting i (ml_pc s u)" using that(2) by (auto simp: waiters_def)
    with that(1) no_releasing [OF assms(1,3), of u] have "is_owning (ml_pc s u)" by (cases "ml_pc s u") auto
    from inv_own [OF assms(1) that(1) this] own show ?thesis by simp
  qed
  have "inv_refs ?s"
    using i inv_ref [OF assms(1)] alone no_releasing [OF assms(1,3)] by (fastforce simp: inv_refs_def pc lk nx)
  moreover have "inv_owner ?s"
    using assms own by (auto simp: inv_owner_def pc ct dest: inv_own [OF assms(1)] inv_own_rev [OF assms(1)])
  moreover have "inv_count ?s" using assms(1) by (auto simp: ml_inv_def inv_count_def w ct)
  moreover have "inv_map ?s" using assms(1) by (auto simp: ml_inv_def inv_map_def lk nx)
  moreover have "inv_mu ?s" using no_releasing [OF assms(1,3)] by (auto simp: inv_mu_def pc mu)
  moreover have "inv_release ?s"
  proof (unfold inv_release_def, intro allI impI)
    fix u n j assume "ml_pc ?s u = Releasing n j"
    with no_releasing [OF assms(1,3), of u] have eq: "u = t" "n = name" "j = i" by (auto simp: pc split: if_splits)
    show "(ml_locks ?s n = Some j \<and> waiters ?s j \<noteq> {})
      \<or> ((\<forall>m. ml_locks ?s m \<noteq> Some j) \<and> (\<forall>t' m. ctr_of (ml_pc ?s t') = Some (m, j) \<longrightarrow> t' = u))"
    proof (cases "waiters s i = {}")
      case True
      have "ml_locks ?s m \<noteq> Some i" for m using inj [of m] True by (cases "m = name") (auto simp: lk)
      moreover have "v = t" if "ctr_of (ml_pc ?s v) = Some (m, i)" for v m
        using that alone [OF _ True, of v m] by (cases "v = t") (simp_all add: pc)
      ultimately show ?thesis unfolding eq by blast
    next
      case False
      then show ?thesis using i(2) unfolding eq w lk by simp
    qed
  qed
  moreover have "inv_used ?s"
  proof (unfold inv_used_def, intro allI impI)
    fix n j assume lkj: "ml_locks ?s n = Some j"
    then have old: "ml_locks s n = Some j" by (auto simp: lk split: if_splits)
    show "\<exists>u. ctr_of (ml_pc ?s u) = Some (n, j) \<and> \<not> is_releasing (ml_pc ?s u)"
    proof (cases "j = i")
      case True
      with lkj inj [of n] old obtain u where u: "u \<in> waiters s i" by (auto simp: lk split: if_splits)
      then have "u \<noteq> t" using assms(2) by (auto simp: waiters_def)
      moreover from u obtain m where m: "ctr_of (ml_pc s u) = Some (m, i)" "\<not> is_releasing (ml_pc s u)"
        by (cases "ml_pc s u") (auto simp: waiters_def)
      moreover have "m = n" using inv_ref(2) [OF assms(1) m] inj old True by metis
      ultimately show ?thesis using True by (auto simp: pc)
    next
      case False
      from old assms(1) obtain u where "ctr_of (ml_pc s u) = Some (n, j)" "\<not> is_releasing (ml_pc s u)"
        by (auto simp: ml_inv_def inv_used_def)
      with False assms(2) show ?thesis by (intro exI [of _ u]) (auto simp: pc)
    qed
  qed
  moreover have "inv_found ?s" using assms by (auto simp: ml_inv_def inv_found_def pc)
  ultimately show ?thesis by (simp add: ml_inv_def)
qed

lemma ml_step_inv: "ml_step s s' \<Longrightarrow> ml_inv s \<Longrightarrow> ml_inv s'"
  by (induction rule: ml_step.induct) (auto intro: enter_inv acquire_inv dec_inv unlock_begin_inv unlock_end_inv)

lemma ml_reach_inv: "ml_reach s \<Longrightarrow> ml_inv s"
  by (induction rule: ml_reach.induct) (auto intro: ml_inv_new ml_step_inv)

section \<open>Properties\<close>

text \<open>A run in which goroutine 1 holds a name and goroutine 2 waits for it.\<close>

definition sample_held :: Maplock where
  "sample_held = set_pc 1 (Held ''order-7'' 0) (dec 0 (set_pc 1 (Acquired ''order-7'' 0)
     (set_owner 0 (Some 1) (Lock_enter 1 ''order-7'' NewMapLock))))"

definition sample_waiting :: Maplock where
  "sample_waiting = Lock_enter 2 ''order-7'' sample_held"

lemmas sample_ml = sample_held_def sample_waiting_def Lock_enter_def NewMapLock_def step_defs

lemma sample_held_reach: "ml_reach sample_held"
  unfolding sample_held_def
  by (intro ml_reach.more [OF _ ml_step.lock_dec] ml_reach.more [OF _ ml_step.lock_acquire]
      ml_reach.more [OF _ ml_step.lock_enter] ml_reach.start)
    (simp_all add: sample_ml Let_def)

lemma sample_waiting_reach: "ml_reach sample_waiting"
  unfolding sample_waiting_def
  by (intro ml_reach.more [OF sample_held_reach] ml_step.lock_enter) (simp_all add: sample_ml Let_def)

text \<open>C34. Mutual exclusion: in every reachable state, two goroutines that have returned from \<^verbatim>\<open>Lock\<close> of the same
  name are the same goroutine, although the counter behind the name may have been deleted and recreated.\<close>

theorem Maplock_mutual_exclusion:
  assumes "ml_reach s" and "ml_pc s t = Held name i" and "ml_pc s u = Held name j"
  shows "t = u"
proof -
  note inv = ml_reach_inv [OF assms(1)]
  from inv_ref [OF inv, of t name i] inv_ref [OF inv, of u name j] assms have "i = j" by simp
  with inv_own [OF inv, of t name i] inv_own [OF inv, of u name j] assms show ?thesis by simp
qed

theorem Maplock_mutual_exclusion_witness:
  "ml_pc sample_waiting 1 = Held ''order-7'' 0 \<and> ml_pc sample_waiting 2 \<noteq> Held ''order-7'' 0"
  using Maplock_mutual_exclusion [OF sample_waiting_reach, of 1 "''order-7''" 0 2 0] by (auto simp: sample_ml Let_def)

text \<open>A goroutine that unlocks a name it holds finds the lock, and when every goroutine is done the map is
  empty: every counter that was created has been deleted.\<close>

theorem Maplock_found_and_cleaned:
  assumes "ml_reach s"
  shows "ml_pc s t \<noteq> NoSuchLock \<and> ((\<forall>u. ml_pc s u = Idle) \<longrightarrow> ml_locks s = Map.empty)"
proof -
  note inv = ml_reach_inv [OF assms]
  have "ml_locks s n = None" if "\<forall>u. ml_pc s u = Idle" for n
    using inv that by (cases "ml_locks s n") (auto simp: ml_inv_def inv_used_def)
  with inv show ?thesis by (auto simp: ml_inv_def inv_found_def)
qed

theorem Maplock_found_and_cleaned_witness:
  "ml_pc sample_waiting 2 \<noteq> NoSuchLock \<and> ml_locks NewMapLock = Map.empty"
  using Maplock_found_and_cleaned [OF sample_waiting_reach, of 2] Maplock_found_and_cleaned [OF ml_reach.start]
  by (simp add: NewMapLock_def)

text \<open>C35. A goroutine waiting in \<^verbatim>\<open>Lock\<close> is never stuck for good: as long as it waits, some goroutine that is inside
  \<^verbatim>\<open>Lock\<close> or \<^verbatim>\<open>Unlock\<close>, or holds the name, has a step to take.\<close>

theorem Maplock_progress:
  assumes "ml_reach s" and "ml_pc s t = Waiting name i"
  shows "\<exists>u s'. ml_step s s' \<and> ml_pc s u \<noteq> Idle \<and> ml_pc s' u \<noteq> ml_pc s u"
proof (cases "lc_owner (ml_ctrs s i)")
  case None
  from ml_step.lock_acquire [OF assms(2) None] assms(2) show ?thesis
    by (intro exI [of _ t] exI conjI) (assumption, simp_all add: step_defs)
next
  case (Some u)
  note inv = ml_reach_inv [OF assms(1)]
  from inv_own_rev [OF inv Some] obtain n where u: "ctr_of (ml_pc s u) = Some (n, i)" "is_owning (ml_pc s u)" by blast
  show ?thesis
  proof (cases "ml_mu s")
    case None
    then have "\<not> is_releasing (ml_pc s u)" by (rule no_releasing [OF inv])
    with u consider "ml_pc s u = Acquired n i" | "ml_pc s u = Held n i" by (cases "ml_pc s u") auto
    then show ?thesis
    proof cases
      case 1
      from ml_step.lock_dec [OF 1] 1 show ?thesis by (intro exI [of _ u] exI conjI) (assumption, simp_all add: step_defs)
    next
      case 2
      from ml_step.unlock_begin [OF 2 None] 2 show ?thesis
        by (intro exI [of _ u] exI conjI) (assumption, simp_all add: step_defs Unlock_begin_def Let_def split: option.splits)
    qed
  next
    case (Some v)
    then have "is_releasing (ml_pc s v)" using inv unfolding ml_inv_def inv_mu_def by blast
    then obtain m j where v: "ml_pc s v = Releasing m j" by (cases "ml_pc s v") auto
    from ml_step.unlock_end [OF v] v show ?thesis by (intro exI [of _ v] exI conjI) (assumption, simp_all add: step_defs)
  qed
qed

theorem Maplock_progress_witness:
  "\<exists>u s'. ml_step sample_waiting s' \<and> ml_pc sample_waiting u \<noteq> Idle \<and> ml_pc s' u \<noteq> ml_pc sample_waiting u"
  by (rule Maplock_progress [OF sample_waiting_reach, of 2 "''order-7''" 0]) (simp add: sample_ml Let_def)

end
