(* ===== verification/Store_Manager.thy ===== *)
theory Store_Manager
  imports Store_Mem
begin

text \<open>
  Where the content of shards is kept (\<^verbatim>\<open>src/store/store_manager.go\<close>, \<^verbatim>\<open>ipfs_backend.go\<close>): a manager that hands
  every call to a list of backends.  \<open>StoreBackend\<close> is the interface a backend implements, as a record of
  functions on the backend's state; the IPFS backend implements it over the IPFS core API, which is
  third-party code and a parameter (\<open>ipfs_ops\<close>).  A reader is the bytes not read yet, so a call that reads
  returns what is left.  A nil API is a panic.

  The contract of a backend is the locale \<open>backend\<close>: it reads the whole content, keeps it under its content
  identifier and gives it back.
\<close>

section \<open>The interface\<close>

record 'b StoreBackend =
  be_Id :: "'b \<Rightarrow> string"
  be_Open :: "'b \<Rightarrow> (goerr option \<times> 'b) outcome"
  be_Close :: "'b \<Rightarrow> (goerr option \<times> 'b) outcome"
  be_Store :: "'b \<Rightarrow> bytes \<Rightarrow> (string res \<times> bytes \<times> 'b) outcome"
  be_Remove :: "'b \<Rightarrow> cid \<Rightarrow> (goerr option \<times> 'b) outcome"
  be_Get :: "'b \<Rightarrow> cid \<Rightarrow> bytes res outcome"
  be_IsExist :: "'b \<Rightarrow> cid \<Rightarrow> bool res outcome"

section \<open>The IPFS backend\<close>

record 'a ipfs_ops =
  ipfs_NewMultiaddr :: "string \<Rightarrow> string res"
  ipfs_NewApi :: "string \<Rightarrow> 'a res"
  ipfs_BlockPut :: "'a \<Rightarrow> bytes \<Rightarrow> string res \<times> bytes \<times> 'a"
  ipfs_BlockStat :: "'a \<Rightarrow> string \<Rightarrow> string res"
  ipfs_IsValid :: "string \<Rightarrow> goerr option"
  ipfs_BlockGet :: "'a \<Rightarrow> string \<Rightarrow> bytes res"
  ipfs_PinRm :: "'a \<Rightarrow> string \<Rightarrow> goerr option \<times> 'a"

record 'a IpfsBackend =
  ib_ipfsAddress :: string
  ib_api :: "'a option"

text \<open>\<^verbatim>\<open>strings.Replace\<close> with count 1 of a prefix the string has.\<close>

definition NewIpfsBackend :: "string \<Rightarrow> 'a option \<Rightarrow> 'a IpfsBackend res" where
  "NewIpfsBackend connectionString api =
     (if HasPrefix connectionString ''ipfs+sao'' then Inr \<lparr>ib_ipfsAddress = connectionString, ib_api = api\<rparr>
      else if HasPrefix connectionString ''ipfs+ma:'' then
        Inr \<lparr>ib_ipfsAddress = drop (length ''ipfs+ma:'') connectionString, ib_api = None\<rparr>
      else Inl (Wrap ErrUnSupportProtocol None))"

definition Ipfs_Id :: "'a IpfsBackend \<Rightarrow> string" where
  "Ipfs_Id b = ''ipfs-'' @ ib_ipfsAddress b"

definition Ipfs_Open :: "'a ipfs_ops \<Rightarrow> 'a IpfsBackend \<Rightarrow> (goerr option \<times> 'a IpfsBackend) outcome" where
  "Ipfs_Open P b =
     (if HasPrefix (ib_ipfsAddress b) ''ipfs+sao'' then Return (None, b)
      else (case ipfs_NewMultiaddr P (ib_ipfsAddress b) of
              Inl err \<Rightarrow> Return (Some (Wrap ErrOpenIpfsBackendFailed (Some err)), b)
            | Inr addr \<Rightarrow>
                (case ipfs_NewApi P addr of
                   Inl err \<Rightarrow> Return (Some (Wrap ErrCreateIpfsApiServiceFailed (Some err)), b)
                 | Inr api \<Rightarrow> Return (None, b\<lparr>ib_api := Some api\<rparr>))))"

definition Ipfs_Close :: "'a IpfsBackend \<Rightarrow> (goerr option \<times> 'a IpfsBackend) outcome" where
  "Ipfs_Close b = Return (None, b)"

definition Ipfs_Store :: "'a ipfs_ops \<Rightarrow> 'a IpfsBackend \<Rightarrow> bytes \<Rightarrow> (string res \<times> bytes \<times> 'a IpfsBackend) outcome" where
  "Ipfs_Store P b reader =
     (case ib_api b of
        None \<Rightarrow> Panic
      | Some api \<Rightarrow>
          (case ipfs_BlockPut P api reader of
             (Inl err, rest, api') \<Rightarrow> Return (Inl (Wrap ErrStoreFailed (Some err)), rest, b\<lparr>ib_api := Some api'\<rparr>)
           | (Inr c, rest, api') \<Rightarrow> Return (Inr c, rest, b\<lparr>ib_api := Some api'\<rparr>)))"

definition Ipfs_IsExist :: "'a ipfs_ops \<Rightarrow> cid_ops \<Rightarrow> 'a IpfsBackend \<Rightarrow> cid \<Rightarrow> bool res outcome" where
  "Ipfs_IsExist P I b c =
     (case ib_api b of
        None \<Rightarrow> Panic
      | Some api \<Rightarrow>
          (case ipfs_BlockStat P api (cid_String I c) of
             Inl err \<Rightarrow> Return (Inl (Wrap ErrStatFailed (Some err)))
           | Inr path \<Rightarrow>
               (case ipfs_IsValid P path of
                  Some err \<Rightarrow> Return (Inl (Wrap ErrInvalidPath (Some err)))
                | None \<Rightarrow> Return (Inr True))))"

definition Ipfs_Get :: "'a ipfs_ops \<Rightarrow> cid_ops \<Rightarrow> 'a IpfsBackend \<Rightarrow> cid \<Rightarrow> bytes res outcome" where
  "Ipfs_Get P I b c =
     (case ib_api b of
        None \<Rightarrow> Panic
      | Some api \<Rightarrow>
          (case ipfs_BlockGet P api (cid_String I c) of
             Inl err \<Rightarrow> Return (Inl (Wrap ErrGetFailed (Some err)))
           | Inr r \<Rightarrow> Return (Inr r)))"

definition Ipfs_Remove :: "'a ipfs_ops \<Rightarrow> cid_ops \<Rightarrow> 'a IpfsBackend \<Rightarrow> cid \<Rightarrow> (goerr option \<times> 'a IpfsBackend) outcome" where
  "Ipfs_Remove P I b c =
     (case ib_api b of
        None \<Rightarrow> Panic
      | Some api \<Rightarrow> (let (err, api') = ipfs_PinRm P api (cid_String I c) in Return (err, b\<lparr>ib_api := Some api'\<rparr>)))"

definition IpfsBackend_ops :: "'a ipfs_ops \<Rightarrow> cid_ops \<Rightarrow> 'a IpfsBackend StoreBackend" where
  "IpfsBackend_ops P I =
     \<lparr>be_Id = Ipfs_Id, be_Open = Ipfs_Open P, be_Close = Ipfs_Close, be_Store = Ipfs_Store P,
      be_Remove = Ipfs_Remove P I, be_Get = Ipfs_Get P I, be_IsExist = Ipfs_IsExist P I\<rparr>"

section \<open>The manager\<close>

record 'b StoreManager =
  sm_backends :: "'b list"

definition NewStoreManager :: "'b list \<Rightarrow> 'b StoreManager" where
  "NewStoreManager initial = \<lparr>sm_backends = initial\<rparr>"

definition AddBackend :: "'b StoreManager \<Rightarrow> 'b \<Rightarrow> 'b StoreManager" where
  "AddBackend ss backend = ss\<lparr>sm_backends := sm_backends ss @ [backend]\<rparr>"

fun open_loop :: "('b \<Rightarrow> (goerr option \<times> 'b) outcome) \<Rightarrow> 'b list \<Rightarrow> (goerr option \<times> 'b list) outcome" where
  "open_loop f [] = Return (None, [])"
| "open_loop f (b # bs) =
     bind_outcome (f b) (\<lambda>(err, b').
       case err of
         Some e \<Rightarrow> Return (Some e, b' # bs)
       | None \<Rightarrow> bind_outcome (open_loop f bs) (\<lambda>(r, bs'). Return (r, b' # bs')))"

definition SM_Open :: "'b StoreBackend \<Rightarrow> 'b StoreManager \<Rightarrow> (goerr option \<times> 'b StoreManager) outcome" where
  "SM_Open B ss = bind_outcome (open_loop (be_Open B) (sm_backends ss)) (\<lambda>(err, bs). Return (err, \<lparr>sm_backends = bs\<rparr>))"

definition SM_Close :: "'b StoreBackend \<Rightarrow> 'b StoreManager \<Rightarrow> (goerr option \<times> 'b StoreManager) outcome" where
  "SM_Close B ss = bind_outcome (open_loop (be_Close B) (sm_backends ss)) (\<lambda>(err, bs). Return (err, \<lparr>sm_backends = bs\<rparr>))"

text \<open>The loop of \<^verbatim>\<open>Store\<close>: every backend reads from the same reader, and the error is that of the last one.\<close>

fun store_loop :: "'b StoreBackend \<Rightarrow> goerr option \<Rightarrow> bytes \<Rightarrow> 'b list \<Rightarrow> (goerr option \<times> bytes \<times> 'b list) outcome" where
  "store_loop B err reader [] = Return (err, reader, [])"
| "store_loop B err reader (b # bs) =
     bind_outcome (be_Store B b reader) (\<lambda>(r, rest, b').
       bind_outcome (store_loop B (err_of r) rest bs) (\<lambda>(err', rest', bs'). Return (err', rest', b' # bs')))"

definition SM_Store :: "'b StoreBackend \<Rightarrow> 'b StoreManager \<Rightarrow> cid \<Rightarrow> bytes \<Rightarrow> (goerr option \<times> 'b StoreManager) outcome" where
  "SM_Store B ss c reader =
     bind_outcome (store_loop B None reader (sm_backends ss)) (\<lambda>(err, _, bs). Return (err, \<lparr>sm_backends = bs\<rparr>))"

fun remove_loop :: "'b StoreBackend \<Rightarrow> goerr option \<Rightarrow> cid \<Rightarrow> 'b list \<Rightarrow> (goerr option \<times> 'b list) outcome" where
  "remove_loop B err c [] = Return (err, [])"
| "remove_loop B err c (b # bs) =
     bind_outcome (be_Remove B b c) (\<lambda>(e, b').
       bind_outcome (remove_loop B e c bs) (\<lambda>(err', bs'). Return (err', b' # bs')))"

definition SM_Remove :: "'b StoreBackend \<Rightarrow> 'b StoreManager \<Rightarrow> cid \<Rightarrow> (goerr option \<times> 'b StoreManager) outcome" where
  "SM_Remove B ss c =
     bind_outcome (remove_loop B None c (sm_backends ss)) (\<lambda>(err, bs). Return (err, \<lparr>sm_backends = bs\<rparr>))"

fun get_loop :: "'b StoreBackend \<Rightarrow> cid_ops \<Rightarrow> cid \<Rightarrow> 'b list \<Rightarrow> bytes res outcome" where
  "get_loop B I c [] = Return (Inl (Wrapf ErrGetFailed (''failed to get cid '' @ cid_String I c)))"
| "get_loop B I c (b # bs) =
     bind_outcome (be_Get B b c) (\<lambda>r. case r of Inl err \<Rightarrow> get_loop B I c bs | Inr reader \<Rightarrow> Return (Inr reader))"

definition SM_Get :: "'b StoreBackend \<Rightarrow> cid_ops \<Rightarrow> 'b StoreManager \<Rightarrow> cid \<Rightarrow> bytes res outcome" where
  "SM_Get B I ss c = get_loop B I c (sm_backends ss)"

fun exist_loop :: "'b StoreBackend \<Rightarrow> cid \<Rightarrow> 'b list \<Rightarrow> bool outcome" where
  "exist_loop B c [] = Return False"
| "exist_loop B c (b # bs) =
     bind_outcome (be_IsExist B b c) (\<lambda>r.
       case r of Inl err \<Rightarrow> exist_loop B c bs | Inr isExist \<Rightarrow> if \<not> isExist then exist_loop B c bs else Return True)"

definition SM_IsExist :: "'b StoreBackend \<Rightarrow> 'b StoreManager \<Rightarrow> cid \<Rightarrow> bool outcome" where
  "SM_IsExist B ss c = exist_loop B c (sm_backends ss)"

section \<open>The contract of a backend\<close>

text \<open>\<open>blocks b c\<close> is the content the backend keeps under \<open>c\<close>, \<open>hsh\<close> the content identifier of bytes.  A successful
  store reads the reader to its end; a read that succeeds returns what is kept.\<close>

locale backend =
  fixes B :: "'b StoreBackend" and hsh :: "bytes \<Rightarrow> cid" and ready :: "'b \<Rightarrow> bool" and blocks :: "'b \<Rightarrow> cid \<Rightarrow> bytes option"
  assumes store_law: "\<And>b r. ready b \<Longrightarrow> \<exists>res rest b'. be_Store B b r = Return (res, rest, b') \<and> ready b' \<and> (\<exists>p. r = p @ rest)
        \<and> (\<forall>c. res = Inr c \<longrightarrow> rest = [] \<and> blocks b' = (blocks b)(hsh r \<mapsto> r))
        \<and> (\<forall>e. res = Inl e \<longrightarrow> blocks b' = blocks b)"
    and get_law: "\<And>b c. ready b \<Longrightarrow> \<exists>res. be_Get B b c = Return res \<and> (\<forall>r. res = Inr r \<longrightarrow> blocks b c = Some r)"
begin

text \<open>A read returns what the first backend that answers keeps.\<close>

lemma get_loop_sound:
  assumes "\<forall>b \<in> set bs. ready b"
  shows "\<exists>res. get_loop B I c bs = Return res \<and> (\<forall>r. res = Inr r \<longrightarrow> (\<exists>b \<in> set bs. blocks b c = Some r))"
  using assms
proof (induction bs)
  case (Cons b bs)
  from get_law [of b c] Cons.prems obtain res where res: "be_Get B b c = Return res"
    "\<forall>r. res = Inr r \<longrightarrow> blocks b c = Some r" by auto
  with Cons show ?case by (cases res) auto
qed simp

text \<open>One backend after a store: it keeps what it kept, or in addition what it was given.\<close>

definition stored :: "bytes \<Rightarrow> 'b \<Rightarrow> 'b \<Rightarrow> bool" where
  "stored r b b' \<longleftrightarrow> ready b' \<and> (blocks b' = blocks b \<or> blocks b' = (blocks b)(hsh r \<mapsto> r))"

lemma store_loop_any:
  assumes "\<forall>b \<in> set bs. ready b"
  shows "\<exists>err rest bs'. store_loop B err0 reader bs = Return (err, rest, bs')
    \<and> list_all2 (\<lambda>b b'. \<exists>p r. reader = p @ r \<and> stored r b b') bs bs'"
  using assms
proof (induction bs arbitrary: err0 reader)
  case (Cons b bs)
  from store_law [of b reader] Cons.prems obtain res rest b' p where b: "be_Store B b reader = Return (res, rest, b')" "ready b'"
    "reader = p @ rest" "\<forall>c. res = Inr c \<longrightarrow> rest = [] \<and> blocks b' = (blocks b)(hsh reader \<mapsto> reader)"
    "\<forall>e. res = Inl e \<longrightarrow> blocks b' = blocks b" by auto
  from b have head: "stored reader b b'" by (cases res) (auto simp: stored_def)
  from Cons.IH [of "err_of res" rest] Cons.prems obtain err rest' bs' where
    tail: "store_loop B (err_of res) rest bs = Return (err, rest', bs')"
    "list_all2 (\<lambda>b b'. \<exists>p r. rest = p @ r \<and> stored r b b') bs bs'" by auto
  from tail(2) have "list_all2 (\<lambda>b b'. \<exists>p r. reader = p @ r \<and> stored r b b') bs bs'"
    by (rule list.rel_mono_strong) (use b(3) in \<open>auto intro: append_assoc [symmetric]\<close>)
  with head tail b(1) show ?case by auto
qed simp

text \<open>The first backend is given the whole content; once it has stored it, the others are given nothing.\<close>

lemma store_loop_first:
  assumes "\<forall>b \<in> set (b # bs). ready b" and "be_Store B b reader = Return (Inr c, rest, b1)"
  shows "\<exists>err rest' bs'. store_loop B err0 reader (b # bs) = Return (err, rest', b1 # bs')
    \<and> blocks b1 = (blocks b)(hsh reader \<mapsto> reader) \<and> list_all2 (stored []) bs bs'"
proof -
  from store_law [of b reader] assms have b: "ready b1" "rest = []" "blocks b1 = (blocks b)(hsh reader \<mapsto> reader)" by auto
  from store_loop_any [of bs None "[]"] assms(1) obtain err rest' bs' where
    "store_loop B None [] bs = Return (err, rest', bs')" "list_all2 (\<lambda>b b'. \<exists>p r. [] = p @ r \<and> stored r b b') bs bs'" by auto
  with b assms(2) show ?thesis by (auto simp: err_of_def elim: list.rel_mono_strong)
qed

text \<open>Every backend keeps a block only under its content identifier.\<close>

definition intact :: "'b \<Rightarrow> bool" where
  "intact b \<longleftrightarrow> ready b \<and> (\<forall>c r. blocks b c = Some r \<longrightarrow> hsh r = c)"

lemma stored_intact: "intact b \<Longrightarrow> stored r b b' \<Longrightarrow> intact b'"
  by (auto simp: intact_def stored_def split: if_splits)

lemma store_loop_intact:
  assumes "\<forall>b \<in> set bs. intact b" and "store_loop B err0 reader bs = Return (err, rest, bs')"
  shows "\<forall>b \<in> set bs'. intact b"
proof -
  have "\<forall>b \<in> set bs. ready b" using assms(1) by (auto simp: intact_def)
  from store_loop_any [OF this, of err0 reader] assms(2)
  have "list_all2 (\<lambda>b b'. \<exists>p r. reader = p @ r \<and> stored r b b') bs bs'" by auto
  then have "list_all2 (\<lambda>b b'. intact b \<longrightarrow> intact b') bs bs'" by (rule list.rel_mono_strong) (auto intro: stored_intact)
  with assms(1) show ?thesis by (metis in_set_conv_nth list_all2_conv_all_nth)
qed

end

section \<open>The IPFS backend fulfils it\<close>

text \<open>What the backend relies on of the IPFS block API: a put that succeeds has read the reader to its end and
  keeps the block under the text of its content identifier; a get that succeeds returns that block.\<close>

locale block_api =
  fixes P :: "'a ipfs_ops" and I :: cid_ops and hsh :: "bytes \<Rightarrow> cid" and kept :: "'a \<Rightarrow> cid \<Rightarrow> bytes option"
  assumes block_put: "\<And>a r res rest a'. ipfs_BlockPut P a r = (res, rest, a') \<Longrightarrow> (\<exists>p. r = p @ rest)
        \<and> (\<forall>c. res = Inr c \<longrightarrow> rest = [] \<and> kept a' = (kept a)(hsh r \<mapsto> r)) \<and> (\<forall>e. res = Inl e \<longrightarrow> kept a' = kept a)"
    and block_get: "\<And>a c r. ipfs_BlockGet P a (cid_String I c) = Inr r \<Longrightarrow> kept a c = Some r"

definition ib_ready :: "'a IpfsBackend \<Rightarrow> bool" where
  "ib_ready b \<longleftrightarrow> ib_api b \<noteq> None"

definition ib_blocks :: "('a \<Rightarrow> cid \<Rightarrow> bytes option) \<Rightarrow> 'a IpfsBackend \<Rightarrow> cid \<Rightarrow> bytes option" where
  "ib_blocks kept b = (case ib_api b of None \<Rightarrow> Map.empty | Some a \<Rightarrow> kept a)"

sublocale block_api \<subseteq> ipfs: backend "IpfsBackend_ops P I" hsh ib_ready "ib_blocks kept"
proof
  fix b :: "'a IpfsBackend" and r c
  assume "ib_ready b"
  then obtain a where a: "ib_api b = Some a" by (auto simp: ib_ready_def)
  obtain res rest a' where put: "ipfs_BlockPut P a r = (res, rest, a')" by (metis prod_cases3)
  from block_put [OF put] show "\<exists>res rest b'. be_Store (IpfsBackend_ops P I) b r = Return (res, rest, b') \<and> ib_ready b'
      \<and> (\<exists>p. r = p @ rest) \<and> (\<forall>c. res = Inr c \<longrightarrow> rest = [] \<and> ib_blocks kept b' = (ib_blocks kept b)(hsh r \<mapsto> r))
      \<and> (\<forall>e. res = Inl e \<longrightarrow> ib_blocks kept b' = ib_blocks kept b)"
    by (cases res) (auto simp: IpfsBackend_ops_def Ipfs_Store_def a put ib_ready_def ib_blocks_def)
  show "\<exists>res. be_Get (IpfsBackend_ops P I) b c = Return res \<and> (\<forall>r. res = Inr r \<longrightarrow> ib_blocks kept b c = Some r)"
    using block_get [of a c] by (auto simp: IpfsBackend_ops_def Ipfs_Get_def a ib_blocks_def split: sum.splits)
qed

context block_api
begin

lemma is_backend: "backend (IpfsBackend_ops P I) hsh ib_ready (ib_blocks kept)"
  by (rule ipfs.backend_axioms)

end

lemmas block_api_backend = block_api.is_backend

section \<open>A block store in memory\<close>

text \<open>Blocks under identity content identifiers, printed in base 16.\<close>

definition mem_sum :: "bytes \<Rightarrow> cid" where
  "mem_sum r = CHR ''i'' # r"

definition mem_ipfs :: "(string \<Rightarrow> bytes option) ipfs_ops" where
  "mem_ipfs = \<lparr>ipfs_NewMultiaddr = Inr, ipfs_NewApi = (\<lambda>_. Inr Map.empty),
     ipfs_BlockPut = (\<lambda>a r. (Inr (cid_String hex_cid (mem_sum r)), [], a(cid_String hex_cid (mem_sum r) \<mapsto> r))),
     ipfs_BlockStat = (\<lambda>a p. if a p = None then Inl (ErrText ''not found'') else Inr p),
     ipfs_IsValid = (\<lambda>_. None),
     ipfs_BlockGet = (\<lambda>a p. case a p of None \<Rightarrow> Inl (ErrText ''not found'') | Some r \<Rightarrow> Inr r),
     ipfs_PinRm = (\<lambda>a p. (None, a))\<rparr>"

interpretation mem_ipfs: block_api mem_ipfs hex_cid mem_sum "\<lambda>a c. a (cid_String hex_cid c)"
  by unfold_locales (auto simp: mem_ipfs_def hex.string_inj intro!: ext split: option.splits)

definition opened :: "string \<Rightarrow> (string \<Rightarrow> bytes option) IpfsBackend" where
  "opened address = \<lparr>ib_ipfsAddress = address, ib_api = Some Map.empty\<rparr>"

section \<open>Properties\<close>

text \<open>C36. Content the first backend accepts is what the manager returns for its content identifier, whatever the
  other backends did, as long as the first backend answers the read.\<close>

theorem SM_Store_Get:
  assumes "block_api P I hsh kept" and "\<forall>b \<in> set (b # bs). ib_ready b"
    and "Ipfs_Store P b content = Return (Inr c, rest, b1)"
    and "\<exists>r. Ipfs_Get P I b1 (hsh content) = Return (Inr r)"
  shows "\<exists>err ss. SM_Store (IpfsBackend_ops P I) (NewStoreManager (b # bs)) c content = Return (err, ss)
    \<and> SM_Get (IpfsBackend_ops P I) I ss (hsh content) = Return (Inr content)"
proof -
  note be = block_api_backend [OF assms(1)]
  have "be_Store (IpfsBackend_ops P I) b content = Return (Inr c, rest, b1)" using assms(3) by (simp add: IpfsBackend_ops_def)
  from backend.store_loop_first [OF be assms(2) this] obtain err rest' bs' where
    loop: "store_loop (IpfsBackend_ops P I) None content (b # bs) = Return (err, rest', b1 # bs')"
    and b1: "ib_blocks kept b1 = (ib_blocks kept b)(hsh content \<mapsto> content)" by blast
  from assms(4) obtain r where get: "be_Get (IpfsBackend_ops P I) b1 (hsh content) = Return (Inr r)"
    by (auto simp: IpfsBackend_ops_def)
  have "ib_ready b1" using assms(3) by (auto simp: Ipfs_Store_def ib_ready_def split: option.splits prod.splits sum.splits)
  from backend.get_law [OF be this, of "hsh content"] get b1 have "r = content" by simp
  with loop get show ?thesis by (simp add: SM_Store_def SM_Get_def NewStoreManager_def)
qed

theorem SM_Store_Get_witness:
  "\<exists>err ss. SM_Store (IpfsBackend_ops mem_ipfs hex_cid) (NewStoreManager [opened ''a'', opened ''b'']) ''x'' ''data'' = Return (err, ss)
    \<and> SM_Get (IpfsBackend_ops mem_ipfs hex_cid) hex_cid ss (mem_sum ''data'') = Return (Inr ''data'')"
proof -
  have r: "\<forall>b \<in> set [opened ''a'', opened ''b'']. ib_ready b" by (simp add: ib_ready_def opened_def)
  obtain c rest b1 where s: "Ipfs_Store mem_ipfs (opened ''a'') ''data'' = Return (Inr c, rest, b1)"
    "b1 = (opened ''a'')\<lparr>ib_api := Some [cid_String hex_cid (mem_sum ''data'') \<mapsto> ''data'']\<rparr>"
    by (simp add: Ipfs_Store_def opened_def mem_ipfs_def)
  have "\<exists>r. Ipfs_Get mem_ipfs hex_cid b1 (mem_sum ''data'') = Return (Inr r)"
    by (simp add: s(2) Ipfs_Get_def opened_def mem_ipfs_def)
  from SM_Store_Get [OF mem_ipfs.block_api_axioms r s(1) this] show ?thesis by (simp add: SM_Store_def)
qed



text \<open>With two backends, the second is given an already drained reader: when the first has stored the content,
  the second keeps what it kept before and at most the empty block, even though the manager reports success.\<close>

theorem SM_Store_second_drained:
  assumes "block_api P I hsh kept" and "ib_ready b" and "ib_ready b2"
    and "Ipfs_Store P b content = Return (Inr c, rest, b1)" and "c' \<noteq> hsh []"
  shows "\<exists>err b1' b2'. SM_Store (IpfsBackend_ops P I) (NewStoreManager [b, b2]) c content = Return (err, \<lparr>sm_backends = [b1', b2']\<rparr>)
    \<and> ib_blocks kept b2' c' = ib_blocks kept b2 c'"
proof -
  note be = block_api_backend [OF assms(1)]
  have s: "be_Store (IpfsBackend_ops P I) b content = Return (Inr c, rest, b1)" using assms(4) by (simp add: IpfsBackend_ops_def)
  from backend.store_loop_first [OF be _ s, of "[b2]" None] assms(2,3) obtain err rest' bs' where
    loop: "store_loop (IpfsBackend_ops P I) None content [b, b2] = Return (err, rest', b1 # bs')"
    and "list_all2 (backend.stored hsh ib_ready (ib_blocks kept) []) [b2] bs'" by auto
  then obtain b2' where "bs' = [b2']" "backend.stored hsh ib_ready (ib_blocks kept) [] b2 b2'"
    by (auto simp: list_all2_Cons1)
  with loop assms(5) show ?thesis
    by (auto simp: SM_Store_def NewStoreManager_def backend.stored_def [OF be])
qed

theorem SM_Store_second_drained_witness:
  "\<exists>err b1' b2'. SM_Store (IpfsBackend_ops mem_ipfs hex_cid) (NewStoreManager [opened ''a'', opened ''b'']) ''x'' ''data''
     = Return (err, \<lparr>sm_backends = [b1', b2']\<rparr>) \<and> ib_blocks (\<lambda>a c. a (cid_String hex_cid c)) b2' (mem_sum ''data'') = None"
proof -
  obtain c rest b1 where s: "Ipfs_Store mem_ipfs (opened ''a'') ''data'' = Return (Inr c, rest, b1)"
    by (simp add: Ipfs_Store_def opened_def mem_ipfs_def)
  from SM_Store_second_drained [OF mem_ipfs.block_api_axioms _ _ s, of "opened ''b''" "mem_sum ''data''"] show ?thesis
    by (auto simp: ib_ready_def opened_def mem_sum_def ib_blocks_def SM_Store_def)
qed

end
