(* ===== verification/Chain_Api.thy ===== *)
theory Chain_Api
  imports Node_Types
begin

text \<open>
  The chain as the services see it.  The blockchain, its client library and the message types it generates
  are not part of the repository: the types below are records of the fields the node reads, and
  \<open>ChainSvc\<close> is a record of the answers the chain service (\<^verbatim>\<open>src/chain\<close>, \<^verbatim>\<open>ChainSvcApi\<close>) gives during one call of a
  service.  The answers are arbitrary, errors included; a run with several calls takes one such record for
  each.  A Go map is an association list in the order the execution ranges over it, and the maps of the
  generated message types hold pointers, so that reading a field of a missing entry is a nil dereference.
\<close>

section \<open>Orders and shards on chain\<close>

text \<open>The statuses the node tells apart; any other one is a number.\<close>

datatype ShardStatus = ShardWaiting | ShardCompleted | ShardTimeout | ShardMigrating | ShardOther int

record ChainShard =
  cs_Id :: u64
  cs_OrderId :: u64
  cs_Cid :: string
  cs_From :: string
  cs_Status :: ShardStatus
  cs_CreatedAt :: u64
  cs_Duration :: u64
  cs_RenewDurations :: "u64 list"

record FullOrder =
  fo_Id :: u64
  fo_Owner :: string
  fo_Provider :: string
  fo_Operation :: u64
  fo_CreatedAt :: u64
  fo_Timeout :: u64
  fo_Shards :: "(string \<times> ChainShard) list"

record ShardMeta =
  sm_ShardId :: u64
  sm_Peer :: string
  sm_Cid :: string
  sm_Provider :: string
  sm_Sp :: string

record Metadata =
  md_DataId :: string
  md_Alias :: string
  md_GroupId :: string
  md_Owner :: string
  md_OrderId :: u64
  md_Tags :: "string list"
  md_Cid :: string
  md_Commits :: "string list"
  md_ExtendInfo :: string
  md_Orders :: "u64 list"
  md_Complete :: bool

record ResultTx =
  rt_Code :: u64
  rt_Data :: bytes
  rt_Tx :: bytes
  rt_Hash :: string

text \<open>A data model as the services hand it around (\<^verbatim>\<open>types.Model\<close>); the content may be a nil slice.\<close>

record Model =
  mo_DataId :: string
  mo_Alias :: string
  mo_GroupId :: string
  mo_OrderId :: u64
  mo_Owner :: string
  mo_Tags :: "string list"
  mo_Cid :: string
  mo_Shards :: "(string \<times> ShardMeta) list"
  mo_CommitId :: string
  mo_Commits :: "string list"
  mo_Version :: string
  mo_Content :: "bytes option"
  mo_ExtendInfo :: string

text \<open>A proposal to store a model (the chain's \<^verbatim>\<open>saotypes.Proposal\<close>), with the fields the node reads.\<close>

record StoreProposal =
  prop_Owner :: string
  prop_Cid :: string
  prop_DataId :: string
  prop_Alias :: string
  prop_GroupId :: string
  prop_CommitId :: string
  prop_Tags :: "string list"
  prop_Size :: u64
  prop_Rule :: string
  prop_ExtendInfo :: string

text \<open>The proposals to terminate and renew orders and to change permissions, with their signatures, and a fault a
  fishman reports.\<close>

record TerminateProposal =
  tp_Owner :: string
  tp_DataId :: string

record RenewProposal =
  rn_Owner :: string
  rn_Data :: "string list"

record PermissionProposal =
  pp_Owner :: string
  pp_DataId :: string

record Fault =
  flt_DataId :: string
  flt_OrderId :: u64
  flt_ShardId :: u64
  flt_CommitId :: string
  flt_Provider :: string
  flt_Reporter :: string

section \<open>The chain service\<close>

text \<open>\<open>ch_MetaShards\<close> are the shards in the answer of \<open>ch_GetMeta\<close>.\<close>

record ChainSvc =
  ch_GetLastHeight :: "int res"
  ch_GetNodePeer :: "string \<Rightarrow> string res"
  ch_GetTx :: "string \<Rightarrow> int \<Rightarrow> ResultTx res"
  ch_GetOrder :: "u64 \<Rightarrow> FullOrder res"
  ch_GetMeta :: "string \<Rightarrow> Metadata res"
  ch_GetFishmen :: "string res"
  ch_GetPubKey :: "string \<Rightarrow> string res"
  ch_ListShards :: "u64 \<Rightarrow> u64 \<Rightarrow> (ChainShard list \<times> u64) res"
  ch_CompleteOrder :: "string \<Rightarrow> u64 \<Rightarrow> cid \<Rightarrow> u64 \<Rightarrow> (string \<times> int) res"
  ch_MigrateOrder :: "string \<Rightarrow> string list \<Rightarrow> string \<times> (string \<times> string) list \<times> int \<times> goerr option"
  ch_StoreOrder :: "string \<Rightarrow> StoreProposal \<times> JwsSignature \<Rightarrow> (u64 \<times> ShardMeta list \<times> string \<times> int) res"
  ch_OrderReady :: "string \<Rightarrow> u64 \<Rightarrow> (u64 \<times> ShardMeta list \<times> string \<times> int) res"
  ch_QueryMetadata :: "MetadataProposalCbor \<Rightarrow> int \<Rightarrow> (Metadata \<times> (string \<times> ShardMeta) list) res"
  ch_TerminateOrder :: "string \<Rightarrow> TerminateProposal \<times> JwsSignature \<Rightarrow> string res"
  ch_RenewOrder :: "string \<Rightarrow> RenewProposal \<times> JwsSignature \<Rightarrow> (string \<times> (string \<times> string) list) res"
  ch_UpdatePermission :: "string \<Rightarrow> PermissionProposal \<times> JwsSignature \<Rightarrow> string res"
  ch_MetaShards :: "string \<Rightarrow> (string \<times> ShardMeta) list"
  ch_GetFault :: "string \<Rightarrow> Fault res"
  ch_GetShard :: "u64 \<Rightarrow> ChainShard res"
  ch_ReportFaults :: "string \<Rightarrow> string \<Rightarrow> Fault list \<Rightarrow> string list res"
  ch_RecoverFaults :: "string \<Rightarrow> string \<Rightarrow> Fault list \<Rightarrow> string list res"

text \<open>Decoding of transactions and their messages, by the generated code of the chain: the values of the
  messages of a transaction (\<open>None\<close> for a nil body), and what the node reads of each kind of message.\<close>

record MsgComplete =
  mcm_OrderId :: u64
  mcm_Provider :: string

record TxCodec =
  tc_Tx :: "bytes \<Rightarrow> bytes list option res"
  tc_TxMsgData :: "bytes \<Rightarrow> bytes list res"
  tc_MsgStore :: "bytes \<Rightarrow> unit res"
  tc_MsgReady :: "bytes \<Rightarrow> unit res"
  tc_MsgComplete :: "bytes \<Rightarrow> MsgComplete res"
  tc_MsgMigrateResponse :: "bytes \<Rightarrow> (string \<times> string) list res"
  tc_StatusCode :: "ShardStatus \<Rightarrow> int"

text \<open>\<^verbatim>\<open>txb.Body.Messages[0].Value\<close>: a nil body and an empty list of messages panic.\<close>

definition first_message :: "bytes list option \<Rightarrow> bytes outcome" where
  "first_message body = (case body of None \<Rightarrow> Panic | Some [] \<Rightarrow> Panic | Some (v # _) \<Rightarrow> Return v)"

section \<open>Completion of an order\<close>

definition allShardsCompleted :: "FullOrder \<Rightarrow> bool" where
  "allShardsCompleted order \<longleftrightarrow> list_all (\<lambda>(_, shard). cs_Status shard = ShardCompleted) (fo_Shards order)"

section \<open>Identifiers, slices and the clock\<close>

text \<open>\<^verbatim>\<open>utils.CalculateCid\<close>.\<close>

definition CalculateCid :: "(bytes \<Rightarrow> cid res) \<Rightarrow> bytes \<Rightarrow> cid res" where
  "CalculateCid hash content =
     (case hash content of Inl err \<Rightarrow> Inl (Wrap ErrCalculateCidFailed (Some err)) | Inr c \<Rightarrow> Inr c)"

definition UnixMilli :: "int \<Rightarrow> int" where "UnixMilli now = now div 1000000"

definition Unix :: "int \<Rightarrow> int" where "Unix now = now div 1000000000"

text \<open>The bytes of a slice that may be nil.\<close>

definition slice :: "bytes option \<Rightarrow> bytes" where
  "slice b = (case b of None \<Rightarrow> [] | Some bs \<Rightarrow> bs)"

end
