(* ===== verification/Storage_Service.thy ===== *)
theory Storage_Service
  imports Node_State Store_Manager Request_Queue Chain_Api
begin

text \<open>
  The storage node (\<^verbatim>\<open>src/node/storage/storage_service.go\<close>): it is assigned shards by gateways, fetches their
  content, stores it, reports completion to the chain and to the gateway, serves content, and migrates and
  expires shards.  The state \<open>StoreSvc\<close> is the struct's mutable part (the queue, the content store, the
  datastore, the requests sent to the migration channel) and a trace of what the service told the chain and
  its peers.  \<open>StoreEnv\<close> is what a call depends on: the libraries, the backends, the chain, the clock, the
  protocols to other nodes and the verification of signatures.

  Every handler is a function of the state that returns its response and the new state, or panics.  A task
  is processed in the phases of the source: \<open>process_store\<close>, \<open>process_complete\<close>, \<open>process_notify\<close>.  Failures to save
  a shard are logged by the source and do not change the control flow.
\<close>

section \<open>State and environment\<close>

record MigrateRequest =
  mr_FromProvider :: string
  mr_OrderId :: u64
  mr_DataId :: string
  mr_Cid :: string
  mr_ToProvider :: string
  mr_MigrateTxHash :: string
  mr_MigrateHeight :: int

datatype protocol = LocalProtocol | StreamProtocol

datatype sevent =
  EvCompleteOrder u64 cid u64
  | EvShardComplete ShardCompleteReq string

record ('d, 'b) StoreSvc =
  ss_nodeAddress :: string
  ss_schedQueue :: "unit WorkRequest RequestQueue"
  ss_migrateChan :: "MigrateRequest list"
  ss_storeManager :: "'b StoreManager"
  ss_orderDs :: 'd
  ss_trace :: "sevent list"

record ('d, 'k, 'b) StoreEnv =
  se_libs :: "('d, 'k) libs"
  se_backend :: "'b StoreBackend"
  se_chain :: ChainSvc
  se_tx :: TxCodec
  se_now :: int
  se_Sum :: "bytes \<Rightarrow> cid res"
  se_Parse :: "string \<Rightarrow> cid res"
  se_RequestShardStore :: "protocol \<Rightarrow> ShardLoadReq \<Rightarrow> string \<Rightarrow> ShardLoadResp"
  se_RequestShardComplete :: "protocol \<Rightarrow> ShardCompleteReq \<Rightarrow> string \<Rightarrow> ShardCompleteResp"
  se_RequestShardMigrate :: "protocol \<Rightarrow> ShardMigrateReq \<Rightarrow> string \<Rightarrow> ShardMigrateResp"
  se_NewDidManager :: "string \<Rightarrow> unit res"
  se_MarshalQuery :: "QueryProposal \<Rightarrow> bytes res"
  se_VerifyJWS :: "string \<Rightarrow> bytes \<Rightarrow> JwsSignature \<Rightarrow> goerr option"
  se_MarshalRelay :: "RelayProposal \<Rightarrow> bytes res"
  se_VerifySignature :: "string \<Rightarrow> bytes \<Rightarrow> bytes \<Rightarrow> bool"

definition MAX_RETRIES :: u64 where "MAX_RETRIES = 3"

definition shard_request :: "ShardInfo \<Rightarrow> unit WorkRequest" where
  "shard_request shard = \<lparr>wr_Order = OrderInfo_zero, wr_Shard = shard, wr_Job = None\<rparr>"

definition push_shard :: "ShardInfo \<Rightarrow> ('d, 'b) StoreSvc \<Rightarrow> ('d, 'b) StoreSvc" where
  "push_shard shard ss = ss\<lparr>ss_schedQueue := Push (ss_schedQueue ss) (shard_request shard)\<rparr>"

section \<open>Saving shards\<close>

definition save_shard :: "('d, 'k, 'b) StoreEnv \<Rightarrow> ('d, 'b) StoreSvc \<Rightarrow> ShardInfo \<Rightarrow> ('d, 'b) StoreSvc" where
  "save_shard E ss shard = ss\<lparr>ss_orderDs := snd (SaveShard (se_libs E) (ss_orderDs ss) shard)\<rparr>"

text \<open>The error's text is read first: a nil error panics.\<close>

definition updateShardError ::
  "('d, 'k, 'b) StoreEnv \<Rightarrow> ('d, 'b) StoreSvc \<Rightarrow> ShardInfo \<Rightarrow> goerr option \<Rightarrow> (ShardInfo \<times> ('d, 'b) StoreSvc) outcome"
where
  "updateShardError E ss shard err =
     (case err of
        None \<Rightarrow> Panic
      | Some e \<Rightarrow> (let shard' = shard\<lparr>si_LastErr := Error e\<rparr> in Return (shard', save_shard E ss shard')))"

definition getStorageProtocolAndPeer ::
  "('d, 'k, 'b) StoreEnv \<Rightarrow> ('d, 'b) StoreSvc \<Rightarrow> string \<Rightarrow> protocol \<times> string res" where
  "getStorageProtocolAndPeer E ss targetAddress =
     (if targetAddress = ss_nodeAddress ss then (LocalProtocol, Inr [])
      else (StreamProtocol, ch_GetNodePeer (se_chain E) targetAddress))"

section \<open>Processing a task\<close>

type_synonym ('d, 'b) task_result = "goerr option \<times> ShardInfo \<times> ('d, 'b) StoreSvc"

text \<open>Record an error in the task and return it, or return another error.\<close>

definition fail_task ::
  "('d, 'k, 'b) StoreEnv \<Rightarrow> ('d, 'b) StoreSvc \<Rightarrow> ShardInfo \<Rightarrow> goerr option \<Rightarrow> goerr option \<Rightarrow> ('d, 'b) task_result outcome"
where
  "fail_task E ss task err ret =
     bind_outcome (updateShardError E ss task err) (\<lambda>(task', ss'). Return (ret, task', ss'))"

definition process_store ::
  "('d, 'k, 'b) StoreEnv \<Rightarrow> protocol \<Rightarrow> string \<Rightarrow> ('d, 'b) StoreSvc \<Rightarrow> ShardInfo \<Rightarrow> ('d, 'b) task_result outcome" where
  "process_store E sp peerInfo ss task =
     (let stored = (\<lambda>ss task. let task' = task\<lparr>si_State := ShardStateStored\<rparr>
                              in Return (None, task', save_shard E ss task'))
      in if \<not> si_State task < ShardStateStored then Return (None, task, ss)
         else if si_OrderOperation task \<noteq> ''3'' \<or> si_ShardOperation task \<noteq> ''3'' then
           (let resp = se_RequestShardStore E sp
                  \<lparr>slq_Owner = si_Owner task, slq_DataId = si_DataId task, slq_OrderId = si_OrderId task,
                   slq_Cid = si_Cid task,
                   slq_Proposal = \<lparr>mpc_Proposal = QueryProposal_zero, mpc_JwsSignature = JwsSignature_zero\<rparr>,
                   slq_RequestId = 0,
                   slq_RelayProposal = \<lparr>rpc_Proposal = RelayProposal_zero, rpc_Signature = []\<rparr>\<rparr> peerInfo;
                content = slice (slr_Content resp)
            in if slr_Code resp \<noteq> 0 then
                 (let e = Wrapf ErrFailuresResponsed (slr_Message resp) in fail_task E ss task (Some e) (Some e))
               else
                 (let c = (case CalculateCid (se_Sum E) content of Inl _ \<Rightarrow> Undef | Inr c \<Rightarrow> c);
                      I = lib_cid (se_libs E)
                  in if cid_String I c \<noteq> cid_String I (si_Cid task) then
                       fail_task E ss task None
                         (Some (Wrapf ErrInvalidCid
                            (''ipfs cid '' @ cid_String I c @ '' != task cid '' @ cid_String I (si_Cid task))))
                     else
                       bind_outcome (SM_Store (se_backend E) (ss_storeManager ss) (si_Cid task) content) (\<lambda>(err, sm).
                         let ss' = ss\<lparr>ss_storeManager := sm\<rparr>
                         in case err of
                              Some e \<Rightarrow> fail_task E ss' task (Some e) (Some (Wrap ErrStoreFailed (Some e)))
                            | None \<Rightarrow> stored ss' (task\<lparr>si_Size := of_nat (length content)\<rparr>))))
         else
           bind_outcome (SM_IsExist (se_backend E) (ss_storeManager ss) (si_Cid task)) (\<lambda>isExist.
             if \<not> isExist then
               fail_task E ss task None
                 (Some (Wrapf ErrDataMissing (''shard with cid '' @ cid_String (lib_cid (se_libs E)) (si_Cid task) @ '' not found'')))
             else stored ss task))"

definition process_complete ::
  "('d, 'k, 'b) StoreEnv \<Rightarrow> ('d, 'b) StoreSvc \<Rightarrow> ShardInfo \<Rightarrow> ('d, 'b) task_result outcome" where
  "process_complete E ss task =
     (if \<not> si_State task < ShardStateTxSent then Return (None, task, ss)
      else
        (let ss1 = ss\<lparr>ss_trace := ss_trace ss @ [EvCompleteOrder (si_OrderId task) (si_Cid task) (si_Size task)]\<rparr>
         in case ch_CompleteOrder (se_chain E) (ss_nodeAddress ss) (si_OrderId task) (si_Cid task) (si_Size task) of
              Inl err \<Rightarrow> fail_task E ss1 task (Some err) (Some err)
            | Inr (txHash, height) \<Rightarrow>
                (let task' = task\<lparr>si_State := ShardStateComplete, si_CompleteHash := txHash, si_CompleteHeight := height\<rparr>;
                     ss2 = save_shard E ss1 task'
                 in case ch_GetOrder (se_chain E) (si_OrderId task) of
                      Inl _ \<Rightarrow> Return (None, task', ss2)
                    | Inr order \<Rightarrow>
                        (case map_of (fo_Shards order) (ss_nodeAddress ss) of
                           None \<Rightarrow> Panic
                         | Some shard \<Rightarrow>
                             Return (None, task',
                               ss2\<lparr>ss_orderDs := snd (SaveShardExpire (se_libs E) (ss_orderDs ss2)
                                                       (cs_Id shard) (cs_Cid shard) (cs_OrderId shard))\<rparr>)))))"

definition process_notify ::
  "('d, 'k, 'b) StoreEnv \<Rightarrow> protocol \<Rightarrow> string \<Rightarrow> ('d, 'b) StoreSvc \<Rightarrow> ShardInfo \<Rightarrow> ('d, 'b) task_result outcome" where
  "process_notify E sp peerInfo ss task =
     (let req = \<lparr>scq_OrderId = si_OrderId task, scq_DataId = si_DataId task, scq_Cids = [si_Cid task],
                 scq_TxHash = si_CompleteHash task, scq_Height = si_CompleteHeight task\<rparr>;
          resp = se_RequestShardComplete E sp req peerInfo;
          ss1 = ss\<lparr>ss_trace := ss_trace ss @ [EvShardComplete req peerInfo]\<rparr>;
          finish = (\<lambda>(task, ss). if si_State task < ShardStateComplete
                     then (let task' = task\<lparr>si_State := ShardStateComplete\<rparr> in Return (None, task', save_shard E ss task'))
                     else Return (None, task, ss))
      in if scr_Code resp \<noteq> 0
         then bind_outcome (updateShardError E ss1 task (Some (Wrapf ErrFailuresResponsed (scr_Message resp)))) finish
         else finish (task, ss1))"

text \<open>Run the next phase unless this one returned an error.\<close>

definition and_then ::
  "('d, 'b) task_result outcome \<Rightarrow> (('d, 'b) StoreSvc \<Rightarrow> ShardInfo \<Rightarrow> ('d, 'b) task_result outcome) \<Rightarrow> ('d, 'b) task_result outcome"
where
  "and_then r f = bind_outcome r (\<lambda>(err, task, ss). case err of Some e \<Rightarrow> Return (Some e, task, ss) | None \<Rightarrow> f ss task)"

definition process_phases ::
  "('d, 'k, 'b) StoreEnv \<Rightarrow> ('d, 'b) StoreSvc \<Rightarrow> ShardInfo \<Rightarrow> ('d, 'b) task_result outcome" where
  "process_phases E ss task =
     (case getStorageProtocolAndPeer E ss (si_Gateway task) of
        (sp, Inl err) \<Rightarrow> fail_task E ss task (Some err) (Some err)
      | (sp, Inr peerInfo) \<Rightarrow>
          and_then (and_then (process_store E sp peerInfo ss task) (process_complete E)) (process_notify E sp peerInfo))"

definition store_process ::
  "('d, 'k, 'b) StoreEnv \<Rightarrow> ('d, 'b) StoreSvc \<Rightarrow> ShardInfo \<Rightarrow> ('d, 'b) task_result outcome" where
  "store_process E ss task0 =
     (if si_State task0 = ShardStateTerminate then Return (None, task0, ss)
      else
        (let tries = si_Tries task0 + 1;
             task = task0\<lparr>si_Tries := tries, si_RetryAt := GetRetryAt (se_now E) tries\<rparr>;
             terminate = (\<lambda>msg. fail_task E ss (task\<lparr>si_State := ShardStateTerminate\<rparr>) (Some (ErrText msg)) None)
         in if tries \<ge> MAX_RETRIES then
              terminate (''order '' @ show_u64 (si_OrderId task) @ '' shard '' @ si_DataId task
                         @ '' too many retries '' @ show_u64 tries)
            else if si_ExpireHeight task > 0 then
              (case ch_GetLastHeight (se_chain E) of
                 Inl err \<Rightarrow> Return (Some err, task, ss)
               | Inr latestHeight \<Rightarrow>
                   if latestHeight > to_int64 (si_ExpireHeight task) then
                     terminate (''order expired: latest='' @ show_int latestHeight
                                @ '' expireAt='' @ show_u64 (si_ExpireHeight task))
                   else process_phases E ss task)
            else process_phases E ss task))"

text \<open>One goroutine of the scheduling loop in \<^verbatim>\<open>Start\<close>.\<close>

definition store_sched_one ::
  "('d, 'k, 'b) StoreEnv \<Rightarrow> ('d, 'b) StoreSvc \<Rightarrow> ('d, 'b) StoreSvc outcome" where
  "store_sched_one E ss =
     (case PopFront (ss_schedQueue ss) of
        (None, q) \<Rightarrow> Return (ss\<lparr>ss_schedQueue := q\<rparr>)
      | (Some task, q) \<Rightarrow>
          (let ss1 = ss\<lparr>ss_schedQueue := q\<rparr>
           in if si_RetryAt (wr_Shard task) > Unix (se_now E)
              then Return (ss1\<lparr>ss_schedQueue := Push q task\<rparr>)
              else bind_outcome (store_process E ss1 (wr_Shard task)) (\<lambda>(err, shard, ss2).
                     case err of
                       None \<Rightarrow> Return ss2
                     | Some _ \<Rightarrow> Return (ss2\<lparr>ss_schedQueue := Push (ss_schedQueue ss2) (task\<lparr>wr_Shard := shard\<rparr>)\<rparr>))))"

section \<open>What a phase does\<close>

lemmas task_defs = fail_task_def updateShardError_def save_shard_def

lemma fail_task_Return:
  "fail_task E ss task err ret = Return (r, task', ss') \<longleftrightarrow>
     (\<exists>e. err = Some e \<and> r = ret \<and> task' = task\<lparr>si_LastErr := Error e\<rparr> \<and> ss' = save_shard E ss task')"
  by (cases err) (auto simp: fail_task_def updateShardError_def Let_def)

lemma save_shard_frame [simp]:
  "ss_trace (save_shard E ss t) = ss_trace ss" "ss_storeManager (save_shard E ss t) = ss_storeManager ss"
  "ss_schedQueue (save_shard E ss t) = ss_schedQueue ss" "ss_nodeAddress (save_shard E ss t) = ss_nodeAddress ss"
  "ss_migrateChan (save_shard E ss t) = ss_migrateChan ss"
  by (simp_all add: save_shard_def)

text \<open>The content the store phase may have put into the store: it has the content identifier of the task.\<close>

definition stored_for ::
  "('d, 'k, 'b) StoreEnv \<Rightarrow> ShardInfo \<Rightarrow> 'b StoreManager \<Rightarrow> 'b StoreManager \<Rightarrow> bool" where
  "stored_for E task sm sm' \<longleftrightarrow>
     (\<exists>content c err. (CalculateCid (se_Sum E) content = Inr c \<or> (c = Undef \<and> isl (CalculateCid (se_Sum E) content)))
        \<and> cid_String (lib_cid (se_libs E)) c = cid_String (lib_cid (se_libs E)) (si_Cid task)
        \<and> SM_Store (se_backend E) sm (si_Cid task) content = Return (err, sm'))"

lemma process_store_result:
  assumes "process_store E sp peer ss task = Return (err, task', ss')"
  shows "ss_trace ss' = ss_trace ss \<and> ss_nodeAddress ss' = ss_nodeAddress ss \<and> ss_schedQueue ss' = ss_schedQueue ss
    \<and> si_OrderId task' = si_OrderId task \<and> si_Cid task' = si_Cid task \<and> si_Tries task' = si_Tries task
    \<and> (ss_storeManager ss' = ss_storeManager ss \<or> stored_for E task (ss_storeManager ss) (ss_storeManager ss'))
    \<and> (err = None \<longrightarrow> (si_State task < ShardStateStored \<longrightarrow> si_State task' = ShardStateStored)
                     \<and> (\<not> si_State task < ShardStateStored \<longrightarrow> task' = task \<and> ss' = ss))
    \<and> (err \<noteq> None \<longrightarrow> si_State task < ShardStateStored)"
proof (cases "si_State task < ShardStateStored")
  case False
  with assms show ?thesis by (simp add: process_store_def)
next
  case small: True
  show ?thesis
  proof (cases "si_OrderOperation task \<noteq> ''3'' \<or> si_ShardOperation task \<noteq> ''3''")
    case True
    with small assms show ?thesis
      by (auto simp: process_store_def Let_def bind_outcome_Return fail_task_Return stored_for_def
        split: if_splits option.splits sum.splits prod.splits) (metis Inl_not_Inr isl_def)+
  next
    case False
    with small assms show ?thesis
      by (auto simp: process_store_def Let_def bind_outcome_Return fail_task_Return split: if_splits)
  qed
qed

lemma process_complete_result:
  assumes "process_complete E ss task = Return (err, task', ss')"
  shows "ss_nodeAddress ss' = ss_nodeAddress ss \<and> ss_schedQueue ss' = ss_schedQueue ss
    \<and> ss_storeManager ss' = ss_storeManager ss \<and> si_Tries task' = si_Tries task
    \<and> ss_trace ss' = ss_trace ss @ (if si_State task < ShardStateTxSent
                                    then [EvCompleteOrder (si_OrderId task) (si_Cid task) (si_Size task)] else [])
    \<and> (err = None \<longrightarrow> (if si_State task < ShardStateTxSent then si_State task' = ShardStateComplete else task' = task))
    \<and> (err \<noteq> None \<longrightarrow> si_State task' = si_State task)"
  using assms
  by (auto simp: process_complete_def Let_def fail_task_Return split: if_splits option.splits sum.splits prod.splits)

lemma process_notify_result:
  assumes "process_notify E sp peer ss task = Return (err, task', ss')"
  shows "err = None \<and> ss_nodeAddress ss' = ss_nodeAddress ss \<and> ss_schedQueue ss' = ss_schedQueue ss
    \<and> ss_storeManager ss' = ss_storeManager ss \<and> si_Tries task' = si_Tries task
    \<and> (\<exists>req. ss_trace ss' = ss_trace ss @ [EvShardComplete req peer] \<and> scq_OrderId req = si_OrderId task
            \<and> scq_Cids req = [si_Cid task])
    \<and> \<not> si_State task' < ShardStateComplete"
  using assms
  by (auto simp: process_notify_def Let_def updateShardError_def shard_state_defs split: if_splits)

lemma process_notify_total: "process_notify E sp peer ss task \<noteq> Panic"
  by (simp add: process_notify_def Let_def updateShardError_def)

end
