(* ===== verification/Storage_Handlers.thy ===== *)
theory Storage_Handlers
  imports Storage_Service
begin

text \<open>
  The rest of the storage node (\<^verbatim>\<open>src/node/storage/storage_service.go\<close>): the handlers of the storage protocol
  (\<^verbatim>\<open>HandleShardAssign\<close>, \<^verbatim>\<open>HandleShardLoad\<close>, \<^verbatim>\<open>HandleShardMigrate\<close>), migration and expiration of shards, and the
  queries on the persisted state.  Every early return of a handler is a branch with its code and message.
\<close>

section \<open>Assignment of shards\<close>

definition assign_error :: "u64 \<Rightarrow> string \<Rightarrow> ShardAssignResp" where
  "assign_error code msg = \<lparr>sar_Code = code, sar_Message = msg\<rparr>"

text \<open>One shard of the order that is assigned to this node.\<close>

definition assign_one ::
  "('d, 'k, 'b) StoreEnv \<Rightarrow> ShardAssignReq \<Rightarrow> FullOrder \<Rightarrow> string \<Rightarrow> ('d, 'b) StoreSvc \<Rightarrow> ShardAssignResp option \<times> ('d, 'b) StoreSvc"
where
  "assign_one E req order shardCid ss =
     (case cid_Decode (lib_cid (se_libs E)) shardCid of
        Inl _ \<Rightarrow> (Some (assign_error ErrorCodeInvalidShardCid (''invalid cid '' @ shardCid)), ss)
      | Inr c \<Rightarrow>
          (let found = (case GetShard (se_libs E) (ss_orderDs ss) (saq_OrderId req) c of Inl _ \<Rightarrow> ShardInfo_zero | Inr s \<Rightarrow> s);
               fresh = ShardInfo_zero\<lparr>si_Owner := fo_Owner order, si_OrderId := saq_OrderId req,
                         si_Gateway := fo_Provider order, si_Cid := c, si_DataId := saq_DataId req,
                         si_OrderOperation := show_u64 (fo_Operation order),
                         si_ShardOperation := show_u64 (fo_Operation order),
                         si_State := ShardStateValidated, si_ExpireHeight := saq_TimeoutHeight req\<rparr>;
               (shardInfo, ss1) = (if ShardInfo_zero = found then (fresh, save_shard E ss fresh) else (found, ss));
               shardInfo' = (if si_ExpireHeight shardInfo < saq_TimeoutHeight req
                             then shardInfo\<lparr>si_State := ShardStateValidated, si_ExpireHeight := saq_TimeoutHeight req, si_Tries := 0\<rparr>
                             else shardInfo)
           in (None, push_shard shardInfo' ss1)))"

fun assign_loop ::
  "('d, 'k, 'b) StoreEnv \<Rightarrow> ShardAssignReq \<Rightarrow> FullOrder \<Rightarrow> string list \<Rightarrow> ('d, 'b) StoreSvc \<Rightarrow> ShardAssignResp \<times> ('d, 'b) StoreSvc"
where
  "assign_loop E req order [] ss = (\<lparr>sar_Code = 0, sar_Message = []\<rparr>, ss)"
| "assign_loop E req order (c # cs) ss =
     (case assign_one E req order c ss of
        (Some resp, ss') \<Rightarrow> (resp, ss')
      | (None, ss') \<Rightarrow> assign_loop E req order cs ss')"

definition HandleShardAssign ::
  "('d, 'k, 'b) StoreEnv \<Rightarrow> ('d, 'b) StoreSvc \<Rightarrow> ShardAssignReq \<Rightarrow> (ShardAssignResp \<times> ('d, 'b) StoreSvc) outcome" where
  "HandleShardAssign E ss req =
     (let invalid_tx = (\<lambda>tx. Return (assign_error ErrorCodeInvalidTx (''tx '' @ tx @ '' body is invalid.''), ss))
      in if saq_Assignee req \<noteq> ss_nodeAddress ss then
           Return (assign_error ErrorCodeInvalidShardAssignee
             (''shard assignee is '' @ saq_Assignee req @ '', but current node is '' @ ss_nodeAddress ss), ss)
         else
           (case ch_GetTx (se_chain E) (saq_TxHash req) (saq_Height req) of
              Inl err \<Rightarrow> Return (assign_error ErrorCodeInternalErr (''internal error: '' @ Error err), ss)
            | Inr resultTx \<Rightarrow>
                if rt_Code resultTx \<noteq> 0 then invalid_tx (rt_Tx resultTx)
                else
                  (case tc_Tx (se_tx E) (rt_Tx resultTx) of
                     Inl _ \<Rightarrow> invalid_tx (rt_Tx resultTx)
                   | Inr body \<Rightarrow>
                       bind_outcome (first_message body) (\<lambda>msg.
                         case (if saq_AssignTxType req = AssignTxTypeStore then tc_MsgStore (se_tx E) msg
                               else tc_MsgReady (se_tx E) msg) of
                           Inl _ \<Rightarrow> invalid_tx (rt_Tx resultTx)
                         | Inr _ \<Rightarrow>
                             (case ch_GetOrder (se_chain E) (saq_OrderId req) of
                                Inl err \<Rightarrow> Return (assign_error ErrorCodeInternalErr (''internal error: '' @ Error err), ss)
                              | Inr order \<Rightarrow>
                                  (let shardCids = map (\<lambda>(_, shard). cs_Cid shard)
                                                     (filter (\<lambda>(key, _). key = ss_nodeAddress ss) (fo_Shards order))
                                   in if shardCids = [] then
                                        Return (assign_error ErrorCodeInvalidProvider
                                          (''order '' @ show_u64 (saq_OrderId req) @ '' doesn't have shard provider ''
                                           @ ss_nodeAddress ss), ss)
                                      else Return (assign_loop E req order shardCids ss)))))))"

section \<open>Serving shards\<close>

definition load_error :: "('d, 'k, 'b) StoreEnv \<Rightarrow> ShardLoadReq \<Rightarrow> string \<Rightarrow> ShardLoadResp" where
  "load_error E req msg =
     \<lparr>slr_Code = ErrorCodeInternalErr, slr_Message = msg, slr_OrderId = slq_OrderId req, slr_Cid = slq_Cid req,
      slr_Content = None, slr_RequestId = slq_RequestId req, slr_ResponseId = UnixMilli (se_now E)\<rparr>"

text \<open>The account of the relaying node and its proposal are looked up and marshalled; the result of the
  signature check is discarded by the source.\<close>

definition check_relay ::
  "('d, 'k, 'b) StoreEnv \<Rightarrow> string \<Rightarrow> ShardLoadReq \<Rightarrow> string option" where
  "check_relay E who req =
     (case ch_GetPubKey (se_chain E) (rp_NodeAddress (rpc_Proposal (slq_RelayProposal req))) of
        Inl err \<Rightarrow> Some (''failed to get '' @ who @ '' account info: '' @ Error err)
      | Inr pubKey \<Rightarrow>
          (case se_MarshalRelay E (rpc_Proposal (slq_RelayProposal req)) of
             Inl err \<Rightarrow> Some (''failed marshal relay proposal: '' @ Error err)
           | Inr buf \<Rightarrow> (let verified = se_VerifySignature E pubKey buf (rpc_Signature (slq_RelayProposal req)) in None)))"

definition unexpected_gateway :: "ShardLoadReq \<Rightarrow> string \<Rightarrow> string" where
  "unexpected_gateway req remotePeerId =
     ''invalid query, unexpect gateway:'' @ remotePeerId @ '', should be '' @ qp_Gateway (mpc_Proposal (slq_Proposal req))"

text \<open>A challenge by a fishman, relayed.\<close>

definition check_fishmen :: "('d, 'k, 'b) StoreEnv \<Rightarrow> ShardLoadReq \<Rightarrow> string \<Rightarrow> string option" where
  "check_fishmen E req remotePeerId =
     (case ch_GetFishmen (se_chain E) of
        Inl err \<Rightarrow> Some (''failed to get fishmen info: '' @ Error err)
      | Inr fishmen \<Rightarrow>
          if length (rpc_Signature (slq_RelayProposal req)) > 0
             \<and> Contains fishmen (rp_NodeAddress (rpc_Proposal (slq_RelayProposal req))) \<and> Contains fishmen remotePeerId
          then check_relay E ''fishmen'' req
          else Some (unexpected_gateway req remotePeerId))"

text \<open>\<^verbatim>\<open>KeywordType\<close> is cut to 32 bits for the proposal that was signed.\<close>

definition signed_query :: "QueryProposal \<Rightarrow> QueryProposal" where
  "signed_query p = p\<lparr>qp_KeywordType := take_bit 32 (qp_KeywordType p)\<rparr>"

definition check_query :: "('d, 'k, 'b) StoreEnv \<Rightarrow> ShardLoadReq \<Rightarrow> string \<Rightarrow> string option" where
  "check_query E req remotePeerId =
     (let p = mpc_Proposal (slq_Proposal req)
      in case se_NewDidManager E (qp_Owner p) of
           Inl err \<Rightarrow> Some (''invalid did: '' @ Error err)
         | Inr _ \<Rightarrow>
             (case se_MarshalQuery E (signed_query p) of
                Inl err \<Rightarrow> Some (''marshal error: '' @ Error err)
              | Inr proposalBytes \<Rightarrow>
                  (case se_VerifyJWS E (qp_Owner p) proposalBytes (mpc_JwsSignature (slq_Proposal req)) of
                     Some err \<Rightarrow> Some (''verify client order proposal signature failed: '' @ Error err)
                   | None \<Rightarrow>
                       (case (if Contains (qp_Gateway p) remotePeerId then None
                              else if length (rpc_Signature (slq_RelayProposal req)) > 0
                                      \<and> Contains (rp_RelayPeerIds (rpc_Proposal (slq_RelayProposal req))) remotePeerId
                              then check_relay E ''gateway'' req
                              else Some (unexpected_gateway req remotePeerId)) of
                          Some msg \<Rightarrow> Some msg
                        | None \<Rightarrow>
                            (case ch_GetLastHeight (se_chain E) of
                               Inl err \<Rightarrow> Some (''get chain height error: '' @ Error err)
                             | Inr lastHeight \<Rightarrow>
                                 if qp_LastValidHeight p < to_uint64 lastHeight
                                 then Some (''invalid query, LastValidHeight:'' @ show_u64 (qp_LastValidHeight p)
                                            @ '' > now:'' @ show_int lastHeight)
                                 else None)))))"

definition HandleShardLoad ::
  "('d, 'k, 'b) StoreEnv \<Rightarrow> ('d, 'b) StoreSvc \<Rightarrow> ShardLoadReq \<Rightarrow> string \<Rightarrow> ShardLoadResp outcome" where
  "HandleShardLoad E ss req remotePeerId =
     (let p = mpc_Proposal (slq_Proposal req);
          I = lib_cid (se_libs E);
          refused = (if slq_Owner req = qp_Gateway p \<and> qp_Owner p = slq_Owner req
                     then check_fishmen E req remotePeerId else check_query E req remotePeerId)
      in case refused of
           Some msg \<Rightarrow> Return (load_error E req msg)
         | None \<Rightarrow>
             bind_outcome (SM_Get (se_backend E) I (ss_storeManager ss) (slq_Cid req)) (\<lambda>r.
               case r of
                 Inl err \<Rightarrow> Return (load_error E req
                   (''get '' @ cid_String I (slq_Cid req) @ '' from store error: '' @ Error err))
               | Inr shardContent \<Rightarrow>
                   Return \<lparr>slr_Code = 0, slr_Message = [], slr_OrderId = slq_OrderId req, slr_Cid = slq_Cid req,
                           slr_Content = Some shardContent, slr_RequestId = slq_RequestId req,
                           slr_ResponseId = UnixMilli (se_now E)\<rparr>))"

section \<open>Receiving a migrated shard\<close>

definition migrate_error :: "u64 \<Rightarrow> string \<Rightarrow> ShardMigrateResp" where
  "migrate_error code msg = \<lparr>smr_Code = code, smr_Message = msg, smr_CompleteHash = [], smr_CompleteHeight = 0\<rparr>"

definition migrate_shard ::
  "('d, 'k, 'b) StoreEnv \<Rightarrow> ('d, 'b) StoreSvc \<Rightarrow> ShardMigrateReq \<Rightarrow> FullOrder \<Rightarrow> (ShardMigrateResp \<times> ('d, 'b) StoreSvc) outcome"
where
  "migrate_shard E ss req order =
     (let fail = (\<lambda>ss msg. Return (migrate_error ErrorCodeInternalErr msg, ss))
      in case map_of (fo_Shards order) (ss_nodeAddress ss) of
           None \<Rightarrow> fail ss (''no shard to current provider '' @ ss_nodeAddress ss)
         | Some shard \<Rightarrow>
             if cs_From shard \<noteq> smq_MigrateFrom req then
               fail ss (''unmatched migrate from: expected '' @ smq_MigrateFrom req @ '', actual '' @ cs_From shard)
             else if cs_Cid shard \<noteq> smq_Cid req then
               fail ss (''unmatched cid: expected '' @ smq_Cid req @ '', actual '' @ cs_Cid shard)
             else if cs_Status shard \<noteq> ShardMigrating then
               fail ss (''shard status is not invalid, expected ShardWaiting, actual '' @ show_int (tc_StatusCode (se_tx E) (cs_Status shard)))
             else
               (case cid_Decode (lib_cid (se_libs E)) (cs_Cid shard) of
                  Inl err \<Rightarrow> fail ss (''invalid cid '' @ cs_Cid shard @ '' error: '' @ Error err)
                | Inr c \<Rightarrow>
                    bind_outcome (SM_Store (se_backend E) (ss_storeManager ss) c (smq_Content req)) (\<lambda>(err, sm).
                      let ss1 = ss\<lparr>ss_storeManager := sm\<rparr>
                      in case err of
                           Some e \<Rightarrow> fail ss1 (''store cid '' @ cid_String (lib_cid (se_libs E)) c @ '' error: '' @ Error e)
                         | None \<Rightarrow>
                             (let size = of_nat (length (smq_Content req));
                                  ss2 = ss1\<lparr>ss_trace := ss_trace ss1 @ [EvCompleteOrder (fo_Id order) c size]\<rparr>
                              in case ch_CompleteOrder (se_chain E) (ss_nodeAddress ss) (fo_Id order) c size of
                                   Inl e \<Rightarrow> Return (migrate_error ErrorCodeInvalidTx (''complete order tx failed: '' @ Error e), ss2)
                                 | Inr (txHash, height) \<Rightarrow>
                                     Return (\<lparr>smr_Code = 0, smr_Message = [], smr_CompleteHash = txHash,
                                              smr_CompleteHeight = height\<rparr>, ss2)))))"

text \<open>The result for the data id in the migration transaction; the first entry with the key counts.\<close>

definition migrate_result :: "string \<Rightarrow> (string \<times> string) list \<Rightarrow> string" where
  "migrate_result dataId result = (case map_of result dataId of None \<Rightarrow> [] | Some v \<Rightarrow> v)"

definition HandleShardMigrate ::
  "('d, 'k, 'b) StoreEnv \<Rightarrow> ('d, 'b) StoreSvc \<Rightarrow> ShardMigrateReq \<Rightarrow> (ShardMigrateResp \<times> ('d, 'b) StoreSvc) outcome" where
  "HandleShardMigrate E ss req =
     (let fail = (\<lambda>msg. Return (migrate_error ErrorCodeInternalErr msg, ss))
      in case ch_GetTx (se_chain E) (smq_TxHash req) (smq_TxHeight req) of
           Inl err \<Rightarrow> fail (''Get tx '' @ smq_TxHash req @ '' error: '')
         | Inr resultTx \<Rightarrow>
             if rt_Code resultTx \<noteq> 0 then
               fail (''Tx '' @ smq_TxHash req @ '' failed with code: '' @ show_u64 (rt_Code resultTx))
             else
               (case tc_TxMsgData (se_tx E) (rt_Data resultTx) of
                  Inl err \<Rightarrow> fail (''unmarshal tx error: '' @ Error err)
                | Inr responses \<Rightarrow>
                    bind_outcome (first_message (Some responses)) (\<lambda>v.
                      case tc_MsgMigrateResponse (se_tx E) v of
                        Inl err \<Rightarrow> fail (''unmarshal tx error: '' @ Error err)
                      | Inr result \<Rightarrow>
                          (let m = migrate_result (smq_DataId req) result
                           in if m = [] then
                                fail (''invalid data id: given dataId '' @ smq_DataId req @ '' not in tx '' @ smq_TxHash req)
                              else if \<not> HasPrefix m ''SUCCESS'' then fail (''dataId migrate fails: '' @ m)
                              else
                                (case ch_GetOrder (se_chain E) (smq_OrderId req) of
                                   Inl err \<Rightarrow> Panic
                                 | Inr order \<Rightarrow> migrate_shard E ss req order)))))"

section \<open>Migrating shards away\<close>

definition processMigrate ::
  "('d, 'k, 'b) StoreEnv \<Rightarrow> ('d, 'b) StoreSvc \<Rightarrow> MigrateRequest \<Rightarrow> (goerr option \<times> ('d, 'b) StoreSvc) outcome" where
  "processMigrate E ss req =
     (let fail = (\<lambda>err. Return (Some err, ss)) in
      case cid_Decode (lib_cid (se_libs E)) (mr_Cid req) of
        Inl err \<Rightarrow> fail err
      | Inr c \<Rightarrow>
          bind_outcome (SM_Get (se_backend E) (lib_cid (se_libs E)) (ss_storeManager ss) c) (\<lambda>r.
            case r of
              Inl err \<Rightarrow> fail err
            | Inr shardContent \<Rightarrow>
                (case ch_GetNodePeer (se_chain E) (mr_ToProvider req) of
                   Inl err \<Rightarrow> fail err
                 | Inr peer \<Rightarrow>
                     (let resp = se_RequestShardMigrate E StreamProtocol
                            \<lparr>smq_MigrateFrom = mr_FromProvider req, smq_OrderId = mr_OrderId req, smq_DataId = mr_DataId req,
                             smq_TxHash = mr_MigrateTxHash req, smq_TxHeight = 0, smq_Cid = mr_Cid req,
                             smq_Content = shardContent\<rparr> peer
                      in if smr_Code resp \<noteq> 0 then fail (ErrText (smr_Message resp))
                         else
                           (case ch_GetTx (se_chain E) (smr_CompleteHash resp) (smr_CompleteHeight resp) of
                              Inl err \<Rightarrow> fail err
                            | Inr resultTx \<Rightarrow>
                                if rt_Code resultTx \<noteq> 0 then
                                  fail (ErrText (''complete tx '' @ rt_Hash resultTx @ '' failed: code='' @ show_u64 (rt_Code resultTx)))
                                else
                                  (case ch_GetOrder (se_chain E) (mr_OrderId req) of
                                     Inl err \<Rightarrow> fail err
                                   | Inr order \<Rightarrow>
                                       (case map_of (fo_Shards order) (mr_ToProvider req) of
                                          None \<Rightarrow> fail (ErrText (''no shard assigned to new provider '' @ mr_ToProvider req))
                                        | Some shard \<Rightarrow>
                                            if cs_From shard \<noteq> mr_FromProvider req then
                                              fail (ErrText (''shard is migrated from old provider '' @ mr_FromProvider req))
                                            else if cs_Status shard \<noteq> ShardCompleted then
                                              fail (ErrText (''shard status should be ShardCompleted, but is ''
                                                @ show_int (tc_StatusCode (se_tx E) (cs_Status shard))))
                                            else
                                              (case GetMigrate (se_libs E) (ss_orderDs ss) (mr_DataId req) (mr_FromProvider req) of
                                                 Inl _ \<Rightarrow> Return (None, ss)
                                               | Inr mi \<Rightarrow>
                                                   Return (None, ss\<lparr>ss_orderDs := snd (SaveMigrate (se_libs E) (ss_orderDs ss)
                                                     (mi\<lparr>mi_State := MigrateStateComplete, mi_CompleteTxHash := smr_CompleteHash resp,
                                                         mi_CompleteTxHeight := smr_CompleteHeight resp\<rparr>))\<rparr>)))))))))"

text \<open>The entry of the order's shard map that receives this node's shard: the loop stops at the first.\<close>

definition migrate_target :: "string \<Rightarrow> string \<Rightarrow> (string \<times> ChainShard) list \<Rightarrow> (string \<times> ChainShard) option" where
  "migrate_target self c smap =
     find (\<lambda>(node, shard). cs_Status shard = ShardMigrating \<and> cs_Cid shard = c \<and> node \<noteq> self \<and> cs_From shard = self) smap"

fun migrate_orders ::
  "('d, 'k, 'b) StoreEnv \<Rightarrow> string \<Rightarrow> int \<Rightarrow> string \<Rightarrow> u64 list \<Rightarrow> MigrateInfo \<Rightarrow> ('d, 'b) StoreSvc \<Rightarrow> ('d, 'b) StoreSvc outcome"
where
  "migrate_orders E hash height k [] mi ss = Return ss"
| "migrate_orders E hash height k (orderId # ids) mi ss =
     (case ch_GetOrder (se_chain E) orderId of
        Inl _ \<Rightarrow> Panic
      | Inr order \<Rightarrow>
          (case map_of (fo_Shards order) (ss_nodeAddress ss) of
             None \<Rightarrow> migrate_orders E hash height k ids mi ss
           | Some fromShard \<Rightarrow>
               (case migrate_target (ss_nodeAddress ss) (cs_Cid fromShard) (fo_Shards order) of
                  None \<Rightarrow> migrate_orders E hash height k ids mi ss
                | Some (node, shard) \<Rightarrow>
                    (let mi' = mi\<lparr>mi_OrderId := fo_Id order, mi_ToProvider := node, mi_Cid := cs_Cid shard\<rparr>;
                         req = \<lparr>mr_FromProvider = ss_nodeAddress ss, mr_OrderId = fo_Id order, mr_DataId = k,
                                mr_Cid = cs_Cid shard, mr_ToProvider = node, mr_MigrateTxHash = hash, mr_MigrateHeight = height\<rparr>
                     in migrate_orders E hash height k ids mi'
                          (ss\<lparr>ss_orderDs := snd (SaveMigrate (se_libs E) (ss_orderDs ss) mi'),
                              ss_migrateChan := ss_migrateChan ss @ [req]\<rparr>)))))"

fun migrate_results ::
  "('d, 'k, 'b) StoreEnv \<Rightarrow> string \<Rightarrow> int \<Rightarrow> (string \<times> string) list \<Rightarrow> ('d, 'b) StoreSvc \<Rightarrow> ('d, 'b) StoreSvc outcome" where
  "migrate_results E hash height [] ss = Return ss"
| "migrate_results E hash height ((k, v) # kvs) ss =
     (if \<not> HasPrefix v ''SUCCESS'' then migrate_results E hash height kvs ss
      else
        (let mi = MigrateInfo_zero\<lparr>mi_DataId := k, mi_FromProvider := ss_nodeAddress ss, mi_MigrateTxHash := hash,
               mi_MigrateTxHeight := height, mi_State := MigrateStateTxSent\<rparr>;
             ss1 = ss\<lparr>ss_orderDs := snd (SaveMigrate (se_libs E) (ss_orderDs ss) mi)\<rparr>
         in case ch_GetMeta (se_chain E) k of
              Inl _ \<Rightarrow> Panic
            | Inr meta \<Rightarrow>
                bind_outcome (migrate_orders E hash height k (md_Orders meta) mi ss1)
                  (migrate_results E hash height kvs)))"

definition Migrate ::
  "('d, 'k, 'b) StoreEnv \<Rightarrow> ('d, 'b) StoreSvc \<Rightarrow> string list
     \<Rightarrow> (string \<times> (string \<times> string) list \<times> goerr option \<times> ('d, 'b) StoreSvc) outcome" where
  "Migrate E ss dataIds =
     (case ch_MigrateOrder (se_chain E) (ss_nodeAddress ss) dataIds of
        (hash, results, height, err) \<Rightarrow>
          bind_outcome (migrate_results E hash height results ss) (\<lambda>ss'. Return (hash, results, err, ss')))"

section \<open>Expiration\<close>

text \<open>The loop of \<^verbatim>\<open>GetAllShards\<close>, with fuel: \<open>None\<close> is a loop that has not ended.  The offset is never advanced.\<close>

fun GetAllShards :: "nat \<Rightarrow> ('d, 'k, 'b) StoreEnv \<Rightarrow> ChainShard list \<Rightarrow> ChainShard list res option" where
  "GetAllShards 0 E myShards = None"
| "GetAllShards (Suc fuel) E myShards =
     (case ch_ListShards (se_chain E) 0 50 of
        Inl err \<Rightarrow> Some (Inl err)
      | Inr (page, n) \<Rightarrow>
          if 0 + 50 \<ge> n then Some (Inr (myShards @ page)) else GetAllShards fuel E (myShards @ page))"

fun save_expires ::
  "('d, 'k, 'b) StoreEnv \<Rightarrow> ChainShard list \<Rightarrow> ('d, 'b) StoreSvc \<Rightarrow> goerr option \<times> ('d, 'b) StoreSvc" where
  "save_expires E [] ss = (None, ss)"
| "save_expires E (s # shards) ss =
     (case SaveShardExpire (se_libs E) (ss_orderDs ss) (cs_Id s) (cs_Cid s) (cs_OrderId s) of
        (Some err, d) \<Rightarrow> (Some err, ss\<lparr>ss_orderDs := d\<rparr>)
      | (None, d) \<Rightarrow> save_expires E shards (ss\<lparr>ss_orderDs := d\<rparr>))"

definition initShardsExpiration ::
  "nat \<Rightarrow> ('d, 'k, 'b) StoreEnv \<Rightarrow> ('d, 'b) StoreSvc \<Rightarrow> (goerr option \<times> ('d, 'b) StoreSvc) option" where
  "initShardsExpiration fuel E ss =
     (case GetShardExpireIndex (se_libs E) (ss_orderDs ss) of
        Inl err \<Rightarrow> Some (Some err, ss)
      | Inr index \<Rightarrow>
          if sex_Alls index \<noteq> [] then Some (None, ss)
          else map_option (\<lambda>r. case r of Inl _ \<Rightarrow> (None, ss) | Inr myShards \<Rightarrow> save_expires E myShards ss)
                 (GetAllShards fuel E []))"

definition shard_expire_at :: "ChainShard \<Rightarrow> u64" where
  "shard_expire_at shard = foldl (+) (cs_CreatedAt shard + cs_Duration shard) (cs_RenewDurations shard)"

definition expire_key ::
  "('d, 'k, 'b) StoreEnv \<Rightarrow> (u64 \<times> u64) list \<Rightarrow> string set \<Rightarrow> u64 \<Rightarrow> ('d, 'b) StoreSvc \<Rightarrow> ('d, 'b) StoreSvc outcome" where
  "expire_key E expireMap cidList shardId ss =
     (if map_of expireMap shardId \<noteq> None then Return ss
      else
        (case GetShardExpire (se_libs E) (ss_orderDs ss) shardId of
           Inl _ \<Rightarrow> Return ss
         | Inr info \<Rightarrow>
             bind_outcome
               (if sei_Cid info \<in> cidList then Return (True, ss)
                else
                  (case se_Parse E (sei_Cid info) of
                     Inl _ \<Rightarrow> Return (False, ss)
                   | Inr c \<Rightarrow>
                       bind_outcome (SM_Remove (se_backend E) (ss_storeManager ss) c) (\<lambda>(err, sm).
                         Return (case err of None \<Rightarrow> True | Some e \<Rightarrow> Contains (Error e) ''not pinned or pinned indirectly'',
                                 ss\<lparr>ss_storeManager := sm\<rparr>))))
               (\<lambda>(go_on, ss1).
                 if \<not> go_on then Return ss1
                 else
                   (case RemoveShardExpireIndex (se_libs E) (ss_orderDs ss1) shardId of
                      (Some _, d) \<Rightarrow> Return (ss1\<lparr>ss_orderDs := d\<rparr>)
                    | (None, d) \<Rightarrow>
                        (let ss2 = ss1\<lparr>ss_orderDs := d\<rparr>
                         in case se_Parse E (sei_Cid info) of
                              Inl _ \<Rightarrow> Return ss2
                            | Inr c \<Rightarrow>
                                (case GetShard (se_libs E) (ss_orderDs ss2) (sei_OrderId info) c of
                                   Inl _ \<Rightarrow> Return ss2
                                 | Inr sf \<Rightarrow> Return (save_shard E ss2 (sf\<lparr>si_State := ShardStateExpired\<rparr>))))))))"

fun expire_keys ::
  "('d, 'k, 'b) StoreEnv \<Rightarrow> (u64 \<times> u64) list \<Rightarrow> string set \<Rightarrow> ShardExpireKey list \<Rightarrow> ('d, 'b) StoreSvc \<Rightarrow> ('d, 'b) StoreSvc outcome"
where
  "expire_keys E expireMap cidList [] ss = Return ss"
| "expire_keys E expireMap cidList (key # keys) ss =
     bind_outcome (expire_key E expireMap cidList (sek_ShardId key) ss) (expire_keys E expireMap cidList keys)"

text \<open>One tick of \<^verbatim>\<open>processExpire\<close>.\<close>

definition processExpire ::
  "nat \<Rightarrow> ('d, 'k, 'b) StoreEnv \<Rightarrow> ('d, 'b) StoreSvc \<Rightarrow> ('d, 'b) StoreSvc outcome option" where
  "processExpire fuel E ss =
     map_option (\<lambda>r. case r of
         Inl _ \<Rightarrow> Return ss
       | Inr myShards \<Rightarrow>
           (case GetShardExpireIndex (se_libs E) (ss_orderDs ss) of
              Inl _ \<Rightarrow> Return ss
            | Inr index \<Rightarrow>
                expire_keys E (map (\<lambda>s. (cs_Id s, shard_expire_at s)) (rev myShards)) (set (map cs_Cid myShards)) (sex_Alls index) ss))
       (GetAllShards fuel E [])"

section \<open>Queries\<close>

definition getShardKeyList :: "('d, 'k, 'b) StoreEnv \<Rightarrow> ('d, 'b) StoreSvc \<Rightarrow> ShardKey list res" where
  "getShardKeyList E ss = map_sum id sx_All (GetShardIndex (se_libs E) (ss_orderDs ss))"

fun load_shards :: "('d, 'k, 'b) StoreEnv \<Rightarrow> ('d, 'b) StoreSvc \<Rightarrow> ShardKey list \<Rightarrow> ShardInfo list res" where
  "load_shards E ss [] = Inr []"
| "load_shards E ss (k # ks) =
     (case GetShard (se_libs E) (ss_orderDs ss) (sk_OrderId k) (sk_Cid k) of
        Inl err \<Rightarrow> Inl err
      | Inr shard \<Rightarrow> map_sum id ((#) shard) (load_shards E ss ks))"

definition ShardList :: "('d, 'k, 'b) StoreEnv \<Rightarrow> ('d, 'b) StoreSvc \<Rightarrow> ShardInfo list res" where
  "ShardList E ss = (case getShardKeyList E ss of Inl err \<Rightarrow> Inl err | Inr keys \<Rightarrow> load_shards E ss keys)"

definition shard_pending :: "ShardInfo \<Rightarrow> bool" where
  "shard_pending shard \<longleftrightarrow> si_State shard \<noteq> ShardStateComplete \<and> si_State shard \<noteq> ShardStateTerminate
     \<and> si_State shard \<noteq> ShardStateExpired"

definition getPendingShardList :: "('d, 'k, 'b) StoreEnv \<Rightarrow> ('d, 'b) StoreSvc \<Rightarrow> ShardInfo list res" where
  "getPendingShardList E ss =
     (case getShardKeyList E ss of Inl err \<Rightarrow> Inl err | Inr keys \<Rightarrow> map_sum id (filter shard_pending) (load_shards E ss keys))"

definition processIncompleteShards :: "('d, 'k, 'b) StoreEnv \<Rightarrow> ('d, 'b) StoreSvc \<Rightarrow> ('d, 'b) StoreSvc" where
  "processIncompleteShards E ss =
     (case getPendingShardList E ss of Inl _ \<Rightarrow> ss | Inr pendings \<Rightarrow> fold push_shard pendings ss)"

definition ShardStatus_query :: "('d, 'k, 'b) StoreEnv \<Rightarrow> ('d, 'b) StoreSvc \<Rightarrow> u64 \<Rightarrow> cid \<Rightarrow> ShardInfo res" where
  "ShardStatus_query E ss orderId c = GetShard (se_libs E) (ss_orderDs ss) orderId c"

definition ShardFix :: "('d, 'k, 'b) StoreEnv \<Rightarrow> ('d, 'b) StoreSvc \<Rightarrow> u64 \<Rightarrow> cid \<Rightarrow> goerr option \<times> ('d, 'b) StoreSvc" where
  "ShardFix E ss orderId c =
     (case GetShard (se_libs E) (ss_orderDs ss) orderId c of
        Inl _ \<Rightarrow> (None, ss)
      | Inr shardInfo \<Rightarrow> (None, push_shard shardInfo ss))"

definition getMigrateKeyList :: "('d, 'k, 'b) StoreEnv \<Rightarrow> ('d, 'b) StoreSvc \<Rightarrow> MigrateKey list res" where
  "getMigrateKeyList E ss = map_sum id mx_All (GetMigrateIndex (se_libs E) (ss_orderDs ss))"

fun load_migrates :: "('d, 'k, 'b) StoreEnv \<Rightarrow> ('d, 'b) StoreSvc \<Rightarrow> MigrateKey list \<Rightarrow> MigrateInfo list res" where
  "load_migrates E ss [] = Inr []"
| "load_migrates E ss (k # ks) =
     (case GetMigrate (se_libs E) (ss_orderDs ss) (mk_DataId k) (mk_FromProvider k) of
        Inl err \<Rightarrow> Inl err
      | Inr mi \<Rightarrow> map_sum id ((#) mi) (load_migrates E ss ks))"

definition MigrateList :: "('d, 'k, 'b) StoreEnv \<Rightarrow> ('d, 'b) StoreSvc \<Rightarrow> MigrateInfo list res" where
  "MigrateList E ss = (case getMigrateKeyList E ss of Inl err \<Rightarrow> Inl err | Inr keys \<Rightarrow> load_migrates E ss keys)"

end
