(* ===== verification/Record_Reads.thy ===== *)
theory Record_Reads
  imports Node_State
begin

text \<open>
  What the services rely on when they read their persisted state: a decoded record is well formed (its heights
  and times are int64, the shards of an order have distinct keys), and a successful read in a sound state
  returns the record that was asked for or the zero value.  Every decoder of the repository accepts any bytes
  here, not only those its encoder wrote.
\<close>

section \<open>Decoded records are well formed\<close>

lemma dec_int64_ok: "dec_int64 C bs = Inr (i, bs') \<Longrightarrow> int64_ok i"
  using sint_range_size [where w = "w :: u64" for w]
  by (auto simp: dec_int64_def int64_ok_def to_int64_def word_size split: sum.splits prod.splits if_splits)
     (smt (verit) sint_lt sint_ge len_of_numeral_defs)+

lemma dec_fields_inv:
  assumes "\<And>name t bs t' bs'. P t \<Longrightarrow> sw name t bs = Inr (t', bs') \<Longrightarrow> P t'"
  shows "P t \<Longrightarrow> dec_fields C sw n t bs = Inr (t', bs') \<Longrightarrow> P t'"
  by (induction n arbitrary: t bs) (auto split: sum.splits prod.splits intro: assms)

lemma dec_struct_inv:
  assumes "\<And>name t bs t' bs'. P t \<Longrightarrow> sw name t bs = Inr (t', bs') \<Longrightarrow> P t'" and "P zero"
    and "dec_struct C ty sw zero bs = Inr (t, bs')"
  shows "P t"
proof -
  from assms(3) obtain n b where "dec_fields C sw n zero b = Inr (t, bs')"
    by (auto simp: dec_struct_def split: sum.splits prod.splits if_splits)
       (smt (verit) map_sum.simps old.sum.exhaust sum.inject Inl_not_Inr id_apply)
  then show ?thesis by (rule dec_fields_inv [where P = P, rotated 2]) (blast intro: assms(1,2))+
qed

lemma set_field_InrD: "set_field r f = Inr (t, bs) \<Longrightarrow> \<exists>x. r = Inr (x, bs) \<and> t = f x"
  by (auto simp: set_field_def split: sum.splits)

lemma ShardInfo_decoded_ok: "ShardInfo_UnmarshalCBOR C bs = Inr (t, bs') \<Longrightarrow> ShardInfo_ok t"
  unfolding ShardInfo_UnmarshalCBOR_def
  by (rule dec_struct_inv [where P = ShardInfo_ok])
     (auto simp: ShardInfo_switch_def ShardInfo_ok_def zero_defs int64_ok_def [of 0]
       dest!: set_field_InrD dec_int64_ok split: if_splits)

lemma MigrateInfo_decoded_ok: "MigrateInfo_UnmarshalCBOR C bs = Inr (t, bs') \<Longrightarrow> MigrateInfo_ok t"
  unfolding MigrateInfo_UnmarshalCBOR_def
  by (rule dec_struct_inv [where P = MigrateInfo_ok])
     (auto simp: MigrateInfo_switch_def MigrateInfo_ok_def zero_defs int64_ok_def [of 0]
       dest!: set_field_InrD dec_int64_ok split: if_splits)

lemma load_record_ok:
  assumes "load_record S d k dec zero = Inr t" and "P zero" and "\<And>bs t bs'. dec bs = Inr (t, bs') \<Longrightarrow> P t"
  shows "P t"
proof -
  have "map_sum id fst (dec bs) = Inr t \<Longrightarrow> P t" for bs using assms(3) [of bs] by (cases "dec bs") auto
  with assms(1,2) show ?thesis by (auto simp: load_record_def split: sum.splits if_splits)
qed

lemma zero_ok: "ShardInfo_ok ShardInfo_zero" "MigrateInfo_ok MigrateInfo_zero"
  by (simp_all add: ShardInfo_ok_def MigrateInfo_ok_def zero_defs int64_ok_def)

lemma GetShard_ok: "GetShard S d orderId c = Inr t \<Longrightarrow> ShardInfo_ok t"
  unfolding GetShard_def by (erule load_record_ok) (simp_all add: zero_ok ShardInfo_decoded_ok)

lemma GetMigrate_ok: "GetMigrate S d dataId from = Inr t \<Longrightarrow> MigrateInfo_ok t"
  unfolding GetMigrate_def by (erule load_record_ok) (simp_all add: zero_ok MigrateInfo_decoded_ok)

section \<open>What a read returns\<close>

lemma map_sum_Inr_iff: "map_sum f g r = Inr y \<longleftrightarrow> (\<exists>x. r = Inr x \<and> y = g x)"
  by (cases r) auto

lemma read_through_InrD: "read_through S d e x = Inr y \<Longrightarrow> y = x"
  by (auto simp: read_through_def map_sum_Inr_iff split: sum.splits if_splits)

context record_table
begin

text \<open>A successful read in a sound state returns the zero value, when the record is not there, or the record of
  the table, which has the identifier it was asked for.\<close>

lemma load_kind_cases:
  assumes "sound S contents K d" and "entry_ok (k_entry K q)"
    and "load_record S d (entry_key (lib_cid S) (k_entry K q)) (k_dec K) (k_zero K) = Inr r"
  shows "(tbl d q = None \<and> r = k_zero K) \<or> (tbl d q = Some r \<and> k_id K r = q)"
proof (cases "tbl d q")
  case None
  with load_kind [OF assms(1,2)] assms(3) have "read_through S d (k_entry K q) (k_zero K) = Inr r" by simp
  from read_through_InrD [OF this] None show ?thesis by simp
next
  case (Some r')
  then have "cell S contents d (k_entry K q) \<noteq> None" by (auto simp: table_def decoded_def split: option.splits if_splits)
  with assms(1,2) Some have "k_id K r' = q" unfolding sound_def by force
  moreover have "read_through S d (k_entry K q) r' = Inr r" using Some load_kind [OF assms(1,2)] assms(3) by simp
  ultimately show ?thesis using Some read_through_InrD [of S d "k_entry K q" r' r] by simp
qed

end

section \<open>Orders\<close>

lemma dec_entries_distinct:
  "dec_entries C n dec m bs = Inr (m', bs') \<Longrightarrow> distinct (map fst m) \<Longrightarrow> distinct (map fst m')"
  by (induction n arbitrary: m bs) (auto simp: distinct_update split: sum.splits prod.splits)

lemma dec_map_distinct: "dec_map C fld dec bs = Inr (m, bs') \<Longrightarrow> distinct (map fst m)"
  by (auto simp: dec_map_def split: sum.splits prod.splits if_splits dest: dec_entries_distinct)

lemma OrderInfo_decoded_ok: "OrderInfo_UnmarshalCBOR C bs = Inr (t, bs') \<Longrightarrow> OrderInfo_ok t"
  unfolding OrderInfo_UnmarshalCBOR_def
  by (rule dec_struct_inv [where P = OrderInfo_ok])
     (auto simp: OrderInfo_switch_def OrderInfo_ok_def zero_defs int64_ok_def [of 0]
       dest!: set_field_InrD dec_int64_ok dec_map_distinct split: if_splits)

lemma GetOrder_ok: "GetOrder S d dataId = Inr t \<Longrightarrow> OrderInfo_ok t"
  unfolding GetOrder_def
  by (erule load_record_ok) (simp_all add: OrderInfo_decoded_ok, simp add: OrderInfo_ok_def zero_defs int64_ok_def)

section \<open>Times\<close>

lemma int64_div: "int64_ok i \<Longrightarrow> int64_ok ((i + to_int64 w) div 1000000000)"
  using sint_ge [of w] sint_lt [of w] by (simp add: int64_ok_def to_int64_def) linarith

lemma GetRetryAt_ok: "int64_ok now \<Longrightarrow> int64_ok (GetRetryAt now tries)"
  unfolding GetRetryAt_def by (rule int64_div)

end
