(* ===== verification/Storage_Invariant.thy ===== *)
theory Storage_Invariant
  imports Storage_Handlers Record_Reads
begin

text \<open>
  The storage node as a transition system: its calls in any order, interleaved with crashes that lose the
  queues and keep the datastore.  The invariant \<open>svc_inv\<close> says that the persisted state is sound and that
  everything queued can be persisted; it holds in every reachable state, whatever the chain, the peers,
  the backends and the datastore answer.
\<close>

section \<open>The transition system\<close>

text \<open>What the node relies on of its environment: the clock and the heights it is told are int64, as their Go
  types say, and the results of a migration transaction are keyed by data ids.\<close>

definition env_ok :: "('d, 'k, 'b) StoreEnv \<Rightarrow> bool" where
  "env_ok E \<longleftrightarrow> int64_ok (se_now E)
     \<and> (\<forall>a n c z h k. ch_CompleteOrder (se_chain E) a n c z = Inr (h, k) \<longrightarrow> int64_ok k)
     \<and> (\<forall>a ids h rs k e. ch_MigrateOrder (se_chain E) a ids = (h, rs, k, e) \<longrightarrow> int64_ok k \<and> list_all (\<lambda>(q, _). is_dataid q) rs)
     \<and> (\<forall>p r q. int64_ok (smr_CompleteHeight (se_RequestShardMigrate E p r q)))"

text \<open>One call, from its start to its return; a crash and a restart lose what is queued.\<close>

inductive storage_step :: "('d, 'k) libs \<Rightarrow> ('d, 'b) StoreSvc \<Rightarrow> ('d, 'b) StoreSvc \<Rightarrow> bool" for S where
  assign: "se_libs E = S \<Longrightarrow> env_ok E \<Longrightarrow> HandleShardAssign E ss req = Return (resp, ss') \<Longrightarrow> storage_step S ss ss'"
| sched: "se_libs E = S \<Longrightarrow> env_ok E \<Longrightarrow> store_sched_one E ss = Return ss' \<Longrightarrow> storage_step S ss ss'"
| receive: "se_libs E = S \<Longrightarrow> env_ok E \<Longrightarrow> HandleShardMigrate E ss req = Return (mresp, ss') \<Longrightarrow> storage_step S ss ss'"
| migrate: "se_libs E = S \<Longrightarrow> env_ok E \<Longrightarrow> Migrate E ss ids = Return (h, rs, err, ss') \<Longrightarrow> storage_step S ss ss'"
| send: "se_libs E = S \<Longrightarrow> env_ok E \<Longrightarrow> ss_migrateChan ss = r # rest \<Longrightarrow>
    processMigrate E (ss\<lparr>ss_migrateChan := rest\<rparr>) r = Return (err, ss') \<Longrightarrow> storage_step S ss ss'"
| init: "se_libs E = S \<Longrightarrow> env_ok E \<Longrightarrow> initShardsExpiration fuel E ss = Some (err, ss') \<Longrightarrow> storage_step S ss ss'"
| expire: "se_libs E = S \<Longrightarrow> env_ok E \<Longrightarrow> processExpire fuel E ss = Some (Return ss') \<Longrightarrow> storage_step S ss ss'"
| recover: "se_libs E = S \<Longrightarrow> env_ok E \<Longrightarrow> storage_step S ss (processIncompleteShards E ss)"
| fix_shard: "se_libs E = S \<Longrightarrow> env_ok E \<Longrightarrow> ShardFix E ss orderId c = (err, ss') \<Longrightarrow> storage_step S ss ss'"
| crash: "storage_step S ss (ss\<lparr>ss_schedQueue := RequestQueue_zero, ss_migrateChan := []\<rparr>)"

definition fresh_svc :: "('d, 'k) libs \<Rightarrow> ('d \<Rightarrow> 'k \<Rightarrow> bytes option) \<Rightarrow> ('d, 'b) StoreSvc \<Rightarrow> bool" where
  "fresh_svc S contents ss \<longleftrightarrow> (\<forall>e. cell S contents (ss_orderDs ss) e = None) \<and> is_address (ss_nodeAddress ss)
     \<and> rq_queue (ss_schedQueue ss) = [] \<and> ss_migrateChan ss = []"

inductive storage_reach :: "('d, 'k) libs \<Rightarrow> ('d \<Rightarrow> 'k \<Rightarrow> bytes option) \<Rightarrow> ('d, 'b) StoreSvc \<Rightarrow> bool" for S contents where
  start: "fresh_svc S contents ss \<Longrightarrow> storage_reach S contents ss"
| more: "storage_reach S contents ss \<Longrightarrow> storage_step S ss ss' \<Longrightarrow> storage_reach S contents ss'"

definition request_ok :: "MigrateRequest \<Rightarrow> bool" where
  "request_ok r \<longleftrightarrow> is_dataid (mr_DataId r) \<and> is_address (mr_FromProvider r)"

definition svc_inv :: "('d, 'k) libs \<Rightarrow> ('d \<Rightarrow> 'k \<Rightarrow> bytes option) \<Rightarrow> ('d, 'b) StoreSvc \<Rightarrow> bool" where
  "svc_inv S contents ss \<longleftrightarrow> store_sound S contents (ss_orderDs ss) \<and> is_address (ss_nodeAddress ss)
     \<and> (\<forall>w \<in> set (rq_queue (ss_schedQueue ss)). ShardInfo_ok (wr_Shard w))
     \<and> (\<forall>r \<in> set (ss_migrateChan ss). request_ok r)"

lemma svc_inv_frame:
  assumes "svc_inv S contents ss" and "store_sound S contents (ss_orderDs ss')" and "ss_nodeAddress ss' = ss_nodeAddress ss"
    and "set (rq_queue (ss_schedQueue ss')) \<subseteq> set (rq_queue (ss_schedQueue ss))" and "set (ss_migrateChan ss') \<subseteq> set (ss_migrateChan ss)"
  shows "svc_inv S contents ss'"
  using assms unfolding svc_inv_def by auto

lemma svc_inv_same [simp]:
  "svc_inv S contents (ss\<lparr>ss_trace := t\<rparr>) = svc_inv S contents ss"
  "svc_inv S contents (ss\<lparr>ss_storeManager := m\<rparr>) = svc_inv S contents ss"
  by (simp_all add: svc_inv_def)

lemma svc_inv_same_ds [simp]:
  "svc_inv S contents (ss\<lparr>ss_storeManager := m, ss_orderDs := d\<rparr>) = svc_inv S contents (ss\<lparr>ss_orderDs := d\<rparr>)"
  by (simp add: svc_inv_def)

lemma svc_inv_push: "svc_inv S contents ss \<Longrightarrow> ShardInfo_ok (wr_Shard w)
    \<Longrightarrow> svc_inv S contents (ss\<lparr>ss_schedQueue := Push (ss_schedQueue ss) w\<rparr>)"
  by (auto simp: svc_inv_def Push_def)

lemma push_shard_inv: "svc_inv S contents ss \<Longrightarrow> ShardInfo_ok s \<Longrightarrow> svc_inv S contents (push_shard s ss)"
  unfolding push_shard_def by (rule svc_inv_push) (simp_all add: shard_request_def)

lemma shard_ok_upd [simp]:
  "ShardInfo_ok (t\<lparr>si_LastErr := m\<rparr>) = ShardInfo_ok t" "ShardInfo_ok (t\<lparr>si_State := s\<rparr>) = ShardInfo_ok t"
  "ShardInfo_ok (t\<lparr>si_Size := z\<rparr>) = ShardInfo_ok t" "ShardInfo_ok (t\<lparr>si_Tries := n\<rparr>) = ShardInfo_ok t"
  "ShardInfo_ok (t\<lparr>si_ExpireHeight := x\<rparr>) = ShardInfo_ok t" "ShardInfo_ok (t\<lparr>si_CompleteHash := h\<rparr>) = ShardInfo_ok t"
  by (simp_all add: ShardInfo_ok_def)

lemma shard_info_fresh [simp]:
  "ShardInfo_ok (t\<lparr>si_Owner := o1\<rparr>) = ShardInfo_ok t" "ShardInfo_ok (t\<lparr>si_OrderId := n\<rparr>) = ShardInfo_ok t"
  "ShardInfo_ok (t\<lparr>si_Gateway := g\<rparr>) = ShardInfo_ok t" "ShardInfo_ok (t\<lparr>si_Cid := c\<rparr>) = ShardInfo_ok t"
  "ShardInfo_ok (t\<lparr>si_DataId := d\<rparr>) = ShardInfo_ok t" "ShardInfo_ok (t\<lparr>si_OrderOperation := oo\<rparr>) = ShardInfo_ok t"
  "ShardInfo_ok (t\<lparr>si_ShardOperation := so\<rparr>) = ShardInfo_ok t"
  by (simp_all add: ShardInfo_ok_def)

text \<open>The environment of one call: libraries that fulfil their contracts, and well-typed answers.\<close>

locale storage_env = node_libs "se_libs E" contents
  for E :: "('d, 'k, 'b) StoreEnv" and contents :: "'d \<Rightarrow> 'k \<Rightarrow> bytes option" +
  assumes env: "env_ok E"
begin

lemma ds_inv:
  assumes "svc_inv (se_libs E) contents ss" and "store_step (se_libs E) (ss_orderDs ss) d"
  shows "svc_inv (se_libs E) contents (ss\<lparr>ss_orderDs := d\<rparr>)"
  using assms by (auto simp: svc_inv_def intro: store_step_sound)

lemma save_shard_inv:
  assumes "svc_inv (se_libs E) contents ss" and "ShardInfo_ok t"
  shows "svc_inv (se_libs E) contents (save_shard E ss t)"
  unfolding save_shard_def by (rule ds_inv [OF assms(1) store_step.shard [OF assms(2) prod.collapse [symmetric]]])

lemma SaveShardExpire_inv:
  "svc_inv (se_libs E) contents ss
    \<Longrightarrow> svc_inv (se_libs E) contents (ss\<lparr>ss_orderDs := snd (SaveShardExpire (se_libs E) (ss_orderDs ss) shardId c orderId)\<rparr>)"
  by (rule ds_inv [OF _ store_step.expire [OF prod.collapse [symmetric]]])

lemma SaveMigrate_inv:
  "svc_inv (se_libs E) contents ss \<Longrightarrow> MigrateInfo_ok r \<Longrightarrow> is_dataid (mi_DataId r) \<Longrightarrow> is_address (mi_FromProvider r)
    \<Longrightarrow> svc_inv (se_libs E) contents (ss\<lparr>ss_orderDs := snd (SaveMigrate (se_libs E) (ss_orderDs ss) r)\<rparr>)"
  by (rule ds_inv [OF _ store_step.migrate [OF _ _ _ prod.collapse [symmetric]]])

abbreviation good :: "goerr option \<times> ShardInfo \<times> ('d, 'b) StoreSvc \<Rightarrow> bool" where
  "good r \<equiv> svc_inv (se_libs E) contents (snd (snd r)) \<and> ShardInfo_ok (fst (snd r))"

lemma fail_task_inv:
  assumes "svc_inv (se_libs E) contents ss" and "ShardInfo_ok task" and "fail_task E ss task err ret = Return r"
  shows "good r"
  using assms by (cases r) (auto simp: fail_task_Return intro: save_shard_inv)

lemma process_store_inv:
  assumes "svc_inv (se_libs E) contents ss" and "ShardInfo_ok task" and "process_store E sp peer ss task = Return r"
  shows "good r"
  using assms
  by (cases r) (auto simp: process_store_def Let_def bind_outcome_Return fail_task_Return intro!: save_shard_inv
      split: if_splits option.splits)

lemma complete_ok:
  assumes "ShardInfo_ok task" and "ch_CompleteOrder (se_chain E) a n c z = Inr (h, k)"
  shows "ShardInfo_ok (task\<lparr>si_State := s, si_CompleteHash := h, si_CompleteHeight := k\<rparr>)"
  using assms env unfolding env_ok_def by (auto simp: ShardInfo_ok_def)

lemma process_complete_inv:
  assumes "svc_inv (se_libs E) contents ss" and "ShardInfo_ok task" and "process_complete E ss task = Return r"
  shows "good r"
  using assms
  by (cases r) (auto simp: process_complete_def Let_def complete_ok fail_task_Return
      intro!: save_shard_inv SaveShardExpire_inv split: if_splits sum.splits option.splits)

lemma process_notify_inv:
  assumes "svc_inv (se_libs E) contents ss" and "ShardInfo_ok task" and "process_notify E sp peer ss task = Return r"
  shows "good r"
  using assms
  by (auto simp: process_notify_def Let_def updateShardError_def intro!: save_shard_inv split: if_splits)

lemma and_then_inv:
  assumes "and_then x f = Return r" and "\<And>y. x = Return y \<Longrightarrow> good y"
    and "\<And>ss task r. svc_inv (se_libs E) contents ss \<Longrightarrow> ShardInfo_ok task \<Longrightarrow> f ss task = Return r \<Longrightarrow> good r"
  shows "good r"
proof (cases x)
  case (Return y)
  obtain err t s where y: "y = (err, t, s)" by (metis prod_cases3)
  from Return y assms(1,2) assms(3) [of s t r] show ?thesis by (cases err) (simp_all add: and_then_def)
qed (use assms(1) in \<open>simp add: and_then_def\<close>)

lemma process_phases_inv:
  assumes "svc_inv (se_libs E) contents ss" and "ShardInfo_ok task" and "process_phases E ss task = Return r"
  shows "good r"
proof (cases "getStorageProtocolAndPeer E ss (si_Gateway task)")
  case (Pair sp peer)
  show ?thesis
  proof (cases peer)
    case (Inl err)
    with Pair assms show ?thesis by (auto simp: process_phases_def dest: fail_task_inv)
  next
    case (Inr p)
    from assms(3) Pair Inr have
      "and_then (and_then (process_store E sp p ss task) (process_complete E)) (process_notify E sp p) = Return r"
      by (simp add: process_phases_def)
    then show ?thesis
      by (rule and_then_inv) (erule and_then_inv, erule process_store_inv [OF assms(1,2)], erule (2) process_complete_inv,
        erule (2) process_notify_inv)
  qed
qed

lemma tried_ok: "ShardInfo_ok task \<Longrightarrow> ShardInfo_ok (task\<lparr>si_Tries := n, si_RetryAt := GetRetryAt (se_now E) n\<rparr>)"
  using env GetRetryAt_ok unfolding env_ok_def by (auto simp: ShardInfo_ok_def)

lemma store_process_inv:
  assumes "svc_inv (se_libs E) contents ss" and "ShardInfo_ok task" and "store_process E ss task = Return r"
  shows "good r"
  using assms(3) tried_ok [OF assms(2), of "si_Tries task + 1"] assms(1,2)
  by (auto simp: store_process_def Let_def split: if_splits sum.splits dest: fail_task_inv [rotated 2] process_phases_inv [rotated 2])

lemma sched_inv:
  assumes "svc_inv (se_libs E) contents ss" and "store_sched_one E ss = Return ss'"
  shows "svc_inv (se_libs E) contents ss'"
proof (cases "rq_queue (ss_schedQueue ss)")
  case Nil
  with assms show ?thesis by (simp add: store_sched_one_def PopFront_def)
next
  case (Cons w ws)
  define ss1 where "ss1 = ss\<lparr>ss_schedQueue := \<lparr>rq_queue = ws\<rparr>\<rparr>"
  have i: "svc_inv (se_libs E) contents ss1" "ShardInfo_ok (wr_Shard w)"
    using assms(1) Cons by (auto simp: ss1_def svc_inv_def)
  have pop: "PopFront (ss_schedQueue ss) = (Some w, \<lparr>rq_queue = ws\<rparr>)" using Cons by (simp add: PopFront_def)
  show ?thesis
  proof (cases "si_RetryAt (wr_Shard w) > Unix (se_now E)")
    case True
    with assms(2) pop svc_inv_push [OF i] show ?thesis by (simp add: store_sched_one_def ss1_def)
  next
    case False
    with assms(2) pop have "bind_outcome (store_process E ss1 (wr_Shard w)) (\<lambda>(err, t, ss2). case err of None \<Rightarrow> Return ss2
        | Some _ \<Rightarrow> Return (ss2\<lparr>ss_schedQueue := Push (ss_schedQueue ss2) (w\<lparr>wr_Shard := t\<rparr>)\<rparr>)) = Return ss'"
      by (simp add: store_sched_one_def ss1_def)
    with store_process_inv [OF i] show ?thesis
      by (fastforce simp: bind_outcome_case intro: svc_inv_push split: option.splits outcome.splits)
  qed
qed

lemma assign_one_inv:
  assumes "svc_inv (se_libs E) contents ss"
  shows "svc_inv (se_libs E) contents (snd (assign_one E req order c ss))"
  using assms
  by (auto simp: assign_one_def Let_def shard_info_fresh zero_ok
      intro!: push_shard_inv save_shard_inv dest: GetShard_ok split: sum.splits)

lemma assign_loop_inv:
  "svc_inv (se_libs E) contents ss \<Longrightarrow> svc_inv (se_libs E) contents (snd (assign_loop E req order cs ss))"
proof (induction cs arbitrary: ss)
  case (Cons c cs)
  from assign_one_inv [OF Cons.prems, of req order c] Cons.IH show ?case
    by (auto split: prod.splits option.splits)
qed simp

lemma assign_inv:
  assumes "svc_inv (se_libs E) contents ss" and "HandleShardAssign E ss req = Return (resp, ss')"
  shows "svc_inv (se_libs E) contents ss'"
  using assms assign_loop_inv [OF assms(1), of req]
  by (auto simp: HandleShardAssign_def Let_def bind_outcome_Return split: if_splits sum.splits) (metis snd_conv)+

lemma migrate_shard_inv:
  assumes "svc_inv (se_libs E) contents ss" and "migrate_shard E ss req order = Return (resp, ss')"
  shows "svc_inv (se_libs E) contents ss'"
  using assms
  by (auto simp: migrate_shard_def Let_def bind_outcome_case split: if_splits sum.splits option.splits outcome.splits prod.splits)

lemma receive_inv:
  assumes "svc_inv (se_libs E) contents ss" and "HandleShardMigrate E ss req = Return (resp, ss')"
  shows "svc_inv (se_libs E) contents ss'"
  using assms migrate_shard_inv [OF assms(1)]
  by (auto simp: HandleShardMigrate_def Let_def bind_outcome_case split: if_splits sum.splits outcome.splits)

text \<open>A migration record that can be saved under a clean key.\<close>

abbreviation mi_good :: "MigrateInfo \<Rightarrow> bool" where
  "mi_good mi \<equiv> MigrateInfo_ok mi \<and> is_dataid (mi_DataId mi) \<and> is_address (mi_FromProvider mi)"

lemma migrate_orders_inv:
  assumes "svc_inv (se_libs E) contents ss" and "mi_good mi" and "is_dataid k"
    and "migrate_orders E hash height k ids mi ss = Return ss'"
  shows "svc_inv (se_libs E) contents ss'"
  using assms(1,2,4)
proof (induction ids arbitrary: mi ss)
  case (Cons n ids)
  have chan: "svc_inv (se_libs E) contents (ss\<lparr>ss_orderDs := d, ss_migrateChan := ss_migrateChan ss @ [r]\<rparr>)"
    if "svc_inv (se_libs E) contents (ss\<lparr>ss_orderDs := d\<rparr>)" "request_ok r" for d r
    using that by (auto simp: svc_inv_def)
  have good: "mi_good (mi\<lparr>mi_OrderId := a, mi_ToProvider := b, mi_Cid := c\<rparr>)" for a b c
    using Cons.prems(2) by (simp add: MigrateInfo_ok_def)
  have "is_address (ss_nodeAddress ss)" using Cons.prems(1) by (simp add: svc_inv_def)
  then have req: "request_ok \<lparr>mr_FromProvider = ss_nodeAddress ss, mr_OrderId = a, mr_DataId = k,
      mr_Cid = b, mr_ToProvider = c, mr_MigrateTxHash = hash, mr_MigrateHeight = height\<rparr>" for a b c
    using assms(3) by (simp add: request_ok_def)
  from Cons.prems(3) consider (skip) "migrate_orders E hash height k ids mi ss = Return ss'"
    | (one) a b c where "migrate_orders E hash height k ids (mi\<lparr>mi_OrderId := a, mi_ToProvider := b, mi_Cid := c\<rparr>)
        (ss\<lparr>ss_orderDs := snd (SaveMigrate (se_libs E) (ss_orderDs ss) (mi\<lparr>mi_OrderId := a, mi_ToProvider := b, mi_Cid := c\<rparr>)),
            ss_migrateChan := ss_migrateChan ss @ [\<lparr>mr_FromProvider = ss_nodeAddress ss, mr_OrderId = a, mr_DataId = k,
              mr_Cid = c, mr_ToProvider = b, mr_MigrateTxHash = hash, mr_MigrateHeight = height\<rparr>]\<rparr>) = Return ss'"
    by (auto simp: Let_def split: sum.splits option.splits)
  then show ?case
  proof cases
    case one
    show ?thesis by (rule Cons.IH [OF chan [OF SaveMigrate_inv [OF Cons.prems(1)] req] good one]) (use good in simp_all)
  qed (rule Cons.IH [OF Cons.prems(1,2)])
qed simp

lemma migrate_results_inv:
  assumes "svc_inv (se_libs E) contents ss" and "int64_ok height" and "list_all (\<lambda>(q, _). is_dataid q) rs"
    and "migrate_results E hash height rs ss = Return ss'"
  shows "svc_inv (se_libs E) contents ss'"
  using assms(1,3,4)
proof (induction rs arbitrary: ss)
  case (Cons kv rs)
  obtain k v where kv: "kv = (k, v)" by (cases kv)
  define mi where "mi = MigrateInfo_zero\<lparr>mi_DataId := k, mi_FromProvider := ss_nodeAddress ss, mi_MigrateTxHash := hash,
    mi_MigrateTxHeight := height, mi_State := MigrateStateTxSent\<rparr>"
  have good: "mi_good mi"
    using Cons.prems assms(2) by (simp add: kv mi_def MigrateInfo_ok_def svc_inv_def zero_defs int64_ok_def)
  note saved = SaveMigrate_inv [OF Cons.prems(1), of mi]
  from Cons.prems(3) consider (skip) "migrate_results E hash height rs ss = Return ss'"
    | (one) ids s where "migrate_orders E hash height k ids mi
        (ss\<lparr>ss_orderDs := snd (SaveMigrate (se_libs E) (ss_orderDs ss) mi)\<rparr>) = Return s"
        "migrate_results E hash height rs s = Return ss'"
    by (auto simp: kv Let_def mi_def bind_outcome_Return split: if_splits sum.splits)
  then show ?case
  proof cases
    case skip
    with Cons show ?thesis by simp
  next
    case one
    from migrate_orders_inv [OF saved good _ one(1)] good Cons.prems(2) have "svc_inv (se_libs E) contents s" by (simp add: kv)
    with Cons.IH [OF this _ one(2)] Cons.prems(2) show ?thesis by simp
  qed
qed simp

lemma Migrate_inv:
  assumes "svc_inv (se_libs E) contents ss" and "Migrate E ss ids = Return (h, rs, err, ss')"
  shows "svc_inv (se_libs E) contents ss'"
proof -
  obtain h' rs' k e where m: "ch_MigrateOrder (se_chain E) (ss_nodeAddress ss) ids = (h', rs', k, e)" by (metis prod_cases4)
  with env have "int64_ok k" "list_all (\<lambda>(q, _). is_dataid q) rs'" unfolding env_ok_def by blast+
  with migrate_results_inv [OF assms(1)] assms(2) m show ?thesis by (auto simp: Migrate_def bind_outcome_Return)
qed

lemma GetMigrate_good:
  assumes "store_sound (se_libs E) contents d" and "is_dataid q" and "is_address a" and "GetMigrate (se_libs E) d q a = Inr mi"
  shows "mi_good mi"
proof -
  have "sound (se_libs E) contents (migrate_kind (se_libs E)) d" using assms(1) by (simp add: store_sound_def)
  from migrates.load_kind_cases [OF this _ assms(4) [unfolded GetMigrate_kind]] assms(2,3) GetMigrate_ok [OF assms(4)]
  show ?thesis by (auto simp: zero_defs is_dataid_def is_address_def)
qed

lemma processMigrate_inv:
  assumes "svc_inv (se_libs E) contents ss" and "request_ok r" and "processMigrate E ss r = Return (err, ss')"
  shows "svc_inv (se_libs E) contents ss'"
proof -
  have complete: "svc_inv (se_libs E) contents (ss\<lparr>ss_orderDs := snd (SaveMigrate (se_libs E) (ss_orderDs ss)
      (mi\<lparr>mi_State := s, mi_CompleteTxHash := h, mi_CompleteTxHeight := k\<rparr>))\<rparr>)"
    if "GetMigrate (se_libs E) (ss_orderDs ss) (mr_DataId r) (mr_FromProvider r) = Inr mi" "int64_ok k" for mi s h k
    using GetMigrate_good [OF _ _ _ that(1)] assms(1,2) that(2)
    by (intro SaveMigrate_inv) (auto simp: svc_inv_def request_ok_def MigrateInfo_ok_def)
  from assms(3) show ?thesis
    using assms(1) env unfolding env_ok_def
    by (auto simp: processMigrate_def Let_def bind_outcome_case intro!: complete
        split: if_splits sum.splits option.splits outcome.splits)
qed

lemma save_expires_inv:
  "svc_inv (se_libs E) contents ss \<Longrightarrow> svc_inv (se_libs E) contents (snd (save_expires E shards ss))"
proof (induction shards arbitrary: ss)
  case (Cons s shards)
  from SaveShardExpire_inv [OF Cons.prems, of "cs_Id s" "cs_Cid s" "cs_OrderId s"] Cons.IH show ?case
    by (auto split: prod.splits option.splits)
qed simp

lemma init_inv:
  assumes "svc_inv (se_libs E) contents ss" and "initShardsExpiration fuel E ss = Some (err, ss')"
  shows "svc_inv (se_libs E) contents ss'"
proof -
  have "svc_inv (se_libs E) contents (snd (save_expires E myShards ss))" for myShards
    by (rule save_expires_inv [OF assms(1)])
  then have "save_expires E myShards ss = (err, ss') \<Longrightarrow> svc_inv (se_libs E) contents ss'" for myShards by (metis snd_conv)
  with assms show ?thesis
  proof (cases "GetAllShards fuel E []")
    case (Some r)
    with assms \<open>\<And>myShards. save_expires E myShards ss = (err, ss') \<Longrightarrow> svc_inv (se_libs E) contents ss'\<close> show ?thesis
      by (cases r) (auto simp: initShardsExpiration_def split: sum.splits if_splits)
  qed (auto simp: initShardsExpiration_def split: sum.splits if_splits)
qed

lemma expire_key_inv:
  assumes "svc_inv (se_libs E) contents ss" and "expire_key E m cs n ss = Return ss'"
  shows "svc_inv (se_libs E) contents ss'"
proof -
  have unexpire: "svc_inv (se_libs E) contents (ss\<lparr>ss_orderDs := d\<rparr>)"
    if "RemoveShardExpireIndex (se_libs E) (ss_orderDs ss) n = (e, d)" "svc_inv (se_libs E) contents ss" for ss e d
    by (rule ds_inv [OF that(2) store_step.unexpire [OF that(1)]])
  from assms show ?thesis
    by (auto simp: expire_key_def Let_def bind_outcome_case intro!: save_shard_inv dest: unexpire GetShard_ok
        split: if_splits sum.splits option.splits outcome.splits prod.splits)
qed

lemma expire_keys_inv:
  "svc_inv (se_libs E) contents ss \<Longrightarrow> expire_keys E m cs ks ss = Return ss' \<Longrightarrow> svc_inv (se_libs E) contents ss'"
  by (induction ks arbitrary: ss) (auto simp: bind_outcome_Return intro: expire_key_inv)

lemma expire_inv:
  assumes "svc_inv (se_libs E) contents ss" and "processExpire fuel E ss = Some (Return ss')"
  shows "svc_inv (se_libs E) contents ss'"
proof -
  from assms(2) obtain r where "GetAllShards fuel E [] = Some r" by (auto simp: processExpire_def)
  with assms show ?thesis by (cases r) (auto simp: processExpire_def intro: expire_keys_inv split: sum.splits)
qed

lemma load_shards_ok: "load_shards E ss ks = Inr xs \<Longrightarrow> list_all ShardInfo_ok xs"
  by (induction ks arbitrary: xs) (auto split: sum.splits dest: GetShard_ok simp: map_sum_Inr_iff)

lemma push_all_inv:
  "svc_inv (se_libs E) contents ss \<Longrightarrow> list_all ShardInfo_ok xs \<Longrightarrow> svc_inv (se_libs E) contents (fold push_shard xs ss)"
  by (induction xs arbitrary: ss) (auto intro: push_shard_inv)

lemma recover_inv: "svc_inv (se_libs E) contents ss \<Longrightarrow> svc_inv (se_libs E) contents (processIncompleteShards E ss)"
  by (auto simp: processIncompleteShards_def getPendingShardList_def map_sum_Inr_iff list_all_iff
      intro!: push_all_inv dest!: load_shards_ok split: sum.splits)

lemma fix_inv:
  "svc_inv (se_libs E) contents ss \<Longrightarrow> ShardFix E ss orderId c = (err, ss') \<Longrightarrow> svc_inv (se_libs E) contents ss'"
  by (auto simp: ShardFix_def intro: push_shard_inv GetShard_ok split: sum.splits)

end

lemma storage_envI: "node_libs S contents \<Longrightarrow> se_libs E = S \<Longrightarrow> env_ok E \<Longrightarrow> storage_env E contents"
  by (simp add: storage_env_def storage_env_axioms_def)

lemma storage_step_inv:
  assumes "storage_step S ss ss'" and "node_libs S contents" and "svc_inv S contents ss"
  shows "svc_inv S contents ss'"
  using assms(1)
proof cases
  case (send E r rest err)
  with assms(3) have "svc_inv S contents (ss\<lparr>ss_migrateChan := rest\<rparr>)" "request_ok r" by (auto simp: svc_inv_def)
  with send storage_env.processMigrate_inv [OF storage_envI [OF assms(2) send(1,2)]] show ?thesis by simp
next
  case crash
  with assms(3) show ?thesis by (simp add: svc_inv_def RequestQueue_zero_def)
qed (use assms(2,3) in \<open>blast dest: storage_envI storage_env.assign_inv storage_env.sched_inv storage_env.receive_inv
    storage_env.Migrate_inv storage_env.init_inv storage_env.expire_inv storage_env.recover_inv storage_env.fix_inv\<close>)+

lemma storage_reach_inv: "storage_reach S contents ss \<Longrightarrow> node_libs S contents \<Longrightarrow> svc_inv S contents ss"
proof (induction rule: storage_reach.induct)
  case (start ss)
  then show ?case by (simp add: fresh_svc_def svc_inv_def store_sound_fresh)
qed (blast intro: storage_step_inv)

end
