(* ===== verification/Retry.thy ===== *)
theory Retry
  imports Go_Errors
begin

text \<open>
  Retried work.  Both services process a task, and queue it again with its new state when the run returned an
  error; every run counts its tries in the task and gives up when they reach a limit.  The contract of such
  a run is the locale \<open>retried\<close>; from it, a task whose counter has not wrapped is run a bounded number of
  times, each run in an environment of its own.
\<close>

lemma unat_succ: "x \<noteq> - 1 \<Longrightarrow> unat (x + 1 :: u64) = Suc (unat x)"
  by (metis add.commute add_eq_0_iff2 unatSuc)

locale retried =
  fixes run :: "'e \<Rightarrow> 's \<Rightarrow> 't \<Rightarrow> (goerr option \<times> 't \<times> 's) outcome" and tries :: "'t \<Rightarrow> u64" and limit :: u64
    and finished :: "'t \<Rightarrow> bool"
  assumes failed: "\<And>E s t e t' s'. run E s t = Return (Some e, t', s') \<Longrightarrow> tries t' = tries t + 1 \<and> tries t + 1 < limit"
    and succeeded: "\<And>E s t t' s'. run E s t = Return (None, t', s') \<Longrightarrow> finished t'"
begin

fun retry :: "'e list \<Rightarrow> 's \<Rightarrow> 't \<Rightarrow> (bool \<times> 't \<times> 's) outcome" where
  "retry [] s t = Return (False, t, s)"
| "retry (E # Es) s t =
     bind_outcome (run E s t) (\<lambda>(err, t', s'). case err of None \<Rightarrow> Return (True, t', s') | Some _ \<Rightarrow> retry Es s' t')"

lemma failed_tries:
  assumes "run E s t = Return (Some e, t', s')" and "tries t \<noteq> - 1"
  shows "unat (tries t') = Suc (unat (tries t)) \<and> unat (tries t') < unat limit \<and> tries t' \<noteq> - 1"
proof -
  from failed [OF assms(1)] have t': "tries t' = tries t + 1" "tries t' < limit" by simp_all
  from t'(2) word_n1_ge [of limit] have "tries t' \<noteq> - 1" by (metis not_le)
  with t' assms(2) show ?thesis by (simp add: unat_succ word_less_nat_alt)
qed

text \<open>The number of runs a task has left bounds the runs that return an error.\<close>

lemma retry_ends:
  assumes "tries t \<noteq> - 1" and "unat limit \<le> unat (tries t) + length Es" and "Es \<noteq> []"
    and "retry Es s t = Return (ended, t', s')"
  shows "ended \<and> finished t'"
  using assms
proof (induction Es arbitrary: s t)
  case (Cons E Es)
  from Cons.prems(4) obtain err t1 s1 where run: "run E s t = Return (err, t1, s1)" by (cases "run E s t") auto
  show ?case
  proof (cases err)
    case None
    with run Cons.prems(4) succeeded [of E s t t1 s1] show ?thesis by simp
  next
    case (Some e)
    from failed_tries [OF run [unfolded Some] Cons.prems(1)] Cons.prems(2)
    have t1: "tries t1 \<noteq> - 1" "unat limit \<le> unat (tries t1) + length Es" "unat (tries t1) < unat limit" by simp_all
    from t1(2,3) have "Es \<noteq> []" by auto
    with Cons.IH [OF t1(1,2), of s1] Cons.prems(4) run Some show ?thesis by simp
  qed
qed simp

end

end
