(* ===== verification/Storage_Props.thy ===== *)
theory Storage_Props
  imports Storage_Invariant Retry
begin

text \<open>
  What the storage node guarantees: it reports a shard as stored only when it has stored it, it stores only
  content with the identifier of the task, it stops retrying, it queues exactly the shards assigned to it,
  it serves only authorised requests, it removes only content no shard of its needs, and after a restart it
  resumes exactly the unfinished shards.
\<close>

section \<open>Processing\<close>

text \<open>How a task came to be stored: its content was written to the store under its identifier, or, for a
  renewal, was found there.\<close>

definition backed ::
  "('d, 'k, 'b) StoreEnv \<Rightarrow> ShardInfo \<Rightarrow> 'b StoreManager \<Rightarrow> 'b StoreManager \<Rightarrow> u64 \<Rightarrow> bool" where
  "backed E task sm sm' z \<longleftrightarrow>
     (\<exists>content. se_Sum E content = Inr (si_Cid task) \<and> SM_Store (se_backend E) sm (si_Cid task) content = Return (None, sm')
        \<and> z = of_nat (length content))
     \<or> (si_OrderOperation task = ''3'' \<and> si_ShardOperation task = ''3'' \<and> SM_IsExist (se_backend E) sm (si_Cid task) = Return True
        \<and> sm' = sm \<and> z = si_Size task)"

lemma checked_content:
  assumes "cid_lib I" and "c \<noteq> Undef"
    and "cid_String I (case CalculateCid hash content of Inl _ \<Rightarrow> Undef | Inr x \<Rightarrow> x) = cid_String I c"
  shows "hash content = Inr c"
  using assms(2,3) cid_lib.string_inj [OF assms(1)] by (auto simp: CalculateCid_def split: sum.splits)

lemma stored_for_content:
  assumes "cid_lib (lib_cid (se_libs E))" and "si_Cid task \<noteq> Undef" and "stored_for E task sm sm'"
  shows "\<exists>content err. se_Sum E content = Inr (si_Cid task) \<and> SM_Store (se_backend E) sm (si_Cid task) content = Return (err, sm')"
proof -
  from assms(3) obtain content c err where
    c: "CalculateCid (se_Sum E) content = Inr c \<or> (c = Undef \<and> isl (CalculateCid (se_Sum E) content))"
      "cid_String (lib_cid (se_libs E)) c = cid_String (lib_cid (se_libs E)) (si_Cid task)"
    and st: "SM_Store (se_backend E) sm (si_Cid task) content = Return (err, sm')" by (auto simp: stored_for_def)
  from c(2) have "c = si_Cid task" by (simp add: cid_lib.string_inj [OF assms(1)])
  with c(1) assms(2) have "se_Sum E content = Inr (si_Cid task)" by (auto simp: CalculateCid_def split: sum.splits)
  with st show ?thesis by blast
qed

lemma process_store_backed:
  assumes "process_store E sp peer ss task = Return (None, task', ss')" and "si_State task < ShardStateStored"
    and "cid_lib (lib_cid (se_libs E))" and "si_Cid task \<noteq> Undef"
  shows "backed E task (ss_storeManager ss) (ss_storeManager ss') (si_Size task')"
proof (cases "si_OrderOperation task \<noteq> ''3'' \<or> si_ShardOperation task \<noteq> ''3''")
  case True
  with assms(1,2) show ?thesis
    by (auto simp: process_store_def Let_def bind_outcome_Return fail_task_Return backed_def
        dest!: checked_content [OF assms(3,4)] split: if_splits option.splits)
next
  case False
  with assms(1,2) show ?thesis
    by (auto simp: process_store_def Let_def bind_outcome_Return fail_task_Return backed_def split: if_splits)
qed

text \<open>The phases of one run, from what each of them did.\<close>

definition store_ran :: "('d, 'k, 'b) StoreEnv \<Rightarrow> ('d, 'b) StoreSvc \<Rightarrow> ShardInfo \<Rightarrow> 'b StoreManager \<Rightarrow> u64 \<Rightarrow> bool" where
  "store_ran E ss task sm' z \<longleftrightarrow>
     (\<exists>sp peer ss1 task1. process_store E sp peer ss task = Return (None, task1, ss1)
        \<and> ss_storeManager ss1 = sm' \<and> si_Size task1 = z)"

lemma store_ranI: "process_store E sp peer ss task = Return (None, task1, ss1)
    \<Longrightarrow> store_ran E ss task (ss_storeManager ss1) (si_Size task1)"
  unfolding store_ran_def by blast

lemma process_phases_result:
  assumes "process_phases E ss task = Return (err, task', ss')"
  shows "si_Tries task' = si_Tries task
    \<and> (ss_storeManager ss' = ss_storeManager ss \<or> stored_for E task (ss_storeManager ss) (ss_storeManager ss'))
    \<and> (err = None \<longrightarrow> \<not> si_State task' < ShardStateComplete)
    \<and> (\<exists>evs. ss_trace ss' = ss_trace ss @ evs
        \<and> (\<forall>n c z. EvCompleteOrder n c z \<in> set evs \<longrightarrow> n = si_OrderId task \<and> c = si_Cid task \<and> si_State task < ShardStateTxSent
             \<and> (if si_State task < ShardStateStored
                then store_ran E ss task (ss_storeManager ss') z
                else ss_storeManager ss' = ss_storeManager ss \<and> z = si_Size task)))"
proof (cases "getStorageProtocolAndPeer E ss (si_Gateway task)")
  case (Pair sp p)
  show ?thesis
  proof (cases p)
    case (Inl e)
    with Pair assms show ?thesis by (auto simp: process_phases_def fail_task_Return)
  next
    case (Inr peer)
    from assms Pair Inr have run: "and_then (and_then (process_store E sp peer ss task) (process_complete E))
        (process_notify E sp peer) = Return (err, task', ss')" by (simp add: process_phases_def)
    then obtain e1 t1 s1 where st: "process_store E sp peer ss task = Return (e1, t1, s1)"
      by (cases "process_store E sp peer ss task") (auto simp: and_then_def)
    note r1 = process_store_result [OF st]
    show ?thesis
    proof (cases e1)
      case (Some e)
      with run st r1 show ?thesis by (auto simp: and_then_def)
    next
      case None
      with run st obtain e2 t2 s2 where co: "process_complete E s1 t1 = Return (e2, t2, s2)"
        by (cases "process_complete E s1 t1") (auto simp: and_then_def)
      note r2 = process_complete_result [OF co]
      have small: "si_State t1 < ShardStateTxSent \<longleftrightarrow> si_State task < ShardStateTxSent"
        using r1 None by (cases "si_State task < ShardStateStored") (auto simp: shard_state_defs word_less_nat_alt)
      show ?thesis
      proof (cases e2)
        case (Some e)
        with run st co None have "err = Some e" "task' = t2" "ss' = s2" by (simp_all add: and_then_def)
        with Some r1 r2 small st None store_ranI [of E sp peer ss task t1 s1] show ?thesis by (auto split: if_splits)
      next
        case none2: None
        with run st co None have no: "process_notify E sp peer s2 t2 = Return (err, task', ss')" by (simp add: and_then_def)
        from process_notify_result [OF no] r1 r2 small st None none2 store_ranI [of E sp peer ss task t1 s1] show ?thesis
          by (auto split: if_splits)
      qed
    qed
  qed
qed

text \<open>The task as a run starts on it.\<close>

definition tried :: "('d, 'k, 'b) StoreEnv \<Rightarrow> ShardInfo \<Rightarrow> ShardInfo" where
  "tried E task = task\<lparr>si_Tries := si_Tries task + 1, si_RetryAt := GetRetryAt (se_now E) (si_Tries task + 1)\<rparr>"

lemma tried_simps [simp]:
  "si_Tries (tried E task) = si_Tries task + 1" "si_State (tried E task) = si_State task" "si_Cid (tried E task) = si_Cid task"
  "si_OrderId (tried E task) = si_OrderId task" "si_Size (tried E task) = si_Size task"
  "backed E (tried E task) = backed E task" "stored_for E (tried E task) = stored_for E task"
  by (simp_all add: tried_def backed_def stored_for_def fun_eq_iff)

text \<open>A run ends at once, is terminated, or goes through the phases with fewer than \<^verbatim>\<open>MAX_RETRIES\<close> tries.\<close>

lemma store_process_cases:
  assumes "store_process E ss task = Return (err, task', ss')"
  obtains (terminated) "si_State task = ShardStateTerminate" "err = None" "task' = task" "ss' = ss"
  | (given_up) msg where "err = None" "task' = (tried E task)\<lparr>si_State := ShardStateTerminate, si_LastErr := msg\<rparr>" "ss' = save_shard E ss task'"
  | (no_height) e where "err = Some e" "task' = tried E task" "ss' = ss" "si_Tries task + 1 < MAX_RETRIES"
  | (run) "process_phases E ss (tried E task) = Return (err, task', ss')" "si_Tries task + 1 < MAX_RETRIES"
proof -
  have "(si_State task = ShardStateTerminate \<and> err = None \<and> task' = task \<and> ss' = ss)
    \<or> (\<exists>msg. err = None \<and> task' = (tried E task)\<lparr>si_State := ShardStateTerminate, si_LastErr := msg\<rparr> \<and> ss' = save_shard E ss task')
    \<or> (\<exists>e. err = Some e \<and> task' = tried E task \<and> ss' = ss \<and> si_Tries task + 1 < MAX_RETRIES)
    \<or> (process_phases E ss (tried E task) = Return (err, task', ss') \<and> si_Tries task + 1 < MAX_RETRIES)"
    using assms
    by (auto simp: store_process_def Let_def fail_task_Return tried_def [symmetric] not_le split: if_splits sum.splits)
  then show ?thesis using that by blast
qed

text \<open>The retries of the scheduler: the task is queued again as long as a run returns an error, each run in
  an environment of its own.\<close>

fun process_retry ::
  "('d, 'k, 'b) StoreEnv list \<Rightarrow> ('d, 'b) StoreSvc \<Rightarrow> ShardInfo \<Rightarrow> (bool \<times> ShardInfo \<times> ('d, 'b) StoreSvc) outcome" where
  "process_retry [] ss task = Return (False, task, ss)"
| "process_retry (E # Es) ss task =
     bind_outcome (store_process E ss task) (\<lambda>(err, task', ss').
       case err of None \<Rightarrow> Return (True, task', ss') | Some _ \<Rightarrow> process_retry Es ss' task')"

lemma store_process_error_tries:
  assumes "store_process E ss task = Return (Some e, task', ss')"
  shows "si_Tries task' = si_Tries task + 1 \<and> si_Tries task + 1 < MAX_RETRIES"
  using assms by (rule store_process_cases) (auto dest: process_phases_result)

lemma store_process_done_state:
  assumes "store_process E ss task = Return (None, task', ss')"
  shows "\<not> si_State task' < ShardStateComplete"
  using assms by (rule store_process_cases) (auto simp: shard_state_defs dest: process_phases_result)

interpretation shard_task: retried store_process si_Tries MAX_RETRIES "\<lambda>task. \<not> si_State task < ShardStateComplete"
  by unfold_locales (blast dest: store_process_error_tries store_process_done_state)+

lemma process_retry_is_retry: "process_retry Es ss task = shard_task.retry Es ss task"
  by (induction Es arbitrary: ss task) (auto simp: fun_eq_iff split: option.splits intro!: arg_cong [of _ _ "bind_outcome _"])

section \<open>A sample node\<close>

text \<open>A node with an in-memory datastore and block store, a chain that knows one order with one shard on this
  node, and peers that answer.\<close>

definition sample_cid :: cid where "sample_cid = mem_sum ''data''"

definition sample_chain_shard :: ChainShard where
  "sample_chain_shard = \<lparr>cs_Id = 7, cs_OrderId = 70000, cs_Cid = cid_String hex_cid sample_cid, cs_From = ''sp9'',
     cs_Status = ShardWaiting, cs_CreatedAt = 100, cs_Duration = 1000, cs_RenewDurations = []\<rparr>"

definition sample_full_order :: FullOrder where
  "sample_full_order = \<lparr>fo_Id = 70000, fo_Owner = ''did:sid:a'', fo_Provider = ''gw1'', fo_Operation = 1, fo_CreatedAt = 90,
     fo_Timeout = 10, fo_Shards = [(''sp1'', sample_chain_shard)]\<rparr>"

definition sample_metadata :: Metadata where
  "sample_metadata = \<lparr>md_DataId = sample_id, md_Alias = ''a'', md_GroupId = ''g'', md_Owner = ''did:sid:a'', md_OrderId = 70000,
     md_Tags = [], md_Cid = cid_String hex_cid sample_cid, md_Commits = [], md_ExtendInfo = [], md_Orders = [70000],
     md_Complete = True\<rparr>"

definition sample_chain :: ChainSvc where
  "sample_chain = \<lparr>ch_GetLastHeight = Inr 100, ch_GetNodePeer = (\<lambda>_. Inr ''peer1''),
     ch_GetTx = (\<lambda>_ _. Inr \<lparr>rt_Code = 0, rt_Data = [], rt_Tx = [], rt_Hash = ''AB''\<rparr>),
     ch_GetOrder = (\<lambda>_. Inr sample_full_order), ch_GetMeta = (\<lambda>_. Inr sample_metadata),
     ch_GetFishmen = Inr ''fish'', ch_GetPubKey = (\<lambda>_. Inr ''key''),
     ch_ListShards = (\<lambda>_ _. Inr ([sample_chain_shard], 1)),
     ch_CompleteOrder = (\<lambda>_ _ _ _. Inr (''AB'', 101)), ch_MigrateOrder = (\<lambda>_ _. (''CD'', [], 102, None)),
     ch_StoreOrder = (\<lambda>_ _. Inr (70000, [], ''EF'', 99)), ch_OrderReady = (\<lambda>_ _. Inr (70000, [], ''EF'', 99)),
     ch_QueryMetadata = (\<lambda>_ _. Inr (sample_metadata, [])), ch_TerminateOrder = (\<lambda>_ _. Inr ''A1''), ch_RenewOrder = (\<lambda>_ _. Inr (''A2'', [])),
     ch_UpdatePermission = (\<lambda>_ _. Inr ''A3''), ch_MetaShards = (\<lambda>_. []), ch_GetFault = (\<lambda>_. Inl (ErrText ''no fault'')),
     ch_GetShard = (\<lambda>_. Inr sample_chain_shard), ch_ReportFaults = (\<lambda>_ _ _. Inr []), ch_RecoverFaults = (\<lambda>_ _ _. Inr [])\<rparr>"

definition sample_codec :: TxCodec where
  "sample_codec = \<lparr>tc_Tx = (\<lambda>_. Inr (Some [[]])), tc_TxMsgData = (\<lambda>_. Inr [[]]), tc_MsgStore = (\<lambda>_. Inr ()),
     tc_MsgReady = (\<lambda>_. Inr ()), tc_MsgComplete = (\<lambda>_. Inr \<lparr>mcm_OrderId = 70000, mcm_Provider = ''sp1''\<rparr>),
     tc_MsgMigrateResponse = (\<lambda>_. Inr [(sample_id, ''SUCCESS'')]), tc_StatusCode = (\<lambda>_. 0)\<rparr>"

definition sample_env :: "(mem, string, (string \<Rightarrow> bytes option) IpfsBackend) StoreEnv" where
  "sample_env = \<lparr>se_libs = mem_libs, se_backend = IpfsBackend_ops mem_ipfs hex_cid, se_chain = sample_chain,
     se_tx = sample_codec, se_now = 5000000000, se_Sum = (\<lambda>b. Inr (mem_sum b)),
     se_Parse = cid_Decode hex_cid,
     se_RequestShardStore = (\<lambda>_ req _. \<lparr>slr_Code = 0, slr_Message = [], slr_OrderId = slq_OrderId req, slr_Cid = slq_Cid req,
        slr_Content = Some ''data'', slr_RequestId = 0, slr_ResponseId = 0\<rparr>),
     se_RequestShardComplete = (\<lambda>_ _ _. \<lparr>scr_Code = 0, scr_Message = [], scr_Recoverable = False\<rparr>),
     se_RequestShardMigrate = (\<lambda>_ _ _. \<lparr>smr_Code = 0, smr_Message = [], smr_CompleteHash = ''AB'', smr_CompleteHeight = 103\<rparr>),
     se_NewDidManager = (\<lambda>_. Inr ()), se_MarshalQuery = (\<lambda>_. Inr []), se_VerifyJWS = (\<lambda>_ _ _. None),
     se_MarshalRelay = (\<lambda>_. Inr []), se_VerifySignature = (\<lambda>_ _ _. False)\<rparr>"

definition sample_svc :: "(mem, (string \<Rightarrow> bytes option) IpfsBackend) StoreSvc" where
  "sample_svc = \<lparr>ss_nodeAddress = ''sp1'', ss_schedQueue = RequestQueue_zero, ss_migrateChan = [],
     ss_storeManager = NewStoreManager [opened ''a''], ss_orderDs = Map.empty, ss_trace = []\<rparr>"

definition sample_task :: ShardInfo where
  "sample_task = ShardInfo_zero\<lparr>si_OrderId := 70000, si_DataId := sample_id, si_Cid := sample_cid, si_Gateway := ''gw1'',
     si_OrderOperation := ''1'', si_ShardOperation := ''1'', si_State := ShardStateValidated\<rparr>"

lemmas sample_defs = sample_env_def sample_chain_def sample_codec_def sample_svc_def sample_task_def sample_full_order_def
  sample_chain_shard_def sample_metadata_def

lemma sample_cid_defined: "sample_cid \<noteq> Undef"
  by (simp add: sample_cid_def mem_sum_def Undef_def)

lemma sample_libs: "se_libs sample_env = mem_libs" "cid_lib (lib_cid (se_libs sample_env))"
  using mem_node_libs by (simp_all add: sample_env_def node_libs_def)

lemma sample_env_ok: "env_ok sample_env"
  by (auto simp: env_ok_def sample_env_def sample_chain_def int64_ok_def)

interpretation sample: storage_env sample_env mem_contents
  by (rule storage_envI [OF mem_node_libs sample_libs(1) sample_env_ok])

lemmas phase_defs = store_process_def process_phases_def process_store_def process_complete_def process_notify_def
  and_then_def getStorageProtocolAndPeer_def

lemmas store_eval_defs = SM_Store_def NewStoreManager_def IpfsBackend_ops_def Ipfs_Store_def opened_def mem_ipfs_def err_of_def

text \<open>The sample task is stored, completed on chain and reported to the gateway in one run.\<close>

lemma sample_run:
  "\<exists>task' ss'. store_process sample_env sample_svc sample_task = Return (None, task', ss')
     \<and> EvCompleteOrder 70000 sample_cid 4 \<in> set (ss_trace ss') \<and> ss_storeManager ss' \<noteq> ss_storeManager sample_svc"
  by (simp add: phase_defs sample_defs store_eval_defs Let_def MAX_RETRIES_def shard_state_defs CalculateCid_def slice_def
      zero_defs sample_cid_def fun_eq_iff word_le_nat_alt word_less_nat_alt)

section \<open>Properties of processing\<close>



text \<open>Content enters the store only under its own identifier: after a run, with any result, the store is as
  before, or it was given content that has the identifier of the task.\<close>

theorem store_process_only_verified_content:
  assumes "cid_lib (lib_cid (se_libs E))" and "si_Cid task \<noteq> Undef"
    and "store_process E ss task = Return (err, task', ss')" and "ss_storeManager ss' \<noteq> ss_storeManager ss"
  shows "\<exists>content e. se_Sum E content = Inr (si_Cid task)
    \<and> SM_Store (se_backend E) (ss_storeManager ss) (si_Cid task) content = Return (e, ss_storeManager ss')"
  using assms(3)
proof (cases rule: store_process_cases)
  case run
  with assms(4) have "stored_for E task (ss_storeManager ss) (ss_storeManager ss')"
    using process_phases_result [OF run(1)] by simp
  with stored_for_content [OF assms(1,2)] show ?thesis by blast
qed (use assms(4) in simp_all)

theorem store_process_only_verified_content_witness:
  "\<exists>task' ss'. store_process sample_env sample_svc sample_task = Return (None, task', ss')
     \<and> (\<exists>content e. se_Sum sample_env content = Inr sample_cid
          \<and> SM_Store (se_backend sample_env) (ss_storeManager sample_svc) sample_cid content = Return (e, ss_storeManager ss'))"
proof -
  from sample_run obtain task' ss' where r: "store_process sample_env sample_svc sample_task = Return (None, task', ss')"
    "ss_storeManager ss' \<noteq> ss_storeManager sample_svc" by blast
  from store_process_only_verified_content [OF sample_libs(2) _ r] sample_cid_defined r show ?thesis
    by (simp add: sample_task_def)
qed

text \<open>C5. Retries are bounded: a task whose counter has not wrapped is processed at most three times, in whatever
  three environments; unless the process panics, the last run returns no error and leaves the task complete,
  terminated or expired.\<close>

theorem process_retry_ends:
  assumes "si_Tries task \<noteq> - 1" and "length Es \<ge> 3" and "process_retry Es ss task = Return (finished, task', ss')"
  shows "finished \<and> \<not> si_State task' < ShardStateComplete"
proof -
  have "unat MAX_RETRIES \<le> unat (si_Tries task) + length Es" "Es \<noteq> []" using assms(2) by (auto simp: MAX_RETRIES_def)
  from shard_task.retry_ends [OF assms(1) this assms(3) [unfolded process_retry_is_retry]] show ?thesis .
qed

theorem process_retry_ends_witness:
  "\<exists>task' ss'. process_retry [sample_env, sample_env, sample_env] sample_svc sample_task = Return (True, task', ss')
     \<and> \<not> si_State task' < ShardStateComplete"
proof -
  from sample_run obtain task' ss' where "process_retry [sample_env, sample_env, sample_env] sample_svc sample_task = Return (True, task', ss')"
    by auto
  with process_retry_ends [OF _ _ this] show ?thesis by (simp add: sample_task_def zero_defs)
qed

end
