(* ===== verification/Storage_Handler_Props.thy ===== *)
theory Storage_Handler_Props
  imports Storage_Props
begin

text \<open>
  Properties of the storage node's handlers and of its life cycle, among them the ones the code fails: content
  with a wrong identifier makes the node panic, the signature of a relay is computed and ignored, and the
  list of the node's shards is never paged.
\<close>

section \<open>The reachable states\<close>


lemma sample_fresh: "fresh_svc mem_libs mem_contents sample_svc"
  by (simp add: fresh_svc_def sample_svc_def RequestQueue_zero_def is_address_def)


section \<open>A wrong identifier\<close>

text \<open>When the gateway answers with content of another identifier, the run does not return the error the
  source builds for this case: it first records a nil error in the task, and reading its text panics.\<close>

theorem store_process_mismatch_panics:
  assumes "si_State task < ShardStateStored" and "si_Tries task + 1 < MAX_RETRIES" and "si_ExpireHeight task = 0"
    and "si_OrderOperation task \<noteq> ''3''" and "getStorageProtocolAndPeer E ss (si_Gateway task) = (sp, Inr peer)"
    and "\<And>req. slr_Code (se_RequestShardStore E sp req peer) = 0
          \<and> se_Sum E (slice (slr_Content (se_RequestShardStore E sp req peer))) = Inr c"
    and "cid_String (lib_cid (se_libs E)) c \<noteq> cid_String (lib_cid (se_libs E)) (si_Cid task)"
  shows "store_process E ss task = Panic"
proof -
  have "si_State task \<noteq> ShardStateTerminate" using assms(1) by (auto simp: shard_state_defs word_less_nat_alt)
  with assms show ?thesis
    by (simp add: store_process_def process_phases_def process_store_def and_then_def Let_def not_le CalculateCid_def
        fail_task_def updateShardError_def)
qed

theorem store_process_mismatch_panics_witness:
  "store_process sample_env sample_svc (sample_task\<lparr>si_Cid := ''other''\<rparr>) = Panic"
proof (rule store_process_mismatch_panics [where c = sample_cid and sp = StreamProtocol and peer = "''peer1''"])
  show "cid_String (lib_cid (se_libs sample_env)) sample_cid
      \<noteq> cid_String (lib_cid (se_libs sample_env)) (si_Cid (sample_task\<lparr>si_Cid := ''other''\<rparr>))"
    by (simp add: cid_lib.string_inj [OF sample_libs(2)] sample_cid_def mem_sum_def)
qed (simp_all add: sample_defs zero_defs shard_state_defs MAX_RETRIES_def word_less_nat_alt getStorageProtocolAndPeer_def
    slice_def sample_cid_def)

section \<open>Assignment\<close>

context node_libs
begin

lemma GetShard_key:
  assumes "store_sound S contents d" and "GetShard S d orderId c = Inr s" and "s \<noteq> ShardInfo_zero"
  shows "si_OrderId s = orderId \<and> si_Cid s = c"
proof -
  have "sound S contents (shard_kind S) d" using assms(1) by (simp add: store_sound_def)
  from shards.load_kind_cases [OF this _ assms(2) [unfolded GetShard_kind]] assms(3) show ?thesis by auto
qed

end

lemma shard_request_eq [simp]: "shard_request s = shard_request t \<longleftrightarrow> s = t"
  by (simp add: shard_request_def)

text \<open>One assigned shard: a task with its order and identifier goes to the end of the queue, unless the
  identifier is not one.\<close>

lemma assign_one_result:
  assumes "node_libs (se_libs E) contents" and "store_sound (se_libs E) contents (ss_orderDs ss)"
    and "assign_one E req order shardCid ss = (r, ss')"
  shows "case r of
      Some resp \<Rightarrow> sar_Code resp \<noteq> 0 \<and> ss' = ss
    | None \<Rightarrow> (\<exists>c s. cid_Decode (lib_cid (se_libs E)) shardCid = Inr c \<and> si_OrderId s = saq_OrderId req \<and> si_Cid s = c
        \<and> rq_queue (ss_schedQueue ss') = rq_queue (ss_schedQueue ss) @ [shard_request s] \<and> ss_nodeAddress ss' = ss_nodeAddress ss)"
proof (cases "cid_Decode (lib_cid (se_libs E)) shardCid")
  case (Inl e)
  with assms(3) show ?thesis by (auto simp: assign_one_def assign_error_def error_code_defs)
next
  case (Inr c)
  note key = node_libs.GetShard_key [OF assms(1,2), of "saq_OrderId req" c]
  from assms(3) Inr show ?thesis
    by (auto simp: assign_one_def Let_def push_shard_def Push_def dest: key split: sum.splits if_splits)
qed

lemma filter_key_distinct:
  "distinct (map fst xs) \<Longrightarrow> filter (\<lambda>(k, _). k = a) xs = (case map_of xs a of None \<Rightarrow> [] | Some v \<Rightarrow> [(a, v)])"
proof (induction xs)
  case (Cons x xs)
  then show ?case by (cases x) (auto split: option.splits dest: map_of_SomeD simp: image_iff)
qed simp


definition sample_assign :: ShardAssignReq where
  "sample_assign = \<lparr>saq_OrderId = 70000, saq_DataId = sample_id, saq_Assignee = ''sp1'', saq_TxHash = ''AB'', saq_Height = 5,
     saq_AssignTxType = AssignTxTypeStore, saq_TimeoutHeight = 0\<rparr>"

lemma sample_assigned: "\<exists>ss'. HandleShardAssign sample_env sample_svc sample_assign = Return (\<lparr>sar_Code = 0, sar_Message = []\<rparr>, ss')"
proof -
  have "cid_Decode (lib_cid (se_libs sample_env)) (cid_String hex_cid sample_cid) = Inr sample_cid"
    using hex.decode_string [OF sample_cid_defined] by (simp add: sample_libs(1) mem_libs_def)
  then show ?thesis
    by (simp add: HandleShardAssign_def sample_assign_def sample_env_def sample_chain_def sample_codec_def sample_svc_def
        first_message_def sample_full_order_def sample_chain_shard_def Let_def assign_one_def split: prod.split)
qed


section \<open>Serving content\<close>

text \<open>C9. Content is served only to an authorised request: either the request is a challenge relayed by a peer
  the chain lists among the fishmen, or the query is signed by its owner's DID, comes from the gateway it
  names or a relay it lists, and has not passed its last valid height.  The answer is then the content the
  store keeps under the requested identifier.\<close>

theorem HandleShardLoad_authorised:
  assumes "HandleShardLoad E ss req remotePeerId = Return resp" and "slr_Code resp = 0"
  shows "(\<exists>content. SM_Get (se_backend E) (lib_cid (se_libs E)) (ss_storeManager ss) (slq_Cid req) = Return (Inr content)
      \<and> slr_Content resp = Some content \<and> slr_Cid resp = slq_Cid req)
    \<and> (let p = mpc_Proposal (slq_Proposal req); relay = slq_RelayProposal req
       in (\<exists>fishmen. ch_GetFishmen (se_chain E) = Inr fishmen \<and> Contains fishmen (rp_NodeAddress (rpc_Proposal relay))
              \<and> Contains fishmen remotePeerId \<and> rpc_Signature relay \<noteq> [])
          \<or> (\<exists>proposalBytes h. se_MarshalQuery E (signed_query p) = Inr proposalBytes
              \<and> se_VerifyJWS E (qp_Owner p) proposalBytes (mpc_JwsSignature (slq_Proposal req)) = None
              \<and> (Contains (qp_Gateway p) remotePeerId
                 \<or> Contains (rp_RelayPeerIds (rpc_Proposal relay)) remotePeerId \<and> rpc_Signature relay \<noteq> [])
              \<and> ch_GetLastHeight (se_chain E) = Inr h \<and> \<not> qp_LastValidHeight p < to_uint64 h))"
proof -
  define refused where "refused = (if slq_Owner req = qp_Gateway (mpc_Proposal (slq_Proposal req))
      \<and> qp_Owner (mpc_Proposal (slq_Proposal req)) = slq_Owner req
    then check_fishmen E req remotePeerId else check_query E req remotePeerId)"
  have ok: "refused = None" and content: "\<exists>content. SM_Get (se_backend E) (lib_cid (se_libs E)) (ss_storeManager ss) (slq_Cid req) = Return (Inr content)
      \<and> slr_Content resp = Some content \<and> slr_Cid resp = slq_Cid req"
    using assms by (auto simp: HandleShardLoad_def refused_def [symmetric] Let_def bind_outcome_case load_error_def error_code_defs
        split: option.splits outcome.splits sum.splits)
  from ok consider "check_fishmen E req remotePeerId = None" | "check_query E req remotePeerId = None"
    by (auto simp: refused_def split: if_splits)
  then have "let p = mpc_Proposal (slq_Proposal req); relay = slq_RelayProposal req
       in (\<exists>fishmen. ch_GetFishmen (se_chain E) = Inr fishmen \<and> Contains fishmen (rp_NodeAddress (rpc_Proposal relay))
              \<and> Contains fishmen remotePeerId \<and> rpc_Signature relay \<noteq> [])
          \<or> (\<exists>proposalBytes h. se_MarshalQuery E (signed_query p) = Inr proposalBytes
              \<and> se_VerifyJWS E (qp_Owner p) proposalBytes (mpc_JwsSignature (slq_Proposal req)) = None
              \<and> (Contains (qp_Gateway p) remotePeerId
                 \<or> Contains (rp_RelayPeerIds (rpc_Proposal relay)) remotePeerId \<and> rpc_Signature relay \<noteq> [])
              \<and> ch_GetLastHeight (se_chain E) = Inr h \<and> \<not> qp_LastValidHeight p < to_uint64 h)"
    by cases (auto simp: check_fishmen_def check_query_def Let_def split: sum.splits if_splits option.splits)
  with content show ?thesis by blast
qed

definition sample_load :: ShardLoadReq where
  "sample_load = \<lparr>slq_Owner = ''did:sid:a'', slq_DataId = sample_id, slq_OrderId = 70000, slq_Cid = sample_cid,
     slq_Proposal = \<lparr>mpc_Proposal = QueryProposal_zero\<lparr>qp_Owner := ''did:sid:a'', qp_Gateway := ''peer1'', qp_LastValidHeight := 100\<rparr>,
       mpc_JwsSignature = JwsSignature_zero\<rparr>,
     slq_RequestId = 1, slq_RelayProposal = \<lparr>rpc_Proposal = RelayProposal_zero, rpc_Signature = []\<rparr>\<rparr>"

definition sample_full_svc :: "(mem, (string \<Rightarrow> bytes option) IpfsBackend) StoreSvc" where
  "sample_full_svc = sample_svc\<lparr>ss_storeManager := NewStoreManager
     [(opened ''a'')\<lparr>ib_api := Some [cid_String hex_cid sample_cid \<mapsto> ''data'']\<rparr>]\<rparr>"

lemma sample_loaded: "\<exists>resp. HandleShardLoad sample_env sample_full_svc sample_load ''peer1'' = Return resp
    \<and> slr_Code resp = 0 \<and> slr_Content resp = Some ''data''"
  by (simp add: HandleShardLoad_def check_query_def sample_load_def sample_env_def sample_chain_def Let_def zero_defs
      QueryProposal_zero_def SM_Get_def sample_full_svc_def NewStoreManager_def IpfsBackend_ops_def Ipfs_Get_def
      opened_def mem_ipfs_def to_uint64_def HasPrefix_def)

theorem HandleShardLoad_authorised_witness:
  "\<exists>resp. HandleShardLoad sample_env sample_full_svc sample_load ''peer1'' = Return resp \<and> slr_Content resp = Some ''data''
     \<and> SM_Get (se_backend sample_env) (lib_cid (se_libs sample_env)) (ss_storeManager sample_full_svc) sample_cid = Return (Inr ''data'')"
proof -
  obtain resp where r: "HandleShardLoad sample_env sample_full_svc sample_load ''peer1'' = Return resp" "slr_Code resp = 0"
    "slr_Content resp = Some ''data''" using sample_loaded by blast
  from HandleShardLoad_authorised [OF r(1,2)] r show ?thesis by (auto simp: sample_load_def)
qed

text \<open>The signature of a relaying node does not matter: the answer to every request is the same whatever the
  verification of relay signatures returns.\<close>

theorem HandleShardLoad_ignores_relay_signature:
  "HandleShardLoad (E\<lparr>se_VerifySignature := verify\<rparr>) ss req remotePeerId = HandleShardLoad E ss req remotePeerId"
proof -
  have "check_relay (E\<lparr>se_VerifySignature := verify\<rparr>) who req = check_relay E who req" for who
    by (simp add: check_relay_def Let_def split: sum.split)
  then have "check_fishmen (E\<lparr>se_VerifySignature := verify\<rparr>) req remotePeerId = check_fishmen E req remotePeerId"
    "check_query (E\<lparr>se_VerifySignature := verify\<rparr>) req remotePeerId = check_query E req remotePeerId"
    by (simp_all add: check_fishmen_def check_query_def Let_def split: sum.split option.split)
  moreover have "load_error (E\<lparr>se_VerifySignature := verify\<rparr>) = load_error E" by (simp add: load_error_def fun_eq_iff)
  ultimately show ?thesis by (simp add: HandleShardLoad_def Let_def split: option.split)
qed

section \<open>The list of the node's shards\<close>

text \<open>C38. The loop that collects the node's shards from the chain ends after one page when the chain reports at
  most 50 shards, and never ends when it reports more: the offset is not advanced.\<close>

theorem GetAllShards_terminates_iff:
  assumes "ch_ListShards (se_chain E) 0 50 = Inr (page, n)"
  shows "(n \<le> 50 \<longrightarrow> GetAllShards 1 E acc = Some (Inr (acc @ page))) \<and> (50 < n \<longrightarrow> GetAllShards fuel E acc = None)"
proof -
  have "50 < n \<Longrightarrow> GetAllShards fuel E acc = None"
    using assms by (induction fuel E acc rule: GetAllShards.induct) auto
  with assms show ?thesis by simp
qed

theorem GetAllShards_terminates_iff_witness:
  "GetAllShards 1 sample_env [] = Some (Inr [sample_chain_shard])"
proof -
  have "ch_ListShards (se_chain sample_env) 0 50 = Inr ([sample_chain_shard], 1)" by (simp add: sample_env_def sample_chain_def)
  from GetAllShards_terminates_iff [OF this, of "[]"] show ?thesis by (simp add: word_le_nat_alt)
qed

section \<open>Recovery\<close>

text \<open>A datastore that answers every read.\<close>

definition ds_up :: "('d, 'k) libs \<Rightarrow> 'd \<Rightarrow> bool" where
  "ds_up S d \<longleftrightarrow> (\<forall>k. \<exists>b. ds_Has (lib_ds S) d k = Inr b \<and> (b \<longrightarrow> (\<exists>v. ds_Get (lib_ds S) d k = Inr v)))"

lemma read_through_up: "ds_up S d \<Longrightarrow> read_through S d e x = Inr x"
  unfolding ds_up_def read_through_def
  by (drule spec [of _ "ds_NewKey (lib_ds S) (entry_key (lib_cid S) e)"]) auto

context node_libs
begin

lemma GetShard_up:
  assumes "store_sound S contents d" and "ds_up S d" and "shards.tbl d (orderId, c) = Some s"
  shows "GetShard S d orderId c = Inr s"
  using shards.load_kind [of d "(orderId, c)"] assms by (simp add: store_sound_def GetShard_kind read_through_up)

lemma GetShardIndex_up:
  assumes "store_sound S contents d" and "ds_up S d"
  shows "\<exists>index. GetShardIndex S d = Inr index \<and> map (\<lambda>k. (sk_OrderId k, sk_Cid k)) (sx_All index) = shards.ids d"
  using shards.load_index [of d] assms
  by (simp add: store_sound_def index_kinds read_through_up index_ids_def shard_kind_def)

lemma GetShardExpireIndex_up:
  assumes "store_sound S contents d" and "ds_up S d"
  shows "\<exists>index. GetShardExpireIndex S d = Inr index \<and> map sek_ShardId (sex_Alls index) = expires.ids d"
  using expires.load_index [of d] assms
  by (simp add: store_sound_def index_kinds read_through_up index_ids_def expire_kind_def)

end

lemma load_shards_up:
  assumes "node_libs (se_libs E) contents" and "store_sound (se_libs E) contents (ss_orderDs ss)" and "ds_up (se_libs E) (ss_orderDs ss)"
  shows "\<forall>k \<in> set ks. shard_table (se_libs E) contents (ss_orderDs ss) (sk_OrderId k, sk_Cid k) \<noteq> None \<Longrightarrow>
    load_shards E ss ks = Inr (map (\<lambda>k. the (shard_table (se_libs E) contents (ss_orderDs ss) (sk_OrderId k, sk_Cid k))) ks)"
  by (induction ks) (auto simp: node_libs.GetShard_up [OF assms])

lemma fold_push: "rq_queue (ss_schedQueue (fold push_shard xs ss)) = rq_queue (ss_schedQueue ss) @ map shard_request xs"
  by (induction xs arbitrary: ss) (simp_all add: push_shard_def Push_def)

text \<open>C7. Recovery after a restart: in a sound state, when the datastore can be read, the node queues exactly
  the stored shards that are neither complete nor terminated nor expired, each once, in the order of
  the shard index.\<close>

theorem processIncompleteShards_queues_pending:
  assumes "node_libs (se_libs E) contents" and "store_sound (se_libs E) contents (ss_orderDs ss)"
    and "ds_up (se_libs E) (ss_orderDs ss)"
  shows "rq_queue (ss_schedQueue (processIncompleteShards E ss)) = rq_queue (ss_schedQueue ss)
    @ map shard_request (filter (\<lambda>shard. si_State shard \<notin> {ShardStateComplete, ShardStateTerminate, ShardStateExpired})
        (map (\<lambda>q. the (shard_table (se_libs E) contents (ss_orderDs ss) q)) (shard_ids (se_libs E) contents (ss_orderDs ss))))"
proof -
  obtain index where i: "GetShardIndex (se_libs E) (ss_orderDs ss) = Inr index"
    "map (\<lambda>k. (sk_OrderId k, sk_Cid k)) (sx_All index) = shard_ids (se_libs E) contents (ss_orderDs ss)"
    using node_libs.GetShardIndex_up [OF assms] by blast
  have "\<forall>q \<in> set (shard_ids (se_libs E) contents (ss_orderDs ss)). shard_table (se_libs E) contents (ss_orderDs ss) q \<noteq> None"
    using assms(2) unfolding store_sound_def sound_def by blast
  then have "\<forall>k \<in> set (sx_All index). shard_table (se_libs E) contents (ss_orderDs ss) (sk_OrderId k, sk_Cid k) \<noteq> None"
    unfolding i(2) [symmetric] by simp
  moreover have "shard_pending = (\<lambda>shard. si_State shard \<notin> {ShardStateComplete, ShardStateTerminate, ShardStateExpired})"
    by (auto simp: shard_pending_def)
  ultimately show ?thesis using load_shards_up [OF assms] i
    by (simp add: processIncompleteShards_def getPendingShardList_def getShardKeyList_def fold_push i(2) [symmetric] comp_def)
qed

definition sample_stored_svc :: "(mem, (string \<Rightarrow> bytes option) IpfsBackend) StoreSvc" where
  "sample_stored_svc = sample_svc\<lparr>ss_orderDs := snd (SaveShard mem_libs Map.empty sample_shard)\<rparr>"

lemma mem_up: "ds_up mem_libs d"
  by (simp add: ds_up_def mem_libs_def mem_ds_def split: option.splits)

theorem processIncompleteShards_queues_pending_witness:
  "rq_queue (ss_schedQueue (processIncompleteShards sample_env sample_stored_svc)) = [shard_request sample_shard]"
proof -
  have d: "node_libs (se_libs sample_env) mem_contents" "ds_up (se_libs sample_env) (ss_orderDs sample_stored_svc)"
    "store_sound (se_libs sample_env) mem_contents (ss_orderDs sample_stored_svc)"
    using mem_node_libs mem_up mem.store_step_sound [OF store_step.shard [OF sample_ok(3) prod.collapse [symmetric]] sample_store_sound(1)]
    by (simp_all add: sample_libs(1) sample_stored_svc_def)
  have t: "shard_table mem_libs mem_contents (ss_orderDs sample_stored_svc) (70000, ''xyz'') = Some sample_shard"
    "shard_ids mem_libs mem_contents (ss_orderDs sample_stored_svc) = [(70000, ''xyz'')]"
    using mem.shard_saved [of Map.empty sample_shard "snd (SaveShard mem_libs Map.empty sample_shard)"] sample_saved(2)
      sample_ok(3) sample_kind_sound(1)
    by (auto simp: prod_eq_iff sample_stored_svc_def table_def index_ids_def index_value_def shard_kind_def zero_defs sample_shard_def)
  from processIncompleteShards_queues_pending [OF d(1,3,2)] t show ?thesis
    by (simp add: sample_libs(1) sample_stored_svc_def sample_svc_def RequestQueue_zero_def sample_shard_def shard_state_defs)
qed

section \<open>Expiration\<close>

text \<open>One removal from the content store, of an identifier whose text is not among \<open>keep\<close>.\<close>

definition removal :: "('d, 'k, 'b) StoreEnv \<Rightarrow> string set \<Rightarrow> 'b StoreManager \<Rightarrow> 'b StoreManager \<Rightarrow> bool" where
  "removal E keep sm sm' \<longleftrightarrow>
     (\<exists>txt c err. txt \<notin> keep \<and> se_Parse E txt = Inr c \<and> SM_Remove (se_backend E) sm c = Return (err, sm'))"

text \<open>What one key of the expiration index comes to: nothing, when the shard is still on chain; otherwise its
  content is removed, then the key, and the shard is marked as expired, up to the first failure.\<close>

lemma expire_key_cases:
  assumes "expire_key E m keep n ss = Return ss'"
  shows "ss' = ss \<or> (map_of m n = None \<and> (\<exists>sm. (sm = ss_storeManager ss \<or> removal E keep (ss_storeManager ss) sm)
    \<and> (ss' = ss\<lparr>ss_storeManager := sm\<rparr>
       \<or> (\<exists>err d. RemoveShardExpireIndex (se_libs E) (ss_orderDs ss) n = (err, d)
            \<and> (ss' = ss\<lparr>ss_storeManager := sm, ss_orderDs := d\<rparr>
               \<or> (\<exists>i c sf. GetShard (se_libs E) d i c = Inr sf
                    \<and> ss' = save_shard E (ss\<lparr>ss_storeManager := sm, ss_orderDs := d\<rparr>) (sf\<lparr>si_State := ShardStateExpired\<rparr>)))))))"
proof (cases "map_of m n")
  case (Some x)
  with assms show ?thesis by (simp add: expire_key_def)
next
  case None
  show ?thesis
  proof (cases "GetShardExpire (se_libs E) (ss_orderDs ss) n")
    case (Inl e)
    with assms None show ?thesis by (simp add: expire_key_def)
  next
    case (Inr info)
    define go where "go = (if sei_Cid info \<in> keep then Return (True, ss)
      else (case se_Parse E (sei_Cid info) of Inl _ \<Rightarrow> Return (False, ss)
        | Inr c \<Rightarrow> bind_outcome (SM_Remove (se_backend E) (ss_storeManager ss) c) (\<lambda>(err, sm).
            Return (case err of None \<Rightarrow> True | Some e \<Rightarrow> Contains (Error e) ''not pinned or pinned indirectly'', ss\<lparr>ss_storeManager := sm\<rparr>))))"
    have keep_ss: "ss = ss\<lparr>ss_storeManager := ss_storeManager ss\<rparr>" by simp
    have go: "\<exists>sm. s1 = ss\<lparr>ss_storeManager := sm\<rparr> \<and> (sm = ss_storeManager ss \<or> removal E keep (ss_storeManager ss) sm)"
      if g: "go = Return (b, s1)" for b s1
    proof (cases "sei_Cid info \<in> keep \<or> isl (se_Parse E (sei_Cid info))")
      case True
      with g have "s1 = ss" unfolding go_def by (auto split: if_splits sum.splits simp: isl_def)
      with keep_ss show ?thesis by blast
    next
      case False
      then obtain c where c: "se_Parse E (sei_Cid info) = Inr c" "sei_Cid info \<notin> keep" by (cases "se_Parse E (sei_Cid info)") auto
      with g obtain err sm where "SM_Remove (se_backend E) (ss_storeManager ss) c = Return (err, sm)" "s1 = ss\<lparr>ss_storeManager := sm\<rparr>"
        unfolding go_def by (auto simp: bind_outcome_Return)
      with c show ?thesis unfolding removal_def by blast
    qed
    from assms None Inr obtain b s1 where b: "go = Return (b, s1)"
      by (cases go) (auto simp: expire_key_def go_def)
    from go [OF b] obtain sm where s1: "s1 = ss\<lparr>ss_storeManager := sm\<rparr>" "sm = ss_storeManager ss \<or> removal E keep (ss_storeManager ss) sm"
      by blast
    from assms None Inr b have "(if \<not> b then Return s1 else (case RemoveShardExpireIndex (se_libs E) (ss_orderDs s1) n of
        (Some _, d) \<Rightarrow> Return (s1\<lparr>ss_orderDs := d\<rparr>)
      | (None, d) \<Rightarrow> (let s2 = s1\<lparr>ss_orderDs := d\<rparr> in case se_Parse E (sei_Cid info) of Inl _ \<Rightarrow> Return s2
          | Inr c \<Rightarrow> (case GetShard (se_libs E) (ss_orderDs s2) (sei_OrderId info) c of Inl _ \<Rightarrow> Return s2
             | Inr sf \<Rightarrow> Return (save_shard E s2 (sf\<lparr>si_State := ShardStateExpired\<rparr>)))))) = Return ss'"
      by (simp add: expire_key_def go_def [symmetric])
    with None s1 show ?thesis
      by (auto simp: Let_def split: if_splits prod.splits option.splits sum.splits)
  qed
qed

lemma expire_key_removal:
  assumes "expire_key E m keep n ss = Return ss'"
  shows "(removal E keep)\<^sup>*\<^sup>* (ss_storeManager ss) (ss_storeManager ss')"
  using expire_key_cases [OF assms] by auto

lemma expire_keys_removal:
  "expire_keys E m keep ks ss = Return ss' \<Longrightarrow> (removal E keep)\<^sup>*\<^sup>* (ss_storeManager ss) (ss_storeManager ss')"
proof (induction ks arbitrary: ss)
  case (Cons k ks)
  then obtain s1 where "expire_key E m keep (sek_ShardId k) ss = Return s1" "expire_keys E m keep ks s1 = Return ss'"
    by (auto simp: bind_outcome_Return)
  with Cons.IH expire_key_removal show ?case by (meson rtranclp_trans)
qed simp

context node_libs
begin

lemma save_shard_expires:
  assumes "store_sound S contents d" and "ShardInfo_ok s"
  shows "store_sound S contents (snd (SaveShard S d s)) \<and> expires.ids (snd (SaveShard S d s)) = expires.ids d"
proof -
  have save: "SaveShard S d s = (fst (SaveShard S d s), snd (SaveShard S d s))" by simp
  have "same_but S contents {EShard (si_OrderId s) (si_Cid s), EShardIndex} d (snd (SaveShard S d s))"
    using SaveShard_any [OF save assms(2)] assms(1) by (simp add: store_sound_def)
  from expires_untouched [OF this] store_step_sound [OF store_step.shard [OF assms(2) save] assms(1)] show ?thesis by simp
qed

lemma unexpire_expires:
  assumes "store_sound S contents d" and "RemoveShardExpireIndex S d n = (err, d')"
  shows "store_sound S contents d' \<and> set (expires.ids d) - {n} \<subseteq> set (expires.ids d')"
proof -
  have "sound S contents (expire_kind S) d" using assms(1) by (simp add: store_sound_def)
  from RemoveShardExpireIndex_any [OF assms(2) this] have "expires.ids d' \<in> {expires.ids d, remove1 n (expires.ids d)}" by simp
  moreover have "set (expires.ids d) - {n} \<subseteq> set (remove1 n (expires.ids d))" using in_set_remove1 [of _ n "expires.ids d"] by blast
  ultimately have "set (expires.ids d) - {n} \<subseteq> set (expires.ids d')" by auto
  with store_step_sound [OF store_step.unexpire [OF assms(2)] assms(1)] show ?thesis by simp
qed

end

lemma expire_key_indexed:
  assumes "node_libs (se_libs E) contents" and "store_sound (se_libs E) contents (ss_orderDs ss)"
    and "expire_key E m keep n ss = Return ss'"
  shows "store_sound (se_libs E) contents (ss_orderDs ss')
    \<and> set (expire_ids (se_libs E) contents (ss_orderDs ss)) \<inter> {q. q \<noteq> n \<or> map_of m n \<noteq> None}
        \<subseteq> set (expire_ids (se_libs E) contents (ss_orderDs ss'))"
proof -
  note saved = node_libs.save_shard_expires [OF assms(1)] and removed = node_libs.unexpire_expires [OF assms(1)]
  from expire_key_cases [OF assms(3)] consider (same) "ss_orderDs ss' = ss_orderDs ss"
    | (key) err where "map_of m n = None" "RemoveShardExpireIndex (se_libs E) (ss_orderDs ss) n = (err, ss_orderDs ss')"
    | (both) err d i c sf where "map_of m n = None" "RemoveShardExpireIndex (se_libs E) (ss_orderDs ss) n = (err, d)"
        "GetShard (se_libs E) d i c = Inr sf" "ss_orderDs ss' = snd (SaveShard (se_libs E) d (sf\<lparr>si_State := ShardStateExpired\<rparr>))"
    by (fastforce simp: save_shard_def)
  then show ?thesis
  proof cases
    case same
    with assms(2) show ?thesis by auto
  next
    case key
    with removed [OF assms(2) key(2)] show ?thesis by auto
  next
    case both
    from removed [OF assms(2) both(2)] saved [of d "sf\<lparr>si_State := ShardStateExpired\<rparr>"] GetShard_ok [OF both(3)] both(1)
    show ?thesis unfolding both(4) by auto
  qed
qed

lemma expire_keys_indexed:
  assumes "node_libs (se_libs E) contents"
  shows "store_sound (se_libs E) contents (ss_orderDs ss) \<Longrightarrow> expire_keys E m keep ks ss = Return ss' \<Longrightarrow>
    set (expire_ids (se_libs E) contents (ss_orderDs ss)) \<inter> {q. map_of m q \<noteq> None}
      \<subseteq> set (expire_ids (se_libs E) contents (ss_orderDs ss'))"
proof (induction ks arbitrary: ss)
  case (Cons k ks)
  then obtain s1 where s1: "expire_key E m keep (sek_ShardId k) ss = Return s1" "expire_keys E m keep ks s1 = Return ss'"
    by (auto simp: bind_outcome_Return)
  from expire_key_indexed [OF assms Cons.prems(1) s1(1)] Cons.IH [OF _ s1(2)] show ?case by blast
qed auto

text \<open>C8. Expiration removes only what no shard of the node needs: once the chain has listed the node's shards,
  the content store loses only identifiers whose text is none of those shards' identifiers, and no
  listed shard is dropped from the expiration index.\<close>

theorem processExpire_keeps_listed:
  assumes "node_libs (se_libs E) contents" and "store_sound (se_libs E) contents (ss_orderDs ss)"
    and "GetAllShards fuel E [] = Some (Inr myShards)" and "processExpire fuel E ss = Some (Return ss')"
  shows "(removal E (set (map cs_Cid myShards)))\<^sup>*\<^sup>* (ss_storeManager ss) (ss_storeManager ss')
    \<and> (\<forall>s \<in> set myShards. cs_Id s \<in> set (expire_ids (se_libs E) contents (ss_orderDs ss))
         \<longrightarrow> cs_Id s \<in> set (expire_ids (se_libs E) contents (ss_orderDs ss')))"
proof (cases "GetShardExpireIndex (se_libs E) (ss_orderDs ss)")
  case (Inl e)
  with assms(3,4) show ?thesis by (simp add: processExpire_def)
next
  case (Inr index)
  define m where "m = map (\<lambda>s. (cs_Id s, shard_expire_at s)) (rev myShards)"
  from assms(3,4) Inr have run: "expire_keys E m (set (map cs_Cid myShards)) (sex_Alls index) ss = Return ss'"
    by (simp add: processExpire_def m_def)
  have "map_of m (cs_Id s) \<noteq> None" if "s \<in> set myShards" for s
    using that unfolding m_def map_of_eq_None_iff by (simp add: image_image)
  with expire_keys_removal [OF run] expire_keys_indexed [OF assms(1,2) run] show ?thesis by blast
qed

theorem processExpire_keeps_listed_witness:
  "\<exists>ss'. processExpire 1 sample_env (sample_svc\<lparr>ss_orderDs := sample_expired\<rparr>) = Some (Return ss')
     \<and> 7 \<in> set (expire_ids mem_libs mem_contents (ss_orderDs ss'))"
proof -
  let ?ss = "sample_svc\<lparr>ss_orderDs := sample_expired\<rparr>"
  have all: "GetAllShards 1 sample_env [] = Some (Inr [sample_chain_shard])" by (simp add: sample_env_def sample_chain_def)
  have "\<exists>ss'. processExpire 1 sample_env ?ss = Some (Return ss')"
  proof -
    obtain index where i: "GetShardExpireIndex mem_libs sample_expired = Inr index" "map sek_ShardId (sex_Alls index) = [7]"
      using mem.GetShardExpireIndex_up [OF sample_store_sound(2) mem_up] sample_expired_ids(1) by auto
    then obtain k where "sex_Alls index = [k]" "sek_ShardId k = 7" by auto
    with i(1) all show ?thesis by (simp add: processExpire_def sample_libs(1) expire_key_def sample_chain_shard_def)
  qed
  then obtain ss' where r: "processExpire 1 sample_env ?ss = Some (Return ss')" by blast
  have "node_libs (se_libs sample_env) mem_contents" "store_sound (se_libs sample_env) mem_contents (ss_orderDs ?ss)"
    using mem_node_libs sample_store_sound(2) by (simp_all add: sample_libs(1))
  from processExpire_keeps_listed [OF this all r] r sample_expired_ids(1) show ?thesis
    by (simp add: sample_libs(1) sample_chain_shard_def)
qed

end
