(* ===== verification/Staging.thy ===== *)
theory Staging
  imports Chain_Api Store_Mem
begin

text \<open>
  The staging area of the gateway (\<^verbatim>\<open>src/node/gateway/stage.go\<close>): content waits in a file
  \<open>owner/cid-dataid\<close> below the staging directory until every storage node has fetched it.  The operating
  system's files are a parameter (\<open>fs_ops\<close>), as is the expansion of the home directory; the locale \<open>file_system\<close>
  says what the gateway relies on, on a file system without links, whose files are told apart by their
  cleaned paths.  \<^verbatim>\<open>filepath.Join\<close> and \<^verbatim>\<open>filepath.Clean\<close> are written out, for Unix paths.
\<close>

section \<open>Paths\<close>

fun join_parts :: "string list \<Rightarrow> string" where
  "join_parts [] = []"
| "join_parts [p] = p"
| "join_parts (p # q # ps) = p @ CHR ''/'' # join_parts (q # ps)"

text \<open>One component of a path; the stack holds the components kept so far, the last one first.\<close>

definition clean_part :: "bool \<Rightarrow> string list \<Rightarrow> string \<Rightarrow> string list" where
  "clean_part rooted st part =
     (if part = [] \<or> part = ''.'' then st
      else if part = ''..'' then
        (case st of
           [] \<Rightarrow> if rooted then [] else [''..'']
         | t # rest \<Rightarrow> if t = ''..'' then ''..'' # st else rest)
      else part # st)"

definition path_Clean :: "string \<Rightarrow> string" where
  "path_Clean p =
     (let rooted = HasPrefix p ''/'';
          parts = rev (foldl (clean_part rooted) [] (Split (CHR ''/'') p))
      in if rooted then CHR ''/'' # join_parts parts else if parts = [] then ''.'' else join_parts parts)"

definition path_Join :: "string list \<Rightarrow> string" where
  "path_Join elems = (case dropWhile (\<lambda>e. e = []) elems of [] \<Rightarrow> [] | es \<Rightarrow> path_Clean (join_parts es))"

section \<open>Files\<close>

record 'f fs_ops =
  fs_Expand :: "string \<Rightarrow> string res"
  fs_MkdirAll :: "'f \<Rightarrow> string \<Rightarrow> goerr option \<times> 'f"
  fs_IsExist :: "goerr \<Rightarrow> bool"
  fs_Create :: "'f \<Rightarrow> string \<Rightarrow> goerr option \<times> 'f"
  fs_Write :: "'f \<Rightarrow> string \<Rightarrow> bytes \<Rightarrow> goerr option \<times> 'f"
  fs_ReadFile :: "'f \<Rightarrow> string \<Rightarrow> bytes res"
  fs_Remove :: "'f \<Rightarrow> string \<Rightarrow> goerr option \<times> 'f"

definition stage_file :: "string \<Rightarrow> string \<Rightarrow> string \<Rightarrow> string \<Rightarrow> string" where
  "stage_file path owner c dataId = path_Join [path, owner, c @ ''-'' @ dataId]"

definition StageShard :: "'f fs_ops \<Rightarrow> 'f \<Rightarrow> string \<Rightarrow> StoreProposal \<Rightarrow> bytes \<Rightarrow> string res \<times> 'f" where
  "StageShard F f basedir orderProposal content =
     (case fs_Expand F basedir of
        Inl _ \<Rightarrow> (Inl (Wrapf ErrInvalidPath basedir), f)
      | Inr path \<Rightarrow>
          (let (err, f1) = fs_MkdirAll F f (path_Join [path, prop_Owner orderProposal]);
               file = stage_file path (prop_Owner orderProposal) (prop_Cid orderProposal) (prop_DataId orderProposal)
           in if err \<noteq> None \<and> \<not> fs_IsExist F (the err) then (Inl (Wrap ErrCreateDirFailed err), f1)
              else
                (case fs_Create F f1 file of
                   (Some e, f2) \<Rightarrow> (Inl (Wrap ErrCreateFileFailed (Some e)), f2)
                 | (None, f2) \<Rightarrow>
                     (case fs_Write F f2 file content of
                        (Some e, f3) \<Rightarrow> (Inl (Wrap ErrWriteFileFailed (Some e)), f3)
                      | (None, f3) \<Rightarrow> (Inr file, f3)))))"

definition GetStagedShard :: "'f fs_ops \<Rightarrow> cid_ops \<Rightarrow> 'f \<Rightarrow> string \<Rightarrow> string \<Rightarrow> cid \<Rightarrow> string \<Rightarrow> bytes res" where
  "GetStagedShard F I f basedir creator c dataId =
     (case fs_Expand F basedir of
        Inl _ \<Rightarrow> Inl (Wrapf ErrInvalidPath basedir)
      | Inr path \<Rightarrow>
          (case fs_ReadFile F f (stage_file path creator (cid_String I c) dataId) of
             Inl e \<Rightarrow> Inl (Wrap ErrReadFileFailed (Some e))
           | Inr bs \<Rightarrow> Inr bs))"

definition UnstageShard :: "'f fs_ops \<Rightarrow> 'f \<Rightarrow> string \<Rightarrow> string \<Rightarrow> string \<Rightarrow> string \<Rightarrow> goerr option \<times> 'f" where
  "UnstageShard F f basedir creator c dataId =
     (case fs_Expand F basedir of
        Inl _ \<Rightarrow> (Some (Wrapf ErrInvalidPath basedir), f)
      | Inr path \<Rightarrow> fs_Remove F f (stage_file path creator c dataId))"

section \<open>What the gateway relies on\<close>

text \<open>\<open>content f p\<close> is the content of the regular file at the cleaned path \<open>p\<close>.  A write may stop anywhere, but
  touches only its file.\<close>

locale file_system =
  fixes F :: "'f fs_ops" and content :: "'f \<Rightarrow> string \<Rightarrow> bytes option"
  assumes mkdir: "\<And>f p err f'. fs_MkdirAll F f p = (err, f') \<Longrightarrow> content f' = content f"
    and create: "\<And>f p f'. fs_Create F f p = (None, f') \<Longrightarrow> content f' = (content f)(p \<mapsto> [])"
    and create_fail: "\<And>f p e f'. fs_Create F f p = (Some e, f') \<Longrightarrow> content f' = content f"
    and write_all: "\<And>f p b f'. content f p = Some [] \<Longrightarrow> fs_Write F f p b = (None, f') \<Longrightarrow> content f' = (content f)(p \<mapsto> b)"
    and write_frame: "\<And>f p b err f' q. fs_Write F f p b = (err, f') \<Longrightarrow> q \<noteq> p \<Longrightarrow> content f' q = content f q"
    and read: "\<And>f p b. fs_ReadFile F f p = Inr b \<Longrightarrow> content f p = Some b"
    and remove: "\<And>f p f'. fs_Remove F f p = (None, f') \<Longrightarrow> content f' = (content f)(p := None)"
    and remove_fail: "\<And>f p e f'. fs_Remove F f p = (Some e, f') \<Longrightarrow> content f' = content f"
begin

lemma StageShard_content:
  assumes "StageShard F f basedir prop b = (Inr file, f')" and "fs_Expand F basedir = Inr path"
  shows "file = stage_file path (prop_Owner prop) (prop_Cid prop) (prop_DataId prop) \<and> content f' = (content f)(file \<mapsto> b)"
proof -
  obtain err f1 where m: "fs_MkdirAll F f (path_Join [path, prop_Owner prop]) = (err, f1)" by (metis surj_pair)
  from assms m obtain f2 where pf: "file = stage_file path (prop_Owner prop) (prop_Cid prop) (prop_DataId prop)"
    and c: "fs_Create F f1 file = (None, f2)" and w: "fs_Write F f2 file b = (None, f')"
    by (auto simp: StageShard_def Let_def split: if_splits prod.splits option.splits)
  from mkdir [OF m] create [OF c] write_all [OF _ w] pf show ?thesis by simp
qed

text \<open>Whatever happens, no other file changes.\<close>

lemma StageShard_frame:
  assumes "StageShard F f basedir prop b = (r, f')" and "fs_Expand F basedir = Inr path"
    and "q \<noteq> stage_file path (prop_Owner prop) (prop_Cid prop) (prop_DataId prop)"
  shows "content f' q = content f q"
proof -
  obtain err f1 where m: "fs_MkdirAll F f (path_Join [path, prop_Owner prop]) = (err, f1)" by (metis surj_pair)
  obtain e2 f2 where c: "fs_Create F f1 (stage_file path (prop_Owner prop) (prop_Cid prop) (prop_DataId prop)) = (e2, f2)" by (metis surj_pair)
  have "content f2 q = content f q" using mkdir [OF m] create create_fail c assms(3) by (cases e2) (auto simp: fun_eq_iff)
  with assms m c mkdir [OF m] show ?thesis
    by (auto simp: StageShard_def Let_def split: if_splits prod.splits option.splits dest: write_frame)
qed

lemma UnstageShard_frame:
  assumes "UnstageShard F f basedir creator c dataId = (err, f')" and "fs_Expand F basedir = Inr path"
    and "q \<noteq> stage_file path creator c dataId"
  shows "content f' q = content f q"
  using assms remove [of f _ f'] remove_fail [of f _ _ f'] by (cases err) (auto simp: UnstageShard_def)

end

section \<open>Different shards have different files\<close>

text \<open>A name that is one component of a path.\<close>

definition plain_name :: "string \<Rightarrow> bool" where
  "plain_name s \<longleftrightarrow> s \<noteq> [] \<and> s \<noteq> ''.'' \<and> s \<noteq> ''..'' \<and> CHR ''/'' \<notin> set s"

lemma Split_append: "Split c (a @ c # b) = Split c a @ Split c b"
proof (induction a)
  case (Cons x a)
  then show ?case by (cases "Split c a") auto
qed simp

lemma Split_parts: "x \<in> set (Split c s) \<Longrightarrow> c \<notin> set x"
proof (induction s arbitrary: x)
  case (Cons y s)
  then show ?case by (cases "Split c s") (auto split: if_splits)
qed simp

lemma join_parts_snoc: "ps \<noteq> [] \<Longrightarrow> join_parts (ps @ [q]) = join_parts ps @ CHR ''/'' # q"
  by (induction ps rule: join_parts.induct) auto

lemma Split_join: "ps \<noteq> [] \<Longrightarrow> \<forall>p \<in> set ps. CHR ''/'' \<notin> set p \<Longrightarrow> Split (CHR ''/'') (join_parts ps) = ps"
  by (induction ps rule: join_parts.induct) (auto simp: Split_append)

lemma clean_part_plain: "plain_name s \<Longrightarrow> clean_part rooted st s = s # st"
  by (simp add: clean_part_def plain_name_def)

lemma clean_parts_flat:
  "\<forall>p \<in> set ps \<union> set st. CHR ''/'' \<notin> set p \<Longrightarrow> \<forall>p \<in> set (foldl (clean_part rooted) st ps). CHR ''/'' \<notin> set p"
proof (induction ps arbitrary: st)
  case (Cons p ps)
  have "\<forall>q \<in> set (clean_part rooted st p). CHR ''/'' \<notin> set q"
    using Cons.prems by (auto simp: clean_part_def split: list.splits if_splits)
  with Cons.IH [of "clean_part rooted st p"] Cons.prems show ?case by auto
qed simp

text \<open>The file of a shard: the components of the directory, the owner and the name.\<close>

definition dir_parts :: "string \<Rightarrow> string list" where
  "dir_parts path = rev (foldl (clean_part (HasPrefix path ''/'')) [] (Split (CHR ''/'') path))"

lemma dir_parts_flat: "\<forall>p \<in> set (dir_parts path). CHR ''/'' \<notin> set p"
proof -
  have "\<forall>p \<in> set (Split (CHR ''/'') path) \<union> set []. CHR ''/'' \<notin> set p" using Split_parts by auto
  from clean_parts_flat [OF this] show ?thesis by (simp add: dir_parts_def)
qed

lemma path_Clean_plain:
  assumes "path \<noteq> []" and "plain_name owner" and "plain_name n"
  shows "path_Clean (join_parts [path, owner, n])
    = (if HasPrefix path ''/'' then ''/'' else []) @ join_parts (dir_parts path @ [owner, n])"
proof -
  have j: "join_parts [path, owner, n] = path @ CHR ''/'' # owner @ CHR ''/'' # n" by simp
  have r: "HasPrefix (join_parts [path, owner, n]) ''/'' = HasPrefix path ''/''"
    using assms(1) by (cases path) (simp_all add: HasPrefix_def)
  have "Split (CHR ''/'') owner = [owner]" "Split (CHR ''/'') n = [n]" using assms(2,3) by (simp_all add: plain_name_def)
  then have s: "Split (CHR ''/'') (join_parts [path, owner, n]) = Split (CHR ''/'') path @ [owner, n]"
    unfolding j Split_append by simp
  have f: "rev (foldl (clean_part (HasPrefix path ''/'')) [] (Split (CHR ''/'') (join_parts [path, owner, n]))) = dir_parts path @ [owner, n]"
    unfolding s using clean_part_plain [OF assms(2)] clean_part_plain [OF assms(3)] by (simp add: dir_parts_def)
  show ?thesis unfolding path_Clean_def Let_def r f by simp
qed

lemma stage_file_parts:
  assumes "path \<noteq> []" and "plain_name owner" and "plain_name (c @ ''-'' @ dataId)"
  shows "stage_file path owner c dataId
    = (if HasPrefix path ''/'' then ''/'' else []) @ join_parts (dir_parts path @ [owner, c @ ''-'' @ dataId])"
proof -
  have "dropWhile (\<lambda>e. e = []) [path, owner, c @ ''-'' @ dataId] = [path, owner, c @ ''-'' @ dataId]" using assms(1) by simp
  then show ?thesis unfolding stage_file_def path_Join_def by (simp only: list.case path_Clean_plain [OF assms])
qed

lemma stage_file_inj:
  assumes "path \<noteq> []" and "plain_name owner" "plain_name (c @ ''-'' @ dataId)" and "plain_name owner'" "plain_name (c' @ ''-'' @ dataId')"
    and "CHR ''-'' \<notin> set c" "CHR ''-'' \<notin> set c'"
    and "stage_file path owner c dataId = stage_file path owner' c' dataId'"
  shows "owner = owner' \<and> c = c' \<and> dataId = dataId'"
proof -
  define parts where "parts = dir_parts path"
  have flat: "\<forall>p \<in> set parts. CHR ''/'' \<notin> set p" unfolding parts_def by (rule dir_parts_flat)
  from assms(8) have eq: "join_parts (parts @ [owner, c @ ''-'' @ dataId]) = join_parts (parts @ [owner', c' @ ''-'' @ dataId'])"
    unfolding stage_file_parts [OF assms(1-3)] stage_file_parts [OF assms(1,4,5)] parts_def by (simp only: same_append_eq)
  have "parts @ [owner, c @ ''-'' @ dataId] = parts @ [owner', c' @ ''-'' @ dataId']"
  proof -
    have "\<forall>p \<in> set (parts @ [owner, c @ ''-'' @ dataId]). CHR ''/'' \<notin> set p" "\<forall>p \<in> set (parts @ [owner', c' @ ''-'' @ dataId']). CHR ''/'' \<notin> set p"
      using assms(2-5) flat by (auto simp: plain_name_def)
    from this [THEN Split_join [rotated]] eq show ?thesis by (metis append_is_Nil_conv list.distinct(1))
  qed
  then have "owner = owner'" "Split (CHR ''-'') (c @ ''-'' @ dataId) = Split (CHR ''-'') (c' @ ''-'' @ dataId')"
    and n: "c @ ''-'' @ dataId = c' @ ''-'' @ dataId'" by simp_all
  then have "c = c'" using assms(6,7) by (simp add: Split_append_sep)
  with n \<open>owner = owner'\<close> show ?thesis by simp
qed

section \<open>A file system in memory\<close>

definition mem_fs :: "(string \<Rightarrow> bytes option) fs_ops" where
  "mem_fs = \<lparr>fs_Expand = (\<lambda>p. case p of CHR ''~'' # q \<Rightarrow> Inr (''/home'' @ q) | _ \<Rightarrow> Inr p), fs_MkdirAll = (\<lambda>f p. (None, f)),
     fs_IsExist = (\<lambda>_. False), fs_Create = (\<lambda>f p. (None, f(p \<mapsto> []))), fs_Write = (\<lambda>f p b. (None, f(p \<mapsto> b))),
     fs_ReadFile = (\<lambda>f p. case f p of None \<Rightarrow> Inl (ErrText ''no such file'') | Some b \<Rightarrow> Inr b),
     fs_Remove = (\<lambda>f p. if f p = None then (Some (ErrText ''no such file''), f) else (None, f(p := None)))\<rparr>"

interpretation mem_fs: file_system mem_fs "\<lambda>f. f"
  by unfold_locales (auto simp: mem_fs_def split: option.splits if_splits)

section \<open>Properties\<close>

text \<open>C31. Staging a shard makes its content readable for the owner, identifier and data id it was staged under,
  unless the read itself fails, and leaves every other staged shard readable as before: two shards share
  a file only if they agree in all three.\<close>

theorem StageShard_GetStagedShard:
  assumes "file_system F content" and "cid_lib I" and "fs_Expand F basedir = Inr path" and "path \<noteq> []"
    and "plain_name (prop_Owner prop)" and "plain_name (prop_Cid prop @ ''-'' @ prop_DataId prop)" and "CHR ''-'' \<notin> set (prop_Cid prop)"
    and "StageShard F f basedir prop b = (Inr file, f')"
  shows "(cid_String I c = prop_Cid prop \<longrightarrow> (\<forall>b'. GetStagedShard F I f' basedir (prop_Owner prop) c (prop_DataId prop) = Inr b' \<longrightarrow> b' = b))
    \<and> (plain_name owner \<and> plain_name (cid_String I c' @ ''-'' @ dataId) \<and> CHR ''-'' \<notin> set (cid_String I c')
        \<and> (owner, cid_String I c', dataId) \<noteq> (prop_Owner prop, prop_Cid prop, prop_DataId prop)
       \<longrightarrow> content f' (stage_file path owner (cid_String I c') dataId) = content f (stage_file path owner (cid_String I c') dataId))"
proof -
  note st = file_system.StageShard_content [OF assms(1,8,3)]
  have "b' = b" if "cid_String I c = prop_Cid prop" "GetStagedShard F I f' basedir (prop_Owner prop) c (prop_DataId prop) = Inr b'" for b'
    using that st file_system.read [OF assms(1), of f' "file" b'] assms(3) by (auto simp: GetStagedShard_def split: sum.splits)
  moreover have "stage_file path owner (cid_String I c') dataId \<noteq> file"
    if "plain_name owner" "plain_name (cid_String I c' @ ''-'' @ dataId)" "CHR ''-'' \<notin> set (cid_String I c')"
      "(owner, cid_String I c', dataId) \<noteq> (prop_Owner prop, prop_Cid prop, prop_DataId prop)"
    using stage_file_inj [OF assms(4) that(1,2) assms(5,6) that(3) assms(7)] st that(4) by auto
  ultimately show ?thesis using st by auto
qed

definition sample_proposal :: StoreProposal where
  "sample_proposal = \<lparr>prop_Owner = ''did:sid:a'', prop_Cid = cid_String hex_cid ''xyz'', prop_DataId = ''6f1ed002'',
     prop_Alias = ''notes'', prop_GroupId = ''g'', prop_CommitId = ''6f1ed002'', prop_Tags = [], prop_Size = 4, prop_Rule = [],
     prop_ExtendInfo = []\<rparr>"

theorem StageShard_GetStagedShard_witness:
  "\<exists>file f'. StageShard mem_fs Map.empty ''~/stage'' sample_proposal ''data'' = (Inr file, f')
     \<and> GetStagedShard mem_fs hex_cid f' ''~/stage'' ''did:sid:a'' ''xyz'' ''6f1ed002'' = Inr ''data''"
proof -
  obtain pth f' where s: "StageShard mem_fs Map.empty ''~/stage'' sample_proposal ''data'' = (Inr pth, f')"
    by (simp add: StageShard_def mem_fs_def Let_def)
  have "\<exists>b. GetStagedShard mem_fs hex_cid f' ''~/stage'' ''did:sid:a'' ''xyz'' ''6f1ed002'' = Inr b"
    using s by (auto simp: StageShard_def GetStagedShard_def mem_fs_def sample_proposal_def Let_def)
  moreover have "plain_name (prop_Cid sample_proposal @ ''-'' @ prop_DataId sample_proposal)" "CHR ''-'' \<notin> set (prop_Cid sample_proposal)"
    by code_simp+
  ultimately show ?thesis
    using StageShard_GetStagedShard [OF mem_fs.file_system_axioms hex.cid_lib_axioms _ _ _ _ _ s, of "''/home/stage''" "''xyz''"] s
    by (auto simp: sample_proposal_def plain_name_def mem_fs_def)
qed

end
