(* ===== verification/Gateway_Service.thy ===== *)
theory Gateway_Service
  imports Staging Node_State Store_Manager Request_Queue "HOL-Library.AList"
begin

text \<open>
  The gateway (\<^verbatim>\<open>src/node/gateway/gateway_service.go\<close>): it stages content, creates orders on chain, assigns their
  shards to storage nodes, retries and reschedules them, notes their completion, and fetches content.  The
  state \<open>GatewaySvc\<close> is the struct's mutable part: queue, timeout map, completion map and channel, datastore,
  files and content store, with a trace of what the gateway told the chain and the storage nodes.  \<open>GwEnv\<close>
  is what a call depends on.  The generated codecs of the chain's messages, signing and the peer protocols
  are parameters.

  A Go map is an association list in the order the execution ranges over it; the order in which the
  fragments of a content are ranged over is the parameter \<open>ge_range\<close>.
\<close>

section \<open>State and environment\<close>

datatype gw_protocol = GwLocal | GwStream

datatype gevent =
  EvAssign ShardAssignReq string
  | EvStoreOrder StoreProposal
  | EvOrderReady u64
  | EvTerminateOrder TerminateProposal
  | EvRenewOrder RenewProposal
  | EvUpdatePermission PermissionProposal

record ('d, 'b, 'f) GatewaySvc =
  gs_nodeAddress :: string
  gs_localPeerId :: string
  gs_stagingPath :: string
  gs_serverPath :: string
  gs_schedQueue :: "unit WorkRequest RequestQueue"
  gs_timeoutMap :: "u64 \<Rightarrow> OrderInfo list option"
  gs_completeMap :: "string \<Rightarrow> int option"
  gs_completeChan :: "string list"
  gs_storeManager :: "'b StoreManager"
  gs_orderDs :: 'd
  gs_files :: 'f
  gs_trace :: "gevent list"

record ('d, 'k, 'b, 'f) GwEnv =
  ge_libs :: "('d, 'k) libs"
  ge_fs :: "'f fs_ops"
  ge_backend :: "'b StoreBackend"
  ge_chain :: ChainSvc
  ge_tx :: TxCodec
  ge_now :: int
  ge_Sum :: "bytes \<Rightarrow> cid res"
  ge_fmt_d :: "goerr \<Rightarrow> string"
  ge_MarshalProposal :: "StoreProposal \<Rightarrow> bytes res"
  ge_UnmarshalProposal :: "bytes \<Rightarrow> StoreProposal res"
  ge_MarshalJws :: "JwsSignature \<Rightarrow> bytes res"
  ge_UnmarshalJws :: "bytes \<Rightarrow> JwsSignature res"
  ge_MarshalRelay :: "RelayProposal \<Rightarrow> bytes res"
  ge_SignByAddress :: "string \<Rightarrow> bytes \<Rightarrow> bytes res"
  ge_RequestShardAssign :: "gw_protocol \<Rightarrow> ShardAssignReq \<Rightarrow> string \<Rightarrow> ShardAssignResp"
  ge_RequestShardLoad :: "gw_protocol \<Rightarrow> ShardLoadReq \<Rightarrow> string \<Rightarrow> ShardLoadResp"
  ge_GetPeers :: "gw_protocol \<Rightarrow> string"
  ge_range :: "(u64 \<times> bytes option) list \<Rightarrow> (u64 \<times> bytes option) list"
  ge_ContentLimit :: int
  ge_SaoIpfs :: bool

definition GW_MAX_RETRIES :: u64 where "GW_MAX_RETRIES = 3"

definition order_request :: "OrderInfo \<Rightarrow> unit WorkRequest" where
  "order_request order = \<lparr>wr_Order = order, wr_Shard = ShardInfo_zero, wr_Job = None\<rparr>"

definition push_order :: "OrderInfo \<Rightarrow> ('d, 'b, 'f) GatewaySvc \<Rightarrow> ('d, 'b, 'f) GatewaySvc" where
  "push_order order gs = gs\<lparr>gs_schedQueue := Push (gs_schedQueue gs) (order_request order)\<rparr>"

text \<open>Save an order; a failure is logged and otherwise ignored.\<close>

definition save_order :: "('d, 'k, 'b, 'f) GwEnv \<Rightarrow> ('d, 'b, 'f) GatewaySvc \<Rightarrow> OrderInfo \<Rightarrow> ('d, 'b, 'f) GatewaySvc" where
  "save_order G gs order = gs\<lparr>gs_orderDs := snd (SaveOrder (ge_libs G) (gs_orderDs gs) order)\<rparr>"

definition gw_protocol_for :: "('d, 'b, 'f) GatewaySvc \<Rightarrow> string \<Rightarrow> gw_protocol" where
  "gw_protocol_for gs node = (if node = gs_nodeAddress gs then GwLocal else GwStream)"

section \<open>Processing an order\<close>

text \<open>The state of a shard is set on the loop's copy of the map entry, so the order is not changed.\<close>

fun assign_shards ::
  "('d, 'k, 'b, 'f) GwEnv \<Rightarrow> OrderInfo \<Rightarrow> (string \<times> OrderShardInfo) list \<Rightarrow> ('d, 'b, 'f) GatewaySvc \<Rightarrow> ('d, 'b, 'f) GatewaySvc" where
  "assign_shards G order [] gs = gs"
| "assign_shards G order ((node, shard) # rest) gs =
     (if osi_State shard \<noteq> ShardStateCompleted then
        (let req = \<lparr>saq_OrderId = oi_OrderId order, saq_DataId = oi_DataId order, saq_Assignee = node,
                    saq_TxHash = oi_OrderHash order, saq_Height = oi_OrderHeight order,
                    saq_AssignTxType = oi_OrderTxType order, saq_TimeoutHeight = oi_ExpireHeight order\<rparr>;
             resp = ge_RequestShardAssign G (gw_protocol_for gs node) req (osi_Peer shard);
             copy = shard\<lparr>osi_State := if sar_Code resp = 0 then ShardStateNotified else ShardStateError\<rparr>
         in assign_shards G order rest (gs\<lparr>gs_trace := gs_trace gs @ [EvAssign req (osi_Peer shard)]\<rparr>))
      else assign_shards G order rest gs)"

definition gw_process ::
  "('d, 'k, 'b, 'f) GwEnv \<Rightarrow> ('d, 'b, 'f) GatewaySvc \<Rightarrow> OrderInfo \<Rightarrow> goerr option \<times> OrderInfo \<times> ('d, 'b, 'f) GatewaySvc" where
  "gw_process G gs order0 =
     (if oi_State order0 = OrderStateTerminate then (None, order0, gs)
      else if oi_State order0 = OrderStateComplete then
        (None, order0, gs\<lparr>gs_completeChan := gs_completeChan gs @ [oi_DataId order0]\<rparr>)
      else
        (let tries = oi_Tries order0 + 1;
             order = order0\<lparr>oi_Tries := tries, oi_RetryAt := GetRetryAt (ge_now G) tries\<rparr>;
             stop = (\<lambda>state msg. let order' = order\<lparr>oi_State := state, oi_LastErr := msg\<rparr>
                                 in (None, order', save_order G gs order'));
             work = (if oi_State order < OrderStateComplete then
                       (let gs1 = assign_shards G order (oi_Shards order) gs
                        in case SaveOrder (ge_libs G) (gs_orderDs gs1) order of
                             (Some e, d) \<Rightarrow> (Some e, order, gs1\<lparr>gs_orderDs := d\<rparr>)
                           | (None, d) \<Rightarrow>
                               (None, order,
                                gs1\<lparr>gs_orderDs := d,
                                    gs_completeMap := (if gs_completeMap gs1 (oi_DataId order) = None
                                                       then (gs_completeMap gs1)(oi_DataId order \<mapsto> 0) else gs_completeMap gs1)\<rparr>))
                     else (None, order, gs))
         in if tries \<ge> GW_MAX_RETRIES then
              stop OrderStateTerminate (''order '' @ show_u64 (oi_OrderId order) @ '' too many retries '' @ show_u64 tries)
            else if oi_ExpireHeight order > 0 then
              (case ch_GetLastHeight (ge_chain G) of
                 Inl err \<Rightarrow> (Some err, order, gs)
               | Inr latestHeight \<Rightarrow>
                   if latestHeight > to_int64 (oi_ExpireHeight order) then
                     stop OrderStateExpired (''order expired: latest='' @ show_int latestHeight
                                             @ '' expireAt='' @ show_u64 (oi_ExpireHeight order))
                   else work)
            else work))"

text \<open>One goroutine of the scheduling loop.\<close>

definition gw_sched_one :: "('d, 'k, 'b, 'f) GwEnv \<Rightarrow> ('d, 'b, 'f) GatewaySvc \<Rightarrow> ('d, 'b, 'f) GatewaySvc" where
  "gw_sched_one G gs =
     (case PopFront (gs_schedQueue gs) of
        (None, q) \<Rightarrow> gs\<lparr>gs_schedQueue := q\<rparr>
      | (Some task, q) \<Rightarrow>
          (if oi_RetryAt (wr_Order task) > Unix (ge_now G) then gs\<lparr>gs_schedQueue := Push q task\<rparr>
           else
             (case gw_process G (gs\<lparr>gs_schedQueue := q\<rparr>) (wr_Order task) of
                (None, order, gs2) \<Rightarrow> gs2
              | (Some _, order, gs2) \<Rightarrow>
                  gs2\<lparr>gs_schedQueue := Push (gs_schedQueue gs2) (task\<lparr>wr_Order := order\<rparr>)\<rparr>)))"

text \<open>One message of the completion channel.\<close>

definition completeLoop_one :: "('d, 'b, 'f) GatewaySvc \<Rightarrow> ('d, 'b, 'f) GatewaySvc" where
  "completeLoop_one gs =
     (case gs_completeChan gs of
        [] \<Rightarrow> gs
      | dataId # rest \<Rightarrow> gs\<lparr>gs_completeChan := rest, gs_completeMap := (gs_completeMap gs)(dataId := None)\<rparr>)"

end
