(* ===== verification/Gateway_Handlers.thy ===== *)
theory Gateway_Handlers
  imports Gateway_Service
begin

text \<open>
  The rest of the gateway (\<^verbatim>\<open>src/node/gateway/gateway_service.go\<close>): the handlers of the gateway protocol
  (\<^verbatim>\<open>HandleShardComplete\<close>, \<^verbatim>\<open>HandleShardStore\<close>), commits, metadata and content, the rescheduling of orders that time
  out, and the queries on the persisted orders.
\<close>

section \<open>Completion of a shard\<close>

definition complete_error :: "string \<Rightarrow> u64 \<Rightarrow> ShardCompleteResp" where
  "complete_error msg code = \<lparr>scr_Code = code, scr_Message = msg, scr_Recoverable = False\<rparr>"

text \<open>The checks against the chain: the message of the completion and the order it names.\<close>

definition check_complete ::
  "('d, 'k, 'b, 'f) GwEnv \<Rightarrow> ('d, 'b, 'f) GatewaySvc \<Rightarrow> ShardCompleteReq \<Rightarrow> (ShardCompleteResp + MsgComplete \<times> FullOrder) outcome" where
  "check_complete G gs req =
     (let fail = (\<lambda>msg code. Return (Inl (complete_error msg code))) in
      case ch_GetTx (ge_chain G) (scq_TxHash req) (scq_Height req) of
        Inl err \<Rightarrow> fail (''failed to get transaction '' @ scq_TxHash req @ ''('' @ show_int (scq_Height req) @ '') at height(''
                         @ ge_fmt_d G err @ '')'') ErrorCodeInternalErr
      | Inr resultTx \<Rightarrow>
          if rt_Code resultTx \<noteq> 0 then
            fail (''tx '' @ scq_TxHash req @ '' failed with code '' @ show_u64 (rt_Code resultTx)) ErrorCodeInvalidTx
          else
            (case tc_Tx (ge_tx G) (rt_Tx resultTx) of
               Inl err \<Rightarrow> fail (''failed to decode tx('' @ scq_TxHash req @ '') body: '' @ Error err) ErrorCodeInvalidTx
             | Inr body \<Rightarrow>
                 bind_outcome (first_message body) (\<lambda>msg.
                   case tc_MsgComplete (ge_tx G) msg of
                     Inl err \<Rightarrow> fail (''failed to decode tx('' @ scq_TxHash req @ '') body: '' @ Error err) ErrorCodeInvalidTx
                   | Inr m \<Rightarrow>
                       (case ch_GetOrder (ge_chain G) (mcm_OrderId m) of
                          Inl err \<Rightarrow> fail (''get order('' @ show_u64 (mcm_OrderId m) @ '') on chain error: '' @ Error err) ErrorCodeInternalErr
                        | Inr order \<Rightarrow>
                            if fo_Provider order \<noteq> gs_nodeAddress gs then
                              fail (''order '' @ show_u64 (mcm_OrderId m) @ '' provider is '' @ fo_Provider order @ '', not '' @ gs_nodeAddress gs)
                                ErrorCodeInvalidOrderProvider
                            else
                              (let shardCids = map (\<lambda>(_, shard). cs_Cid shard) (filter (\<lambda>(key, _). key = mcm_Provider m) (fo_Shards order))
                               in if shardCids = [] then
                                    fail (''order '' @ show_u64 (mcm_OrderId m) @ '' doesn't have shard provider '' @ mcm_Provider m)
                                      ErrorCodeInvalidProvider
                                  else
                                    (case find (\<lambda>c. cid_String (lib_cid (ge_libs G)) c \<notin> set shardCids) (scq_Cids req) of
                                       Some c \<Rightarrow> fail (cid_String (lib_cid (ge_libs G)) c @ '' is not in the given order '' @ show_u64 (mcm_OrderId m))
                                                   ErrorCodeInvalidShardCid
                                     | None \<Rightarrow> Return (Inr (m, order))))))))"

text \<open>The shard of the order is a copy of the map entry: setting its state does not change the order.\<close>

definition HandleShardComplete ::
  "('d, 'k, 'b, 'f) GwEnv \<Rightarrow> ('d, 'b, 'f) GatewaySvc \<Rightarrow> ShardCompleteReq \<Rightarrow> (ShardCompleteResp \<times> ('d, 'b, 'f) GatewaySvc) outcome" where
  "HandleShardComplete G gs req =
     bind_outcome (check_complete G gs req) (\<lambda>r.
       case r of
         Inl resp \<Rightarrow> Return (resp, gs)
       | Inr (m, order) \<Rightarrow>
           (case GetOrder (ge_libs G) (gs_orderDs gs) (scq_DataId req) of
              Inl err \<Rightarrow> Return (complete_error (''get order on chain error: '' @ Error err) ErrorCodeInternalErr, gs)
            | Inr orderInfo \<Rightarrow>
                (let copy = (case map_of (oi_Shards orderInfo) (mcm_Provider m) of None \<Rightarrow> OrderShardInfo_zero | Some s \<Rightarrow> s)
                            \<lparr>osi_State := ShardStateCompleted, osi_CompleteHash := scq_TxHash req\<rparr>;
                     gs1 = save_order G gs orderInfo;
                     done = \<lparr>scr_Code = 0, scr_Message = [], scr_Recoverable = False\<rparr>
                 in if oi_State orderInfo \<noteq> OrderStateComplete \<and> allShardsCompleted order then
                      (let orderInfo' = orderInfo\<lparr>oi_State := OrderStateComplete\<rparr>;
                           gs2 = save_order G gs1 orderInfo';
                           gs3 = gs2\<lparr>gs_files := snd (UnstageShard (ge_fs G) (gs_files gs2) (gs_stagingPath gs2) (oi_Owner orderInfo')
                                                      (cid_String (lib_cid (ge_libs G)) (oi_Cid orderInfo')) (oi_DataId orderInfo'))\<rparr>
                       in Return (done, gs3\<lparr>gs_completeChan := gs_completeChan gs3 @ [oi_DataId orderInfo']\<rparr>))
                    else Return (done, gs1))))"

section \<open>Serving staged content\<close>

definition HandleShardStore ::
  "('d, 'k, 'b, 'f) GwEnv \<Rightarrow> ('d, 'b, 'f) GatewaySvc \<Rightarrow> ShardLoadReq \<Rightarrow> ShardLoadResp" where
  "HandleShardStore G gs req =
     (let resp = \<lparr>slr_Code = 0, slr_Message = [], slr_OrderId = slq_OrderId req, slr_Cid = slq_Cid req, slr_Content = None,
                  slr_RequestId = slq_RequestId req, slr_ResponseId = UnixMilli (ge_now G)\<rparr>
      in case GetStagedShard (ge_fs G) (lib_cid (ge_libs G)) (gs_files gs) (gs_stagingPath gs) (slq_Owner req) (slq_Cid req) (slq_DataId req) of
           Inl err \<Rightarrow> resp\<lparr>slr_Code := ErrorCodeInternalErr,
                           slr_Message := ''Get staged shard('' @ cid_String (lib_cid (ge_libs G)) (slq_Cid req) @ '') error: '' @ Error err\<rparr>
         | Inr contentBytes \<Rightarrow> resp\<lparr>slr_Content := Some contentBytes\<rparr>)"

section \<open>Metadata\<close>

definition QueryMeta :: "('d, 'k, 'b, 'f) GwEnv \<Rightarrow> MetadataProposalCbor \<Rightarrow> int \<Rightarrow> Model res" where
  "QueryMeta G req height =
     (case ch_QueryMetadata (ge_chain G) req height of
        Inl err \<Rightarrow> Inl err
      | Inr (md, sms) \<Rightarrow>
          if length (md_Commits md) > 0 then
            (let commit = last (md_Commits md)
             in case ParseMetaCommit commit of
                  Inl _ \<Rightarrow> Inl (Wrapf ErrInvalidCommitInfo (''invalid commit information: '' @ commit))
                | Inr commitInfo \<Rightarrow>
                    Inr \<lparr>mo_DataId = md_DataId md, mo_Alias = md_Alias md, mo_GroupId = md_GroupId md, mo_OrderId = md_OrderId md,
                         mo_Owner = md_Owner md, mo_Tags = md_Tags md, mo_Cid = md_Cid md, mo_Shards = sms,
                         mo_CommitId = mc_CommitId commitInfo, mo_Commits = md_Commits md, mo_Version = [], mo_Content = None,
                         mo_ExtendInfo = md_ExtendInfo md\<rparr>)
          else Inl (Wrapf ErrInvalidCommitInfo ''no commit information''))"

section \<open>Fetching content\<close>

definition buildRelayProposal ::
  "('d, 'k, 'b, 'f) GwEnv \<Rightarrow> ('d, 'b, 'f) GatewaySvc \<Rightarrow> gw_protocol \<Rightarrow> string \<Rightarrow> RelayProposalCbor" where
  "buildRelayProposal G gs gp peerInfos =
     (let none = \<lparr>rpc_Proposal = RelayProposal_zero, rpc_Signature = []\<rparr>;
          proposal = \<lparr>rp_NodeAddress = gs_nodeAddress gs, rp_LocalPeerId = gs_localPeerId gs,
                      rp_RelayPeerIds = ge_GetPeers G gp, rp_TargetPeerInfo = peerInfos\<rparr>
      in if ge_GetPeers G gp = [] then none
         else
           (case ge_MarshalRelay G proposal of
              Inl _ \<Rightarrow> none
            | Inr buf \<Rightarrow>
                (case ge_SignByAddress G (gs_nodeAddress gs) buf of
                   Inl _ \<Rightarrow> none
                 | Inr signature \<Rightarrow> \<lparr>rpc_Proposal = proposal, rpc_Signature = signature\<rparr>)))"

definition FetchShard ::
  "('d, 'k, 'b, 'f) GwEnv \<Rightarrow> ('d, 'b, 'f) GatewaySvc \<Rightarrow> string \<Rightarrow> string \<Rightarrow> string \<Rightarrow> string \<Rightarrow> u64 \<Rightarrow> ShardLoadResp" where
  "FetchShard G gs provider cidStr peer dataId orderId =
     (let gp = gw_protocol_for gs provider
      in case cid_Decode (lib_cid (ge_libs G)) cidStr of
           Inl _ \<Rightarrow> \<lparr>slr_Code = 1, slr_Message = ''invalid cid'', slr_OrderId = 0, slr_Cid = Undef, slr_Content = None,
                     slr_RequestId = 0, slr_ResponseId = 0\<rparr>
         | Inr shardCid \<Rightarrow>
             ge_RequestShardLoad G gp
               \<lparr>slq_Owner = gs_nodeAddress gs, slq_DataId = dataId, slq_OrderId = orderId, slq_Cid = shardCid,
                slq_Proposal = \<lparr>mpc_Proposal = QueryProposal_zero\<lparr>qp_Owner := gs_nodeAddress gs, qp_Gateway := gs_nodeAddress gs\<rparr>,
                                mpc_JwsSignature = JwsSignature_zero\<rparr>,
                slq_RequestId = UnixMilli (ge_now G), slq_RelayProposal = buildRelayProposal G gs gp peer\<rparr> peer)"

record FetchResult =
  fr_Cid :: string
  fr_Content :: "bytes option"

text \<open>The loop over the shards: a whole replica ends it, a fragment is collected under its shard id.\<close>

fun fetch_shards ::
  "('d, 'k, 'b, 'f) GwEnv \<Rightarrow> ('d, 'b, 'f) GatewaySvc \<Rightarrow> MetadataProposalCbor \<Rightarrow> Model \<Rightarrow> (string \<times> ShardMeta) list
     \<Rightarrow> (u64 \<times> bytes option) list \<Rightarrow> ((cid \<times> bytes option) option \<times> (u64 \<times> bytes option) list) res" where
  "fetch_shards G gs req meta [] contentList = Inr (None, contentList)"
| "fetch_shards G gs req meta ((key, shard) # rest) contentList =
     (if (case map_of contentList (sm_ShardId shard) of Some (Some _) \<Rightarrow> True | _ \<Rightarrow> False)
      then fetch_shards G gs req meta rest contentList
      else
        (case cid_Decode (lib_cid (ge_libs G)) (sm_Cid shard) of
           Inl _ \<Rightarrow> Inl (Wrapf ErrInvalidCid (sm_Cid shard))
         | Inr shardCid \<Rightarrow>
             (let gp = gw_protocol_for gs key;
                  resp = ge_RequestShardLoad G gp
                    \<lparr>slq_Owner = [], slq_DataId = mo_DataId meta, slq_OrderId = mo_OrderId meta, slq_Cid = shardCid,
                     slq_Proposal = req, slq_RequestId = UnixMilli (ge_now G),
                     slq_RelayProposal = buildRelayProposal G gs gp (sm_Peer shard)\<rparr> (sm_Peer shard)
              in if slr_Code resp = 0 then
                   (if mo_Cid meta = sm_Cid shard then Inr (Some (shardCid, slr_Content resp), contentList)
                    else fetch_shards G gs req meta rest (AList.update (sm_ShardId shard) (slr_Content resp) contentList))
                 else fetch_shards G gs req meta rest contentList)))"

definition Type_Prefix_File :: string where "Type_Prefix_File = ''file_''"

text \<open>Large content and files are also written below the server path, and to the content store.\<close>

definition publish_content ::
  "('d, 'k, 'b, 'f) GwEnv \<Rightarrow> ('d, 'b, 'f) GatewaySvc \<Rightarrow> Model \<Rightarrow> cid \<Rightarrow> bytes \<Rightarrow> (goerr option \<times> ('d, 'b, 'f) GatewaySvc) outcome" where
  "publish_content G gs meta contentCid content =
     (if int (length content) > ge_ContentLimit G \<or> HasPrefix (mo_Alias meta) Type_Prefix_File then
        (case fs_Expand (ge_fs G) (gs_serverPath gs) of
           Inl _ \<Rightarrow> Return (Some (Wrapf ErrInvalidPath (gs_serverPath gs)), gs)
         | Inr path \<Rightarrow>
             (case fs_Create (ge_fs G) (gs_files gs) (path_Join [path, mo_DataId meta]) of
                (Some e, f) \<Rightarrow> Return (Some (Wrap ErrInvalidPath (Some e)), gs\<lparr>gs_files := f\<rparr>)
              | (None, f) \<Rightarrow>
                  (case fs_Write (ge_fs G) f (path_Join [path, mo_DataId meta]) content of
                     (Some e, f') \<Rightarrow> Return (Some (Wrap ErrWriteFileFailed (Some e)), gs\<lparr>gs_files := f'\<rparr>)
                   | (None, f') \<Rightarrow>
                       if ge_SaoIpfs G then
                         bind_outcome (SM_Store (ge_backend G) (gs_storeManager gs) contentCid content) (\<lambda>(err, sm).
                           let gs' = gs\<lparr>gs_files := f', gs_storeManager := sm\<rparr>
                           in case err of
                                Some e \<Rightarrow> Return (Some (Wrap ErrStoreFailed (Some e)), gs')
                              | None \<Rightarrow> Return (None, gs'))
                       else Return (None, gs\<lparr>gs_files := f'\<rparr>))))
      else Return (None, gs))"

definition FetchContent ::
  "('d, 'k, 'b, 'f) GwEnv \<Rightarrow> ('d, 'b, 'f) GatewaySvc \<Rightarrow> MetadataProposalCbor \<Rightarrow> Model \<Rightarrow> (FetchResult res \<times> ('d, 'b, 'f) GatewaySvc) outcome" where
  "FetchContent G gs req meta =
     (let publish = (\<lambda>contentCid content res.
            bind_outcome (publish_content G gs meta contentCid content) (\<lambda>(err, gs').
              Return (case err of Some e \<Rightarrow> Inl e | None \<Rightarrow> Inr res, gs')))
      in case fetch_shards G gs req meta (mo_Shards meta) [] of
           Inl err \<Rightarrow> Return (Inl err, gs)
         | Inr (Some (shardCid, content), contentList) \<Rightarrow>
             if content = None \<and> contentList = [] then Return (Inl (Wrapf ErrFailuresResponsed (mo_DataId meta)), gs)
             else publish shardCid (slice content) \<lparr>fr_Cid = mo_Cid meta, fr_Content = content\<rparr>
         | Inr (None, contentList) \<Rightarrow>
             if contentList = [] then Return (Inl (Wrapf ErrFailuresResponsed (mo_DataId meta)), gs)
             else
               (let content = concat (map (\<lambda>(_, c). slice c) (ge_range G contentList))
                in case CalculateCid (ge_Sum G) content of
                     Inl err \<Rightarrow> Return (Inl err, gs)
                   | Inr contentCid \<Rightarrow>
                       (let s = cid_String (lib_cid (ge_libs G)) contentCid
                        in if s \<noteq> mo_Cid meta then Return (Inl (Wrapf ErrInvalidCid s), gs)
                           else publish contentCid content \<lparr>fr_Cid = s, fr_Content = (if content = [] then None else Some content)\<rparr>)))"

section \<open>Committing content\<close>

record CommitResult =
  cr_OrderId :: u64
  cr_DataId :: string
  cr_Commit :: string
  cr_Commits :: "string list"
  cr_Cid :: string
  cr_Height :: int
  cr_Shards :: "(string \<times> ShardMeta) list"

text \<open>The shards the chain assigned, by storage node.\<close>

definition order_shards :: "ShardMeta list \<Rightarrow> (string \<times> OrderShardInfo) list" where
  "order_shards sms =
     fold (\<lambda>s m. AList.update (sm_Sp s)
             \<lparr>osi_ShardId = sm_ShardId s, osi_Peer = sm_Peer s, osi_Cid = sm_Cid s, osi_Provider = sm_Provider s,
              osi_State = ShardStateAssigned, osi_CompleteHash = []\<rparr> m) sms []"

text \<open>The transaction that creates the order or marks an existing one as ready: order id, shards, hash, height
  and kind.\<close>

definition send_order ::
  "('d, 'k, 'b, 'f) GwEnv \<Rightarrow> StoreProposal \<Rightarrow> bytes \<Rightarrow> u64 \<Rightarrow> ('d, 'b, 'f) GatewaySvc
     \<Rightarrow> (u64 \<times> ShardMeta list \<times> string \<times> int \<times> string) res \<times> ('d, 'b, 'f) GatewaySvc" where
  "send_order G proposal signatureBytes orderId gs =
     (if orderId = 0 then
        (case ge_UnmarshalJws G signatureBytes of
           Inl err \<Rightarrow> (Inl err, gs)
         | Inr signature \<Rightarrow>
             (let gs' = gs\<lparr>gs_trace := gs_trace gs @ [EvStoreOrder proposal]\<rparr>
              in case ch_StoreOrder (ge_chain G) (gs_nodeAddress gs) (proposal, signature) of
                   Inl err \<Rightarrow> (Inl err, gs')
                 | Inr (newId, sms, txHash, height) \<Rightarrow> (Inr (newId, sms, txHash, height, AssignTxTypeStore), gs')))
      else
        (let gs' = gs\<lparr>gs_trace := gs_trace gs @ [EvOrderReady orderId]\<rparr>
         in case ch_OrderReady (ge_chain G) (gs_nodeAddress gs) orderId of
              Inl err \<Rightarrow> (Inl err, gs')
            | Inr (newId, sms, txHash, height) \<Rightarrow> (Inr (newId, sms, txHash, height, AssignTxTypeReady), gs')))"

definition ready_order :: "('d, 'k, 'b, 'f) GwEnv \<Rightarrow> OrderInfo \<Rightarrow> u64 \<times> ShardMeta list \<times> string \<times> int \<times> string \<Rightarrow> OrderInfo" where
  "ready_order G orderInfo sent =
     (case sent of (newId, sms, txHash, height, txType) \<Rightarrow>
        (let o1 = orderInfo\<lparr>oi_OrderId := newId, oi_OrderHash := txHash, oi_OrderHeight := height, oi_OrderTxType := txType,
                            oi_State := OrderStateReady, oi_Shards := order_shards sms\<rparr>
         in case ch_GetOrder (ge_chain G) newId of
              Inl _ \<Rightarrow> o1
            | Inr order \<Rightarrow> o1\<lparr>oi_ExpireHeight := fo_CreatedAt order + fo_Timeout order\<rparr>))"

definition add_timeout :: "u64 \<Rightarrow> OrderInfo \<Rightarrow> ('d, 'b, 'f) GatewaySvc \<Rightarrow> ('d, 'b, 'f) GatewaySvc" where
  "add_timeout h order gs =
     gs\<lparr>gs_timeoutMap := (gs_timeoutMap gs)(h \<mapsto>
          (case gs_timeoutMap gs h of None \<Rightarrow> [] | Some infos \<Rightarrow> infos) @ [order])\<rparr>"

text \<open>From the staged order to the answer.\<close>

definition commit_order ::
  "('d, 'k, 'b, 'f) GwEnv \<Rightarrow> StoreProposal \<Rightarrow> bytes \<Rightarrow> OrderInfo \<Rightarrow> ('d, 'b, 'f) GatewaySvc \<Rightarrow> CommitResult res \<times> ('d, 'b, 'f) GatewaySvc" where
  "commit_order G proposal signatureBytes orderInfo gs =
     (case send_order G proposal signatureBytes (oi_OrderId orderInfo) gs of
        (Inl err, gs1) \<Rightarrow> (Inl err, gs1)
      | (Inr sent, gs1) \<Rightarrow>
          (let ready = ready_order G orderInfo sent
           in case SaveOrder (ge_libs G) (gs_orderDs gs1) ready of
                (Some e, d) \<Rightarrow> (Inl e, gs1\<lparr>gs_orderDs := d\<rparr>)
              | (None, d) \<Rightarrow>
                  (let gs2 = add_timeout (oi_ExpireHeight ready) ready (push_order ready (gs1\<lparr>gs_orderDs := d\<rparr>))
                   in case GetOrder (ge_libs G) (gs_orderDs gs2) (oi_DataId ready) of
                        Inl err \<Rightarrow> (Inl err, gs2)
                      | Inr oi \<Rightarrow>
                          (Inr \<lparr>cr_OrderId = oi_OrderId oi, cr_DataId = oi_DataId oi, cr_Commit = [], cr_Commits = [],
                                cr_Cid = cid_String (lib_cid (ge_libs G)) (oi_Cid oi), cr_Height = oi_OrderHeight oi, cr_Shards = []\<rparr>, gs2))))"

definition CommitModel ::
  "('d, 'k, 'b, 'f) GwEnv \<Rightarrow> ('d, 'b, 'f) GatewaySvc \<Rightarrow> StoreProposal \<Rightarrow> JwsSignature \<Rightarrow> u64 \<Rightarrow> bytes
     \<Rightarrow> CommitResult res \<times> ('d, 'b, 'f) GatewaySvc" where
  "CommitModel G gs clientProposal jws orderId content =
     (case StageShard (ge_fs G) (gs_files gs) (gs_stagingPath gs) clientProposal content of
        (Inl err, f) \<Rightarrow> (Inl err, gs\<lparr>gs_files := f\<rparr>)
      | (Inr stagePath, f) \<Rightarrow>
          (let gs0 = gs\<lparr>gs_files := f\<rparr>
           in case ge_MarshalProposal G clientProposal of
                Inl err \<Rightarrow> (Inl err, gs0)
              | Inr proposalBytes \<Rightarrow>
                  (case ge_MarshalJws G jws of
                     Inl err \<Rightarrow> (Inl err, gs0)
                   | Inr signatureBytes \<Rightarrow>
                       (case cid_Decode (lib_cid (ge_libs G)) (prop_Cid clientProposal) of
                          Inl err \<Rightarrow> (Inl err, gs0)
                        | Inr c \<Rightarrow>
                            (let orderInfo = OrderInfo_zero\<lparr>oi_State := OrderStateStaged, oi_StagePath := stagePath,
                                   oi_DataId := prop_DataId clientProposal, oi_OrderId := orderId,
                                   oi_Owner := prop_Owner clientProposal, oi_Cid := c\<rparr>
                             in case SaveOrder (ge_libs G) (gs_orderDs gs0) orderInfo of
                                  (Some e, d) \<Rightarrow> (Inl e, gs0\<lparr>gs_orderDs := d\<rparr>)
                                | (None, d) \<Rightarrow>
                                    (case ge_UnmarshalProposal G proposalBytes of
                                       Inl err \<Rightarrow> (Inl err, gs0\<lparr>gs_orderDs := d\<rparr>)
                                     | Inr proposal \<Rightarrow> commit_order G proposal signatureBytes orderInfo (gs0\<lparr>gs_orderDs := d\<rparr>)))))))"

section \<open>Terminating and renewing orders, permissions\<close>

definition TerminateOrder ::
  "('d, 'k, 'b, 'f) GwEnv \<Rightarrow> ('d, 'b, 'f) GatewaySvc \<Rightarrow> TerminateProposal \<times> JwsSignature \<Rightarrow> goerr option \<times> ('d, 'b, 'f) GatewaySvc" where
  "TerminateOrder G gs req =
     (err_of (ch_TerminateOrder (ge_chain G) (gs_nodeAddress gs) req), gs\<lparr>gs_trace := gs_trace gs @ [EvTerminateOrder (fst req)]\<rparr>)"

definition RenewOrder ::
  "('d, 'k, 'b, 'f) GwEnv \<Rightarrow> ('d, 'b, 'f) GatewaySvc \<Rightarrow> RenewProposal \<times> JwsSignature \<Rightarrow> (string \<times> string) list res \<times> ('d, 'b, 'f) GatewaySvc" where
  "RenewOrder G gs req =
     (case ch_RenewOrder (ge_chain G) (gs_nodeAddress gs) req of Inl err \<Rightarrow> Inl err | Inr (_, results) \<Rightarrow> Inr results,
      gs\<lparr>gs_trace := gs_trace gs @ [EvRenewOrder (fst req)]\<rparr>)"

definition UpdateModelPermission ::
  "('d, 'k, 'b, 'f) GwEnv \<Rightarrow> ('d, 'b, 'f) GatewaySvc \<Rightarrow> PermissionProposal \<times> JwsSignature \<Rightarrow> goerr option \<times> ('d, 'b, 'f) GatewaySvc" where
  "UpdateModelPermission G gs req =
     (err_of (ch_UpdatePermission (ge_chain G) (gs_nodeAddress gs) req), gs\<lparr>gs_trace := gs_trace gs @ [EvUpdatePermission (fst req)]\<rparr>)"

section \<open>Orders that time out\<close>

text \<open>The shards of the order on chain that have not timed out.\<close>

definition chain_shards :: "('d, 'k, 'b, 'f) GwEnv \<Rightarrow> FullOrder \<Rightarrow> (string \<times> OrderShardInfo) list" where
  "chain_shards G order =
     map (\<lambda>(sp, shard). (sp, \<lparr>osi_ShardId = cs_Id shard,
            osi_Peer = (case ch_GetNodePeer (ge_chain G) sp of Inl _ \<Rightarrow> [] | Inr peer \<Rightarrow> peer),
            osi_Cid = cs_Cid shard, osi_Provider = fo_Provider order,
            osi_State = (if cs_Status shard = ShardCompleted then ShardStateCompleted else ShardStateAssigned),
            osi_CompleteHash = []\<rparr>))
       (filter (\<lambda>(_, shard). cs_Status shard \<noteq> ShardTimeout) (fo_Shards order))"

definition reschedule :: "('d, 'k, 'b, 'f) GwEnv \<Rightarrow> OrderInfo \<Rightarrow> ('d, 'b, 'f) GatewaySvc \<Rightarrow> ('d, 'b, 'f) GatewaySvc" where
  "reschedule G orderInfo gs =
     (case ch_GetOrder (ge_chain G) (oi_OrderId orderInfo) of
        Inl _ \<Rightarrow> gs
      | Inr order \<Rightarrow>
          if allShardsCompleted order then gs
          else
            (let orderInfo' = orderInfo\<lparr>oi_Shards := chain_shards G order,
                   oi_ExpireHeight := oi_ExpireHeight orderInfo + fo_Timeout order, oi_Tries := 0, oi_State := OrderStateReady\<rparr>
             in add_timeout (oi_ExpireHeight orderInfo') orderInfo' (push_order orderInfo' gs)))"

definition timeout_at :: "('d, 'k, 'b, 'f) GwEnv \<Rightarrow> u64 \<Rightarrow> ('d, 'b, 'f) GatewaySvc \<Rightarrow> ('d, 'b, 'f) GatewaySvc" where
  "timeout_at G h gs = (case gs_timeoutMap gs h of None \<Rightarrow> gs | Some infos \<Rightarrow> fold (reschedule G) infos gs)"

text \<open>The loop over the heights since the last round, up to the newest.\<close>

function timeout_scan :: "('d, 'k, 'b, 'f) GwEnv \<Rightarrow> u64 \<Rightarrow> u64 \<Rightarrow> ('d, 'b, 'f) GatewaySvc \<Rightarrow> ('d, 'b, 'f) GatewaySvc" where
  "timeout_scan G h newHeight gs =
     (let gs1 = timeout_at G h gs
      in if h = newHeight then gs1
         else timeout_scan G (h + 1) newHeight (gs1\<lparr>gs_timeoutMap := (gs_timeoutMap gs1)(h := None)\<rparr>))"
  by pat_completeness auto

termination
proof (relation "measure (\<lambda>(G, h, newHeight, gs). unat (newHeight - h))")
  fix h newHeight :: u64 and G :: "('a, 'b, 'c, 'd) GwEnv" and gs gs1 :: "('a, 'c, 'd) GatewaySvc"
  assume "h \<noteq> newHeight"
  then have "unat (newHeight - h - 1) < unat (newHeight - h)"
    using measure_unat [of "newHeight - h"] by simp
  then show "((G, h + 1, newHeight, gs1\<lparr>gs_timeoutMap := (gs_timeoutMap gs1)(h := None)\<rparr>), G, h, newHeight, gs)
      \<in> measure (\<lambda>(G, h, newHeight, gs). unat (newHeight - h))"
    by (simp add: diff_diff_add)
qed simp

declare timeout_scan.simps [simp del]

text \<open>One round of the loop in \<^verbatim>\<open>checkTimeout\<close>, with the height reached so far.\<close>

definition timeout_round :: "('d, 'k, 'b, 'f) GwEnv \<Rightarrow> u64 \<Rightarrow> ('d, 'b, 'f) GatewaySvc \<Rightarrow> u64 \<times> ('d, 'b, 'f) GatewaySvc" where
  "timeout_round G latestHeight gs =
     (case ch_GetLastHeight (ge_chain G) of
        Inl _ \<Rightarrow> (latestHeight, gs)
      | Inr height \<Rightarrow>
          (let newHeight = to_uint64 height
           in if newHeight \<le> latestHeight then (latestHeight, gs)
              else (newHeight, timeout_scan G (latestHeight + 1) newHeight gs)))"

text \<open>The timeout map after a restart; an order with timeout 0 is a division by zero.\<close>

fun restore_timeouts ::
  "('d, 'k, 'b, 'f) GwEnv \<Rightarrow> u64 \<Rightarrow> string list \<Rightarrow> OrderKey list \<Rightarrow> ('d, 'b, 'f) GatewaySvc \<Rightarrow> ('d, 'b, 'f) GatewaySvc outcome" where
  "restore_timeouts G height metaSet [] gs = Return gs"
| "restore_timeouts G height metaSet (key # keys) gs =
     (let continue = restore_timeouts G height (ok_DataId key # metaSet) keys in
      if ok_DataId key \<in> set metaSet then restore_timeouts G height metaSet keys gs
      else
        (case GetOrder (ge_libs G) (gs_orderDs gs) (ok_DataId key) of
           Inl _ \<Rightarrow> continue gs
         | Inr orderInfo \<Rightarrow>
             (case ch_GetMeta (ge_chain G) (ok_DataId key) of
                Inl _ \<Rightarrow> continue gs
              | Inr meta \<Rightarrow>
                  if md_Complete meta then continue gs
                  else
                    (case ch_GetOrder (ge_chain G) (md_OrderId meta) of
                       Inl _ \<Rightarrow> continue gs
                     | Inr order \<Rightarrow>
                         if fo_Timeout order = 0 then Panic
                         else
                           (let timeoutAt = (height - fo_CreatedAt order) div fo_Timeout order * fo_Timeout order + fo_CreatedAt order
                            in continue (add_timeout timeoutAt
                                 (orderInfo\<lparr>oi_OrderId := md_OrderId meta, oi_ExpireHeight := timeoutAt + fo_Timeout order\<rparr>) gs))))))"

definition checkTimeout_init :: "('d, 'k, 'b, 'f) GwEnv \<Rightarrow> ('d, 'b, 'f) GatewaySvc \<Rightarrow> ('d, 'b, 'f) GatewaySvc outcome" where
  "checkTimeout_init G gs =
     (let height = (case ch_GetLastHeight (ge_chain G) of Inl _ \<Rightarrow> 0 | Inr h \<Rightarrow> h)
      in case GetOrderIndex (ge_libs G) (gs_orderDs gs) of
           Inl _ \<Rightarrow> Return gs
         | Inr index \<Rightarrow> restore_timeouts G (to_uint64 height) [] (ox_Alls index) gs)"

section \<open>Queries\<close>

definition OrderStatus :: "('d, 'k, 'b, 'f) GwEnv \<Rightarrow> ('d, 'b, 'f) GatewaySvc \<Rightarrow> string \<Rightarrow> OrderInfo res" where
  "OrderStatus G gs dataId = GetOrder (ge_libs G) (gs_orderDs gs) dataId"

definition getOrderKeys :: "('d, 'k, 'b, 'f) GwEnv \<Rightarrow> ('d, 'b, 'f) GatewaySvc \<Rightarrow> OrderKey list res" where
  "getOrderKeys G gs = map_sum id ox_Alls (GetOrderIndex (ge_libs G) (gs_orderDs gs))"

fun load_orders :: "('d, 'k, 'b, 'f) GwEnv \<Rightarrow> ('d, 'b, 'f) GatewaySvc \<Rightarrow> OrderKey list \<Rightarrow> OrderInfo list res" where
  "load_orders G gs [] = Inr []"
| "load_orders G gs (k # ks) =
     (case GetOrder (ge_libs G) (gs_orderDs gs) (ok_DataId k) of
        Inl err \<Rightarrow> Inl err
      | Inr order \<Rightarrow> map_sum id ((#) order) (load_orders G gs ks))"

definition OrderList :: "('d, 'k, 'b, 'f) GwEnv \<Rightarrow> ('d, 'b, 'f) GatewaySvc \<Rightarrow> OrderInfo list res" where
  "OrderList G gs = (case getOrderKeys G gs of Inl err \<Rightarrow> Inl err | Inr keys \<Rightarrow> load_orders G gs keys)"

definition OrderFix :: "('d, 'k, 'b, 'f) GwEnv \<Rightarrow> ('d, 'b, 'f) GatewaySvc \<Rightarrow> string \<Rightarrow> goerr option \<times> ('d, 'b, 'f) GatewaySvc" where
  "OrderFix G gs dataId =
     (case GetOrder (ge_libs G) (gs_orderDs gs) dataId of
        Inl err \<Rightarrow> (Some err, gs)
      | Inr orderInfo \<Rightarrow> (None, push_order orderInfo gs))"

definition getPendingOrders :: "('d, 'k, 'b, 'f) GwEnv \<Rightarrow> ('d, 'b, 'f) GatewaySvc \<Rightarrow> OrderInfo list res" where
  "getPendingOrders G gs =
     (case getOrderKeys G gs of
        Inl err \<Rightarrow> Inl err
      | Inr keys \<Rightarrow> map_sum id (filter (\<lambda>order. oi_State order \<noteq> OrderStateComplete)) (load_orders G gs keys))"

definition processIncompleteOrders :: "('d, 'k, 'b, 'f) GwEnv \<Rightarrow> ('d, 'b, 'f) GatewaySvc \<Rightarrow> ('d, 'b, 'f) GatewaySvc" where
  "processIncompleteOrders G gs =
     (case getPendingOrders G gs of Inl _ \<Rightarrow> gs | Inr pendings \<Rightarrow> fold push_order pendings gs)"

definition lockname :: "u64 \<Rightarrow> string" where
  "lockname orderId = ''lk-order-'' @ show_u64 orderId"

end
