(* ===== verification/Gateway_Invariant.thy ===== *)
theory Gateway_Invariant
  imports Gateway_Handlers Record_Reads
begin

text \<open>
  The gateway as a transition system, as for the storage node: its calls in any order, interleaved with
  crashes that lose the queue, the timeout map and the completion map and keep the datastore and the files.
  In every reachable state the persisted orders are sound and every order that is queued or waits for its
  timeout can be persisted.
\<close>

definition order_good :: "OrderInfo \<Rightarrow> bool" where
  "order_good order \<longleftrightarrow> OrderInfo_ok order \<and> is_dataid (oi_DataId order)"

text \<open>The clock and the heights are int64, and the shards of an order on chain are a Go map.\<close>

definition gw_env_ok :: "('d, 'k, 'b, 'f) GwEnv \<Rightarrow> bool" where
  "gw_env_ok G \<longleftrightarrow> int64_ok (ge_now G)
     \<and> (\<forall>a p n ms h k. ch_StoreOrder (ge_chain G) a p = Inr (n, ms, h, k) \<longrightarrow> int64_ok k)
     \<and> (\<forall>a i n ms h k. ch_OrderReady (ge_chain G) a i = Inr (n, ms, h, k) \<longrightarrow> int64_ok k)
     \<and> (\<forall>i order. ch_GetOrder (ge_chain G) i = Inr order \<longrightarrow> distinct (map fst (fo_Shards order)))"

definition gw_inv :: "('d, 'k) libs \<Rightarrow> ('d \<Rightarrow> 'k \<Rightarrow> bytes option) \<Rightarrow> ('d, 'b, 'f) GatewaySvc \<Rightarrow> bool" where
  "gw_inv S contents gs \<longleftrightarrow> store_sound S contents (gs_orderDs gs)
     \<and> (\<forall>w \<in> set (rq_queue (gs_schedQueue gs)). order_good (wr_Order w))
     \<and> (\<forall>h infos. gs_timeoutMap gs h = Some infos \<longrightarrow> (\<forall>order \<in> set infos. order_good order))"

inductive gw_step :: "('d, 'k) libs \<Rightarrow> ('d, 'b, 'f) GatewaySvc \<Rightarrow> ('d, 'b, 'f) GatewaySvc \<Rightarrow> bool" for S where
  sched: "ge_libs G = S \<Longrightarrow> gw_env_ok G \<Longrightarrow> gw_step S gs (gw_sched_one G gs)"
| complete: "ge_libs G = S \<Longrightarrow> gw_env_ok G \<Longrightarrow> is_dataid (scq_DataId req) \<Longrightarrow>
    HandleShardComplete G gs req = Return (resp, gs') \<Longrightarrow> gw_step S gs gs'"
| completed: "gw_step S gs (completeLoop_one gs)"
| commit: "ge_libs G = S \<Longrightarrow> gw_env_ok G \<Longrightarrow> is_dataid (prop_DataId prop) \<Longrightarrow>
    CommitModel G gs prop jws orderId content = (r, gs') \<Longrightarrow> gw_step S gs gs'"
| fetch: "ge_libs G = S \<Longrightarrow> gw_env_ok G \<Longrightarrow> FetchContent G gs req meta = Return (r, gs') \<Longrightarrow> gw_step S gs gs'"
| restore: "ge_libs G = S \<Longrightarrow> gw_env_ok G \<Longrightarrow> checkTimeout_init G gs = Return gs' \<Longrightarrow> gw_step S gs gs'"
| timeout: "ge_libs G = S \<Longrightarrow> gw_env_ok G \<Longrightarrow> timeout_round G latest gs = (latest', gs') \<Longrightarrow> gw_step S gs gs'"
| recover: "ge_libs G = S \<Longrightarrow> gw_env_ok G \<Longrightarrow> gw_step S gs (processIncompleteOrders G gs)"
| fix_order: "ge_libs G = S \<Longrightarrow> gw_env_ok G \<Longrightarrow> is_dataid dataId \<Longrightarrow> OrderFix G gs dataId = (err, gs') \<Longrightarrow> gw_step S gs gs'"
| crash: "gw_step S gs (gs\<lparr>gs_schedQueue := RequestQueue_zero, gs_timeoutMap := Map.empty, gs_completeMap := Map.empty,
    gs_completeChan := []\<rparr>)"

definition fresh_gw :: "('d, 'k) libs \<Rightarrow> ('d \<Rightarrow> 'k \<Rightarrow> bytes option) \<Rightarrow> ('d, 'b, 'f) GatewaySvc \<Rightarrow> bool" where
  "fresh_gw S contents gs \<longleftrightarrow> (\<forall>e. cell S contents (gs_orderDs gs) e = None)
     \<and> rq_queue (gs_schedQueue gs) = [] \<and> gs_timeoutMap gs = Map.empty"

inductive gw_reach :: "('d, 'k) libs \<Rightarrow> ('d \<Rightarrow> 'k \<Rightarrow> bytes option) \<Rightarrow> ('d, 'b, 'f) GatewaySvc \<Rightarrow> bool" for S contents where
  start: "fresh_gw S contents gs \<Longrightarrow> gw_reach S contents gs"
| more: "gw_reach S contents gs \<Longrightarrow> gw_step S gs gs' \<Longrightarrow> gw_reach S contents gs'"

section \<open>Updates that keep the invariant\<close>

lemma gw_inv_same [simp]:
  "gw_inv S contents (gs\<lparr>gs_trace := t\<rparr>) = gw_inv S contents gs"
  "gw_inv S contents (gs\<lparr>gs_files := f\<rparr>) = gw_inv S contents gs"
  "gw_inv S contents (gs\<lparr>gs_storeManager := m\<rparr>) = gw_inv S contents gs"
  "gw_inv S contents (gs\<lparr>gs_completeMap := c\<rparr>) = gw_inv S contents gs"
  "gw_inv S contents (gs\<lparr>gs_completeChan := ch\<rparr>) = gw_inv S contents gs"
  by (simp_all add: gw_inv_def)

lemma order_good_upd [simp]:
  "order_good (order\<lparr>oi_State := s\<rparr>) = order_good order" "order_good (order\<lparr>oi_LastErr := m\<rparr>) = order_good order"
  "order_good (order\<lparr>oi_Tries := n\<rparr>) = order_good order" "order_good (order\<lparr>oi_ExpireHeight := x\<rparr>) = order_good order"
  "order_good (order\<lparr>oi_OrderId := i\<rparr>) = order_good order" "order_good (order\<lparr>oi_OrderHash := h\<rparr>) = order_good order"
  "order_good (order\<lparr>oi_OrderTxType := t\<rparr>) = order_good order"
  by (simp_all add: order_good_def OrderInfo_ok_def)

lemma order_good_shards: "order_good order \<Longrightarrow> distinct (map fst sh) \<Longrightarrow> order_good (order\<lparr>oi_Shards := sh\<rparr>)"
  by (simp add: order_good_def OrderInfo_ok_def)

lemma push_order_inv: "gw_inv S contents gs \<Longrightarrow> order_good order \<Longrightarrow> gw_inv S contents (push_order order gs)"
  by (auto simp: gw_inv_def push_order_def Push_def order_request_def)

lemma add_timeout_inv: "gw_inv S contents gs \<Longrightarrow> order_good order \<Longrightarrow> gw_inv S contents (add_timeout h order gs)"
  by (cases "gs_timeoutMap gs h") (auto simp: gw_inv_def add_timeout_def)

lemma push_orders_inv:
  "gw_inv S contents gs \<Longrightarrow> list_all order_good xs \<Longrightarrow> gw_inv S contents (fold push_order xs gs)"
  by (induction xs arbitrary: gs) (auto intro: push_order_inv)

lemma assign_shards_frame [simp]:
  "gs_orderDs (assign_shards G order xs gs) = gs_orderDs gs" "gs_schedQueue (assign_shards G order xs gs) = gs_schedQueue gs"
  "gs_timeoutMap (assign_shards G order xs gs) = gs_timeoutMap gs" "gs_completeMap (assign_shards G order xs gs) = gs_completeMap gs"
  "gs_completeChan (assign_shards G order xs gs) = gs_completeChan gs" "gs_files (assign_shards G order xs gs) = gs_files gs"
  by (induction G order xs gs rule: assign_shards.induct) (simp_all add: Let_def)

lemma order_shards_distinct: "distinct (map fst (order_shards sms))"
proof -
  have "distinct (map fst m) \<Longrightarrow> distinct (map fst (fold (\<lambda>s m. AList.update (sm_Sp s) (g s) m) sms m))"
    for m and g :: "ShardMeta \<Rightarrow> OrderShardInfo"
    by (induction sms arbitrary: m) (auto simp: distinct_update)
  then show ?thesis by (simp add: order_shards_def)
qed

lemma chain_shards_distinct: "distinct (map fst (fo_Shards order)) \<Longrightarrow> distinct (map fst (chain_shards G order))"
  by (auto simp: chain_shards_def comp_def split_beta intro: distinct_map_filter)

section \<open>Every call keeps it\<close>

locale gw_env = node_libs "ge_libs G" contents
  for G :: "('d, 'k, 'b, 'f) GwEnv" and contents :: "'d \<Rightarrow> 'k \<Rightarrow> bytes option" +
  assumes genv: "gw_env_ok G"
begin

lemma order_ds_inv:
  assumes "gw_inv (ge_libs G) contents gs" and "order_good order" and "SaveOrder (ge_libs G) (gs_orderDs gs) order = (err, d)"
  shows "gw_inv (ge_libs G) contents (gs\<lparr>gs_orderDs := d\<rparr>)"
  using assms store_step_sound [OF store_step.order [OF _ _ assms(3)]] by (auto simp: gw_inv_def order_good_def)

lemma save_order_inv:
  "gw_inv (ge_libs G) contents gs \<Longrightarrow> order_good order \<Longrightarrow> gw_inv (ge_libs G) contents (save_order G gs order)"
  unfolding save_order_def by (erule (1) order_ds_inv) (rule prod.collapse [symmetric])

lemma tried_order_good: "order_good order \<Longrightarrow> order_good (order\<lparr>oi_Tries := n, oi_RetryAt := GetRetryAt (ge_now G) n\<rparr>)"
  using genv GetRetryAt_ok unfolding gw_env_ok_def by (auto simp: order_good_def OrderInfo_ok_def)

lemma GetOrder_good:
  assumes "store_sound (ge_libs G) contents d" and "is_dataid dataId" and "GetOrder (ge_libs G) d dataId = Inr order"
  shows "order_good order"
proof -
  have "sound (ge_libs G) contents (order_kind (ge_libs G)) d" using assms(1) by (simp add: store_sound_def)
  from orders.load_kind_cases [OF this _ assms(3) [unfolded GetOrder_kind]] assms(2) GetOrder_ok [OF assms(3)]
  show ?thesis by (auto simp: order_good_def zero_defs is_dataid_def)
qed

lemma gw_process_inv:
  assumes "gw_inv (ge_libs G) contents gs" and "order_good order" and "gw_process G gs order = (err, order', gs')"
  shows "gw_inv (ge_libs G) contents gs' \<and> order_good order'"
proof -
  let ?o = "order\<lparr>oi_Tries := oi_Tries order + 1, oi_RetryAt := GetRetryAt (ge_now G) (oi_Tries order + 1)\<rparr>"
  have good: "order_good ?o" by (rule tried_order_good [OF assms(2)])
  have i: "gw_inv (ge_libs G) contents (assign_shards G ?o xs gs)" for xs
    using assms(1) by (simp add: gw_inv_def)
  note saved = order_ds_inv [OF i good, unfolded assign_shards_frame]
  from assms good saved show ?thesis
    by (auto simp: gw_process_def Let_def intro!: save_order_inv split: if_splits sum.splits prod.splits option.splits)
qed

lemma gw_sched_inv:
  assumes "gw_inv (ge_libs G) contents gs"
  shows "gw_inv (ge_libs G) contents (gw_sched_one G gs)"
proof (cases "rq_queue (gs_schedQueue gs)")
  case Nil
  with assms show ?thesis by (simp add: gw_sched_one_def PopFront_def)
next
  case (Cons w ws)
  define gs1 where "gs1 = gs\<lparr>gs_schedQueue := \<lparr>rq_queue = ws\<rparr>\<rparr>"
  have pop: "PopFront (gs_schedQueue gs) = (Some w, \<lparr>rq_queue = ws\<rparr>)" using Cons by (simp add: PopFront_def)
  have i: "gw_inv (ge_libs G) contents gs1" "order_good (wr_Order w)" using assms Cons by (auto simp: gs1_def gw_inv_def)
  obtain err order gs2 where p: "gw_process G gs1 (wr_Order w) = (err, order, gs2)" by (metis prod_cases3)
  have q: "gw_inv (ge_libs G) contents (g\<lparr>gs_schedQueue := Push (gs_schedQueue g) (w\<lparr>wr_Order := x\<rparr>)\<rparr>)"
    if "gw_inv (ge_libs G) contents g" "order_good x" for g :: "('d, 'b, 'f) GatewaySvc" and x
    using that by (auto simp: gw_inv_def Push_def)
  have q1: "gw_inv (ge_libs G) contents (gs\<lparr>gs_schedQueue := Push \<lparr>rq_queue = ws\<rparr> w\<rparr>)"
    using i by (auto simp: gw_inv_def Push_def gs1_def)
  from gw_process_inv [OF i p] p pop q q1 show ?thesis
    by (auto simp: gw_sched_one_def gs1_def split: option.splits)
qed

lemma complete_inv:
  assumes "gw_inv (ge_libs G) contents gs" and "is_dataid (scq_DataId req)" and "HandleShardComplete G gs req = Return (resp, gs')"
  shows "gw_inv (ge_libs G) contents gs'"
proof -
  have good: "order_good order" if "GetOrder (ge_libs G) (gs_orderDs gs) (scq_DataId req) = Inr order" for order
    using GetOrder_good [OF _ assms(2) that] assms(1) by (simp add: gw_inv_def)
  from assms(1,3) show ?thesis
    by (auto simp: HandleShardComplete_def Let_def bind_outcome_case good intro!: save_order_inv
        split: if_splits sum.splits outcome.splits prod.splits)
qed

lemma send_order_inv:
  assumes "gw_inv (ge_libs G) contents gs" and "send_order G proposal sig orderId gs = (r, gs')"
  shows "gw_inv (ge_libs G) contents gs'
    \<and> (\<forall>n ms h k t. r = Inr (n, ms, h, k, t) \<longrightarrow> int64_ok k)"
  using assms genv
  by (auto simp: send_order_def Let_def gw_env_ok_def split: if_splits sum.splits prod.splits)

lemma ready_order_good:
  assumes "order_good order" and "int64_ok k"
  shows "order_good (ready_order G order (n, ms, h, k, t))"
proof -
  have "order_good (order\<lparr>oi_OrderHeight := k\<rparr>)" using assms by (simp add: order_good_def OrderInfo_ok_def)
  then have "order_good (order\<lparr>oi_OrderId := n, oi_OrderHash := h, oi_OrderHeight := k, oi_OrderTxType := t,
      oi_State := OrderStateReady, oi_Shards := order_shards ms\<rparr>)"
    using order_shards_distinct [of ms] by (simp add: order_good_def OrderInfo_ok_def)
  then show ?thesis by (simp add: ready_order_def Let_def split: sum.splits)
qed

lemma commit_order_inv:
  assumes "gw_inv (ge_libs G) contents gs" and "order_good order" and "commit_order G proposal sig order gs = (r, gs')"
  shows "gw_inv (ge_libs G) contents gs'"
proof -
  obtain x gs1 where s: "send_order G proposal sig (oi_OrderId order) gs = (x, gs1)" by (metis surj_pair)
  note i = send_order_inv [OF assms(1) s]
  show ?thesis
  proof (cases x)
    case (Inl e)
    with i s assms(3) show ?thesis by (simp add: commit_order_def)
  next
    case (Inr sent)
    define ready where "ready = ready_order G order sent"
    obtain e d where d: "SaveOrder (ge_libs G) (gs_orderDs gs1) ready = (e, d)" by (metis surj_pair)
    have good: "order_good ready" unfolding ready_def using i Inr ready_order_good [OF assms(2)] by (cases sent) auto
    have "gw_inv (ge_libs G) contents (gs1\<lparr>gs_orderDs := d\<rparr>)" using i by (blast intro: order_ds_inv [OF _ good d])
    with good d s Inr assms(3) show ?thesis
      by (auto simp: commit_order_def Let_def ready_def [symmetric] intro!: push_order_inv add_timeout_inv
          split: option.splits sum.splits)
  qed
qed

lemma CommitModel_inv:
  assumes "gw_inv (ge_libs G) contents gs" and "is_dataid (prop_DataId prop)" and "CommitModel G gs prop jws orderId content = (r, gs')"
  shows "gw_inv (ge_libs G) contents gs'"
proof -
  have good: "order_good (OrderInfo_zero\<lparr>oi_State := s, oi_StagePath := p, oi_DataId := prop_DataId prop, oi_OrderId := i,
      oi_Owner := w, oi_Cid := c\<rparr>)" for s p i w c
    using assms(2) by (simp add: order_good_def OrderInfo_ok_def zero_defs int64_ok_def)
  have saved: "gw_inv (ge_libs G) contents (gs\<lparr>gs_files := f, gs_orderDs := d\<rparr>)"
    if "SaveOrder (ge_libs G) (gs_orderDs gs) (OrderInfo_zero\<lparr>oi_State := s, oi_StagePath := p, oi_DataId := prop_DataId prop, oi_OrderId := i,
      oi_Owner := w, oi_Cid := c\<rparr>) = (e, d)" for f d s p i w c e
    using order_ds_inv [OF assms(1) good that] by (simp add: gw_inv_def)
  from assms(1,3) show ?thesis
    by (auto simp: CommitModel_def Let_def dest: saved commit_order_inv [OF saved good] split: sum.splits prod.splits option.splits)
qed

lemma publish_inv:
  "gw_inv (ge_libs G) contents gs \<Longrightarrow> publish_content G gs meta c b = Return (err, gs') \<Longrightarrow> gw_inv (ge_libs G) contents gs'"
  by (auto simp: publish_content_def Let_def bind_outcome_case split: if_splits sum.splits prod.splits option.splits outcome.splits)

lemma fetch_inv:
  assumes "gw_inv (ge_libs G) contents gs" and "FetchContent G gs req meta = Return (r, gs')"
  shows "gw_inv (ge_libs G) contents gs'"
  using assms publish_inv [OF assms(1)]
  by (auto simp: FetchContent_def Let_def bind_outcome_Return split: if_splits sum.splits prod.splits option.splits)

lemma reschedule_inv: "gw_inv (ge_libs G) contents gs \<Longrightarrow> order_good order \<Longrightarrow> gw_inv (ge_libs G) contents (reschedule G order gs)"
  using genv unfolding reschedule_def Let_def gw_env_ok_def
  by (auto intro!: add_timeout_inv push_order_inv order_good_shards chain_shards_distinct split: sum.splits)

lemma reschedules_inv:
  "gw_inv (ge_libs G) contents gs \<Longrightarrow> \<forall>order \<in> set infos. order_good order \<Longrightarrow> gw_inv (ge_libs G) contents (fold (reschedule G) infos gs)"
  by (induction infos arbitrary: gs) (auto intro: reschedule_inv)

lemma timeout_at_inv: "gw_inv (ge_libs G) contents gs \<Longrightarrow> gw_inv (ge_libs G) contents (timeout_at G h gs)"
  unfolding timeout_at_def by (auto intro!: reschedules_inv split: option.splits) (simp add: gw_inv_def)

lemma timeout_scan_inv: "gw_inv (ge_libs G) contents gs \<Longrightarrow> gw_inv (ge_libs G) contents (timeout_scan G h n gs)"
proof (induction "unat (n - h)" arbitrary: h gs rule: less_induct)
  case less
  let ?gs1 = "timeout_at G h gs"
  have i: "gw_inv (ge_libs G) contents ?gs1" by (rule timeout_at_inv [OF less.prems])
  then have d: "gw_inv (ge_libs G) contents (?gs1\<lparr>gs_timeoutMap := (gs_timeoutMap ?gs1)(h := None)\<rparr>)"
    unfolding gw_inv_def by auto
  show ?case
  proof (cases "h = n")
    case True
    with i show ?thesis by (subst timeout_scan.simps) simp
  next
    case False
    then have "unat (n - (h + 1)) < unat (n - h)" using measure_unat [of "n - h"] by (simp add: diff_diff_add)
    from less.hyps [OF this d] False show ?thesis by (subst timeout_scan.simps) (simp add: Let_def)
  qed
qed

lemma timeout_inv:
  "gw_inv (ge_libs G) contents gs \<Longrightarrow> timeout_round G latest gs = (latest', gs') \<Longrightarrow> gw_inv (ge_libs G) contents gs'"
  by (auto simp: timeout_round_def Let_def intro: timeout_scan_inv split: sum.splits if_splits)

lemma restore_timeouts_inv:
  assumes "list_all (\<lambda>k. is_dataid (ok_DataId k)) keys"
  shows "gw_inv (ge_libs G) contents gs \<Longrightarrow> restore_timeouts G height seen keys gs = Return gs' \<Longrightarrow> gw_inv (ge_libs G) contents gs'"
  using assms
proof (induction keys arbitrary: seen gs)
  case (Cons key keys)
  have good: "order_good order" if "GetOrder (ge_libs G) (gs_orderDs gs) (ok_DataId key) = Inr order" for order
    using GetOrder_good [OF _ _ that] Cons.prems(1,3) by (simp add: gw_inv_def)
  have added: "gw_inv (ge_libs G) contents (add_timeout t (order\<lparr>oi_OrderId := i, oi_ExpireHeight := x\<rparr>) gs)"
    if "GetOrder (ge_libs G) (gs_orderDs gs) (ok_DataId key) = Inr order" for order t i x
    using add_timeout_inv [OF Cons.prems(1)] good [OF that] by simp
  from Cons.prems Cons.IH [OF Cons.prems(1)] Cons.IH [OF added] show ?case
    by (auto simp: Let_def split: if_splits sum.splits)
qed simp

lemma index_dataids:
  assumes "store_sound (ge_libs G) contents d" and "GetOrderIndex (ge_libs G) d = Inr index"
  shows "list_all (\<lambda>k. is_dataid (ok_DataId k)) (ox_Alls index)"
proof -
  have s: "sound (ge_libs G) contents (order_kind (ge_libs G)) d" using assms(1) by (simp add: store_sound_def)
  from orders.load_index [OF s] assms(2) have "index = index_value (ge_libs G) contents (order_kind (ge_libs G)) d"
    by (auto simp: index_kinds dest: read_through_InrD)
  then have "map ok_DataId (ox_Alls index) = orders.ids d" by (simp add: index_ids_def order_kind_def)
  moreover have "is_dataid q" if "q \<in> set (orders.ids d)" for q
    using s that unfolding sound_def by (force simp: table_def split: if_splits)
  ultimately show ?thesis unfolding list_all_iff by (metis image_eqI list.set_map)
qed

lemma restore_inv:
  assumes "gw_inv (ge_libs G) contents gs" and "checkTimeout_init G gs = Return gs'"
  shows "gw_inv (ge_libs G) contents gs'"
proof (cases "GetOrderIndex (ge_libs G) (gs_orderDs gs)")
  case (Inr index)
  have "store_sound (ge_libs G) contents (gs_orderDs gs)" using assms(1) by (simp add: gw_inv_def)
  from restore_timeouts_inv [OF index_dataids [OF this Inr] assms(1)] Inr assms(2) show ?thesis
    by (simp add: checkTimeout_init_def Let_def)
qed (use assms in \<open>simp add: checkTimeout_init_def\<close>)

lemma load_orders_good:
  assumes "store_sound (ge_libs G) contents (gs_orderDs gs)"
  shows "list_all (\<lambda>k. is_dataid (ok_DataId k)) ks \<Longrightarrow> load_orders G gs ks = Inr xs \<Longrightarrow> list_all order_good xs"
proof (induction ks arbitrary: xs)
  case (Cons k ks)
  then show ?case using GetOrder_good [OF assms] by (auto simp: map_sum_Inr_iff split: sum.splits)
qed simp

lemma recover_inv:
  assumes "gw_inv (ge_libs G) contents gs"
  shows "gw_inv (ge_libs G) contents (processIncompleteOrders G gs)"
proof -
  have s: "store_sound (ge_libs G) contents (gs_orderDs gs)" using assms by (simp add: gw_inv_def)
  have "list_all order_good (filter P xs)"
    if "GetOrderIndex (ge_libs G) (gs_orderDs gs) = Inr index" "load_orders G gs (ox_Alls index) = Inr xs" for index xs P
    using load_orders_good [OF s index_dataids [OF s that(1)] that(2)] by (auto simp: list_all_iff)
  with assms show ?thesis
    by (auto simp: processIncompleteOrders_def getPendingOrders_def getOrderKeys_def map_sum_Inr_iff intro!: push_orders_inv
        split: sum.splits)
qed

lemma fix_inv:
  assumes "gw_inv (ge_libs G) contents gs" and "is_dataid dataId" and "OrderFix G gs dataId = (err, gs')"
  shows "gw_inv (ge_libs G) contents gs'"
proof (cases "GetOrder (ge_libs G) (gs_orderDs gs) dataId")
  case (Inr order)
  have "order_good order" using GetOrder_good [OF _ assms(2) Inr] assms(1) by (simp add: gw_inv_def)
  with Inr assms show ?thesis by (auto simp: OrderFix_def intro: push_order_inv)
qed (use assms in \<open>simp add: OrderFix_def\<close>)

end

lemma gw_envI: "node_libs S contents \<Longrightarrow> ge_libs G = S \<Longrightarrow> gw_env_ok G \<Longrightarrow> gw_env G contents"
  by (simp add: gw_env_def gw_env_axioms_def)

lemma gw_step_inv:
  assumes "gw_step S gs gs'" and "node_libs S contents" and "gw_inv S contents gs"
  shows "gw_inv S contents gs'"
  using assms(1)
proof cases
  case completed
  with assms(3) show ?thesis by (auto simp: completeLoop_one_def split: list.splits)
next
  case crash
  with assms(3) show ?thesis by (simp add: gw_inv_def RequestQueue_zero_def)
qed (use assms(2,3) in \<open>blast dest: gw_envI gw_env.gw_sched_inv gw_env.complete_inv gw_env.CommitModel_inv gw_env.fetch_inv
    gw_env.restore_inv gw_env.timeout_inv gw_env.recover_inv gw_env.fix_inv\<close>)+

lemma gw_reach_inv: "gw_reach S contents gs \<Longrightarrow> node_libs S contents \<Longrightarrow> gw_inv S contents gs"
proof (induction rule: gw_reach.induct)
  case (start gs)
  then show ?case by (simp add: fresh_gw_def gw_inv_def store_sound_fresh)
qed (blast intro: gw_step_inv)

end
