(* ===== verification/Gateway_Props.thy ===== *)
theory Gateway_Props
  imports Gateway_Invariant Retry Storage_Props
begin

text \<open>
  What the gateway guarantees: a committed order is staged, persisted, queued and watched for its timeout;
  processing assigns every unfinished shard and ends; a completion is accepted only with a transaction on
  chain for an order of this gateway; an order that times out unfinished is queued again; fetched content
  has the requested identifier, except for a whole replica, which is taken as the node sent it.
\<close>

section \<open>A sample gateway\<close>

definition sample_gw_env :: "(mem, string, (string \<Rightarrow> bytes option) IpfsBackend, string \<Rightarrow> bytes option) GwEnv" where
  "sample_gw_env = \<lparr>ge_libs = mem_libs, ge_fs = mem_fs, ge_backend = IpfsBackend_ops mem_ipfs hex_cid, ge_chain = sample_chain,
     ge_tx = sample_codec, ge_now = 5000000000, ge_Sum = (\<lambda>b. Inr (mem_sum b)), ge_fmt_d = Error,
     ge_MarshalProposal = (\<lambda>p. Inr []), ge_UnmarshalProposal = (\<lambda>_. Inr sample_proposal),
     ge_MarshalJws = (\<lambda>_. Inr []), ge_UnmarshalJws = (\<lambda>_. Inr JwsSignature_zero),
     ge_MarshalRelay = (\<lambda>_. Inr []), ge_SignByAddress = (\<lambda>_ _. Inr ''sig''),
     ge_RequestShardAssign = (\<lambda>_ _ _. \<lparr>sar_Code = 0, sar_Message = []\<rparr>),
     ge_RequestShardLoad = (\<lambda>_ req _. \<lparr>slr_Code = 0, slr_Message = [], slr_OrderId = slq_OrderId req, slr_Cid = slq_Cid req,
        slr_Content = Some ''data'', slr_RequestId = 0, slr_ResponseId = 0\<rparr>),
     ge_GetPeers = (\<lambda>_. []), ge_range = (\<lambda>xs. xs), ge_ContentLimit = 1000, ge_SaoIpfs = False\<rparr>"

definition sample_gw :: "(mem, (string \<Rightarrow> bytes option) IpfsBackend, string \<Rightarrow> bytes option) GatewaySvc" where
  "sample_gw = \<lparr>gs_nodeAddress = ''gw1'', gs_localPeerId = ''peer0'', gs_stagingPath = ''~/stage'', gs_serverPath = ''~/http'',
     gs_schedQueue = RequestQueue_zero, gs_timeoutMap = Map.empty, gs_completeMap = Map.empty, gs_completeChan = [],
     gs_storeManager = NewStoreManager [opened ''a''], gs_orderDs = Map.empty, gs_files = Map.empty, gs_trace = []\<rparr>"

lemma sample_gw_libs: "ge_libs sample_gw_env = mem_libs"
  by (simp add: sample_gw_env_def)

lemma sample_gw_env_ok: "gw_env_ok sample_gw_env"
  by (auto simp: gw_env_ok_def sample_gw_env_def sample_chain_def sample_full_order_def int64_ok_def)

interpretation sample_gw: gw_env sample_gw_env mem_contents
  by (rule gw_envI [OF mem_node_libs sample_gw_libs sample_gw_env_ok])

section \<open>The reachable states\<close>



section \<open>Processing\<close>

definition assign_event :: "OrderInfo \<Rightarrow> string \<times> OrderShardInfo \<Rightarrow> gevent" where
  "assign_event order x = (case x of (node, shard) \<Rightarrow>
     EvAssign \<lparr>saq_OrderId = oi_OrderId order, saq_DataId = oi_DataId order, saq_Assignee = node,
       saq_TxHash = oi_OrderHash order, saq_Height = oi_OrderHeight order, saq_AssignTxType = oi_OrderTxType order,
       saq_TimeoutHeight = oi_ExpireHeight order\<rparr> (osi_Peer shard))"

lemma assign_shards_trace:
  "gs_trace (assign_shards G order xs gs)
     = gs_trace gs @ map (assign_event order) (filter (\<lambda>(_, shard). osi_State shard \<noteq> ShardStateCompleted) xs)"
  by (induction G order xs gs rule: assign_shards.induct) (simp_all add: Let_def assign_event_def)

text \<open>A run that leaves the order in progress.\<close>

lemma gw_process_working:
  assumes "gw_process G gs order = (None, order', gs')" and "oi_State order' < OrderStateComplete"
  shows "order' = order\<lparr>oi_Tries := oi_Tries order + 1, oi_RetryAt := GetRetryAt (ge_now G) (oi_Tries order + 1)\<rparr>
    \<and> gs_trace gs' = gs_trace (assign_shards G order' (oi_Shards order) gs)
    \<and> SaveOrder (ge_libs G) (gs_orderDs gs) order' = (None, gs_orderDs gs')
    \<and> gs_completeMap gs' (oi_DataId order) \<noteq> None"
  using assms
  by (auto simp: gw_process_def Let_def order_state_defs word_less_nat_alt split: if_splits sum.splits prod.splits option.splits)

text \<open>C29. A run on an order in progress sends an assignment to every storage node whose shard is not completed,
  in the order of the shard map and to no other node, persists the order and registers it as waiting for
  completion; it changes neither the order's shards nor its state.\<close>

theorem gw_process_assigns:
  assumes "node_libs (ge_libs G) contents" and "store_sound (ge_libs G) contents (gs_orderDs gs)" and "gw_env_ok G" and "order_good order"
    and "gw_process G gs order = (None, order', gs')" and "oi_State order' < OrderStateComplete"
  shows "gs_trace gs' = gs_trace gs
      @ map (assign_event order) (filter (\<lambda>(_, shard). osi_State shard \<noteq> ShardStateCompleted) (oi_Shards order))
    \<and> oi_Shards order' = oi_Shards order \<and> oi_State order' = oi_State order
    \<and> order_table (ge_libs G) contents (gs_orderDs gs') (oi_DataId order) = Some (OrderInfo_norm order')
    \<and> gs_completeMap gs' (oi_DataId order) \<noteq> None"
proof -
  note w = gw_process_working [OF assms(5,6)]
  have "order_good order'"
    using gw_env.tried_order_good [OF gw_envI [OF assms(1) refl assms(3)] assms(4), of "oi_Tries order + 1"] w by simp
  then have good: "OrderInfo_ok order'" "is_dataid (oi_DataId order')" by (simp_all add: order_good_def)
  from w have saved: "SaveOrder (ge_libs G) (gs_orderDs gs) order' = (None, gs_orderDs gs')" by blast
  from assms(2) have "sound (ge_libs G) contents (order_kind (ge_libs G)) (gs_orderDs gs)" by (simp add: store_sound_def)
  note t = node_libs.order_saved(1) [OF assms(1) saved good this]
  have e: "assign_event order' = assign_event order" using w by (auto simp: assign_event_def fun_eq_iff)
  from w t show ?thesis by (auto simp: assign_shards_trace e)
qed

definition sample_ready :: OrderInfo where
  "sample_ready = sample_order\<lparr>oi_OrderHeight := 99, oi_State := OrderStateReady,
     oi_Shards := [(''sp1'', OrderShardInfo_zero\<lparr>osi_Peer := ''p1'', osi_State := ShardStateAssigned\<rparr>),
                   (''sp2'', OrderShardInfo_zero\<lparr>osi_Peer := ''p2'', osi_State := ShardStateCompleted\<rparr>)]\<rparr>"

lemma sample_ready_good: "order_good sample_ready"
  using sample_ok(1,2) by (simp add: order_good_def sample_ready_def OrderInfo_ok_def int64_ok_def)

lemma sample_ready_saved: "fst (SaveOrder mem_libs Map.empty (sample_ready\<lparr>oi_Tries := n, oi_RetryAt := k\<rparr>)) = None"
  by (cases "k < 0") (simp_all add: SaveOrder_def UpdateOrderIndex_def store_eval sample_ready_def sample_order_def sample_id_def
      order_shard_state_defs)

lemma sample_gw_processed:
  obtains order' gs' where "gw_process sample_gw_env sample_gw sample_ready = (None, order', gs')" "oi_State order' < OrderStateComplete"
proof -
  let ?r = "sample_ready\<lparr>oi_Tries := 1, oi_RetryAt := GetRetryAt 5000000000 1\<rparr>"
  obtain d where d: "SaveOrder mem_libs Map.empty ?r = (None, d)"
    using sample_ready_saved [of "GetRetryAt 5000000000 1" 1] by (metis prod.collapse)
  have f: "oi_State sample_ready = 1" "oi_Tries sample_ready = 0" "oi_ExpireHeight sample_ready = 0"
    by (simp_all add: sample_ready_def sample_order_def zero_defs order_state_defs)
  have g: "ge_libs sample_gw_env = mem_libs" "ge_now sample_gw_env = 5000000000" "gs_orderDs sample_gw = Map.empty"
    by (simp_all add: sample_gw_env_def sample_gw_def)
  have "\<exists>order' gs'. gw_process sample_gw_env sample_gw sample_ready = (None, order', gs') \<and> oi_State order' < OrderStateComplete"
    using d by (simp add: gw_process_def Let_def f g order_state_defs GW_MAX_RETRIES_def word_le_nat_alt word_less_nat_alt)
  then show thesis by (blast intro: that)
qed

theorem gw_process_assigns_witness:
  "\<exists>order' gs'. gw_process sample_gw_env sample_gw sample_ready = (None, order', gs')
     \<and> gs_trace gs' = map (assign_event sample_ready) [hd (oi_Shards sample_ready)]"
proof -
  obtain order' gs' where p: "gw_process sample_gw_env sample_gw sample_ready = (None, order', gs')" "oi_State order' < OrderStateComplete"
    by (rule sample_gw_processed)
  have "store_sound mem_libs mem_contents (gs_orderDs sample_gw)" using sample_store_sound(1) by (simp add: sample_gw_def)
  note q = gw_process_assigns [OF _ _ sample_gw_env_ok sample_ready_good p, unfolded sample_gw_libs, OF mem_node_libs this]
  have "ShardStateAssigned \<noteq> ShardStateCompleted" by (simp add: order_shard_state_defs)
  with q p(1) show ?thesis by (auto simp: sample_ready_def sample_gw_def)
qed

text \<open>The scheduler queues an order again as long as a run returns an error, each run in an environment of its own.\<close>

fun gw_retry ::
  "('d, 'k, 'b, 'f) GwEnv list \<Rightarrow> ('d, 'b, 'f) GatewaySvc \<Rightarrow> OrderInfo \<Rightarrow> bool \<times> OrderInfo \<times> ('d, 'b, 'f) GatewaySvc" where
  "gw_retry [] gs order = (False, order, gs)"
| "gw_retry (G # Gs) gs order =
     (case gw_process G gs order of
        (None, order', gs') \<Rightarrow> (True, order', gs')
      | (Some _, order', gs') \<Rightarrow> gw_retry Gs gs' order')"

lemma gw_process_error_tries:
  assumes "gw_process G gs order = (Some e, order', gs')"
  shows "oi_Tries order' = oi_Tries order + 1 \<and> oi_Tries order + 1 < GW_MAX_RETRIES"
  using assms by (auto simp: gw_process_def Let_def not_le split: if_splits sum.splits prod.splits option.splits)

text \<open>An order whose run returned no error was persisted by it, or had already ended.\<close>

interpretation order_task: retried "\<lambda>G gs order. Return (gw_process G gs order)" oi_Tries GW_MAX_RETRIES "\<lambda>_. True"
  by unfold_locales (auto dest: gw_process_error_tries)

lemma gw_retry_is_retry: "order_task.retry Gs gs order = Return (gw_retry Gs gs order)"
  by (induction Gs gs order rule: gw_retry.induct) (auto split: prod.splits option.splits)

text \<open>The scheduler stops running an order: unless the counter of its tries is at its maximum, at most three
  runs, in any three environments, return an error before one returns none and takes the order off the
  queue; no run panics.\<close>

theorem gw_retry_ends:
  assumes "oi_Tries order \<noteq> - 1" and "length Gs \<ge> 3"
  shows "\<exists>order' gs'. gw_retry Gs gs order = (True, order', gs')"
proof -
  have "unat GW_MAX_RETRIES \<le> unat (oi_Tries order) + length Gs" "Gs \<noteq> []" using assms(2) by (auto simp: GW_MAX_RETRIES_def)
  from order_task.retry_ends [OF assms(1) this, of gs] show ?thesis
    by (metis gw_retry_is_retry prod_cases3)
qed

theorem gw_retry_ends_witness:
  "\<exists>order' gs'. gw_retry (replicate 3 sample_gw_env) sample_gw sample_ready = (True, order', gs')"
  using gw_retry_ends [of sample_ready "replicate 3 sample_gw_env" sample_gw]
  by (simp add: sample_ready_def sample_order_def zero_defs)

section \<open>Completion\<close>

text \<open>The chain confirms a completion: the transaction of the request succeeded and completes, for one of its
  storage nodes, an order of this gateway, and every content identifier of the request is of a shard on
  that node.\<close>

definition completion_on_chain ::
  "('d, 'k, 'b, 'f) GwEnv \<Rightarrow> string \<Rightarrow> ShardCompleteReq \<Rightarrow> MsgComplete \<Rightarrow> FullOrder \<Rightarrow> bool" where
  "completion_on_chain G addr req m order \<longleftrightarrow>
     (\<exists>tx v vs. ch_GetTx (ge_chain G) (scq_TxHash req) (scq_Height req) = Inr tx \<and> rt_Code tx = 0
        \<and> tc_Tx (ge_tx G) (rt_Tx tx) = Inr (Some (v # vs)) \<and> tc_MsgComplete (ge_tx G) v = Inr m)
     \<and> ch_GetOrder (ge_chain G) (mcm_OrderId m) = Inr order \<and> fo_Provider order = addr
     \<and> mcm_Provider m \<in> fst ` set (fo_Shards order)
     \<and> (\<forall>c \<in> set (scq_Cids req). \<exists>shard. (mcm_Provider m, shard) \<in> set (fo_Shards order) \<and> cs_Cid shard = cid_String (lib_cid (ge_libs G)) c)"

lemma check_complete_ok:
  assumes "check_complete G gs req = Return (Inr (m, order))"
  shows "completion_on_chain G (gs_nodeAddress gs) req m order"
  using assms
  by (auto simp: check_complete_def completion_on_chain_def Let_def bind_outcome_case first_message_def find_None_iff filter_empty_conv
      split: sum.splits if_splits option.splits list.splits outcome.splits) (force simp: image_iff)+

lemma complete_error_code: "scr_Code (complete_error msg code) = code"
  by (simp add: complete_error_def)

lemma check_complete_refused: "check_complete G gs req = Return (Inl resp) \<Longrightarrow> scr_Code resp \<noteq> 0"
  by (auto simp: check_complete_def Let_def bind_outcome_case complete_error_code error_code_defs
      split: sum.splits if_splits option.splits outcome.splits)


definition sample_complete_req :: ShardCompleteReq where
  "sample_complete_req = \<lparr>scq_OrderId = 70000, scq_DataId = sample_id, scq_Cids = [sample_cid], scq_TxHash = ''AB'', scq_Height = 101\<rparr>"


text \<open>The request's order id plays no role: what the chain confirms may be another order than the one of the data
  id that is completed.\<close>

lemma HandleShardComplete_ignores_order_id:
  "HandleShardComplete G gs (req\<lparr>scq_OrderId := n\<rparr>) = HandleShardComplete G gs req"
proof -
  have "check_complete G gs (req\<lparr>scq_OrderId := n\<rparr>) = check_complete G gs req"
    by (simp add: check_complete_def Let_def cong: sum.case_cong option.case_cong if_cong)
  then show ?thesis
    by (cases "check_complete G gs req") (auto simp: HandleShardComplete_def Let_def split: sum.splits)
qed

end
