(* ===== verification/Gateway_Handler_Props.thy ===== *)
theory Gateway_Handler_Props
  imports Gateway_Props Storage_Handler_Props
begin

text \<open>
  Commits, timeouts and fetches of the gateway: what a successful commit leaves behind, that an order whose
  deadline passes unfinished is queued again with the shards the chain knows, and what is known of the
  content a fetch returns.
\<close>

section \<open>Timeouts\<close>

text \<open>What a round of the timeout loop keeps: queued requests stay queued and the orders registered for a height
  stay registered until the height is reached.\<close>

definition gw_grows :: "('d, 'b, 'f) GatewaySvc \<Rightarrow> ('d, 'b, 'f) GatewaySvc \<Rightarrow> bool" where
  "gw_grows gs gs' \<longleftrightarrow> set (rq_queue (gs_schedQueue gs)) \<subseteq> set (rq_queue (gs_schedQueue gs'))
     \<and> (\<forall>h infos. gs_timeoutMap gs h = Some infos \<longrightarrow> (\<exists>more. gs_timeoutMap gs' h = Some (infos @ more)))"

lemma gw_grows_refl: "gw_grows gs gs"
  by (simp add: gw_grows_def)

lemma gw_grows_trans:
  assumes "gw_grows a b" and "gw_grows b c"
  shows "gw_grows a c"
proof -
  have "\<exists>more. gs_timeoutMap c h = Some (infos @ more)" if "gs_timeoutMap a h = Some infos" for h infos
  proof -
    from assms(1) that obtain m where "gs_timeoutMap b h = Some (infos @ m)" unfolding gw_grows_def by blast
    with assms(2) obtain m' where "gs_timeoutMap c h = Some ((infos @ m) @ m')" unfolding gw_grows_def by blast
    then show ?thesis by auto
  qed
  with assms show ?thesis unfolding gw_grows_def by blast
qed

lemma push_order_grows: "gw_grows gs (push_order order gs)"
  by (auto simp: gw_grows_def push_order_def Push_def)

lemma add_timeout_grows: "gw_grows gs (add_timeout h order gs)"
  by (auto simp: gw_grows_def add_timeout_def)

lemma reschedule_grows: "gw_grows gs (reschedule G order gs)"
proof (cases "ch_GetOrder (ge_chain G) (oi_OrderId order)")
  case (Inr x)
  then show ?thesis
    by (auto simp: reschedule_def Let_def gw_grows_refl intro: gw_grows_trans [OF push_order_grows add_timeout_grows])
qed (simp add: reschedule_def gw_grows_refl)

lemma reschedules_grow: "gw_grows gs (fold (reschedule G) infos gs)"
proof (induction infos arbitrary: gs)
  case (Cons x xs)
  from gw_grows_trans [OF reschedule_grows Cons.IH] show ?case by simp
qed (simp add: gw_grows_refl)

lemma timeout_at_grows: "gw_grows gs (timeout_at G h gs)"
  by (auto simp: timeout_at_def gw_grows_refl reschedules_grow split: option.splits)

lemma timeout_scan_queue: "set (rq_queue (gs_schedQueue gs)) \<subseteq> set (rq_queue (gs_schedQueue (timeout_scan G h new gs)))"
proof (induction G h new gs rule: timeout_scan.induct)
  case (1 G h new gs)
  have "set (rq_queue (gs_schedQueue gs)) \<subseteq> set (rq_queue (gs_schedQueue (timeout_at G h gs)))"
    using timeout_at_grows [of gs G h] by (simp add: gw_grows_def)
  with 1 show ?case by (subst timeout_scan.simps) (auto simp: Let_def)
qed

text \<open>The order as it is queued again: the shards on chain that have not timed out, a new deadline and no tries.\<close>

definition rescheduled :: "('d, 'k, 'b, 'f) GwEnv \<Rightarrow> OrderInfo \<Rightarrow> FullOrder \<Rightarrow> OrderInfo" where
  "rescheduled G info order = info\<lparr>oi_Shards := chain_shards G order, oi_ExpireHeight := oi_ExpireHeight info + fo_Timeout order,
     oi_Tries := 0, oi_State := OrderStateReady\<rparr>"

lemma reschedule_queues:
  assumes "ch_GetOrder (ge_chain G) (oi_OrderId info) = Inr order" and "\<not> allShardsCompleted order"
  shows "order_request (rescheduled G info order) \<in> set (rq_queue (gs_schedQueue (reschedule G info gs)))"
  using assms by (simp add: reschedule_def Let_def add_timeout_def push_order_def Push_def rescheduled_def)

lemma reschedules_queue:
  assumes "ch_GetOrder (ge_chain G) (oi_OrderId info) = Inr order" and "\<not> allShardsCompleted order" and "info \<in> set infos"
  shows "order_request (rescheduled G info order) \<in> set (rq_queue (gs_schedQueue (fold (reschedule G) infos gs)))"
  using assms(3)
proof (induction infos arbitrary: gs)
  case (Cons x xs)
  then show ?case
  proof (cases "x = info")
    case True
    with reschedule_queues [OF assms(1,2), of gs] reschedules_grow [of "reschedule G info gs" G xs] show ?thesis
      by (auto simp: gw_grows_def)
  qed auto
qed simp

lemma unat_step: "h \<noteq> new \<Longrightarrow> k \<noteq> h \<Longrightarrow> unat (k - h) \<le> unat (new - h) \<Longrightarrow> unat (k - (h + 1)) \<le> unat (new - (h + 1 :: u64))"
proof -
  assume a: "h \<noteq> new" "k \<noteq> h" "unat (k - h) \<le> unat (new - h)"
  have "unat (x - (h + 1)) = unat (x - h) - 1" if "x \<noteq> h" for x :: u64
    using that by (simp add: diff_diff_add [symmetric] unat_minus_one)
  with a show ?thesis by simp
qed

lemma timeout_scan_queues:
  assumes "ch_GetOrder (ge_chain G) (oi_OrderId info) = Inr order" and "\<not> allShardsCompleted order"
  shows "gs_timeoutMap gs k = Some infos \<Longrightarrow> info \<in> set infos \<Longrightarrow> unat (k - h) \<le> unat (new - h)
    \<Longrightarrow> order_request (rescheduled G info order) \<in> set (rq_queue (gs_schedQueue (timeout_scan G h new gs)))"
  using assms
proof (induction G h new gs arbitrary: infos rule: timeout_scan.induct)
  case (1 G h new gs)
  define gs1 where "gs1 = timeout_at G h gs"
  define gs2 where "gs2 = gs1\<lparr>gs_timeoutMap := (gs_timeoutMap gs1)(h := None)\<rparr>"
  have step: "timeout_scan G h new gs = (if h = new then gs1 else timeout_scan G (h + 1) new gs2)"
    by (subst timeout_scan.simps) (simp add: Let_def gs1_def gs2_def)
  show ?case
  proof (cases "k = h")
    case True
    with "1.prems" have "order_request (rescheduled G info order) \<in> set (rq_queue (gs_schedQueue gs1))"
      by (auto simp: gs1_def timeout_at_def intro: reschedules_queue)
    with timeout_scan_queue [of gs2 G "h + 1" new] show ?thesis unfolding step gs2_def by auto
  next
    case False
    with "1.prems"(3) have ne: "h \<noteq> new" by (auto simp: unat_eq_0)
    from timeout_at_grows [of gs G h] "1.prems"(1) obtain more where "gs_timeoutMap gs1 k = Some (infos @ more)"
      unfolding gw_grows_def gs1_def by blast
    then have "gs_timeoutMap gs2 k = Some (infos @ more)" using False by (simp add: gs2_def)
    from "1.IH" [OF gs1_def ne this [unfolded gs2_def]] "1.prems" unat_step [OF ne False "1.prems"(3)] ne show ?thesis
      unfolding step by (simp add: gs2_def)
  qed
qed

text \<open>C13. An order registered for a height is not forgotten: the round of the timeout loop that passes the height
  puts the order back on the queue, with a new deadline, no tries and the shards on chain that have not
  timed out, unless the chain cannot be asked or reports every shard completed.\<close>

theorem timeout_round_requeues:
  assumes "ch_GetLastHeight (ge_chain G) = Inr height" and "latest < k" and "k \<le> to_uint64 height"
    and "gs_timeoutMap gs k = Some infos" and "info \<in> set infos"
    and "ch_GetOrder (ge_chain G) (oi_OrderId info) = Inr order" and "\<not> allShardsCompleted order"
  shows "fst (timeout_round G latest gs) = to_uint64 height
    \<and> order_request (rescheduled G info order) \<in> set (rq_queue (gs_schedQueue (snd (timeout_round G latest gs))))"
proof -
  have "\<not> to_uint64 height \<le> latest" using assms(2,3) by (meson le_less_trans not_le)
  then have r: "timeout_round G latest gs = (to_uint64 height, timeout_scan G (latest + 1) (to_uint64 height) gs)"
    using assms(1) by (simp add: timeout_round_def Let_def)
  have "latest + 1 \<le> k" using assms(2) by (simp add: inc_le)
  then have "unat (k - (latest + 1)) \<le> unat (to_uint64 height - (latest + 1))"
    using assms(3) order_trans [OF \<open>latest + 1 \<le> k\<close> assms(3)] by (simp add: unat_sub word_le_nat_alt diff_le_mono)
  from timeout_scan_queues [OF assms(6,7,4,5) this] show ?thesis by (simp add: r)
qed

theorem timeout_round_requeues_witness:
  "order_request (rescheduled sample_gw_env sample_ready sample_full_order)
     \<in> set (rq_queue (gs_schedQueue (snd (timeout_round sample_gw_env 99 (add_timeout 100 sample_ready sample_gw)))))"
proof -
  have "\<not> allShardsCompleted sample_full_order"
    by (simp add: allShardsCompleted_def sample_full_order_def sample_chain_shard_def)
  then show ?thesis
    using timeout_round_requeues [of sample_gw_env 100 99 100 "add_timeout 100 sample_ready sample_gw" "[sample_ready]" sample_ready
        sample_full_order]
    by (simp add: sample_gw_env_def sample_chain_def add_timeout_def sample_gw_def to_uint64_def)
qed

section \<open>Commits\<close>

lemma send_order_frame:
  assumes "send_order G proposal sig orderId gs = (r, gs')"
  shows "gs' = gs\<lparr>gs_trace := gs_trace gs'\<rparr>"
  using assms by (auto simp: send_order_def Let_def split: if_splits sum.splits)

lemma ready_order_simps:
  "oi_State (ready_order G order sent) = OrderStateReady" "oi_DataId (ready_order G order sent) = oi_DataId order"
  "oi_Owner (ready_order G order sent) = oi_Owner order" "oi_Cid (ready_order G order sent) = oi_Cid order"
  "oi_StagePath (ready_order G order sent) = oi_StagePath order"
  by (simp_all add: ready_order_def Let_def split: prod.splits sum.splits)

text \<open>A commit that answers without an error.\<close>

lemma commit_order_ok:
  assumes "commit_order G proposal sig order gs = (Inr res, gs')"
  obtains sent gs1 d info where "send_order G proposal sig (oi_OrderId order) gs = (Inr sent, gs1)"
    "SaveOrder (ge_libs G) (gs_orderDs gs) (ready_order G order sent) = (None, d)"
    "gs' = add_timeout (oi_ExpireHeight (ready_order G order sent)) (ready_order G order sent)
       (push_order (ready_order G order sent) (gs1\<lparr>gs_orderDs := d\<rparr>))"
    "gs1 = gs\<lparr>gs_trace := gs_trace gs1\<rparr>"
    "GetOrder (ge_libs G) d (oi_DataId order) = Inr info"
    "res = \<lparr>cr_OrderId = oi_OrderId info, cr_DataId = oi_DataId info, cr_Commit = [], cr_Commits = [], cr_Cid = cid_String (lib_cid (ge_libs G)) (oi_Cid info),
       cr_Height = oi_OrderHeight info, cr_Shards = []\<rparr>"
proof -
  from assms obtain sent gs1 where s: "send_order G proposal sig (oi_OrderId order) gs = (Inr sent, gs1)"
    by (cases "send_order G proposal sig (oi_OrderId order) gs") (auto simp: commit_order_def split: sum.splits)
  note f = send_order_frame [OF s]
  then have "gs_orderDs gs1 = gs_orderDs gs" by (metis (no_types, lifting) GatewaySvc.select_convs(10) GatewaySvc.surjective GatewaySvc.update_convs(12))
  with assms s that [OF s _ _ f] show thesis
    by (auto simp: commit_order_def Let_def ready_order_simps add_timeout_def push_order_def split: prod.splits option.splits sum.splits)
qed

definition staged_order :: "StoreProposal \<Rightarrow> u64 \<Rightarrow> string \<Rightarrow> cid \<Rightarrow> OrderInfo" where
  "staged_order prop orderId stagePath c = OrderInfo_zero\<lparr>oi_State := OrderStateStaged, oi_StagePath := stagePath,
     oi_DataId := prop_DataId prop, oi_OrderId := orderId, oi_Owner := prop_Owner prop, oi_Cid := c\<rparr>"

lemma staged_order_good: "is_dataid (prop_DataId prop) \<Longrightarrow> order_good (staged_order prop orderId stagePath c)"
  by (simp add: staged_order_def order_good_def OrderInfo_ok_def zero_defs int64_ok_def)

lemma CommitModel_ok:
  assumes "CommitModel G gs prop jws orderId content = (Inr res, gs')"
  obtains stagePath f c proposal sig d where
    "StageShard (ge_fs G) (gs_files gs) (gs_stagingPath gs) prop content = (Inr stagePath, f)"
    "cid_Decode (lib_cid (ge_libs G)) (prop_Cid prop) = Inr c"
    "SaveOrder (ge_libs G) (gs_orderDs gs) (staged_order prop orderId stagePath c) = (None, d)"
    "commit_order G proposal sig (staged_order prop orderId stagePath c) (gs\<lparr>gs_files := f, gs_orderDs := d\<rparr>) = (Inr res, gs')"
  using assms that by (auto simp: CommitModel_def Let_def staged_order_def split: sum.splits prod.splits option.splits)

lemma OrderInfo_norm_simps:
  "oi_DataId (OrderInfo_norm order) = oi_DataId order" "oi_OrderId (OrderInfo_norm order) = oi_OrderId order"
  "oi_Cid (OrderInfo_norm order) = oi_Cid order" "oi_OrderHeight (OrderInfo_norm order) = oi_OrderHeight order"
  by (simp_all add: OrderInfo_norm_def)

lemma commit_order_result:
  assumes "node_libs (ge_libs G) contents" and "sound (ge_libs G) contents (order_kind (ge_libs G)) (gs_orderDs gs)" and "gw_env_ok G"
    and "order_good order" and "commit_order G proposal sig order gs = (Inr res, gs')"
  shows "\<exists>ready infos. oi_State ready = OrderStateReady \<and> oi_DataId ready = oi_DataId order \<and> oi_Owner ready = oi_Owner order
    \<and> oi_Cid ready = oi_Cid order
    \<and> order_table (ge_libs G) contents (gs_orderDs gs') (oi_DataId order) = Some (OrderInfo_norm ready)
    \<and> rq_queue (gs_schedQueue gs') = rq_queue (gs_schedQueue gs) @ [order_request ready]
    \<and> gs_timeoutMap gs' (oi_ExpireHeight ready) = Some (infos @ [ready])
    \<and> res = \<lparr>cr_OrderId = oi_OrderId ready, cr_DataId = oi_DataId ready, cr_Commit = [], cr_Commits = [], cr_Cid = cid_String (lib_cid (ge_libs G)) (oi_Cid ready),
             cr_Height = oi_OrderHeight ready, cr_Shards = []\<rparr>
    \<and> gs_files gs' = gs_files gs"
proof -
  obtain sent gs1 d info where se: "send_order G proposal sig (oi_OrderId order) gs = (Inr sent, gs1)"
    and sv: "SaveOrder (ge_libs G) (gs_orderDs gs) (ready_order G order sent) = (None, d)"
    and gs': "gs' = add_timeout (oi_ExpireHeight (ready_order G order sent)) (ready_order G order sent)
       (push_order (ready_order G order sent) (gs1\<lparr>gs_orderDs := d\<rparr>))"
    and gs1: "gs1 = gs\<lparr>gs_trace := gs_trace gs1\<rparr>"
    and gt: "GetOrder (ge_libs G) d (oi_DataId order) = Inr info"
    and res: "res = \<lparr>cr_OrderId = oi_OrderId info, cr_DataId = oi_DataId info, cr_Commit = [], cr_Commits = [], cr_Cid = cid_String (lib_cid (ge_libs G)) (oi_Cid info),
       cr_Height = oi_OrderHeight info, cr_Shards = []\<rparr>"
    by (rule commit_order_ok [OF assms(5)])
  define ready where "ready = ready_order G order sent"
  have rd: "oi_State ready = OrderStateReady" "oi_DataId ready = oi_DataId order" "oi_Owner ready = oi_Owner order" "oi_Cid ready = oi_Cid order"
    by (simp_all add: ready_def ready_order_simps)
  have same: "gs_schedQueue gs1 = gs_schedQueue gs" "gs_timeoutMap gs1 = gs_timeoutMap gs" "gs_files gs1 = gs_files gs"
    by (subst gs1, simp)+
  have "int64_ok k" if "sent = (n, ms, h, k, t)" for n ms h k t
    using se assms(3) that by (auto simp: send_order_def Let_def gw_env_ok_def split: if_splits sum.splits)
  then have "order_good ready"
    unfolding ready_def by (cases sent) (auto intro: gw_env.ready_order_good [OF gw_envI [OF assms(1) refl assms(3)] assms(4)])
  then have good: "OrderInfo_ok ready" "is_dataid (oi_DataId ready)" by (simp_all add: order_good_def)
  note saved = node_libs.order_saved [OF assms(1) sv [folded ready_def] good assms(2)]
  have "info = OrderInfo_norm ready" using saved(3) gt rd by (simp add: read_through_InrD)
  then have "res = \<lparr>cr_OrderId = oi_OrderId ready, cr_DataId = oi_DataId ready, cr_Commit = [], cr_Commits = [], cr_Cid = cid_String (lib_cid (ge_libs G)) (oi_Cid ready),
      cr_Height = oi_OrderHeight ready, cr_Shards = []\<rparr>" by (simp add: res OrderInfo_norm_simps)
  with rd saved(1) show ?thesis
    by (auto simp: gs' ready_def [symmetric] add_timeout_def push_order_def Push_def same)
qed

lemma CommitModel_committed:
  assumes "node_libs (ge_libs G) contents" and "store_sound (ge_libs G) contents (gs_orderDs gs)" and "gw_env_ok G"
    and "file_system (ge_fs G) files" and "fs_Expand (ge_fs G) (gs_stagingPath gs) = Inr path" and "is_dataid (prop_DataId prop)"
    and "CommitModel G gs prop jws orderId content = (Inr res, gs')"
  shows "\<exists>ready c infos. cid_Decode (lib_cid (ge_libs G)) (prop_Cid prop) = Inr c
    \<and> oi_State ready = OrderStateReady \<and> oi_DataId ready = prop_DataId prop \<and> oi_Owner ready = prop_Owner prop \<and> oi_Cid ready = c
    \<and> order_table (ge_libs G) contents (gs_orderDs gs') (prop_DataId prop) = Some (OrderInfo_norm ready)
    \<and> rq_queue (gs_schedQueue gs') = rq_queue (gs_schedQueue gs) @ [order_request ready]
    \<and> gs_timeoutMap gs' (oi_ExpireHeight ready) = Some (infos @ [ready])
    \<and> res = \<lparr>cr_OrderId = oi_OrderId ready, cr_DataId = prop_DataId prop, cr_Commit = [], cr_Commits = [], cr_Cid = cid_String (lib_cid (ge_libs G)) c,
             cr_Height = oi_OrderHeight ready, cr_Shards = []\<rparr>
    \<and> files (gs_files gs') (stage_file path (prop_Owner prop) (prop_Cid prop) (prop_DataId prop)) = Some content"
proof -
  obtain stagePath f c proposal sig d where
    st: "StageShard (ge_fs G) (gs_files gs) (gs_stagingPath gs) prop content = (Inr stagePath, f)"
    and c: "cid_Decode (lib_cid (ge_libs G)) (prop_Cid prop) = Inr c"
    and d: "SaveOrder (ge_libs G) (gs_orderDs gs) (staged_order prop orderId stagePath c) = (None, d)"
    and co: "commit_order G proposal sig (staged_order prop orderId stagePath c) (gs\<lparr>gs_files := f, gs_orderDs := d\<rparr>) = (Inr res, gs')"
    by (rule CommitModel_ok [OF assms(7)])
  note good = staged_order_good [OF assms(6), of orderId stagePath c]
  have s: "sound (ge_libs G) contents (order_kind (ge_libs G)) (gs_orderDs (gs\<lparr>gs_files := f, gs_orderDs := d\<rparr>))"
    using node_libs.SaveOrder_any [OF assms(1) d] good assms(2) by (simp add: store_sound_def order_good_def)
  have fields: "oi_DataId (staged_order prop orderId stagePath c) = prop_DataId prop"
    "oi_Owner (staged_order prop orderId stagePath c) = prop_Owner prop" "oi_Cid (staged_order prop orderId stagePath c) = c"
    by (simp_all add: staged_order_def)
  have "files f (stage_file path (prop_Owner prop) (prop_Cid prop) (prop_DataId prop)) = Some content"
    using file_system.StageShard_content [OF assms(4) st assms(5)] by auto
  with commit_order_result [OF assms(1) s assms(3) good co, unfolded fields] c show ?thesis by fastforce
qed


definition sample_commit :: StoreProposal where
  "sample_commit = sample_proposal\<lparr>prop_DataId := sample_id\<rparr>"

text \<open>Saving in the sample datastore: a new order, and one that is there already.\<close>

lemma mem_save_new:
  assumes "OrderInfo_MarshalCBOR rfc_cbor r = Inr b" and "oi_DataId r = sample_id"
  shows "\<exists>d. SaveOrder mem_libs Map.empty r = (None, d) \<and> d (''/'' @ orderDatastoreKey sample_id) \<noteq> None"
  using assms by (simp add: SaveOrder_def UpdateOrderIndex_def save_record_def update_index_def load_record_def mem_simps encode_simps
      OrderIndex_MarshalCBOR_def OrderKey_MarshalCBOR_def zero_defs datastore_key_defs index_key_defs sample_id_def)

lemma mem_save_again:
  assumes "OrderInfo_MarshalCBOR rfc_cbor r = Inr b" and "oi_DataId r = sample_id" and "d (''/'' @ orderDatastoreKey sample_id) \<noteq> None"
  shows "\<exists>d'. SaveOrder mem_libs d r = (None, d')"
  using assms by (auto simp: SaveOrder_def save_record_def mem_libs_def mem_ds_def)

definition sample_path :: string where
  "sample_path = ''/home/stage/did:sid:a/f78797a-6f1ed002-ab59-4d7c-9f64-4aaf7d6a3c11''"

lemma sample_stage: "StageShard mem_fs Map.empty ''~/stage'' sample_commit ''data'' = (Inr sample_path, [sample_path \<mapsto> ''data''])"
proof -
  have "stage_file ''/home/stage'' (prop_Owner sample_commit) (prop_Cid sample_commit) (prop_DataId sample_commit) = sample_path"
    by code_simp
  then show ?thesis by (simp add: StageShard_def mem_fs_def Let_def)
qed

abbreviation sample_staged :: OrderInfo where
  "sample_staged \<equiv> staged_order sample_commit 0 sample_path ''xyz''"

lemma sample_marshal:
  "\<exists>b. OrderInfo_MarshalCBOR rfc_cbor sample_staged = Inr b"
  "\<exists>b. OrderInfo_MarshalCBOR rfc_cbor (ready_order sample_gw_env sample_staged (70000, [], ''EF'', 99, AssignTxTypeStore)) = Inr b"
  by (simp_all add: staged_order_def sample_path_def sample_commit_def sample_proposal_def sample_id_def store_eval order_state_defs
      ready_order_def sample_gw_env_def sample_chain_def sample_full_order_def order_shards_def AssignTxTypeStore_def)

lemma sample_committed:
  obtains res gs' where "CommitModel sample_gw_env sample_gw sample_commit JwsSignature_zero 0 ''data'' = (Inr res, gs')"
proof -
  let ?ready = "ready_order sample_gw_env sample_staged (70000, [], ''EF'', 99, AssignTxTypeStore)"
  have id: "oi_DataId sample_staged = sample_id" "oi_DataId ?ready = sample_id" "oi_OrderId sample_staged = 0"
    by (simp_all add: ready_order_simps staged_order_def sample_commit_def)
  obtain d where d: "SaveOrder mem_libs Map.empty sample_staged = (None, d)" "d (''/'' @ orderDatastoreKey sample_id) \<noteq> None"
    using mem_save_new [OF _ id(1)] sample_marshal(1) by blast
  obtain d' where d': "SaveOrder mem_libs d ?ready = (None, d')"
    using mem_save_again [of ?ready _ d] id(2) d(2) sample_marshal(2) by blast
  have good: "order_good sample_staged" "order_good ?ready"
    using sample_ok(2) sample_gw.ready_order_good [of sample_staged] staged_order_good [of sample_commit]
    by (simp_all add: sample_commit_def sample_order_def int64_ok_def)
  have s: "sound mem_libs mem_contents (order_kind mem_libs) Map.empty" using sample_store_sound(1) by (simp add: store_sound_def)
  have s1: "sound mem_libs mem_contents (order_kind mem_libs) d"
    using mem.SaveOrder_any [OF d(1)] good(1) s by (simp add: order_good_def)
  have g: "GetOrder mem_libs d' sample_id = Inr (OrderInfo_norm ?ready)"
    using mem.order_saved(3) [OF d'] good(2) s1 by (simp add: order_good_def id read_through_up [OF mem_up])
  have dec: "cid_Decode hex_cid (prop_Cid sample_commit) = Inr ''xyz''"
    by code_simp
  have env: "ge_libs sample_gw_env = mem_libs" "ge_fs sample_gw_env = mem_fs" "gs_files sample_gw = Map.empty" "gs_stagingPath sample_gw = ''~/stage''"
    "gs_orderDs sample_gw = Map.empty" "lib_cid mem_libs = hex_cid"
    "ge_MarshalProposal sample_gw_env p = Inr []" "ge_MarshalJws sample_gw_env j = Inr []" "ge_UnmarshalProposal sample_gw_env b = Inr sample_proposal" for p j b
    by (simp_all add: sample_gw_env_def sample_gw_def mem_libs_def)
  obtain gs1 where "send_order sample_gw_env sample_proposal [] 0 (sample_gw\<lparr>gs_files := [sample_path \<mapsto> ''data''], gs_orderDs := d\<rparr>)
      = (Inr (70000, [], ''EF'', 99, AssignTxTypeStore), gs1)" "gs_orderDs gs1 = d"
    by (simp add: send_order_def sample_gw_env_def sample_chain_def Let_def)
  then have "\<exists>res gs'. commit_order sample_gw_env sample_proposal [] sample_staged (sample_gw\<lparr>gs_files := [sample_path \<mapsto> ''data''], gs_orderDs := d\<rparr>) = (Inr res, gs')"
    using d' g by (simp add: commit_order_def id env Let_def add_timeout_def push_order_def)
  then show thesis
    using d(1) dec sample_stage that by (auto simp: CommitModel_def env Let_def staged_order_def)
qed


section \<open>Fetches\<close>

text \<open>The answer of the node that has a shard.\<close>

definition shard_answer ::
  "('d, 'k, 'b, 'f) GwEnv \<Rightarrow> ('d, 'b, 'f) GatewaySvc \<Rightarrow> MetadataProposalCbor \<Rightarrow> Model \<Rightarrow> string \<Rightarrow> ShardMeta \<Rightarrow> cid \<Rightarrow> ShardLoadResp" where
  "shard_answer G gs req meta key shard c =
     ge_RequestShardLoad G (gw_protocol_for gs key)
       \<lparr>slq_Owner = [], slq_DataId = mo_DataId meta, slq_OrderId = mo_OrderId meta, slq_Cid = c, slq_Proposal = req,
        slq_RequestId = UnixMilli (ge_now G), slq_RelayProposal = buildRelayProposal G gs (gw_protocol_for gs key) (sm_Peer shard)\<rparr> (sm_Peer shard)"

lemma fetch_shards_step:
  assumes "fetch_shards G gs req meta ((key, shard) # rest) cl = Inr r"
  shows "(\<exists>c. cid_Decode (lib_cid (ge_libs G)) (sm_Cid shard) = Inr c \<and> sm_Cid shard = mo_Cid meta
      \<and> slr_Code (shard_answer G gs req meta key shard c) = 0 \<and> r = (Some (c, slr_Content (shard_answer G gs req meta key shard c)), cl))
    \<or> (\<exists>cl'. fetch_shards G gs req meta rest cl' = Inr r)"
proof (cases "case map_of cl (sm_ShardId shard) of Some (Some _) \<Rightarrow> True | _ \<Rightarrow> False")
  case True
  with assms have "fetch_shards G gs req meta rest cl = Inr r" by simp
  then show ?thesis by blast
next
  case False
  with assms show ?thesis
    by (cases "cid_Decode (lib_cid (ge_libs G)) (sm_Cid shard)") (auto simp: Let_def shard_answer_def [symmetric] split: if_splits)
qed

text \<open>A whole replica comes from a node that has a shard with the identifier of the content.\<close>

lemma fetch_shards_replica:
  assumes "fetch_shards G gs req meta xs cl = Inr (Some (c, content), cl')"
  shows "\<exists>key shard. (key, shard) \<in> set xs \<and> sm_Cid shard = mo_Cid meta \<and> cid_Decode (lib_cid (ge_libs G)) (sm_Cid shard) = Inr c
    \<and> slr_Code (shard_answer G gs req meta key shard c) = 0 \<and> content = slr_Content (shard_answer G gs req meta key shard c)"
  using assms
proof (induction xs arbitrary: cl)
  case (Cons x xs)
  obtain key shard where x: "x = (key, shard)" by (cases x)
  from fetch_shards_step [OF Cons.prems [unfolded x]] show ?case
  proof
    assume "\<exists>cl1. fetch_shards G gs req meta xs cl1 = Inr (Some (c, content), cl')"
    then show ?thesis using Cons.IH unfolding x list.set by blast
  qed (auto simp: x)
qed simp

text \<open>C30. Fetched content is the content asked for when it was put together from fragments: its identifier is the
  one recorded on chain.  A whole replica is what a node answered that the chain lists with the identifier
  of the content; the gateway does not compute the identifier of the bytes it got.\<close>

theorem FetchContent_result:
  assumes "FetchContent G gs req meta = Return (Inr res, gs')"
  shows "fr_Cid res = mo_Cid meta
    \<and> ((\<exists>c. ge_Sum G (slice (fr_Content res)) = Inr c \<and> cid_String (lib_cid (ge_libs G)) c = mo_Cid meta)
       \<or> (\<exists>key shard c. (key, shard) \<in> set (mo_Shards meta) \<and> sm_Cid shard = mo_Cid meta
            \<and> cid_Decode (lib_cid (ge_libs G)) (sm_Cid shard) = Inr c
            \<and> slr_Code (shard_answer G gs req meta key shard c) = 0 \<and> fr_Content res = slr_Content (shard_answer G gs req meta key shard c)))"
proof (cases "fetch_shards G gs req meta (mo_Shards meta) []")
  case (Inr r)
  obtain rep cl where r: "r = (rep, cl)" by (cases r)
  show ?thesis
  proof (cases rep)
    case None
    define content where "content = concat (map (\<lambda>(_, c). slice c) (ge_range G cl))"
    have sl: "slice (if content = [] then None else Some content) = content" by (simp add: slice_def)
    from assms Inr r None obtain c where "ge_Sum G content = Inr c" "cid_String (lib_cid (ge_libs G)) c = mo_Cid meta"
      "res = \<lparr>fr_Cid = mo_Cid meta, fr_Content = (if content = [] then None else Some content)\<rparr>"
      by (auto simp: FetchContent_def Let_def bind_outcome_Return CalculateCid_def content_def [symmetric]
          split: if_splits sum.splits option.splits)
    with sl show ?thesis by auto
  next
    case (Some x)
    obtain c content where x: "x = (c, content)" by (cases x)
    from assms Inr r Some x have "res = \<lparr>fr_Cid = mo_Cid meta, fr_Content = content\<rparr>"
      by (auto simp: FetchContent_def Let_def bind_outcome_Return split: if_splits option.splits)
    with fetch_shards_replica [of G gs req meta "mo_Shards meta" "[]" c content cl] Inr r Some x show ?thesis by auto
  qed
qed (use assms in \<open>simp add: FetchContent_def\<close>)

definition sample_model :: "string \<Rightarrow> Model" where
  "sample_model c = \<lparr>mo_DataId = sample_id, mo_Alias = ''a'', mo_GroupId = ''g'', mo_OrderId = 70000, mo_Owner = ''did:sid:a'',
     mo_Tags = [], mo_Cid = cid_String hex_cid sample_cid,
     mo_Shards = [(''sp1'', \<lparr>sm_ShardId = 7, sm_Peer = ''p1'', sm_Cid = c, sm_Provider = ''gw1'', sm_Sp = ''sp1''\<rparr>)],
     mo_CommitId = ''v'', mo_Commits = [], mo_Version = [], mo_Content = None, mo_ExtendInfo = []\<rparr>"

definition sample_meta_req :: MetadataProposalCbor where
  "sample_meta_req = \<lparr>mpc_Proposal = QueryProposal_zero, mpc_JwsSignature = JwsSignature_zero\<rparr>"

lemmas fetch_eval = FetchContent_def sample_model_def publish_content_def HasPrefix_def Type_Prefix_File_def
  gw_protocol_for_def sample_gw_def Let_def slice_def CalculateCid_def mem_libs_def

theorem FetchContent_result_witness:
  "\<exists>res gs'. FetchContent sample_gw_env sample_gw sample_meta_req (sample_model (cid_String hex_cid ''xyz'')) = Return (Inr res, gs')
     \<and> fr_Cid res = cid_String hex_cid sample_cid"
proof -
  have dec: "cid_Decode hex_cid (cid_String hex_cid ''xyz'') = Inr ''xyz''" "cid_String hex_cid ''xyz'' \<noteq> cid_String hex_cid sample_cid"
    by code_simp+
  have "\<exists>res gs'. FetchContent sample_gw_env sample_gw sample_meta_req (sample_model (cid_String hex_cid ''xyz'')) = Return (Inr res, gs')"
    using dec by (simp add: fetch_eval sample_gw_env_def sample_cid_def)
  then obtain res gs' where "FetchContent sample_gw_env sample_gw sample_meta_req (sample_model (cid_String hex_cid ''xyz'')) = Return (Inr res, gs')"
    by blast
  with FetchContent_result [OF this] show ?thesis by (auto simp: sample_model_def)
qed

text \<open>A node that answers with any bytes has them accepted as the replica.\<close>

lemma FetchContent_replica_unverified:
  assumes "length b \<le> 1000"
  shows "FetchContent (sample_gw_env\<lparr>ge_RequestShardLoad := (\<lambda>_ req _. \<lparr>slr_Code = 0, slr_Message = [], slr_OrderId = slq_OrderId req,
        slr_Cid = slq_Cid req, slr_Content = Some b, slr_RequestId = 0, slr_ResponseId = 0\<rparr>)\<rparr>) sample_gw sample_meta_req
        (sample_model (cid_String hex_cid sample_cid))
    = Return (Inr \<lparr>fr_Cid = cid_String hex_cid sample_cid, fr_Content = Some b\<rparr>, sample_gw)"
proof -
  have "cid_Decode hex_cid (cid_String hex_cid sample_cid) = Inr sample_cid" by code_simp
  with assms show ?thesis by (simp add: fetch_eval sample_gw_env_def)
qed

end
