(* ===== verification/Cbor_Messages.thy ===== *)
theory Cbor_Messages
  imports Cbor_Codec Chain_Api
begin

text \<open>
  The CBOR encoders and decoders of the messages between nodes (\<^verbatim>\<open>src/types/cbor_gen.go\<close>), in the same form as
  those of the persisted states, and their round trips.  A message field that is a byte slice is read into
  the slice the struct has when its encoding is empty, as the generated code does.  A load response whose
  content is empty is read back with a nil content.
\<close>

section \<open>Zero values\<close>

record ShardPingPong =
  spp_Local :: string

definition MetadataProposalCbor_zero :: MetadataProposalCbor where
  "MetadataProposalCbor_zero = \<lparr>mpc_Proposal = QueryProposal_zero, mpc_JwsSignature = JwsSignature_zero\<rparr>"

definition RelayProposalCbor_zero :: RelayProposalCbor where
  "RelayProposalCbor_zero = \<lparr>rpc_Proposal = RelayProposal_zero, rpc_Signature = []\<rparr>"

definition ShardAssignReq_zero :: ShardAssignReq where
  "ShardAssignReq_zero = \<lparr>saq_OrderId = 0, saq_DataId = [], saq_Assignee = [], saq_TxHash = [], saq_Height = 0, saq_AssignTxType = [], saq_TimeoutHeight = 0\<rparr>"

definition ShardAssignResp_zero :: ShardAssignResp where
  "ShardAssignResp_zero = \<lparr>sar_Code = 0, sar_Message = []\<rparr>"

definition ShardCompleteReq_zero :: ShardCompleteReq where
  "ShardCompleteReq_zero = \<lparr>scq_OrderId = 0, scq_DataId = [], scq_Cids = [], scq_TxHash = [], scq_Height = 0\<rparr>"

definition ShardCompleteResp_zero :: ShardCompleteResp where
  "ShardCompleteResp_zero = \<lparr>scr_Code = 0, scr_Message = [], scr_Recoverable = False\<rparr>"

definition ShardLoadReq_zero :: ShardLoadReq where
  "ShardLoadReq_zero = \<lparr>slq_Owner = [], slq_DataId = [], slq_OrderId = 0, slq_Cid = Undef, slq_Proposal = MetadataProposalCbor_zero, slq_RequestId = 0, slq_RelayProposal = RelayProposalCbor_zero\<rparr>"

definition ShardLoadResp_zero :: ShardLoadResp where
  "ShardLoadResp_zero = \<lparr>slr_Code = 0, slr_Message = [], slr_OrderId = 0, slr_Cid = Undef, slr_Content = None, slr_RequestId = 0, slr_ResponseId = 0\<rparr>"

definition ShardMigrateReq_zero :: ShardMigrateReq where
  "ShardMigrateReq_zero = \<lparr>smq_MigrateFrom = [], smq_OrderId = 0, smq_DataId = [], smq_TxHash = [], smq_TxHeight = 0, smq_Cid = [], smq_Content = []\<rparr>"

definition ShardMigrateResp_zero :: ShardMigrateResp where
  "ShardMigrateResp_zero = \<lparr>smr_Code = 0, smr_Message = [], smr_CompleteHash = [], smr_CompleteHeight = 0\<rparr>"

definition ShardPingPong_zero :: ShardPingPong where
  "ShardPingPong_zero = \<lparr>spp_Local = []\<rparr>"

lemmas message_zero_defs =
  QueryProposal_zero_def RelayProposal_zero_def JwsSignature_zero_def
  MetadataProposalCbor_zero_def RelayProposalCbor_zero_def ShardAssignReq_zero_def
  ShardAssignResp_zero_def ShardCompleteReq_zero_def ShardCompleteResp_zero_def
  ShardLoadReq_zero_def ShardLoadResp_zero_def ShardMigrateReq_zero_def
  ShardMigrateResp_zero_def ShardPingPong_zero_def

section \<open>Encoders and decoders\<close>

definition QueryProposal_MarshalCBOR :: "cbg_ops \<Rightarrow> QueryProposal \<Rightarrow> bytes res" where
  "QueryProposal_MarshalCBOR C t =
     enc_struct C 168
       [(''Owner'', enc_string C ''t.Owner'' (qp_Owner t)),
        (''Keyword'', enc_string C ''t.Keyword'' (qp_Keyword t)),
        (''GroupId'', enc_string C ''t.GroupId'' (qp_GroupId t)),
        (''KeywordType'', enc_uint64 C (qp_KeywordType t)),
        (''LastValidHeight'', enc_uint64 C (qp_LastValidHeight t)),
        (''Gateway'', enc_string C ''t.Gateway'' (qp_Gateway t)),
        (''CommitId'', enc_string C ''t.CommitId'' (qp_CommitId t)),
        (''Version'', enc_string C ''t.Version'' (qp_Version t))]"

definition QueryProposal_switch :: "cbg_ops \<Rightarrow> string \<Rightarrow> QueryProposal \<Rightarrow> QueryProposal decoder" where
  "QueryProposal_switch C name t bs =
     (if name = ''Owner'' then set_field (cbg_ReadString C bs) (\<lambda>x. t\<lparr>qp_Owner := x\<rparr>)
      else if name = ''Keyword'' then set_field (cbg_ReadString C bs) (\<lambda>x. t\<lparr>qp_Keyword := x\<rparr>)
      else if name = ''GroupId'' then set_field (cbg_ReadString C bs) (\<lambda>x. t\<lparr>qp_GroupId := x\<rparr>)
      else if name = ''KeywordType'' then set_field (dec_uint64 C bs) (\<lambda>x. t\<lparr>qp_KeywordType := x\<rparr>)
      else if name = ''LastValidHeight'' then set_field (dec_uint64 C bs) (\<lambda>x. t\<lparr>qp_LastValidHeight := x\<rparr>)
      else if name = ''Gateway'' then set_field (cbg_ReadString C bs) (\<lambda>x. t\<lparr>qp_Gateway := x\<rparr>)
      else if name = ''CommitId'' then set_field (cbg_ReadString C bs) (\<lambda>x. t\<lparr>qp_CommitId := x\<rparr>)
      else if name = ''Version'' then set_field (cbg_ReadString C bs) (\<lambda>x. t\<lparr>qp_Version := x\<rparr>)
      else Inr (t, cbg_ScanForLinks C bs))"

definition QueryProposal_UnmarshalCBOR :: "cbg_ops \<Rightarrow> QueryProposal decoder" where
  "QueryProposal_UnmarshalCBOR C = dec_struct C ''QueryProposal'' (QueryProposal_switch C) QueryProposal_zero"

definition RelayProposal_MarshalCBOR :: "cbg_ops \<Rightarrow> RelayProposal \<Rightarrow> bytes res" where
  "RelayProposal_MarshalCBOR C t =
     enc_struct C 164
       [(''NodeAddress'', enc_string C ''t.NodeAddress'' (rp_NodeAddress t)),
        (''LocalPeerId'', enc_string C ''t.LocalPeerId'' (rp_LocalPeerId t)),
        (''RelayPeerIds'', enc_string C ''t.RelayPeerIds'' (rp_RelayPeerIds t)),
        (''TargetPeerInfo'', enc_string C ''t.TargetPeerInfo'' (rp_TargetPeerInfo t))]"

definition RelayProposal_switch :: "cbg_ops \<Rightarrow> string \<Rightarrow> RelayProposal \<Rightarrow> RelayProposal decoder" where
  "RelayProposal_switch C name t bs =
     (if name = ''NodeAddress'' then set_field (cbg_ReadString C bs) (\<lambda>x. t\<lparr>rp_NodeAddress := x\<rparr>)
      else if name = ''LocalPeerId'' then set_field (cbg_ReadString C bs) (\<lambda>x. t\<lparr>rp_LocalPeerId := x\<rparr>)
      else if name = ''RelayPeerIds'' then set_field (cbg_ReadString C bs) (\<lambda>x. t\<lparr>rp_RelayPeerIds := x\<rparr>)
      else if name = ''TargetPeerInfo'' then set_field (cbg_ReadString C bs) (\<lambda>x. t\<lparr>rp_TargetPeerInfo := x\<rparr>)
      else Inr (t, cbg_ScanForLinks C bs))"

definition RelayProposal_UnmarshalCBOR :: "cbg_ops \<Rightarrow> RelayProposal decoder" where
  "RelayProposal_UnmarshalCBOR C = dec_struct C ''RelayProposal'' (RelayProposal_switch C) RelayProposal_zero"

definition JwsSignature_MarshalCBOR :: "cbg_ops \<Rightarrow> JwsSignature \<Rightarrow> bytes res" where
  "JwsSignature_MarshalCBOR C t =
     enc_struct C 162
       [(''Protected'', enc_string C ''t.Protected'' (jws_Protected t)),
        (''Signature'', enc_string C ''t.Signature'' (jws_Signature t))]"

definition JwsSignature_switch :: "cbg_ops \<Rightarrow> string \<Rightarrow> JwsSignature \<Rightarrow> JwsSignature decoder" where
  "JwsSignature_switch C name t bs =
     (if name = ''Protected'' then set_field (cbg_ReadString C bs) (\<lambda>x. t\<lparr>jws_Protected := x\<rparr>)
      else if name = ''Signature'' then set_field (cbg_ReadString C bs) (\<lambda>x. t\<lparr>jws_Signature := x\<rparr>)
      else Inr (t, cbg_ScanForLinks C bs))"

definition JwsSignature_UnmarshalCBOR :: "cbg_ops \<Rightarrow> JwsSignature decoder" where
  "JwsSignature_UnmarshalCBOR C = dec_struct C ''JwsSignature'' (JwsSignature_switch C) JwsSignature_zero"

definition MetadataProposalCbor_MarshalCBOR :: "cbg_ops \<Rightarrow> MetadataProposalCbor \<Rightarrow> bytes res" where
  "MetadataProposalCbor_MarshalCBOR C t =
     enc_struct C 162
       [(''Proposal'', QueryProposal_MarshalCBOR C (mpc_Proposal t)),
        (''JwsSignature'', JwsSignature_MarshalCBOR C (mpc_JwsSignature t))]"

definition MetadataProposalCbor_switch :: "cbg_ops \<Rightarrow> string \<Rightarrow> MetadataProposalCbor \<Rightarrow> MetadataProposalCbor decoder" where
  "MetadataProposalCbor_switch C name t bs =
     (if name = ''Proposal'' then set_field (dec_nested ''t.Proposal'' (QueryProposal_UnmarshalCBOR C) bs) (\<lambda>x. t\<lparr>mpc_Proposal := x\<rparr>)
      else if name = ''JwsSignature'' then set_field (dec_nested ''t.JwsSignature'' (JwsSignature_UnmarshalCBOR C) bs) (\<lambda>x. t\<lparr>mpc_JwsSignature := x\<rparr>)
      else Inr (t, cbg_ScanForLinks C bs))"

definition MetadataProposalCbor_UnmarshalCBOR :: "cbg_ops \<Rightarrow> MetadataProposalCbor decoder" where
  "MetadataProposalCbor_UnmarshalCBOR C = dec_struct C ''MetadataProposalCbor'' (MetadataProposalCbor_switch C) MetadataProposalCbor_zero"

definition RelayProposalCbor_MarshalCBOR :: "cbg_ops \<Rightarrow> RelayProposalCbor \<Rightarrow> bytes res" where
  "RelayProposalCbor_MarshalCBOR C t =
     enc_struct C 162
       [(''Proposal'', RelayProposal_MarshalCBOR C (rpc_Proposal t)),
        (''Signature'', enc_bytes C ''t.Signature'' (rpc_Signature t))]"

definition RelayProposalCbor_switch :: "cbg_ops \<Rightarrow> string \<Rightarrow> RelayProposalCbor \<Rightarrow> RelayProposalCbor decoder" where
  "RelayProposalCbor_switch C name t bs =
     (if name = ''Proposal'' then set_field (dec_nested ''t.Proposal'' (RelayProposal_UnmarshalCBOR C) bs) (\<lambda>x. t\<lparr>rpc_Proposal := x\<rparr>)
      else if name = ''Signature'' then set_field (dec_bytes C ''t.Signature'' (rpc_Signature t) bs) (\<lambda>x. t\<lparr>rpc_Signature := x\<rparr>)
      else Inr (t, cbg_ScanForLinks C bs))"

definition RelayProposalCbor_UnmarshalCBOR :: "cbg_ops \<Rightarrow> RelayProposalCbor decoder" where
  "RelayProposalCbor_UnmarshalCBOR C = dec_struct C ''RelayProposalCbor'' (RelayProposalCbor_switch C) RelayProposalCbor_zero"

definition ShardAssignReq_MarshalCBOR :: "cbg_ops \<Rightarrow> ShardAssignReq \<Rightarrow> bytes res" where
  "ShardAssignReq_MarshalCBOR C t =
     enc_struct C 167
       [(''OrderId'', enc_uint64 C (saq_OrderId t)),
        (''DataId'', enc_string C ''t.DataId'' (saq_DataId t)),
        (''Assignee'', enc_string C ''t.Assignee'' (saq_Assignee t)),
        (''TxHash'', enc_string C ''t.TxHash'' (saq_TxHash t)),
        (''Height'', enc_int64 C (saq_Height t)),
        (''AssignTxType'', enc_string C ''t.AssignTxType'' (saq_AssignTxType t)),
        (''TimeoutHeight'', enc_uint64 C (saq_TimeoutHeight t))]"

definition ShardAssignReq_switch :: "cbg_ops \<Rightarrow> string \<Rightarrow> ShardAssignReq \<Rightarrow> ShardAssignReq decoder" where
  "ShardAssignReq_switch C name t bs =
     (if name = ''OrderId'' then set_field (dec_uint64 C bs) (\<lambda>x. t\<lparr>saq_OrderId := x\<rparr>)
      else if name = ''DataId'' then set_field (cbg_ReadString C bs) (\<lambda>x. t\<lparr>saq_DataId := x\<rparr>)
      else if name = ''Assignee'' then set_field (cbg_ReadString C bs) (\<lambda>x. t\<lparr>saq_Assignee := x\<rparr>)
      else if name = ''TxHash'' then set_field (cbg_ReadString C bs) (\<lambda>x. t\<lparr>saq_TxHash := x\<rparr>)
      else if name = ''Height'' then set_field (dec_int64 C bs) (\<lambda>x. t\<lparr>saq_Height := x\<rparr>)
      else if name = ''AssignTxType'' then set_field (cbg_ReadString C bs) (\<lambda>x. t\<lparr>saq_AssignTxType := x\<rparr>)
      else if name = ''TimeoutHeight'' then set_field (dec_uint64 C bs) (\<lambda>x. t\<lparr>saq_TimeoutHeight := x\<rparr>)
      else Inr (t, cbg_ScanForLinks C bs))"

definition ShardAssignReq_UnmarshalCBOR :: "cbg_ops \<Rightarrow> ShardAssignReq decoder" where
  "ShardAssignReq_UnmarshalCBOR C = dec_struct C ''ShardAssignReq'' (ShardAssignReq_switch C) ShardAssignReq_zero"

definition ShardAssignReq_ok :: "ShardAssignReq \<Rightarrow> bool" where
  "ShardAssignReq_ok t \<longleftrightarrow> int64_ok (saq_Height t)"

definition ShardAssignResp_MarshalCBOR :: "cbg_ops \<Rightarrow> ShardAssignResp \<Rightarrow> bytes res" where
  "ShardAssignResp_MarshalCBOR C t =
     enc_struct C 162
       [(''Code'', enc_uint64 C (sar_Code t)),
        (''Message'', enc_string C ''t.Message'' (sar_Message t))]"

definition ShardAssignResp_switch :: "cbg_ops \<Rightarrow> string \<Rightarrow> ShardAssignResp \<Rightarrow> ShardAssignResp decoder" where
  "ShardAssignResp_switch C name t bs =
     (if name = ''Code'' then set_field (dec_uint64 C bs) (\<lambda>x. t\<lparr>sar_Code := x\<rparr>)
      else if name = ''Message'' then set_field (cbg_ReadString C bs) (\<lambda>x. t\<lparr>sar_Message := x\<rparr>)
      else Inr (t, cbg_ScanForLinks C bs))"

definition ShardAssignResp_UnmarshalCBOR :: "cbg_ops \<Rightarrow> ShardAssignResp decoder" where
  "ShardAssignResp_UnmarshalCBOR C = dec_struct C ''ShardAssignResp'' (ShardAssignResp_switch C) ShardAssignResp_zero"

definition ShardCompleteReq_MarshalCBOR :: "cbg_ops \<Rightarrow> ShardCompleteReq \<Rightarrow> bytes res" where
  "ShardCompleteReq_MarshalCBOR C t =
     enc_struct C 165
       [(''OrderId'', enc_uint64 C (scq_OrderId t)),
        (''DataId'', enc_string C ''t.DataId'' (scq_DataId t)),
        (''Cids'', enc_cids C ''t.Cids'' (scq_Cids t)),
        (''TxHash'', enc_string C ''t.TxHash'' (scq_TxHash t)),
        (''Height'', enc_int64 C (scq_Height t))]"

definition ShardCompleteReq_switch :: "cbg_ops \<Rightarrow> string \<Rightarrow> ShardCompleteReq \<Rightarrow> ShardCompleteReq decoder" where
  "ShardCompleteReq_switch C name t bs =
     (if name = ''OrderId'' then set_field (dec_uint64 C bs) (\<lambda>x. t\<lparr>scq_OrderId := x\<rparr>)
      else if name = ''DataId'' then set_field (cbg_ReadString C bs) (\<lambda>x. t\<lparr>scq_DataId := x\<rparr>)
      else if name = ''Cids'' then set_field (dec_cids C ''t.Cids'' bs) (\<lambda>x. if x = [] then t else t\<lparr>scq_Cids := x\<rparr>)
      else if name = ''TxHash'' then set_field (cbg_ReadString C bs) (\<lambda>x. t\<lparr>scq_TxHash := x\<rparr>)
      else if name = ''Height'' then set_field (dec_int64 C bs) (\<lambda>x. t\<lparr>scq_Height := x\<rparr>)
      else Inr (t, cbg_ScanForLinks C bs))"

definition ShardCompleteReq_UnmarshalCBOR :: "cbg_ops \<Rightarrow> ShardCompleteReq decoder" where
  "ShardCompleteReq_UnmarshalCBOR C = dec_struct C ''ShardCompleteReq'' (ShardCompleteReq_switch C) ShardCompleteReq_zero"

definition ShardCompleteReq_ok :: "ShardCompleteReq \<Rightarrow> bool" where
  "ShardCompleteReq_ok t \<longleftrightarrow> int64_ok (scq_Height t)"

definition ShardCompleteResp_MarshalCBOR :: "cbg_ops \<Rightarrow> ShardCompleteResp \<Rightarrow> bytes res" where
  "ShardCompleteResp_MarshalCBOR C t =
     enc_struct C 163
       [(''Code'', enc_uint64 C (scr_Code t)),
        (''Message'', enc_string C ''t.Message'' (scr_Message t)),
        (''Recoverable'', enc_bool C (scr_Recoverable t))]"

definition ShardCompleteResp_switch :: "cbg_ops \<Rightarrow> string \<Rightarrow> ShardCompleteResp \<Rightarrow> ShardCompleteResp decoder" where
  "ShardCompleteResp_switch C name t bs =
     (if name = ''Code'' then set_field (dec_uint64 C bs) (\<lambda>x. t\<lparr>scr_Code := x\<rparr>)
      else if name = ''Message'' then set_field (cbg_ReadString C bs) (\<lambda>x. t\<lparr>scr_Message := x\<rparr>)
      else if name = ''Recoverable'' then set_field (dec_bool C bs) (\<lambda>x. t\<lparr>scr_Recoverable := x\<rparr>)
      else Inr (t, cbg_ScanForLinks C bs))"

definition ShardCompleteResp_UnmarshalCBOR :: "cbg_ops \<Rightarrow> ShardCompleteResp decoder" where
  "ShardCompleteResp_UnmarshalCBOR C = dec_struct C ''ShardCompleteResp'' (ShardCompleteResp_switch C) ShardCompleteResp_zero"

definition ShardLoadReq_MarshalCBOR :: "cbg_ops \<Rightarrow> ShardLoadReq \<Rightarrow> bytes res" where
  "ShardLoadReq_MarshalCBOR C t =
     enc_struct C 167
       [(''Owner'', enc_string C ''t.Owner'' (slq_Owner t)),
        (''DataId'', enc_string C ''t.DataId'' (slq_DataId t)),
        (''OrderId'', enc_uint64 C (slq_OrderId t)),
        (''Cid'', enc_cid C ''t.Cid'' (slq_Cid t)),
        (''Proposal'', MetadataProposalCbor_MarshalCBOR C (slq_Proposal t)),
        (''RequestId'', enc_int64 C (slq_RequestId t)),
        (''RelayProposal'', RelayProposalCbor_MarshalCBOR C (slq_RelayProposal t))]"

definition ShardLoadReq_switch :: "cbg_ops \<Rightarrow> string \<Rightarrow> ShardLoadReq \<Rightarrow> ShardLoadReq decoder" where
  "ShardLoadReq_switch C name t bs =
     (if name = ''Owner'' then set_field (cbg_ReadString C bs) (\<lambda>x. t\<lparr>slq_Owner := x\<rparr>)
      else if name = ''DataId'' then set_field (cbg_ReadString C bs) (\<lambda>x. t\<lparr>slq_DataId := x\<rparr>)
      else if name = ''OrderId'' then set_field (dec_uint64 C bs) (\<lambda>x. t\<lparr>slq_OrderId := x\<rparr>)
      else if name = ''Cid'' then set_field (dec_cid C ''t.Cid'' bs) (\<lambda>x. t\<lparr>slq_Cid := x\<rparr>)
      else if name = ''Proposal'' then set_field (dec_nested ''t.Proposal'' (MetadataProposalCbor_UnmarshalCBOR C) bs) (\<lambda>x. t\<lparr>slq_Proposal := x\<rparr>)
      else if name = ''RequestId'' then set_field (dec_int64 C bs) (\<lambda>x. t\<lparr>slq_RequestId := x\<rparr>)
      else if name = ''RelayProposal'' then set_field (dec_nested ''t.RelayProposal'' (RelayProposalCbor_UnmarshalCBOR C) bs) (\<lambda>x. t\<lparr>slq_RelayProposal := x\<rparr>)
      else Inr (t, cbg_ScanForLinks C bs))"

definition ShardLoadReq_UnmarshalCBOR :: "cbg_ops \<Rightarrow> ShardLoadReq decoder" where
  "ShardLoadReq_UnmarshalCBOR C = dec_struct C ''ShardLoadReq'' (ShardLoadReq_switch C) ShardLoadReq_zero"

definition ShardLoadReq_ok :: "ShardLoadReq \<Rightarrow> bool" where
  "ShardLoadReq_ok t \<longleftrightarrow> int64_ok (slq_RequestId t)"

definition ShardLoadResp_MarshalCBOR :: "cbg_ops \<Rightarrow> ShardLoadResp \<Rightarrow> bytes res" where
  "ShardLoadResp_MarshalCBOR C t =
     enc_struct C 167
       [(''Code'', enc_uint64 C (slr_Code t)),
        (''Message'', enc_string C ''t.Message'' (slr_Message t)),
        (''OrderId'', enc_uint64 C (slr_OrderId t)),
        (''Cid'', enc_cid C ''t.Cid'' (slr_Cid t)),
        (''Content'', enc_bytes C ''t.Content'' (slice (slr_Content t))),
        (''RequestId'', enc_int64 C (slr_RequestId t)),
        (''ResponseId'', enc_int64 C (slr_ResponseId t))]"

definition ShardLoadResp_switch :: "cbg_ops \<Rightarrow> string \<Rightarrow> ShardLoadResp \<Rightarrow> ShardLoadResp decoder" where
  "ShardLoadResp_switch C name t bs =
     (if name = ''Code'' then set_field (dec_uint64 C bs) (\<lambda>x. t\<lparr>slr_Code := x\<rparr>)
      else if name = ''Message'' then set_field (cbg_ReadString C bs) (\<lambda>x. t\<lparr>slr_Message := x\<rparr>)
      else if name = ''OrderId'' then set_field (dec_uint64 C bs) (\<lambda>x. t\<lparr>slr_OrderId := x\<rparr>)
      else if name = ''Cid'' then set_field (dec_cid C ''t.Cid'' bs) (\<lambda>x. t\<lparr>slr_Cid := x\<rparr>)
      else if name = ''Content'' then set_field (dec_bytes C ''t.Content'' (slice (slr_Content t)) bs) (\<lambda>x. if x = [] then t else t\<lparr>slr_Content := Some x\<rparr>)
      else if name = ''RequestId'' then set_field (dec_int64 C bs) (\<lambda>x. t\<lparr>slr_RequestId := x\<rparr>)
      else if name = ''ResponseId'' then set_field (dec_int64 C bs) (\<lambda>x. t\<lparr>slr_ResponseId := x\<rparr>)
      else Inr (t, cbg_ScanForLinks C bs))"

definition ShardLoadResp_UnmarshalCBOR :: "cbg_ops \<Rightarrow> ShardLoadResp decoder" where
  "ShardLoadResp_UnmarshalCBOR C = dec_struct C ''ShardLoadResp'' (ShardLoadResp_switch C) ShardLoadResp_zero"

definition ShardLoadResp_ok :: "ShardLoadResp \<Rightarrow> bool" where
  "ShardLoadResp_ok t \<longleftrightarrow> int64_ok (slr_RequestId t) \<and> int64_ok (slr_ResponseId t)"

definition ShardMigrateReq_MarshalCBOR :: "cbg_ops \<Rightarrow> ShardMigrateReq \<Rightarrow> bytes res" where
  "ShardMigrateReq_MarshalCBOR C t =
     enc_struct C 167
       [(''MigrateFrom'', enc_string C ''t.MigrateFrom'' (smq_MigrateFrom t)),
        (''OrderId'', enc_uint64 C (smq_OrderId t)),
        (''DataId'', enc_string C ''t.DataId'' (smq_DataId t)),
        (''TxHash'', enc_string C ''t.TxHash'' (smq_TxHash t)),
        (''TxHeight'', enc_int64 C (smq_TxHeight t)),
        (''Cid'', enc_string C ''t.Cid'' (smq_Cid t)),
        (''Content'', enc_bytes C ''t.Content'' (smq_Content t))]"

definition ShardMigrateReq_switch :: "cbg_ops \<Rightarrow> string \<Rightarrow> ShardMigrateReq \<Rightarrow> ShardMigrateReq decoder" where
  "ShardMigrateReq_switch C name t bs =
     (if name = ''MigrateFrom'' then set_field (cbg_ReadString C bs) (\<lambda>x. t\<lparr>smq_MigrateFrom := x\<rparr>)
      else if name = ''OrderId'' then set_field (dec_uint64 C bs) (\<lambda>x. t\<lparr>smq_OrderId := x\<rparr>)
      else if name = ''DataId'' then set_field (cbg_ReadString C bs) (\<lambda>x. t\<lparr>smq_DataId := x\<rparr>)
      else if name = ''TxHash'' then set_field (cbg_ReadString C bs) (\<lambda>x. t\<lparr>smq_TxHash := x\<rparr>)
      else if name = ''TxHeight'' then set_field (dec_int64 C bs) (\<lambda>x. t\<lparr>smq_TxHeight := x\<rparr>)
      else if name = ''Cid'' then set_field (cbg_ReadString C bs) (\<lambda>x. t\<lparr>smq_Cid := x\<rparr>)
      else if name = ''Content'' then set_field (dec_bytes C ''t.Content'' (smq_Content t) bs) (\<lambda>x. t\<lparr>smq_Content := x\<rparr>)
      else Inr (t, cbg_ScanForLinks C bs))"

definition ShardMigrateReq_UnmarshalCBOR :: "cbg_ops \<Rightarrow> ShardMigrateReq decoder" where
  "ShardMigrateReq_UnmarshalCBOR C = dec_struct C ''ShardMigrateReq'' (ShardMigrateReq_switch C) ShardMigrateReq_zero"

definition ShardMigrateReq_ok :: "ShardMigrateReq \<Rightarrow> bool" where
  "ShardMigrateReq_ok t \<longleftrightarrow> int64_ok (smq_TxHeight t)"

definition ShardMigrateResp_MarshalCBOR :: "cbg_ops \<Rightarrow> ShardMigrateResp \<Rightarrow> bytes res" where
  "ShardMigrateResp_MarshalCBOR C t =
     enc_struct C 164
       [(''Code'', enc_uint64 C (smr_Code t)),
        (''Message'', enc_string C ''t.Message'' (smr_Message t)),
        (''CompleteHash'', enc_string C ''t.CompleteHash'' (smr_CompleteHash t)),
        (''CompleteHeight'', enc_int64 C (smr_CompleteHeight t))]"

definition ShardMigrateResp_switch :: "cbg_ops \<Rightarrow> string \<Rightarrow> ShardMigrateResp \<Rightarrow> ShardMigrateResp decoder" where
  "ShardMigrateResp_switch C name t bs =
     (if name = ''Code'' then set_field (dec_uint64 C bs) (\<lambda>x. t\<lparr>smr_Code := x\<rparr>)
      else if name = ''Message'' then set_field (cbg_ReadString C bs) (\<lambda>x. t\<lparr>smr_Message := x\<rparr>)
      else if name = ''CompleteHash'' then set_field (cbg_ReadString C bs) (\<lambda>x. t\<lparr>smr_CompleteHash := x\<rparr>)
      else if name = ''CompleteHeight'' then set_field (dec_int64 C bs) (\<lambda>x. t\<lparr>smr_CompleteHeight := x\<rparr>)
      else Inr (t, cbg_ScanForLinks C bs))"

definition ShardMigrateResp_UnmarshalCBOR :: "cbg_ops \<Rightarrow> ShardMigrateResp decoder" where
  "ShardMigrateResp_UnmarshalCBOR C = dec_struct C ''ShardMigrateResp'' (ShardMigrateResp_switch C) ShardMigrateResp_zero"

definition ShardMigrateResp_ok :: "ShardMigrateResp \<Rightarrow> bool" where
  "ShardMigrateResp_ok t \<longleftrightarrow> int64_ok (smr_CompleteHeight t)"

definition ShardPingPong_MarshalCBOR :: "cbg_ops \<Rightarrow> ShardPingPong \<Rightarrow> bytes res" where
  "ShardPingPong_MarshalCBOR C t =
     enc_struct C 161
       [(''Local'', enc_string C ''t.Local'' (spp_Local t))]"

definition ShardPingPong_switch :: "cbg_ops \<Rightarrow> string \<Rightarrow> ShardPingPong \<Rightarrow> ShardPingPong decoder" where
  "ShardPingPong_switch C name t bs =
     (if name = ''Local'' then set_field (cbg_ReadString C bs) (\<lambda>x. t\<lparr>spp_Local := x\<rparr>)
      else Inr (t, cbg_ScanForLinks C bs))"

definition ShardPingPong_UnmarshalCBOR :: "cbg_ops \<Rightarrow> ShardPingPong decoder" where
  "ShardPingPong_UnmarshalCBOR C = dec_struct C ''ShardPingPong'' (ShardPingPong_switch C) ShardPingPong_zero"

text \<open>A load response as it is read back: an empty content is a nil slice.\<close>

definition ShardLoadResp_norm :: "ShardLoadResp \<Rightarrow> ShardLoadResp" where
  "ShardLoadResp_norm t = t\<lparr>slr_Content := (if slr_Content t = Some [] then None else slr_Content t)\<rparr>"

section \<open>Round trips\<close>

context cbor_lib
begin

lemma QueryProposal_roundtrip:
  "QueryProposal_MarshalCBOR C t = Inr b \<Longrightarrow> reads (QueryProposal_UnmarshalCBOR C) b t"
  by (auto simp: QueryProposal_MarshalCBOR_def QueryProposal_UnmarshalCBOR_def QueryProposal_switch_def message_zero_defs
      enc_struct_Inr list_all2_Cons1 reads_message_field
      intro!: readsI dec_struct_numeral [where n = 8])

lemma RelayProposal_roundtrip:
  "RelayProposal_MarshalCBOR C t = Inr b \<Longrightarrow> reads (RelayProposal_UnmarshalCBOR C) b t"
  by (auto simp: RelayProposal_MarshalCBOR_def RelayProposal_UnmarshalCBOR_def RelayProposal_switch_def message_zero_defs
      enc_struct_Inr list_all2_Cons1 reads_message_field
      intro!: readsI dec_struct_numeral [where n = 4])

lemma JwsSignature_roundtrip:
  "JwsSignature_MarshalCBOR C t = Inr b \<Longrightarrow> reads (JwsSignature_UnmarshalCBOR C) b t"
  by (auto simp: JwsSignature_MarshalCBOR_def JwsSignature_UnmarshalCBOR_def JwsSignature_switch_def message_zero_defs
      enc_struct_Inr list_all2_Cons1 reads_message_field
      intro!: readsI dec_struct_numeral [where n = 2])

lemma MetadataProposalCbor_roundtrip:
  "MetadataProposalCbor_MarshalCBOR C t = Inr b \<Longrightarrow> reads (MetadataProposalCbor_UnmarshalCBOR C) b t"
  by (auto simp: MetadataProposalCbor_MarshalCBOR_def MetadataProposalCbor_UnmarshalCBOR_def MetadataProposalCbor_switch_def message_zero_defs
      enc_struct_Inr list_all2_Cons1 reads_message_field QueryProposal_roundtrip [THEN reads_nested, THEN readsD] JwsSignature_roundtrip [THEN reads_nested, THEN readsD]
      intro!: readsI dec_struct_numeral [where n = 2])

lemma RelayProposalCbor_roundtrip:
  "RelayProposalCbor_MarshalCBOR C t = Inr b \<Longrightarrow> reads (RelayProposalCbor_UnmarshalCBOR C) b t"
  by (auto simp: RelayProposalCbor_MarshalCBOR_def RelayProposalCbor_UnmarshalCBOR_def RelayProposalCbor_switch_def message_zero_defs
      enc_struct_Inr list_all2_Cons1 reads_message_field RelayProposal_roundtrip [THEN reads_nested, THEN readsD]
      intro!: readsI dec_struct_numeral [where n = 2])

lemma ShardAssignReq_roundtrip:
  "ShardAssignReq_MarshalCBOR C t = Inr b \<Longrightarrow> ShardAssignReq_ok t \<Longrightarrow> reads (ShardAssignReq_UnmarshalCBOR C) b t"
  by (auto simp: ShardAssignReq_MarshalCBOR_def ShardAssignReq_UnmarshalCBOR_def ShardAssignReq_switch_def message_zero_defs
      enc_struct_Inr list_all2_Cons1 reads_message_field ShardAssignReq_ok_def int64_ok_def
      intro!: readsI dec_struct_numeral [where n = 7])

lemma ShardAssignResp_roundtrip:
  "ShardAssignResp_MarshalCBOR C t = Inr b \<Longrightarrow> reads (ShardAssignResp_UnmarshalCBOR C) b t"
  by (auto simp: ShardAssignResp_MarshalCBOR_def ShardAssignResp_UnmarshalCBOR_def ShardAssignResp_switch_def message_zero_defs
      enc_struct_Inr list_all2_Cons1 reads_message_field
      intro!: readsI dec_struct_numeral [where n = 2])

lemma ShardCompleteReq_roundtrip:
  "ShardCompleteReq_MarshalCBOR C t = Inr b \<Longrightarrow> ShardCompleteReq_ok t \<Longrightarrow> reads (ShardCompleteReq_UnmarshalCBOR C) b t"
  by (auto simp: ShardCompleteReq_MarshalCBOR_def ShardCompleteReq_UnmarshalCBOR_def ShardCompleteReq_switch_def message_zero_defs
      enc_struct_Inr list_all2_Cons1 reads_message_field ShardCompleteReq_ok_def int64_ok_def
      intro!: readsI dec_struct_numeral [where n = 5])

lemma ShardCompleteResp_roundtrip:
  "ShardCompleteResp_MarshalCBOR C t = Inr b \<Longrightarrow> reads (ShardCompleteResp_UnmarshalCBOR C) b t"
  by (auto simp: ShardCompleteResp_MarshalCBOR_def ShardCompleteResp_UnmarshalCBOR_def ShardCompleteResp_switch_def message_zero_defs
      enc_struct_Inr list_all2_Cons1 reads_message_field
      intro!: readsI dec_struct_numeral [where n = 3])

lemma ShardLoadReq_roundtrip:
  "ShardLoadReq_MarshalCBOR C t = Inr b \<Longrightarrow> ShardLoadReq_ok t \<Longrightarrow> reads (ShardLoadReq_UnmarshalCBOR C) b t"
  by (auto simp: ShardLoadReq_MarshalCBOR_def ShardLoadReq_UnmarshalCBOR_def ShardLoadReq_switch_def message_zero_defs
      enc_struct_Inr list_all2_Cons1 reads_message_field MetadataProposalCbor_roundtrip [THEN reads_nested, THEN readsD] RelayProposalCbor_roundtrip [THEN reads_nested, THEN readsD] ShardLoadReq_ok_def int64_ok_def
      intro!: readsI dec_struct_numeral [where n = 7])

lemma ShardLoadResp_roundtrip:
  "ShardLoadResp_MarshalCBOR C t = Inr b \<Longrightarrow> ShardLoadResp_ok t \<Longrightarrow> reads (ShardLoadResp_UnmarshalCBOR C) b (ShardLoadResp_norm t)"
  by (cases t; cases "slr_Content t")
     (auto simp: ShardLoadResp_MarshalCBOR_def ShardLoadResp_UnmarshalCBOR_def ShardLoadResp_switch_def message_zero_defs
      enc_struct_Inr list_all2_Cons1 reads_message_field ShardLoadResp_ok_def int64_ok_def ShardLoadResp_norm_def slice_def
      intro!: readsI dec_struct_numeral [where n = 7])

lemma ShardMigrateReq_roundtrip:
  "ShardMigrateReq_MarshalCBOR C t = Inr b \<Longrightarrow> ShardMigrateReq_ok t \<Longrightarrow> reads (ShardMigrateReq_UnmarshalCBOR C) b t"
  by (auto simp: ShardMigrateReq_MarshalCBOR_def ShardMigrateReq_UnmarshalCBOR_def ShardMigrateReq_switch_def message_zero_defs
      enc_struct_Inr list_all2_Cons1 reads_message_field ShardMigrateReq_ok_def int64_ok_def
      intro!: readsI dec_struct_numeral [where n = 7])

lemma ShardMigrateResp_roundtrip:
  "ShardMigrateResp_MarshalCBOR C t = Inr b \<Longrightarrow> ShardMigrateResp_ok t \<Longrightarrow> reads (ShardMigrateResp_UnmarshalCBOR C) b t"
  by (auto simp: ShardMigrateResp_MarshalCBOR_def ShardMigrateResp_UnmarshalCBOR_def ShardMigrateResp_switch_def message_zero_defs
      enc_struct_Inr list_all2_Cons1 reads_message_field ShardMigrateResp_ok_def int64_ok_def
      intro!: readsI dec_struct_numeral [where n = 4])

lemma ShardPingPong_roundtrip:
  "ShardPingPong_MarshalCBOR C t = Inr b \<Longrightarrow> reads (ShardPingPong_UnmarshalCBOR C) b t"
  by (auto simp: ShardPingPong_MarshalCBOR_def ShardPingPong_UnmarshalCBOR_def ShardPingPong_switch_def message_zero_defs
      enc_struct_Inr list_all2_Cons1 reads_message_field
      intro!: readsI dec_struct_numeral [where n = 1])

end

end
