(* ===== verification/Transport.thy ===== *)
theory Transport
  imports Cbor_Messages
begin

text \<open>
  The transport of requests between nodes (\<^verbatim>\<open>src/node/transport/shard.go\<close>, \<^verbatim>\<open>pingpong.go\<close>) and the choice of the
  encoding of a message (\<^verbatim>\<open>src/types/protocol.go\<close>).  The libp2p host is not part of the repository: \<open>host_ops\<close> is
  a record of its answers during one call, any answers; the streams it opens have a state of their own and
  one operation, \<open>st_exchange\<close>: write a request, close the writing side, and read what the other side sends
  until it closes, each of which may fail.  The retries of a request run on the same stream, in the state
  the failed attempt left.
\<close>

section \<open>Formats\<close>

definition FormatJson :: string where "FormatJson = ''json''"

definition FormatCbor :: string where "FormatCbor = ''cbor''"

text \<open>Encoding and decoding by format, given the JSON and the CBOR codec of the type.  Every message type has a
  pair of methods of this form; encoding into memory, the write itself does not fail.\<close>

definition msg_Marshal :: "('a \<Rightarrow> bytes res) \<Rightarrow> ('a \<Rightarrow> bytes res) \<Rightarrow> string \<Rightarrow> 'a \<Rightarrow> bytes res" where
  "msg_Marshal json cbor format x = (if format = FormatJson then json x else cbor x)"

definition msg_Unmarshal :: "(bytes \<Rightarrow> 'a res) \<Rightarrow> 'a decoder \<Rightarrow> string \<Rightarrow> bytes \<Rightarrow> 'a res" where
  "msg_Unmarshal json cbor format bs = (if format = FormatJson then json bs else map_sum id fst (cbor bs))"

section \<open>The host\<close>

datatype xfer = WriteFailed goerr | Cancelled goerr | Reply bytes

record 's host_ops =
  ho_ID :: string
  ho_Peers :: "string list"
  ho_NewMultiaddr :: "string \<Rightarrow> string res"
  ho_AddrInfo :: "string \<Rightarrow> string res"
  ho_Connect :: "string \<Rightarrow> goerr option"
  ho_NewStream :: "nat \<Rightarrow> string \<Rightarrow> string \<Rightarrow> 's res"
  st_exchange :: "'s \<Rightarrow> bytes \<Rightarrow> xfer \<times> 's"

section \<open>One request\<close>

text \<open>The request is encoded and the response decoded with the codecs of their types; both are CBOR here.\<close>

definition DoRequest :: "'s host_ops \<Rightarrow> 's \<Rightarrow> bytes res \<Rightarrow> 'r decoder \<Rightarrow> 'r res \<times> 's" where
  "DoRequest H s marshalled unmarshal =
     (case marshalled of
        Inl err \<Rightarrow> (Inl (Wrap ErrSendRequestFailed (Some err)), s)
      | Inr b \<Rightarrow>
          (case st_exchange H s b of
             (WriteFailed err, s') \<Rightarrow> (Inl (Wrap ErrSendRequestFailed (Some err)), s')
           | (Cancelled err, s') \<Rightarrow> (Inl err, s')
           | (Reply r, s') \<Rightarrow>
               (case unmarshal r of
                  Inl err \<Rightarrow> (Inl (Wrap ErrReadResponseFailed (Some err)), s')
                | Inr (resp, _) \<Rightarrow> (Inr resp, s'))))"

text \<open>The attempts on one stream: \<open>n\<close> more may follow a failed one.\<close>

fun request_attempts :: "'s host_ops \<Rightarrow> nat \<Rightarrow> 's \<Rightarrow> bytes res \<Rightarrow> 'r decoder \<Rightarrow> 'r res" where
  "request_attempts H n s marshalled unmarshal =
     (case DoRequest H s marshalled unmarshal of
        (Inr resp, _) \<Rightarrow> Inr resp
      | (Inl err, s') \<Rightarrow>
          (case n of 0 \<Rightarrow> Inl err | Suc k \<Rightarrow> request_attempts H k s' marshalled unmarshal))"

declare request_attempts.simps [simp del]

text \<open>The address to connect to: the last one of the list that is neither UDP nor local.\<close>

fun last_peer :: "'s host_ops \<Rightarrow> string list \<Rightarrow> string option \<Rightarrow> string option res" where
  "last_peer H [] pi = Inr pi"
| "last_peer H (peerInfo # rest) pi =
     (if Contains peerInfo ''udp'' \<or> Contains peerInfo ''127.0.0.1'' then last_peer H rest pi
      else
        (case ho_NewMultiaddr H peerInfo of
           Inl _ \<Rightarrow> Inl (Wrapf ErrInvalidServerAddress (''peerInfo='' @ peerInfo))
         | Inr a \<Rightarrow>
             (case ho_AddrInfo H a of
                Inl _ \<Rightarrow> Inl (Wrapf ErrInvalidServerAddress (''a='' @ a))
              | Inr p \<Rightarrow> last_peer H rest (Some p))))"

text \<open>The relays: a stream that cannot be opened is a nil stream, and deferring its \<^verbatim>\<open>Close\<close> panics.  The number
  counts the streams opened by the call.\<close>

fun relay_requests ::
  "'s host_ops \<Rightarrow> nat \<Rightarrow> string list \<Rightarrow> string \<Rightarrow> bytes res \<Rightarrow> 'r decoder \<Rightarrow> 'r option outcome" where
  "relay_requests H i [] protocol marshalled unmarshal = Return None"
| "relay_requests H i (p # ps) protocol marshalled unmarshal =
     (case ho_NewStream H i p protocol of
        Inl _ \<Rightarrow> Panic
      | Inr s \<Rightarrow>
          (case DoRequest H s marshalled unmarshal of
             (Inr resp, _) \<Rightarrow> Return (Some resp)
           | (Inl _, _) \<Rightarrow> relay_requests H (Suc i) ps protocol marshalled unmarshal))"

definition HandleRequest ::
  "'s host_ops \<Rightarrow> string \<Rightarrow> string \<Rightarrow> bytes res \<Rightarrow> 'r decoder \<Rightarrow> bool \<Rightarrow> 'r res outcome" where
  "HandleRequest H peerInfos protocol marshalled unmarshal isForward =
     (case last_peer H (Split (CHR '','') peerInfos) None of
        Inl err \<Rightarrow> Return (Inl err)
      | Inr None \<Rightarrow>
          (case find (\<lambda>p. Contains peerInfos p) (ho_Peers H) of
             None \<Rightarrow> Return (Inl (Wrap ErrInvalidServerAddress None))
           | Some p \<Rightarrow>
               (case ho_NewStream H 0 p protocol of
                  Inl err \<Rightarrow> Return (Inl (Wrap ErrCreateStreamFailed (Some err)))
                | Inr s \<Rightarrow> Return (request_attempts H 3 s marshalled unmarshal)))
      | Inr (Some p) \<Rightarrow>
          (case ho_Connect H p of
             Some err \<Rightarrow> Return (Inl (Wrap ErrConnectFailed (Some err)))
           | None \<Rightarrow>
               (case ho_NewStream H 0 p protocol of
                  Inr s \<Rightarrow> Return (request_attempts H 3 s marshalled unmarshal)
                | Inl err \<Rightarrow>
                    if isForward then
                      bind_outcome (relay_requests H 1 (ho_Peers H) protocol marshalled unmarshal) (\<lambda>r.
                        case r of
                          Some resp \<Rightarrow> Return (Inr resp)
                        | None \<Rightarrow> Return (Inl (Wrap ErrCreateStreamFailed (Some err))))
                    else Return (Inl (Wrap ErrCreateStreamFailed (Some err))))))"

section \<open>Pings\<close>

text \<open>The bytes written to the streams of the peers; a peer that cannot be reached is skipped.\<close>

fun ping_peers :: "'s host_ops \<Rightarrow> cbg_ops \<Rightarrow> nat \<Rightarrow> string \<Rightarrow> string list \<Rightarrow> (string \<times> bytes) list" where
  "ping_peers H C i protocol [] = []"
| "ping_peers H C i protocol (p # ps) =
     (if p = ho_ID H then ping_peers H C i protocol ps
      else
        (case ho_NewStream H i p protocol of
           Inl _ \<Rightarrow> ping_peers H C (Suc i) protocol ps
         | Inr s \<Rightarrow>
             (case ShardPingPong_MarshalCBOR C \<lparr>spp_Local = ho_ID H\<rparr> of
                Inl _ \<Rightarrow> ping_peers H C (Suc i) protocol ps
              | Inr b \<Rightarrow> (p, b) # ping_peers H C (Suc i) protocol ps)))"

definition ShardPingPongProtocol :: string where "ShardPingPongProtocol = ''/sao/shard/pingpong/1.0''"

definition DoPingRequest :: "'s host_ops \<Rightarrow> cbg_ops \<Rightarrow> (string \<times> bytes) list" where
  "DoPingRequest H C = ping_peers H C 0 ShardPingPongProtocol (ho_Peers H)"

definition HandlePingRequest :: "cbg_ops \<Rightarrow> bytes res" where
  "HandlePingRequest C = ShardPingPong_MarshalCBOR C ShardPingPong_zero"

section \<open>What the transport delivers\<close>

text \<open>A faithful peer: on every stream, the first exchange of the request \<open>b\<close> is answered with \<open>r\<close>.\<close>

definition answers :: "'s host_ops \<Rightarrow> bytes \<Rightarrow> bytes \<Rightarrow> bool" where
  "answers H b r \<longleftrightarrow> (\<forall>s. fst (st_exchange H s b) = Reply r)"

lemma DoRequest_answered:
  assumes "answers H b r" and "unmarshal r = Inr (resp, rest)"
  shows "fst (DoRequest H s (Inr b) unmarshal) = Inr resp"
proof -
  obtain s' where "st_exchange H s b = (Reply r, s')"
    using assms(1) unfolding answers_def by (metis prod.collapse)
  with assms(2) show ?thesis by (simp add: DoRequest_def)
qed

lemma request_attempts_answered:
  assumes "answers H b r" and "unmarshal r = Inr (resp, rest)"
  shows "request_attempts H n s (Inr b) unmarshal = Inr resp"
  using DoRequest_answered [where H = H and unmarshal = unmarshal, OF assms, of s]
  by (subst request_attempts.simps) (cases "DoRequest H s (Inr b) unmarshal", auto)

text \<open>A request that cannot be encoded fails, whatever the streams do.\<close>

lemma request_attempts_unencodable:
  "request_attempts H n s (Inl e) unmarshal = Inl (Wrap ErrSendRequestFailed (Some e))"
  by (induction n arbitrary: s; subst request_attempts.simps) (simp_all add: DoRequest_def)

lemma relay_requests_answered:
  assumes "answers H b r" and "unmarshal r = Inr (resp, rest)" and "relay_requests H i ps protocol (Inr b) unmarshal = Return (Some resp')"
  shows "resp' = resp"
  using assms(3)
proof (induction ps arbitrary: i)
  case (Cons p ps)
  then obtain s where "ho_NewStream H i p protocol = Inr s" by (auto split: sum.splits)
  with Cons.prems DoRequest_answered [where H = H and unmarshal = unmarshal, OF assms(1,2), of s] show ?case
    by (cases "DoRequest H s (Inr b) unmarshal") auto
qed simp

lemma HandleRequest_answered:
  assumes "answers H b r" and "unmarshal r = Inr (resp, rest)"
    and "HandleRequest H peerInfos protocol (Inr b) unmarshal isForward = Return (Inr resp')"
  shows "resp' = resp"
  using assms(3) request_attempts_answered [where H = H and unmarshal = unmarshal, OF assms(1,2)]
    relay_requests_answered [where H = H and unmarshal = unmarshal, OF assms(1,2)]
  by (auto simp: HandleRequest_def bind_outcome_Return split: sum.splits option.splits if_splits)

lemma HandleRequest_connected:
  assumes "answers H b r" and "unmarshal r = Inr (resp, rest)"
    and "last_peer H (Split (CHR '','') peerInfos) None = Inr (Some p)" and "ho_Connect H p = None" and "ho_NewStream H 0 p protocol = Inr s"
  shows "HandleRequest H peerInfos protocol (Inr b) unmarshal isForward = Return (Inr resp)"
  using assms request_attempts_answered [where H = H and unmarshal = unmarshal, OF assms(1,2)] by (simp add: HandleRequest_def)

lemma HandleRequest_unencodable: "\<exists>e'. HandleRequest H peerInfos protocol (Inl e) unmarshal False = Return (Inl e')"
  by (auto simp: HandleRequest_def request_attempts_unencodable split: sum.splits option.splits)

end
