(* ===== verification/Protocols.thy ===== *)
theory Protocols
  imports Transport Gateway_Handlers Storage_Handlers
begin

text \<open>
  The protocols between gateways and storage nodes: the local ones, for a node that is both
  (\<^verbatim>\<open>src/node/gateway/gateway_protocol_local.go\<close>, \<^verbatim>\<open>src/node/storage/storage_protocol_local.go\<close>), and the stream ones
  (\<^verbatim>\<open>gateway_protocol_stream.go\<close>, \<^verbatim>\<open>storage_protocol_stream.go\<close>).  A client's call is a function of the host's
  answers; a stream handler maps the bytes it reads to the bytes it writes, or the error for which it writes
  no complete answer, and to the service's new state.  A channel between the two services of a node is the list of the
  requests sent and not yet received.
\<close>

section \<open>Names of the protocols\<close>

definition ShardLoadProtocol :: string where "ShardLoadProtocol = ''/sao/shard/load/1.0''"

definition ShardStoreProtocol :: string where "ShardStoreProtocol = ''/sao/shard/store/1.0''"

definition ShardAssignProtocol :: string where "ShardAssignProtocol = ''/sao/shard/assign/1.0''"

definition ShardCompleteProtocol :: string where "ShardCompleteProtocol = ''/sao/shard/complete/1.0''"

definition ShardMigrateProtocol :: string where "ShardMigrateProtocol = ''/sao/shard/migrate/1.0''"

section \<open>The local protocols\<close>

definition local_RequestShardAssign :: "ShardAssignReq \<Rightarrow> ShardAssignReq list \<Rightarrow> ShardAssignResp \<times> ShardAssignReq list" where
  "local_RequestShardAssign req chan = (\<lparr>sar_Code = 0, sar_Message = []\<rparr>, chan @ [req])"

definition local_RequestShardLoad ::
  "('d, 'k, 'b, 'f) GwEnv \<Rightarrow> 'b StoreManager \<Rightarrow> ShardLoadReq \<Rightarrow> ShardLoadResp outcome" where
  "local_RequestShardLoad G sm req =
     (let resp = \<lparr>slr_Code = 0, slr_Message = [], slr_OrderId = slq_OrderId req, slr_Cid = slq_Cid req, slr_Content = None,
                  slr_RequestId = slq_RequestId req, slr_ResponseId = UnixMilli (ge_now G)\<rparr>
      in bind_outcome (SM_Get (ge_backend G) (lib_cid (ge_libs G)) sm (slq_Cid req)) (\<lambda>r.
           case r of
             Inl err \<Rightarrow> Return (resp\<lparr>slr_Code := ErrorCodeInternalErr,
                 slr_Message := ''get cid('' @ cid_String (lib_cid (ge_libs G)) (slq_Cid req) @ '') from store manager error: '' @ Error err\<rparr>)
           | Inr content \<Rightarrow> Return (resp\<lparr>slr_Content := Some content\<rparr>)))"

definition local_GetPeers :: string where "local_GetPeers = []"

text \<open>One message of the completion channel, handled by the gateway of the node.\<close>

definition listenShardComplete_one ::
  "('d, 'k, 'b, 'f) GwEnv \<Rightarrow> ShardCompleteReq list \<Rightarrow> ('d, 'b, 'f) GatewaySvc \<Rightarrow> (ShardCompleteReq list \<times> ('d, 'b, 'f) GatewaySvc) outcome" where
  "listenShardComplete_one G chan gs =
     (case chan of
        [] \<Rightarrow> Return ([], gs)
      | req # rest \<Rightarrow> bind_outcome (HandleShardComplete G gs req) (\<lambda>(resp, gs'). Return (rest, gs')))"

definition local_RequestShardComplete :: "ShardCompleteReq \<Rightarrow> ShardCompleteReq list \<Rightarrow> ShardCompleteResp \<times> ShardCompleteReq list" where
  "local_RequestShardComplete req chan = (\<lparr>scr_Code = 0, scr_Message = [], scr_Recoverable = False\<rparr>, chan @ [req])"

text \<open>The storage service of the node reads the staged file itself.\<close>

definition local_RequestShardStore :: "'f fs_ops \<Rightarrow> cid_ops \<Rightarrow> int \<Rightarrow> 'f \<Rightarrow> string \<Rightarrow> ShardLoadReq \<Rightarrow> ShardLoadResp" where
  "local_RequestShardStore F I now f stagingPath req =
     (let resp = \<lparr>slr_Code = 0, slr_Message = [], slr_OrderId = slq_OrderId req, slr_Cid = slq_Cid req, slr_Content = None,
                  slr_RequestId = slq_RequestId req, slr_ResponseId = UnixMilli now\<rparr>
      in case fs_Expand F stagingPath of
           Inl _ \<Rightarrow> resp\<lparr>slr_Code := ErrorCodeInternalErr, slr_Message := ''invalid path: '' @ stagingPath\<rparr>
         | Inr path \<Rightarrow>
             (let filename = path_Join [path, slq_Owner req, cid_String I (slq_Cid req) @ ''-'' @ slq_DataId req]
              in case fs_ReadFile F f filename of
                   Inl _ \<Rightarrow> resp\<lparr>slr_Code := ErrorCodeInternalErr, slr_Message := ''read file failed: '' @ filename\<rparr>
                 | Inr bs \<Rightarrow> resp\<lparr>slr_Content := Some bs\<rparr>))"

definition local_RequestShardMigrate :: "ShardMigrateReq \<Rightarrow> ShardMigrateResp" where
  "local_RequestShardMigrate req =
     \<lparr>smr_Code = ErrorCodeInternalErr, smr_Message = ''unsupported'', smr_CompleteHash = [], smr_CompleteHeight = 0\<rparr>"

definition listenShardAssign_one ::
  "('d, 'k, 'b) StoreEnv \<Rightarrow> ShardAssignReq list \<Rightarrow> ('d, 'b) StoreSvc \<Rightarrow> (ShardAssignReq list \<times> ('d, 'b) StoreSvc) outcome" where
  "listenShardAssign_one E chan ss =
     (case chan of
        [] \<Rightarrow> Return ([], ss)
      | req # rest \<Rightarrow> bind_outcome (HandleShardAssign E ss req) (\<lambda>(resp, ss'). Return (rest, ss')))"

section \<open>Calls over a stream\<close>

definition stream_RequestShardAssign :: "'s host_ops \<Rightarrow> cbg_ops \<Rightarrow> ShardAssignReq \<Rightarrow> string \<Rightarrow> ShardAssignResp outcome" where
  "stream_RequestShardAssign H C req peer =
     bind_outcome (HandleRequest H peer ShardAssignProtocol (ShardAssignReq_MarshalCBOR C req) (ShardAssignResp_UnmarshalCBOR C) False)
       (\<lambda>r. Return (case r of
          Inl err \<Rightarrow> \<lparr>sar_Code = ErrorCodeInternalErr, sar_Message = ''transport assign request error: '' @ Error err\<rparr>
        | Inr resp \<Rightarrow> resp))"

definition stream_RequestShardLoad :: "'s host_ops \<Rightarrow> cbg_ops \<Rightarrow> int \<Rightarrow> ShardLoadReq \<Rightarrow> string \<Rightarrow> bool \<Rightarrow> ShardLoadResp outcome" where
  "stream_RequestShardLoad H C now req peer isForward =
     bind_outcome (HandleRequest H peer ShardLoadProtocol (ShardLoadReq_MarshalCBOR C req) (ShardLoadResp_UnmarshalCBOR C) isForward)
       (\<lambda>r. Return (case r of
          Inl err \<Rightarrow> \<lparr>slr_Code = ErrorCodeInternalErr, slr_Message = ''transport assign request error: '' @ Error err,
            slr_OrderId = slq_OrderId req, slr_Cid = slq_Cid req, slr_Content = None, slr_RequestId = slq_RequestId req,
            slr_ResponseId = UnixMilli now\<rparr>
        | Inr resp \<Rightarrow> resp))"

definition stream_RequestShardStore :: "'s host_ops \<Rightarrow> cbg_ops \<Rightarrow> int \<Rightarrow> ShardLoadReq \<Rightarrow> string \<Rightarrow> ShardLoadResp outcome" where
  "stream_RequestShardStore H C now req peer =
     bind_outcome (HandleRequest H peer ShardStoreProtocol (ShardLoadReq_MarshalCBOR C req) (ShardLoadResp_UnmarshalCBOR C) False)
       (\<lambda>r. Return (case r of
          Inl err \<Rightarrow> \<lparr>slr_Code = ErrorCodeInternalErr, slr_Message = ''transport complete request error: '' @ Error err,
            slr_OrderId = slq_OrderId req, slr_Cid = slq_Cid req, slr_Content = None, slr_RequestId = slq_RequestId req,
            slr_ResponseId = UnixMilli now\<rparr>
        | Inr resp \<Rightarrow> resp))"

definition stream_RequestShardComplete :: "'s host_ops \<Rightarrow> cbg_ops \<Rightarrow> ShardCompleteReq \<Rightarrow> string \<Rightarrow> ShardCompleteResp outcome" where
  "stream_RequestShardComplete H C req peer =
     bind_outcome (HandleRequest H peer ShardCompleteProtocol (ShardCompleteReq_MarshalCBOR C req) (ShardCompleteResp_UnmarshalCBOR C) False)
       (\<lambda>r. Return (case r of
          Inl err \<Rightarrow> \<lparr>scr_Code = ErrorCodeInternalErr, scr_Message = ''transport complete request error: '' @ Error err, scr_Recoverable = True\<rparr>
        | Inr resp \<Rightarrow> resp))"

definition stream_RequestShardMigrate :: "'s host_ops \<Rightarrow> cbg_ops \<Rightarrow> ShardMigrateReq \<Rightarrow> string \<Rightarrow> ShardMigrateResp outcome" where
  "stream_RequestShardMigrate H C req peer =
     bind_outcome (HandleRequest H peer ShardMigrateProtocol (ShardMigrateReq_MarshalCBOR C req) (ShardMigrateResp_UnmarshalCBOR C) False)
       (\<lambda>r. Return (case r of
          Inl err \<Rightarrow> \<lparr>smr_Code = ErrorCodeInternalErr, smr_Message = ''transport migrate request error: '' @ Error err,
            smr_CompleteHash = [], smr_CompleteHeight = 0\<rparr>
        | Inr resp \<Rightarrow> resp))"

section \<open>Stream handlers of the gateway\<close>

definition bad_load :: "goerr \<Rightarrow> ShardLoadResp" where
  "bad_load err = ShardLoadResp_zero\<lparr>slr_Code := ErrorCodeInvalidRequest, slr_Message := ''failed to unmarshal request: '' @ Error err\<rparr>"

definition handleShardStoreStream :: "('d, 'k, 'b, 'f) GwEnv \<Rightarrow> ('d, 'b, 'f) GatewaySvc \<Rightarrow> bytes \<Rightarrow> bytes res" where
  "handleShardStoreStream G gs input =
     (case ShardLoadReq_UnmarshalCBOR (lib_cbg (ge_libs G)) input of
        Inl err \<Rightarrow> ShardLoadResp_MarshalCBOR (lib_cbg (ge_libs G)) (bad_load err)
      | Inr (req, _) \<Rightarrow> ShardLoadResp_MarshalCBOR (lib_cbg (ge_libs G)) (HandleShardStore G gs req))"

definition handleShardCompleteStream ::
  "('d, 'k, 'b, 'f) GwEnv \<Rightarrow> ('d, 'b, 'f) GatewaySvc \<Rightarrow> bytes \<Rightarrow> (bytes res \<times> ('d, 'b, 'f) GatewaySvc) outcome" where
  "handleShardCompleteStream G gs input =
     (case ShardCompleteReq_UnmarshalCBOR (lib_cbg (ge_libs G)) input of
        Inl err \<Rightarrow>
          Return (ShardCompleteResp_MarshalCBOR (lib_cbg (ge_libs G))
            \<lparr>scr_Code = ErrorCodeInvalidRequest, scr_Message = ''failed to unmarshal request: '' @ Error err, scr_Recoverable = False\<rparr>, gs)
      | Inr (req, _) \<Rightarrow>
          bind_outcome (HandleShardComplete G gs req) (\<lambda>(resp, gs').
            Return (ShardCompleteResp_MarshalCBOR (lib_cbg (ge_libs G)) resp, gs')))"

text \<open>A relayed load: \<open>None\<close> when no known peer is the target and nothing is written.\<close>

definition handleRelayStream ::
  "('d, 'k, 'b, 'f) GwEnv \<Rightarrow> 's host_ops \<Rightarrow> 'b StoreManager \<Rightarrow> bytes \<Rightarrow> bytes res option outcome" where
  "handleRelayStream G H sm input =
     (let C = lib_cbg (ge_libs G)
      in case ShardLoadReq_UnmarshalCBOR C input of
           Inl err \<Rightarrow> Return (Some (ShardLoadResp_MarshalCBOR C (bad_load err)))
         | Inr (req, _) \<Rightarrow>
             (let target = rp_TargetPeerInfo (rpc_Proposal (slq_RelayProposal req))
              in if Contains target (ho_ID H) then
                   bind_outcome (local_RequestShardLoad G sm req) (\<lambda>resp. Return (Some (ShardLoadResp_MarshalCBOR C resp)))
                 else if list_ex (\<lambda>p. Contains target p) (ho_Peers H) then
                   bind_outcome (stream_RequestShardLoad H C (ge_now G) req target False)
                     (\<lambda>resp. Return (Some (ShardLoadResp_MarshalCBOR C resp)))
                 else Return None))"

definition stream_GetPeers :: "(string list \<Rightarrow> string) \<Rightarrow> 's host_ops \<Rightarrow> string" where
  "stream_GetPeers show_peers H = show_peers (ho_Peers H)"

section \<open>Stream handlers of the storage node\<close>

definition handleShardMigrate ::
  "('d, 'k, 'b) StoreEnv \<Rightarrow> ('d, 'b) StoreSvc \<Rightarrow> bytes \<Rightarrow> (bytes res \<times> ('d, 'b) StoreSvc) outcome" where
  "handleShardMigrate E ss input =
     (case ShardMigrateReq_UnmarshalCBOR (lib_cbg (se_libs E)) input of
        Inl err \<Rightarrow>
          Return (ShardMigrateResp_MarshalCBOR (lib_cbg (se_libs E))
            \<lparr>smr_Code = ErrorCodeInternalErr, smr_Message = ''failed to unmarshal request: '' @ Error err, smr_CompleteHash = [],
             smr_CompleteHeight = 0\<rparr>, ss)
      | Inr (req, _) \<Rightarrow>
          bind_outcome (HandleShardMigrate E ss req) (\<lambda>(resp, ss').
            Return (ShardMigrateResp_MarshalCBOR (lib_cbg (se_libs E)) resp, ss')))"

text \<open>The struct after a decoder stopped with an error: the fields read before it.  A scalar field is assigned
  only once it is read.\<close>

fun partial_fields :: "cbg_ops \<Rightarrow> (string \<Rightarrow> 't \<Rightarrow> 't decoder) \<Rightarrow> nat \<Rightarrow> 't \<Rightarrow> bytes \<Rightarrow> 't" where
  "partial_fields C sw 0 t bs = t"
| "partial_fields C sw (Suc n) t bs =
     (case cbg_ReadString C bs of
        Inl e \<Rightarrow> t
      | Inr (name, bs') \<Rightarrow> (case sw name t bs' of Inl e \<Rightarrow> t | Inr (t', bs'') \<Rightarrow> partial_fields C sw n t' bs''))"

definition partial_struct :: "cbg_ops \<Rightarrow> (string \<Rightarrow> 't \<Rightarrow> 't decoder) \<Rightarrow> 't \<Rightarrow> bytes \<Rightarrow> 't" where
  "partial_struct C sw zero bs =
     (case cbg_ReadHeader C bs of
        Inl e \<Rightarrow> zero
      | Inr ((maj, extra), bs') \<Rightarrow>
          if maj \<noteq> MajMap \<or> unat extra > cbg_MaxLength C then zero else partial_fields C sw (unat extra) zero bs')"

text \<open>A load request that cannot be decoded is answered with the fields of the request read so far.  The nested
  proposals are not among the fields the answer repeats.\<close>

definition handleShardLoad ::
  "('d, 'k, 'b) StoreEnv \<Rightarrow> ('d, 'b) StoreSvc \<Rightarrow> string \<Rightarrow> bytes \<Rightarrow> bytes res outcome" where
  "handleShardLoad E ss remotePeerId input =
     (let C = lib_cbg (se_libs E)
      in case ShardLoadReq_UnmarshalCBOR C input of
           Inl err \<Rightarrow>
             (let req = partial_struct C (ShardLoadReq_switch C) ShardLoadReq_zero input
              in Return (ShardLoadResp_MarshalCBOR C
                   \<lparr>slr_Code = ErrorCodeInvalidRequest, slr_Message = ''failed to unmarshal request: '' @ Error err,
                    slr_OrderId = slq_OrderId req, slr_Cid = slq_Cid req, slr_Content = None, slr_RequestId = slq_RequestId req,
                    slr_ResponseId = UnixMilli (se_now E)\<rparr>))
         | Inr (req, _) \<Rightarrow>
             bind_outcome (HandleShardLoad E ss req remotePeerId) (\<lambda>resp. Return (ShardLoadResp_MarshalCBOR C resp)))"

text \<open>There is no return after the error answer: the request, as far as it was decoded, is handled too, and a
  second answer follows the first.\<close>

definition handleShardAssign ::
  "('d, 'k, 'b) StoreEnv \<Rightarrow> ('d, 'b) StoreSvc \<Rightarrow> bytes \<Rightarrow> (bytes res list \<times> ('d, 'b) StoreSvc) outcome" where
  "handleShardAssign E ss input =
     (let C = lib_cbg (se_libs E);
          (first, req) =
            (case ShardAssignReq_UnmarshalCBOR C input of
               Inl err \<Rightarrow>
                 ([ShardAssignResp_MarshalCBOR C
                     \<lparr>sar_Code = ErrorCodeInvalidRequest, sar_Message = ''failed to unmarshal request: '' @ Error err\<rparr>],
                  partial_struct C (ShardAssignReq_switch C) ShardAssignReq_zero input)
             | Inr (req, _) \<Rightarrow> ([], req))
      in bind_outcome (HandleShardAssign E ss req) (\<lambda>(resp, ss').
           Return (first @ [ShardAssignResp_MarshalCBOR C resp], ss')))"

end
