(* ===== verification/Protocol_Props.thy ===== *)
theory Protocol_Props
  imports Protocols Storage_Handler_Props Gateway_Handler_Props
begin

text \<open>
  What the protocols guarantee: a call over a stream that a faithful network answers returns what the handler
  on the other node answered, so that a remote call and a local one agree; a malformed load request is never
  answered; and content committed to a gateway is what the storage service of the node stores for it.
\<close>

section \<open>Calls over a stream\<close>

text \<open>The codecs of one kind of call: what each side writes, the other side reads, up to a normal form of the
  response.\<close>

locale stream_call =
  fixes enc_req :: "'q \<Rightarrow> bytes res" and dec_req :: "'q decoder" and enc_resp :: "'p \<Rightarrow> bytes res" and dec_resp :: "'p decoder"
    and ok_req :: "'q \<Rightarrow> bool" and ok_resp :: "'p \<Rightarrow> bool" and norm :: "'p \<Rightarrow> 'p"
  assumes req_reads: "\<And>q b. enc_req q = Inr b \<Longrightarrow> ok_req q \<Longrightarrow> reads dec_req b q"
    and resp_reads: "\<And>p b. enc_resp p = Inr b \<Longrightarrow> ok_resp p \<Longrightarrow> reads dec_resp b (norm p)"
begin

lemma served: "enc_req q = Inr b \<Longrightarrow> ok_req q \<Longrightarrow> dec_req b = Inr (q, [])"
  using req_reads [of q b] readsD [of dec_req b q "[]"] by simp

lemma answered: "enc_resp p = Inr b \<Longrightarrow> ok_resp p \<Longrightarrow> dec_resp b = Inr (norm p, [])"
  using resp_reads [of p b] readsD [of dec_resp b "norm p" "[]"] by simp

lemma call_returns:
  assumes "enc_req q = Inr b" and "enc_resp p = Inr out" and "ok_resp p" and "answers H b out"
    and "HandleRequest H peer protocol (enc_req q) dec_resp fwd = Return (Inr resp)"
  shows "resp = norm p"
  using HandleRequest_answered [where H = H and unmarshal = dec_resp, OF assms(4) answered [OF assms(2,3)] assms(5) [unfolded assms(1)]] .

lemma call_succeeds:
  assumes "enc_req q = Inr b" and "enc_resp p = Inr out" and "ok_resp p" and "answers H b out"
    and "last_peer H (Split (CHR '','') peer) None = Inr (Some i)" and "ho_Connect H i = None" and "ho_NewStream H 0 i protocol = Inr s"
  shows "HandleRequest H peer protocol (enc_req q) dec_resp fwd = Return (Inr (norm p))"
  unfolding assms(1)
  by (rule HandleRequest_connected [where H = H and unmarshal = dec_resp, OF assms(4) answered [OF assms(2,3)] assms(5-7)])

end

sublocale cbor_lib \<subseteq> load_call: stream_call "ShardLoadReq_MarshalCBOR C" "ShardLoadReq_UnmarshalCBOR C"
    "ShardLoadResp_MarshalCBOR C" "ShardLoadResp_UnmarshalCBOR C" ShardLoadReq_ok ShardLoadResp_ok ShardLoadResp_norm
  by unfold_locales (auto intro: ShardLoadReq_roundtrip ShardLoadResp_roundtrip)

sublocale cbor_lib \<subseteq> assign_call: stream_call "ShardAssignReq_MarshalCBOR C" "ShardAssignReq_UnmarshalCBOR C"
    "ShardAssignResp_MarshalCBOR C" "ShardAssignResp_UnmarshalCBOR C" ShardAssignReq_ok "\<lambda>_. True" id
  by unfold_locales (auto intro: ShardAssignReq_roundtrip ShardAssignResp_roundtrip)

sublocale cbor_lib \<subseteq> complete_call: stream_call "ShardCompleteReq_MarshalCBOR C" "ShardCompleteReq_UnmarshalCBOR C"
    "ShardCompleteResp_MarshalCBOR C" "ShardCompleteResp_UnmarshalCBOR C" ShardCompleteReq_ok "\<lambda>_. True" id
  by unfold_locales (auto intro: ShardCompleteReq_roundtrip ShardCompleteResp_roundtrip)

sublocale cbor_lib \<subseteq> migrate_call: stream_call "ShardMigrateReq_MarshalCBOR C" "ShardMigrateReq_UnmarshalCBOR C"
    "ShardMigrateResp_MarshalCBOR C" "ShardMigrateResp_UnmarshalCBOR C" ShardMigrateReq_ok ShardMigrateResp_ok id
  by unfold_locales (auto intro: ShardMigrateReq_roundtrip ShardMigrateResp_roundtrip)

context cbor_lib
begin

lemmas stream_calls = load_call.stream_call_axioms assign_call.stream_call_axioms complete_call.stream_call_axioms
  migrate_call.stream_call_axioms

end

lemma UnixMilli_ok: "int64_ok n \<Longrightarrow> int64_ok (UnixMilli n)"
  by (auto simp: int64_ok_def UnixMilli_def)

lemma HandleShardStore_ok: "ShardLoadReq_ok req \<Longrightarrow> int64_ok (ge_now G) \<Longrightarrow> ShardLoadResp_ok (HandleShardStore G gs req)"
  by (simp add: HandleShardStore_def Let_def ShardLoadResp_ok_def ShardLoadReq_ok_def UnixMilli_ok split: sum.splits)

text \<open>C15. A remote request for staged content returns what the gateway's handler answers: over a network that
  delivers the request and the answer, the call of the storage node returns the handler's answer, with an
  empty content as a nil one, or, when the peer was not reached, an error without content; a peer that can
  be connected to is reached.\<close>

theorem RequestShardStore_over_stream:
  assumes "cbor_lib C" and "lib_cbg (ge_libs G) = C" and "int64_ok (ge_now G)" and "ShardLoadReq_ok req"
    and "ShardLoadReq_MarshalCBOR C req = Inr b" and "handleShardStoreStream G gs b = Inr out" and "answers H b out"
  shows "(\<forall>resp. stream_RequestShardStore H C now req peer = Return resp \<longrightarrow>
        resp = ShardLoadResp_norm (HandleShardStore G gs req) \<or> (slr_Code resp = ErrorCodeInternalErr \<and> slr_Content resp = None))
    \<and> (\<forall>i s. last_peer H (Split (CHR '','') peer) None = Inr (Some i) \<and> ho_Connect H i = None \<and> ho_NewStream H 0 i ShardStoreProtocol = Inr s \<longrightarrow>
        stream_RequestShardStore H C now req peer = Return (ShardLoadResp_norm (HandleShardStore G gs req)))"
proof -
  have "ShardLoadReq_UnmarshalCBOR C b = Inr (req, [])" by (rule stream_call.served [OF cbor_lib.stream_calls(1) [OF assms(1)] assms(5,4)])
  with assms(2,6) have out: "ShardLoadResp_MarshalCBOR C (HandleShardStore G gs req) = Inr out"
    by (simp add: handleShardStoreStream_def)
  note ok = HandleShardStore_ok [OF assms(4,3), of gs]
  note returns = stream_call.call_returns [OF cbor_lib.stream_calls(1) [OF assms(1)] assms(5) out ok assms(7)]
  note succeeds = stream_call.call_succeeds [OF cbor_lib.stream_calls(1) [OF assms(1)] assms(5) out ok assms(7)]
  have "resp = ShardLoadResp_norm (HandleShardStore G gs req) \<or> (slr_Code resp = ErrorCodeInternalErr \<and> slr_Content resp = None)"
    if "stream_RequestShardStore H C now req peer = Return resp" for resp
  proof (cases "HandleRequest H peer ShardStoreProtocol (ShardLoadReq_MarshalCBOR C req) (ShardLoadResp_UnmarshalCBOR C) False")
    case (Return r)
    with that returns [of peer ShardStoreProtocol False] show ?thesis by (cases r) (auto simp: stream_RequestShardStore_def)
  qed (use that in \<open>simp add: stream_RequestShardStore_def\<close>)
  moreover have "stream_RequestShardStore H C now req peer = Return (ShardLoadResp_norm (HandleShardStore G gs req))"
    if "last_peer H (Split (CHR '','') peer) None = Inr (Some i)" "ho_Connect H i = None" "ho_NewStream H 0 i ShardStoreProtocol = Inr s" for i s
    using succeeds [OF that] by (simp add: stream_RequestShardStore_def)
  ultimately show ?thesis by blast
qed

lemma sample_gw_cbg: "lib_cbg (ge_libs sample_gw_env) = rfc_cbor"
  by (simp add: sample_gw_env_def mem_libs_def)

definition sample_load_req :: ShardLoadReq where
  "sample_load_req = ShardLoadReq_zero\<lparr>slq_Owner := ''did:sid:a'', slq_DataId := sample_id, slq_OrderId := 70000, slq_Cid := ''xyz''\<rparr>"

definition sample_staged_gw :: "(mem, (string \<Rightarrow> bytes option) IpfsBackend, string \<Rightarrow> bytes option) GatewaySvc" where
  "sample_staged_gw = sample_gw\<lparr>gs_files := [sample_path \<mapsto> ''data'']\<rparr>"

text \<open>A host whose streams all lead to the sample gateway.\<close>

definition sample_host :: "unit host_ops" where
  "sample_host = \<lparr>ho_ID = ''me'', ho_Peers = [], ho_NewMultiaddr = Inr, ho_AddrInfo = (\<lambda>_. Inr ''gw1''), ho_Connect = (\<lambda>_. None),
     ho_NewStream = (\<lambda>_ _ _. Inr ()),
     st_exchange = (\<lambda>s b. (case handleShardStoreStream sample_gw_env sample_staged_gw b of Inl e \<Rightarrow> WriteFailed e | Inr out \<Rightarrow> Reply out, s))\<rparr>"

lemmas message_encode = message_zero_defs rfc_encode_eval enc_bytes_def ShardLoadReq_MarshalCBOR_def ShardLoadResp_MarshalCBOR_def
  MetadataProposalCbor_MarshalCBOR_def RelayProposalCbor_MarshalCBOR_def QueryProposal_MarshalCBOR_def
  RelayProposal_MarshalCBOR_def JwsSignature_MarshalCBOR_def

lemma sample_store_answer:
  "HandleShardStore sample_gw_env sample_staged_gw sample_load_req
     = \<lparr>slr_Code = 0, slr_Message = [], slr_OrderId = 70000, slr_Cid = ''xyz'', slr_Content = Some ''data'', slr_RequestId = 0, slr_ResponseId = 5000\<rparr>"
proof -
  have "stage_file ''/home/stage'' ''did:sid:a'' (cid_String hex_cid ''xyz'') sample_id = sample_path" by code_simp
  then show ?thesis
    by (simp add: HandleShardStore_def GetStagedShard_def sample_gw_env_def sample_staged_gw_def sample_gw_def sample_load_req_def
        mem_libs_def mem_fs_def UnixMilli_def ShardLoadReq_zero_def)
qed

theorem RequestShardStore_over_stream_witness:
  "\<exists>resp. stream_RequestShardStore sample_host rfc_cbor 0 sample_load_req ''/ip4/1.2.3.4'' = Return resp \<and> slr_Content resp = Some ''data''"
proof -
  obtain b where b: "ShardLoadReq_MarshalCBOR rfc_cbor sample_load_req = Inr b"
    by (simp add: message_encode sample_load_req_def sample_id_def)
  have ok: "ShardLoadReq_ok sample_load_req" "int64_ok (ge_now sample_gw_env)"
    by (simp_all add: ShardLoadReq_ok_def sample_load_req_def message_zero_defs int64_ok_def sample_gw_env_def)
  obtain out where "ShardLoadResp_MarshalCBOR rfc_cbor (HandleShardStore sample_gw_env sample_staged_gw sample_load_req) = Inr out"
    by (simp add: sample_store_answer message_encode slice_def)
  with stream_call.served [OF rfc.stream_calls(1) b ok(1)]
  have out: "handleShardStoreStream sample_gw_env sample_staged_gw b = Inr out" by (simp add: handleShardStoreStream_def sample_gw_cbg)
  then have "answers sample_host b out" by (simp add: answers_def sample_host_def)
  note r = RequestShardStore_over_stream [OF rfc.cbor_lib_axioms sample_gw_cbg ok(2,1) b out this]
  have "last_peer sample_host (Split (CHR '','') ''/ip4/1.2.3.4'') None = Inr (Some ''gw1'')"
    by (simp add: sample_host_def HasPrefix_def)
  with r have "stream_RequestShardStore sample_host rfc_cbor 0 sample_load_req ''/ip4/1.2.3.4''
      = Return (ShardLoadResp_norm (HandleShardStore sample_gw_env sample_staged_gw sample_load_req))"
    by (auto simp: sample_host_def)
  then show ?thesis by (simp add: ShardLoadResp_norm_def sample_store_answer)
qed

section \<open>Malformed requests\<close>

text \<open>The error answer has no content identifier, and the undefined one has no encoding.\<close>

lemma bad_load_unencodable:
  assumes "cbor_lib C"
  shows "isl (ShardLoadResp_MarshalCBOR C (bad_load err))"
proof -
  obtain e where "cbg_WriteCid C Undef = Inl e" using cbor_lib.undefined_cid [OF assms] by (auto simp: isl_def)
  then have "enc_cid C f Undef = Inl (ErrText (''failed to write cid field '' @ f @ '': '' @ Error e))" for f by (simp add: enc_cid_def)
  then have "ShardLoadResp_MarshalCBOR C (bad_load err) \<noteq> Inr b" for b
    by (auto simp: ShardLoadResp_MarshalCBOR_def bad_load_def message_zero_defs enc_struct_Inr list_all2_Cons1)
  then show ?thesis by (cases "ShardLoadResp_MarshalCBOR C (bad_load err)") auto
qed

text \<open>A load request that cannot be decoded gets no answer: the error answer of the gateway, for staged content
  as for relayed requests, carries the undefined content identifier and cannot be encoded, so the stream is
  closed without a complete response.\<close>

theorem malformed_load_unanswered:
  assumes "cbor_lib (lib_cbg (ge_libs G))" and "ShardLoadReq_UnmarshalCBOR (lib_cbg (ge_libs G)) input = Inl err"
  shows "isl (handleShardStoreStream G gs input) \<and> (\<exists>r. handleRelayStream G H sm input = Return (Some r) \<and> isl r)"
  using assms(2) bad_load_unencodable [OF assms(1), of err] by (simp add: handleShardStoreStream_def handleRelayStream_def Let_def)

theorem malformed_load_unanswered_witness:
  "isl (handleShardStoreStream sample_gw_env sample_gw [])"
proof -
  have "ShardLoadReq_UnmarshalCBOR rfc_cbor [] = Inl io_EOF"
    by (simp add: ShardLoadReq_UnmarshalCBOR_def dec_struct_def rfc_cbor_def rfc_ReadHeader_def)
  from malformed_load_unanswered [of sample_gw_env, unfolded sample_gw_cbg, OF rfc.cbor_lib_axioms this] show ?thesis by blast
qed

section \<open>From a commit to the store\<close>

text \<open>C14. Content committed to a node is the content its storage service stores: when the commit answered without
  an error, a task with the order's owner, data id and identifier that is fetched over the local protocol
  reads the committed bytes, and if they have the identifier they are given to the content store under it
  and the task is stored with their size.\<close>

theorem commit_then_store:
  assumes "node_libs (ge_libs G) contents" and "store_sound (ge_libs G) contents (gs_orderDs gs)" and "gw_env_ok G"
    and "file_system (ge_fs G) files" and "fs_Expand (ge_fs G) (gs_stagingPath gs) = Inr path" and "is_dataid (prop_DataId prop)"
    and "CommitModel G gs prop jws orderId content = (Inr res, gs')"
    and "\<And>req p. se_RequestShardStore E LocalProtocol req p
           = local_RequestShardStore (ge_fs G) (lib_cid (ge_libs G)) (se_now E) (gs_files gs') (gs_stagingPath gs) req"
    and "se_libs E = ge_libs G" and "se_Sum E content = Inr (si_Cid task)"
    and "si_Owner task = prop_Owner prop" and "si_DataId task = prop_DataId prop" and "cid_String (lib_cid (ge_libs G)) (si_Cid task) = prop_Cid prop"
    and "si_State task < ShardStateStored" and "si_OrderOperation task \<noteq> ''3''"
    and "\<exists>b. fs_ReadFile (ge_fs G) (gs_files gs') (stage_file path (prop_Owner prop) (prop_Cid prop) (prop_DataId prop)) = Inr b"
    and "SM_Store (se_backend E) (ss_storeManager ss) (si_Cid task) content = Return (None, sm)"
  shows "\<exists>task' ss'. process_store E LocalProtocol peer ss task = Return (None, task', ss') \<and> ss_storeManager ss' = sm
    \<and> si_State task' = ShardStateStored \<and> si_Size task' = of_nat (length content)"
proof -
  obtain b where b: "fs_ReadFile (ge_fs G) (gs_files gs') (stage_file path (prop_Owner prop) (prop_Cid prop) (prop_DataId prop)) = Inr b"
    using assms(16) by blast
  have "files (gs_files gs') (stage_file path (prop_Owner prop) (prop_Cid prop) (prop_DataId prop)) = Some content"
    using CommitModel_committed [OF assms(1-7)] by blast
  with file_system.read [OF assms(4) b] have "b = content" by simp
  then have resp: "se_RequestShardStore E LocalProtocol req p = \<lparr>slr_Code = 0, slr_Message = [], slr_OrderId = slq_OrderId req,
      slr_Cid = slq_Cid req, slr_Content = Some content, slr_RequestId = slq_RequestId req, slr_ResponseId = UnixMilli (se_now E)\<rparr>"
    if "slq_Owner req = prop_Owner prop" "slq_DataId req = prop_DataId prop" "slq_Cid req = si_Cid task" for req p
    using that assms(5,8,13) b by (simp add: local_RequestShardStore_def stage_file_def Let_def)
  have "CalculateCid (se_Sum E) content = Inr (si_Cid task)" using assms(10) by (simp add: CalculateCid_def)
  with assms(11-15,17) resp show ?thesis
    by (simp add: process_store_def Let_def slice_def save_shard_def)
qed

definition sample_local_env :: "(string \<Rightarrow> bytes option) \<Rightarrow> (mem, string, (string \<Rightarrow> bytes option) IpfsBackend) StoreEnv" where
  "sample_local_env f = sample_env\<lparr>se_Sum := (\<lambda>_. Inr ''xyz''),
     se_RequestShardStore := (\<lambda>_ req _. local_RequestShardStore mem_fs hex_cid 5000000000 f ''~/stage'' req)\<rparr>"

definition sample_local_task :: ShardInfo where
  "sample_local_task = sample_task\<lparr>si_Owner := ''did:sid:a'', si_Cid := ''xyz''\<rparr>"

theorem commit_then_store_witness:
  "\<exists>res gs' task' ss'. CommitModel sample_gw_env sample_gw sample_commit JwsSignature_zero 0 ''data'' = (Inr res, gs')
     \<and> process_store (sample_local_env (gs_files gs')) LocalProtocol [] sample_svc sample_local_task = Return (None, task', ss')
     \<and> si_Size task' = 4"
proof -
  obtain res gs' where c: "CommitModel sample_gw_env sample_gw sample_commit JwsSignature_zero 0 ''data'' = (Inr res, gs')"
    by (rule sample_committed)
  have s: "store_sound mem_libs mem_contents (gs_orderDs sample_gw)" using sample_store_sound(1) by (simp add: sample_gw_def)
  have f: "file_system (ge_fs sample_gw_env) (\<lambda>f. f)" by (simp add: sample_gw_env_def mem_fs.file_system_axioms)
  have x: "fs_Expand (ge_fs sample_gw_env) (gs_stagingPath sample_gw) = Inr ''/home/stage''"
    by (simp add: sample_gw_env_def sample_gw_def mem_fs_def)
  have d: "is_dataid (prop_DataId sample_commit)" using sample_ok(2) by (simp add: sample_commit_def sample_order_def)
  note committed = CommitModel_committed [OF _ _ sample_gw_env_ok f x d c, unfolded sample_gw_libs, OF mem_node_libs s]
  then have r: "\<exists>b. fs_ReadFile (ge_fs sample_gw_env) (gs_files gs')
      (stage_file ''/home/stage'' (prop_Owner sample_commit) (prop_Cid sample_commit) (prop_DataId sample_commit)) = Inr b"
    by (auto simp: sample_gw_env_def mem_fs_def)
  obtain sm where sm: "SM_Store (se_backend (sample_local_env (gs_files gs'))) (ss_storeManager sample_svc) (si_Cid sample_local_task) ''data'' = Return (None, sm)"
    by (simp add: sample_local_env_def sample_local_task_def sample_defs store_eval_defs)
  have "\<exists>task' ss'. process_store (sample_local_env (gs_files gs')) LocalProtocol [] sample_svc sample_local_task = Return (None, task', ss')
      \<and> ss_storeManager ss' = sm \<and> si_State task' = ShardStateStored \<and> si_Size task' = of_nat (length ''data'')"
    by (rule commit_then_store [OF _ _ sample_gw_env_ok f x d c _ _ _ _ _ _ _ _ r sm, unfolded sample_gw_libs, OF mem_node_libs s])
      (simp_all add: sample_local_env_def sample_gw_env_def mem_libs_def sample_gw_def sample_defs sample_local_task_def sample_commit_def
        sample_proposal_def shard_state_defs)
  with c show ?thesis by fastforce
qed

end
