(* ===== verification/Validator.thy ===== *)
theory Validator
  imports Go_Errors
begin

text \<open>
  Validation of data models (\<^verbatim>\<open>src/node/model/schema/validator/validator.go\<close>) by a JSON schema and by rules
  (\<^verbatim>\<open>src/node/model/rule_engine/rule_engine_service.go\<close>).  The schema compiler, the rule engine grule and jsoniter are
  third-party code: \<open>schema_ops\<close>, \<open>rule_ops\<close> and \<open>json_ops\<close> are the calls the node makes.  A rule reports its verdict by
  assigning to the fields of the \<^verbatim>\<open>Result\<close> object in its data context; \<open>ru_Execute\<close> returns the object's value
  afterwards.
\<close>

section \<open>The libraries\<close>

record Result =
  IsValid :: bool
  Reason :: string

datatype 'j fact = FactModel 'j | FactResult Result

text \<open>\<^verbatim>\<open>NewKnowledgeBaseInstance\<close> may return nil.\<close>

record ('l, 'b, 'x, 'j) rule_ops =
  ru_ParseJSONRule :: "bytes \<Rightarrow> bytes res"
  ru_BuildRule :: "'l \<Rightarrow> string \<Rightarrow> string \<Rightarrow> bytes \<Rightarrow> goerr option \<times> 'l"
  ru_NewKnowledgeBaseInstance :: "'l \<Rightarrow> string \<Rightarrow> string \<Rightarrow> 'b option"
  ru_NewDataContext :: 'x
  ru_Add :: "'x \<Rightarrow> string \<Rightarrow> 'j fact \<Rightarrow> goerr option \<times> 'x"
  ru_Reset :: "'x \<Rightarrow> 'x"
  ru_Execute :: "'x \<Rightarrow> 'b \<Rightarrow> goerr option \<times> 'x \<times> Result"

text \<open>A schema error is a validation error with its causes (location and message), or another error.\<close>

datatype schema_error = ValidationError (se_error: goerr) "(string \<times> string) list" | OtherError (se_error: goerr)

record ('s, 'i) schema_ops =
  sc_AddResource :: "string \<Rightarrow> string \<Rightarrow> goerr option"
  sc_Compile :: "(string \<times> string) option \<Rightarrow> string \<Rightarrow> 's res"
  sc_Validate :: "'s \<Rightarrow> 'i \<Rightarrow> schema_error option"

record ('j, 'i) json_ops =
  js_Get :: "bytes \<Rightarrow> 'j"
  js_Marshal :: "'j \<Rightarrow> bytes res"
  js_GetInterface :: "'j \<Rightarrow> 'i"

section \<open>The rule engine\<close>

record ('l, 'b, 'x) RuleEngineSvc =
  re_knowledgeLibrary :: 'l
  re_rulesMap :: "string \<Rightarrow> 'b option"
  re_dataCtxMap :: "string \<Rightarrow> 'x option"

definition AddRule ::
  "('l, 'b, 'x, 'j) rule_ops \<Rightarrow> ('l, 'b, 'x) RuleEngineSvc \<Rightarrow> string \<Rightarrow> bytes \<Rightarrow> goerr option \<times> ('l, 'b, 'x) RuleEngineSvc" where
  "AddRule R svc name jsonData =
     (case ru_ParseJSONRule R jsonData of
        Inl err \<Rightarrow> (Some err, svc)
      | Inr rule \<Rightarrow>
          (case ru_BuildRule R (re_knowledgeLibrary svc) name ''v0'' rule of
             (Some err, l) \<Rightarrow> (Some err, svc\<lparr>re_knowledgeLibrary := l\<rparr>)
           | (None, l) \<Rightarrow>
               (None, svc\<lparr>re_knowledgeLibrary := l,
                          re_rulesMap := (re_rulesMap svc)(name := ru_NewKnowledgeBaseInstance R l name ''v0'')\<rparr>)))"

definition data_context :: "('l, 'b, 'x, 'j) rule_ops \<Rightarrow> ('l, 'b, 'x) RuleEngineSvc \<Rightarrow> string \<Rightarrow> 'x" where
  "data_context R svc dataCtxName =
     (case re_dataCtxMap svc dataCtxName of None \<Rightarrow> ru_NewDataContext R | Some dataCtx \<Rightarrow> dataCtx)"

definition AddFact ::
  "('l, 'b, 'x, 'j) rule_ops \<Rightarrow> ('l, 'b, 'x) RuleEngineSvc \<Rightarrow> string \<Rightarrow> string \<Rightarrow> 'j fact \<Rightarrow> goerr option \<times> ('l, 'b, 'x) RuleEngineSvc" where
  "AddFact R svc dataCtxName factName f =
     (case ru_Add R (data_context R svc dataCtxName) factName f of
        (err, dataCtx) \<Rightarrow> (err, svc\<lparr>re_dataCtxMap := (re_dataCtxMap svc)(dataCtxName \<mapsto> dataCtx)\<rparr>))"

definition Reset :: "('l, 'b, 'x, 'j) rule_ops \<Rightarrow> ('l, 'b, 'x) RuleEngineSvc \<Rightarrow> string \<Rightarrow> ('l, 'b, 'x) RuleEngineSvc" where
  "Reset R svc dataCtxName =
     svc\<lparr>re_dataCtxMap := (re_dataCtxMap svc)(dataCtxName \<mapsto> ru_Reset R (data_context R svc dataCtxName))\<rparr>"

definition Clear :: "('l, 'b, 'x) RuleEngineSvc \<Rightarrow> string \<Rightarrow> ('l, 'b, 'x) RuleEngineSvc" where
  "Clear svc dataCtxName = svc\<lparr>re_dataCtxMap := (re_dataCtxMap svc)(dataCtxName := None)\<rparr>"

text \<open>The result object is returned when the rules ran.\<close>

definition Execute ::
  "('l, 'b, 'x, 'j) rule_ops \<Rightarrow> ('l, 'b, 'x) RuleEngineSvc \<Rightarrow> string \<Rightarrow> string \<Rightarrow> Result res \<times> ('l, 'b, 'x) RuleEngineSvc" where
  "Execute R svc ruleName dataCtxName =
     (case re_rulesMap svc ruleName of
        None \<Rightarrow> (Inl (Wrapf ErrRuleExcuteFaild (''the rule ['' @ ruleName @ ''] not found'')), svc)
      | Some knowledgeBase \<Rightarrow>
          (case re_dataCtxMap svc dataCtxName of
             None \<Rightarrow> (Inl (Wrapf ErrRuleExcuteFaild (''the datacontext ['' @ dataCtxName @ ''] not found'')), svc)
           | Some dataCtx \<Rightarrow>
               (case ru_Execute R dataCtx knowledgeBase of
                  (err, dataCtx', result) \<Rightarrow>
                    (case err of Some e \<Rightarrow> Inl e | None \<Rightarrow> Inr result,
                     svc\<lparr>re_dataCtxMap := (re_dataCtxMap svc)(dataCtxName \<mapsto> dataCtx')\<rparr>))))"

section \<open>The validator\<close>

definition Draft7_Url :: string where "Draft7_Url = ''https://json-schema.org/draft-07/schema''"

definition Prefix_Context :: string where "Prefix_Context = ''Context_''"

definition Prefix_Rule :: string where "Prefix_Rule = ''Rule_''"

text \<open>\<open>val_ruled\<close>: the validator has the rule engine, the process's only instance.\<close>

record 's Validator =
  val_name :: string
  val_sch :: 's
  val_ruled :: bool

definition NewDataModelValidator ::
  "('l, 'b, 'x, 'j) rule_ops \<Rightarrow> ('s, 'i) schema_ops \<Rightarrow> ('l, 'b, 'x) RuleEngineSvc \<Rightarrow> string \<Rightarrow> string \<Rightarrow> string
     \<Rightarrow> 's Validator res \<times> ('l, 'b, 'x) RuleEngineSvc" where
  "NewDataModelValidator R S svc dmName dmSchema dmRule =
     (let named = dmName @ ''.json'';
          added = (if dmSchema \<noteq> [] then sc_AddResource S named dmSchema else None);
          compiled = (if dmSchema \<noteq> [] then sc_Compile S (Some (named, dmSchema)) named else sc_Compile S None Draft7_Url)
      in case added of
           Some err \<Rightarrow> (Inl (Wrap ErrAddResourceFaild (Some err)), svc)
         | None \<Rightarrow>
             (case compiled of
                Inl err \<Rightarrow> (Inl (Wrap ErrCompileFaild (Some err)), svc)
              | Inr schema \<Rightarrow>
                  if dmRule \<noteq> [] then
                    (case AddRule R svc (Prefix_Rule @ dmName) dmRule of
                       (Some err, svc') \<Rightarrow> (Inl (Wrap ErrAddRuleFaild (Some err)), svc')
                     | (None, svc') \<Rightarrow> (Inr \<lparr>val_name = dmName, val_sch = schema, val_ruled = True\<rparr>, svc'))
                  else (Inr \<lparr>val_name = dmName, val_sch = schema, val_ruled = False\<rparr>, svc)))"

text \<open>The error of a document the schema refuses: with one cause, its field and message.\<close>

definition schema_refusal :: "schema_error \<Rightarrow> goerr" where
  "schema_refusal err =
     (case err of
        ValidationError _ [(field, message)] \<Rightarrow>
          Wrapf ErrSchemaCheckFaild (''validation failed, invalid field '' @ [CHR 39]
            @ (if field \<noteq> [] \<and> hd field = CHR ''/'' then tl field else field)
            @ [CHR 39] @ '' due to '' @ [CHR 39] @ message @ [CHR 39])
      | _ \<Rightarrow> Wrap ErrSchemaCheckFaild (Some (se_error err)))"

fun add_facts ::
  "('l, 'b, 'x, 'j) rule_ops \<Rightarrow> string \<Rightarrow> (string \<times> 'j fact) list \<Rightarrow> ('l, 'b, 'x) RuleEngineSvc \<Rightarrow> goerr option \<times> ('l, 'b, 'x) RuleEngineSvc" where
  "add_facts R dataCtxName [] svc = (None, svc)"
| "add_facts R dataCtxName ((name, f) # fs) svc =
     (case AddFact R svc dataCtxName name f of
        (Some err, svc') \<Rightarrow> (Some (Wrap ErrAddFactFaild (Some err)), svc')
      | (None, svc') \<Rightarrow> add_facts R dataCtxName fs svc')"

definition ValidateWithRef ::
  "('l, 'b, 'x, 'j) rule_ops \<Rightarrow> ('s, 'i) schema_ops \<Rightarrow> ('j, 'i) json_ops \<Rightarrow> 's Validator \<Rightarrow> 'j \<Rightarrow> (string \<times> 'j) list
     \<Rightarrow> ('l, 'b, 'x) RuleEngineSvc \<Rightarrow> goerr option \<times> ('l, 'b, 'x) RuleEngineSvc" where
  "ValidateWithRef R S J v dmContent refContents svc =
     (case js_Marshal J dmContent of
        Inl err \<Rightarrow> (Some (Wrap ErrMarshalFailed (Some err)), svc)
      | Inr model \<Rightarrow>
          (case sc_Validate S (val_sch v) (js_GetInterface J (js_Get J model)) of
             Some err \<Rightarrow> (Some (schema_refusal err), svc)
           | None \<Rightarrow>
               if \<not> val_ruled v then (None, svc)
               else
                 (let ctx = Prefix_Context @ val_name v;
                      facts = (val_name v, FactModel dmContent) # map (\<lambda>(name, m). (name, FactModel m)) refContents
                        @ [(''Result'', FactResult \<lparr>IsValid = True, Reason = []\<rparr>)]
                  in case add_facts R ctx facts (Reset R svc ctx) of
                       (Some err, svc') \<Rightarrow> (Some err, svc')
                     | (None, svc') \<Rightarrow>
                         (case Execute R svc' (Prefix_Rule @ val_name v) ctx of
                            (Inl err, svc'') \<Rightarrow> (Some (Wrap ErrRuleExcuteFaild (Some err)), svc'')
                          | (Inr result, svc'') \<Rightarrow>
                              if IsValid result then (None, svc'')
                              else (Some (Wrapf ErrRuleCheckFaild (''failed to pass the rule check due to '' @ Reason result)), svc'')))))"

definition Validate ::
  "('l, 'b, 'x, 'j) rule_ops \<Rightarrow> ('s, 'i) schema_ops \<Rightarrow> ('j, 'i) json_ops \<Rightarrow> 's Validator \<Rightarrow> 'j
     \<Rightarrow> ('l, 'b, 'x) RuleEngineSvc \<Rightarrow> goerr option \<times> ('l, 'b, 'x) RuleEngineSvc" where
  "Validate R S J v dmContent svc = ValidateWithRef R S J v dmContent [] svc"

section \<open>What an accepted document passed\<close>

text \<open>A document the validator of a schema and a rule accepts conforms to the schema, and a rule it names was
  executed and left the result valid.\<close>

lemma Validate_accepts:
  assumes "NewDataModelValidator R S svc dmName dmSchema dmRule = (Inr v, svc1)" and "Validate R S J v doc svc1 = (None, svc2)"
  shows "\<exists>schema model. sc_Compile S (if dmSchema = [] then None else Some (dmName @ ''.json'', dmSchema))
        (if dmSchema = [] then Draft7_Url else dmName @ ''.json'') = Inr schema
      \<and> js_Marshal J doc = Inr model \<and> sc_Validate S schema (js_GetInterface J (js_Get J model)) = None
      \<and> (dmRule \<noteq> [] \<longrightarrow> (\<exists>kb ctx ctx' result. re_rulesMap svc1 (Prefix_Rule @ dmName) = Some kb
            \<and> ru_Execute R ctx kb = (None, ctx', result) \<and> IsValid result))"
proof -
  from assms(1) have v: "val_name v = dmName" "val_ruled v \<longleftrightarrow> dmRule \<noteq> []"
    "sc_Compile S (if dmSchema = [] then None else Some (dmName @ ''.json'', dmSchema))
        (if dmSchema = [] then Draft7_Url else dmName @ ''.json'') = Inr (val_sch v)"
    by (auto simp: NewDataModelValidator_def Let_def split: sum.splits option.splits prod.splits if_splits)
  have f: "re_rulesMap svc' = re_rulesMap svc0" if "AddFact R svc0 ctx name f = (e, svc')" for ctx name f svc0 svc' e
    using that by (auto simp: AddFact_def split: prod.splits)
  from assms(2) v show ?thesis
    by (auto simp: Validate_def ValidateWithRef_def Execute_def Reset_def Let_def dest!: f split: sum.splits option.splits prod.splits if_splits)
      blast+
qed

end
