(* ===== verification/Model_Manager.thy ===== *)
theory Model_Manager
  imports Cache_Service Gateway_Handlers Validator
begin

text \<open>
  The model manager (\<^verbatim>\<open>src/node/model/manager.go\<close>): it creates, loads, updates and deletes data models through
  the gateway and keeps the models it saw in a cache service.  The cache holds pointers, so a model that is
  cached is shared between the cache's entries and the callers: the models live in a heap (\<open>mm_models\<close>, indexed by
  address; allocation appends) and an entry of the cache is an address.  The gateway and the cache are the records
  \<open>GatewayApi\<close> and \<open>CacheApi\<close> of their interfaces' operations; \<open>gateway_api\<close> and \<open>lru_api\<close> fill them with the gateway and
  the LRU service of this development.  Parsing of JSON, JSON patches and UUIDs are third-party code and parameters.
\<close>

section \<open>Numbers and versions\<close>

text \<open>\<^verbatim>\<open>strconv.Atoi\<close> on digits: a range error from 2 to the 63 on.\<close>

definition Atoi_digits :: "string \<Rightarrow> nat res" where
  "Atoi_digits s =
     (if digits_val s < 2 ^ 63 then Inr (digits_val s)
      else Inl (ErrText (''strconv.Atoi: parsing '' @ [CHR 34] @ s @ [CHR 34] @ '': value out of range'')))"

text \<open>The regular expression \<^verbatim>\<open>^v\d+$\<close>.\<close>

definition is_version :: "string \<Rightarrow> bool" where
  "is_version s \<longleftrightarrow> (case s of [] \<Rightarrow> False | c # ds \<Rightarrow> c = CHR ''v'' \<and> ds \<noteq> [] \<and> list_all is_digit ds)"

text \<open>The regular expression \<^verbatim>\<open>^\[.*\]$\<close>, where the dot does not match a newline.\<close>

definition is_array_text :: "string \<Rightarrow> bool" where
  "is_array_text s \<longleftrightarrow> 2 \<le> length s \<and> hd s = CHR ''['' \<and> last s = CHR '']'' \<and> CHR 10 \<notin> set s"

section \<open>The interfaces\<close>

record 'g GatewayApi =
  ga_QueryMeta :: "'g \<Rightarrow> MetadataProposalCbor \<Rightarrow> int \<Rightarrow> Model res"
  ga_FetchContent :: "'g \<Rightarrow> MetadataProposalCbor \<Rightarrow> Model \<Rightarrow> (FetchResult res \<times> 'g) outcome"
  ga_CommitModel :: "'g \<Rightarrow> StoreProposal \<Rightarrow> JwsSignature \<Rightarrow> u64 \<Rightarrow> bytes \<Rightarrow> CommitResult res \<times> 'g"
  ga_TerminateOrder :: "'g \<Rightarrow> TerminateProposal \<times> JwsSignature \<Rightarrow> goerr option \<times> 'g"
  ga_RenewOrder :: "'g \<Rightarrow> RenewProposal \<times> JwsSignature \<Rightarrow> (string \<times> string) list res \<times> 'g"
  ga_UpdateModelPermission :: "'g \<Rightarrow> PermissionProposal \<times> JwsSignature \<Rightarrow> goerr option \<times> 'g"

definition gateway_api :: "('d, 'k, 'b, 'f) GwEnv \<Rightarrow> ('d, 'b, 'f) GatewaySvc GatewayApi" where
  "gateway_api G = \<lparr>ga_QueryMeta = (\<lambda>_. QueryMeta G), ga_FetchContent = FetchContent G, ga_CommitModel = CommitModel G,
     ga_TerminateOrder = TerminateOrder G, ga_RenewOrder = RenewOrder G, ga_UpdateModelPermission = UpdateModelPermission G\<rparr>"

text \<open>A cached value is a string or a pointer to a model.\<close>

datatype cache_value = CacheString string | CacheModel addr

record 'c CacheApi =
  ca_CreateCache :: "'c \<Rightarrow> string \<Rightarrow> int \<Rightarrow> goerr option \<times> 'c"
  ca_Get :: "'c \<Rightarrow> string \<Rightarrow> string \<Rightarrow> (cache_value option res \<times> 'c) outcome"
  ca_Put :: "'c \<Rightarrow> string \<Rightarrow> string \<Rightarrow> cache_value \<Rightarrow> 'c outcome"
  ca_Evict :: "'c \<Rightarrow> string \<Rightarrow> string \<Rightarrow> 'c outcome"

definition lru_api :: "'m hamt_ops \<Rightarrow> (cache_value, 'm) LruCacheSvc CacheApi" where
  "lru_api H = \<lparr>ca_CreateCache = CreateCache H, ca_Get = LruSvc_Get H, ca_Put = LruSvc_Put H, ca_Evict = LruSvc_Evict H\<rparr>"

text \<open>JSON: the text of the property \<^verbatim>\<open>@context\<close>, the elements of an array, an element as a string and as the text
  of \<^verbatim>\<open>%v\<close>, the string at the start of a text and the field the same iterator reads next.\<close>

record 'i schema_json =
  sj_Context :: "bytes \<Rightarrow> string"
  sj_Array :: "string \<Rightarrow> 'i list"
  sj_String :: "'i \<Rightarrow> string option"
  sj_Fmt :: "'i \<Rightarrow> string"
  sj_ReadString :: "string \<Rightarrow> string"
  sj_ReadObject :: "string \<Rightarrow> string"

record 'p patch_ops =
  pt_DecodePatch :: "bytes \<Rightarrow> 'p res outcome"
  pt_Apply :: "'p \<Rightarrow> bytes \<Rightarrow> bytes res outcome"

record ('g, 'c, 'l, 'b, 'x, 's, 'j, 'i, 'p) ModelEnv =
  me_gateway :: "'g GatewayApi"
  me_cache :: "'c CacheApi"
  me_EnableCache :: bool
  me_CacheCapacity :: int
  me_ContentLimit :: int
  me_rules :: "('l, 'b, 'x, 'j) rule_ops"
  me_schema :: "('s, 'i) schema_ops"
  me_json :: "('j, 'i) json_ops"
  me_context :: "'i schema_json"
  me_patch :: "'p patch_ops"
  me_IsDataId :: "string \<Rightarrow> bool"
  me_Sum :: "bytes \<Rightarrow> cid res"
  me_cid_String :: "cid \<Rightarrow> string"

record ('g, 'c, 'l, 'b, 'x) ModelManager =
  mm_gateway :: 'g
  mm_cache :: 'c
  mm_rules :: "('l, 'b, 'x) RuleEngineSvc"
  mm_models :: "Model list"

text \<open>Which cache service the configuration selects.\<close>

datatype cache_kind = LruKind | RedisKind | MemcachedKind

definition NewModelManager_cache :: "string \<Rightarrow> string \<Rightarrow> cache_kind" where
  "NewModelManager_cache redisConn memcachedConn =
     (if redisConn = [] \<and> memcachedConn = [] then LruKind else if redisConn \<noteq> [] then RedisKind else MemcachedKind)"

definition new_model :: "Model \<Rightarrow> ('g, 'c, 'l, 'b, 'x) ModelManager \<Rightarrow> addr \<times> ('g, 'c, 'l, 'b, 'x) ModelManager" where
  "new_model m mm = (length (mm_models mm), mm\<lparr>mm_models := mm_models mm @ [m]\<rparr>)"

definition set_model :: "addr \<Rightarrow> Model \<Rightarrow> ('g, 'c, 'l, 'b, 'x) ModelManager \<Rightarrow> ('g, 'c, 'l, 'b, 'x) ModelManager" where
  "set_model a m mm = mm\<lparr>mm_models := (mm_models mm)[a := m]\<rparr>"

section \<open>The cache of the manager\<close>

definition loadModel ::
  "('g, 'c, 'l, 'b, 'x, 's, 'j, 'i, 'p) ModelEnv \<Rightarrow> string \<Rightarrow> string \<Rightarrow> ('g, 'c, 'l, 'b, 'x) ModelManager
     \<Rightarrow> (addr option \<times> ('g, 'c, 'l, 'b, 'x) ModelManager) outcome" where
  "loadModel M account key mm =
     (if \<not> me_EnableCache M then Return (None, mm)
      else
        bind_outcome (ca_Get (me_cache M) (mm_cache mm) account key) (\<lambda>(value, c).
          let mm1 = mm\<lparr>mm_cache := c\<rparr>
          in case value of
               Inl err \<Rightarrow>
                 if Contains (Error err) (''the cache ['' @ account @ ''] not found'')
                 then Return (None, mm\<lparr>mm_cache := snd (ca_CreateCache (me_cache M) c account (me_CacheCapacity M))\<rparr>)
                 else Return (None, mm1)
             | Inr None \<Rightarrow> Return (None, mm1)
             | Inr (Some (CacheModel a)) \<Rightarrow> Return (Some a, mm1)
             | Inr (Some (CacheString dataId)) \<Rightarrow>
                 bind_outcome (ca_Get (me_cache M) c account dataId) (\<lambda>(value', c').
                   Return (case value' of Inr (Some (CacheModel a)) \<Rightarrow> Some a | _ \<Rightarrow> None, mm\<lparr>mm_cache := c'\<rparr>))))"

definition cacheModel ::
  "('g, 'c, 'l, 'b, 'x, 's, 'j, 'i, 'p) ModelEnv \<Rightarrow> string \<Rightarrow> addr \<Rightarrow> ('g, 'c, 'l, 'b, 'x) ModelManager
     \<Rightarrow> ('g, 'c, 'l, 'b, 'x) ModelManager outcome" where
  "cacheModel M account a mm =
     (if \<not> me_EnableCache M then Return mm
      else
        (let model = mm_models mm ! a;
             mm1 = (if int (length (slice (mo_Content model))) > me_ContentLimit M
                    then set_model a (model\<lparr>mo_Content := Some []\<rparr>) mm else mm)
         in bind_outcome (ca_Put (me_cache M) (mm_cache mm1) account (mo_DataId model @ mo_CommitId model) (CacheModel a)) (\<lambda>c1.
              bind_outcome (ca_Put (me_cache M) c1 account (mo_Alias model @ mo_CommitId model) (CacheModel a)) (\<lambda>c2.
                Return (mm1\<lparr>mm_cache := c2\<rparr>)))))"

section \<open>Loading a model\<close>

definition first_part :: "string \<Rightarrow> string" where
  "first_part commit = hd (Split (CHR 26) commit)"

text \<open>The version of the request: the metadata at the height of the commit with that number.\<close>

definition load_version ::
  "'g GatewayApi \<Rightarrow> 'g \<Rightarrow> MetadataProposalCbor \<Rightarrow> Model \<Rightarrow> (string \<times> Model) res" where
  "load_version Ga g req meta =
     (let version = qp_Version (mpc_Proposal req);
          invalid = Wrapf ErrInvalidVersion (''invalid Version: '' @ version)
      in if version = [] then Inr (''v'' @ show_int (int (length (mo_Commits meta)) - 1), meta)
         else if \<not> is_version version then Inl invalid
         else
           (case Atoi_digits (filter (\<lambda>c. c \<noteq> CHR ''v'') version) of
              Inl err \<Rightarrow> Inl (Wrap ErrInvalidVersion (Some err))
            | Inr index \<Rightarrow>
                if index < length (mo_Commits meta) then
                  (let commit = mo_Commits meta ! index
                   in case ParseMetaCommit commit of
                        Inl _ \<Rightarrow> Inl (Wrapf ErrInvalidCommitInfo (''invalid commit information: '' @ commit))
                      | Inr commitInfo \<Rightarrow>
                          (case ga_QueryMeta Ga g req (to_int64 (mc_Height commitInfo)) of
                             Inl err \<Rightarrow> Inl err
                           | Inr meta' \<Rightarrow> Inr (version, meta')))
                else Inl invalid))"

text \<open>The search for the requested commit id: its number and the metadata at its height.\<close>

fun find_commit ::
  "'g GatewayApi \<Rightarrow> 'g \<Rightarrow> MetadataProposalCbor \<Rightarrow> nat \<Rightarrow> string list \<Rightarrow> (nat \<times> Model) option res" where
  "find_commit Ga g req i [] = Inr None"
| "find_commit Ga g req i (commit # commits) =
     (case ParseMetaCommit commit of
        Inl _ \<Rightarrow> Inl (Wrapf ErrInvalidCommitInfo (''invalid commit information: '' @ commit))
      | Inr commitInfo \<Rightarrow>
          if mc_CommitId commitInfo = qp_CommitId (mpc_Proposal req) then
            (case ga_QueryMeta Ga g req (to_int64 (mc_Height commitInfo)) of
               Inl err \<Rightarrow> Inl err
             | Inr meta \<Rightarrow> Inr (Some (i, meta)))
          else find_commit Ga g req (Suc i) commits)"

definition load_commit ::
  "'g GatewayApi \<Rightarrow> 'g \<Rightarrow> MetadataProposalCbor \<Rightarrow> string \<times> Model \<Rightarrow> (string \<times> Model) res" where
  "load_commit Ga g req vm =
     (let commitId = qp_CommitId (mpc_Proposal req)
      in if commitId = [] then Inr vm
         else
           (case find_commit Ga g req 0 (mo_Commits (snd vm)) of
              Inl err \<Rightarrow> Inl err
            | Inr None \<Rightarrow> Inl (Wrapf ErrInvalidCommitInfo (''invalid CommitId: '' @ commitId))
            | Inr (Some (i, meta)) \<Rightarrow> Inr (''v'' @ show_nat i, meta)))"

text \<open>The metadata and the version a request asks for.\<close>

definition requested_meta :: "'g GatewayApi \<Rightarrow> 'g \<Rightarrow> MetadataProposalCbor \<Rightarrow> Model \<Rightarrow> (string \<times> Model) res" where
  "requested_meta Ga g req meta =
     (case load_version Ga g req meta of Inl err \<Rightarrow> Inl err | Inr vm \<Rightarrow> load_commit Ga g req vm)"

text \<open>A model from metadata, and a cached model brought up to date with it.\<close>

definition model_of_meta :: "Model \<Rightarrow> Model" where
  "model_of_meta meta = meta\<lparr>mo_Version := [], mo_Content := None\<rparr>"

definition refresh_model :: "Model \<Rightarrow> Model \<Rightarrow> Model" where
  "refresh_model model meta =
     model\<lparr>mo_OrderId := mo_OrderId meta, mo_Cid := mo_Cid meta, mo_Shards := mo_Shards meta, mo_CommitId := mo_CommitId meta,
           mo_Commits := mo_Commits meta, mo_ExtendInfo := mo_ExtendInfo meta\<rparr>"

definition cached_latest :: "MetadataProposalCbor \<Rightarrow> Model \<Rightarrow> Model \<Rightarrow> bool" where
  "cached_latest req meta model \<longleftrightarrow>
     (qp_CommitId (mpc_Proposal req) = [] \<or> mo_CommitId model = qp_CommitId (mpc_Proposal req))
     \<and> slice (mo_Content model) \<noteq> [] \<and> mo_CommitId meta = mo_CommitId model"

text \<open>Fetching: \<open>model\<close> is the pointer the cache returned, whose object is updated before the content is fetched.\<close>

definition Load_fetch ::
  "('g, 'c, 'l, 'b, 'x, 's, 'j, 'i, 'p) ModelEnv \<Rightarrow> MetadataProposalCbor \<Rightarrow> Model \<Rightarrow> addr option \<Rightarrow> ('g, 'c, 'l, 'b, 'x) ModelManager
     \<Rightarrow> (addr res \<times> ('g, 'c, 'l, 'b, 'x) ModelManager) outcome" where
  "Load_fetch M req latest model mm =
     (case requested_meta (me_gateway M) (mm_gateway mm) req latest of
        Inl err \<Rightarrow> Return (Inl err, mm)
      | Inr (version, meta) \<Rightarrow>
          (case (case model of
                   None \<Rightarrow> new_model (model_of_meta meta) mm
                 | Some a \<Rightarrow> (a, set_model a (refresh_model (mm_models mm ! a) meta) mm)) of
             (a, mm1) \<Rightarrow>
               bind_outcome (ga_FetchContent (me_gateway M) (mm_gateway mm1) req meta) (\<lambda>(fetched, g).
                 let mm2 = mm1\<lparr>mm_gateway := g\<rparr>
                 in case fetched of
                      Inl err \<Rightarrow> Return (Inl err, mm2)
                    | Inr result \<Rightarrow>
                        bind_outcome
                          (cacheModel M (qp_Owner (mpc_Proposal req)) a
                             (set_model a ((mm_models mm2 ! a)\<lparr>mo_Cid := fr_Cid result, mo_Content := fr_Content result,
                                                             mo_Version := version\<rparr>) mm2))
                          (\<lambda>mm3. Return (Inr a, mm3)))))"

definition Load ::
  "('g, 'c, 'l, 'b, 'x, 's, 'j, 'i, 'p) ModelEnv \<Rightarrow> MetadataProposalCbor \<Rightarrow> ('g, 'c, 'l, 'b, 'x) ModelManager
     \<Rightarrow> (addr res \<times> ('g, 'c, 'l, 'b, 'x) ModelManager) outcome" where
  "Load M req mm =
     (case ga_QueryMeta (me_gateway M) (mm_gateway mm) req 0 of
        Inl err \<Rightarrow> Return (Inl err, mm)
      | Inr latest \<Rightarrow>
          bind_outcome (loadModel M (mo_Owner latest) (qp_Keyword (mpc_Proposal req) @ first_part (mo_CommitId latest)) mm)
            (\<lambda>(model, mm1).
              if (case model of None \<Rightarrow> False | Some a \<Rightarrow> cached_latest req latest (mm_models mm1 ! a))
              then Return (Inr (the model), mm1)
              else Load_fetch M req latest model mm1))"

section \<open>Validating content\<close>

definition public_query :: "string \<Rightarrow> MetadataProposalCbor" where
  "public_query dataId =
     \<lparr>mpc_Proposal = QueryProposal_zero\<lparr>qp_Owner := ''all'', qp_Keyword := dataId\<rparr>, mpc_JwsSignature = JwsSignature_zero\<rparr>"

text \<open>The schema a data id stands for: the content of that model, cached or loaded.\<close>

definition resolve_schema ::
  "('g, 'c, 'l, 'b, 'x, 's, 'j, 'i, 'p) ModelEnv \<Rightarrow> string \<Rightarrow> string \<Rightarrow> ('g, 'c, 'l, 'b, 'x) ModelManager
     \<Rightarrow> (string res \<times> ('g, 'c, 'l, 'b, 'x) ModelManager) outcome" where
  "resolve_schema M account dataId mm =
     bind_outcome (ca_Get (me_cache M) (mm_cache mm) account dataId) (\<lambda>(value, c).
       let mm1 = mm\<lparr>mm_cache := c\<rparr>;
           text = (\<lambda>a mm'. Return (Inr (slice (mo_Content (mm_models mm' ! a))), mm'))
       in case value of
            Inl err \<Rightarrow> Return (Inl err, mm1)
          | Inr None \<Rightarrow>
              bind_outcome (Load M (public_query dataId) mm1) (\<lambda>(loaded, mm2).
                case loaded of Inl err \<Rightarrow> Return (Inl err, mm2) | Inr a \<Rightarrow> text a mm2)
          | Inr (Some (CacheModel a)) \<Rightarrow> text a mm1
          | Inr (Some (CacheString _)) \<Rightarrow> Return (Inl (Wrapf ErrInvalidSchema ''invalid schema: <nil>''), mm1))"

definition run_validator ::
  "('g, 'c, 'l, 'b, 'x, 's, 'j, 'i, 'p) ModelEnv \<Rightarrow> string \<Rightarrow> string \<Rightarrow> string \<Rightarrow> bytes \<Rightarrow> ('g, 'c, 'l, 'b, 'x) ModelManager
     \<Rightarrow> goerr option \<times> ('g, 'c, 'l, 'b, 'x) ModelManager" where
  "run_validator M alias schema rule contentBytes mm =
     (case NewDataModelValidator (me_rules M) (me_schema M) (mm_rules mm) alias schema rule of
        (Inl err, svc) \<Rightarrow> (Some err, mm\<lparr>mm_rules := svc\<rparr>)
      | (Inr v, svc) \<Rightarrow>
          (case Validate (me_rules M) (me_schema M) (me_json M) v (js_Get (me_json M) contentBytes) svc of
             (err, svc') \<Rightarrow> (err, mm\<lparr>mm_rules := svc'\<rparr>)))"

text \<open>A schema that is a string: the text itself, or the model it names.\<close>

definition validate_against ::
  "('g, 'c, 'l, 'b, 'x, 's, 'j, 'i, 'p) ModelEnv \<Rightarrow> string \<Rightarrow> string \<Rightarrow> string \<Rightarrow> bytes \<Rightarrow> string \<Rightarrow> string
     \<Rightarrow> ('g, 'c, 'l, 'b, 'x) ModelManager \<Rightarrow> (goerr option \<times> ('g, 'c, 'l, 'b, 'x) ModelManager) outcome" where
  "validate_against M account alias rule contentBytes dataId schema mm =
     (if me_IsDataId M dataId then
        bind_outcome (resolve_schema M account dataId mm) (\<lambda>(resolved, mm1).
          case resolved of
            Inl err \<Rightarrow> Return (Some err, mm1)
          | Inr text \<Rightarrow> Return (run_validator M alias text rule contentBytes mm1))
      else Return (run_validator M alias schema rule contentBytes mm))"

fun validate_schemas ::
  "('g, 'c, 'l, 'b, 'x, 's, 'j, 'i, 'p) ModelEnv \<Rightarrow> string \<Rightarrow> string \<Rightarrow> string \<Rightarrow> bytes \<Rightarrow> 'i list
     \<Rightarrow> ('g, 'c, 'l, 'b, 'x) ModelManager \<Rightarrow> (goerr option \<times> ('g, 'c, 'l, 'b, 'x) ModelManager) outcome" where
  "validate_schemas M account alias rule contentBytes [] mm = Return (None, mm)"
| "validate_schemas M account alias rule contentBytes (schema # schemas) mm =
     (case sj_String (me_context M) schema of
        Some sch \<Rightarrow>
          if sch = [] then Return (Some (Wrapf ErrInvalidSchema (''invalid schema: '' @ sj_Fmt (me_context M) schema)), mm)
          else
            bind_outcome (validate_against M account alias rule contentBytes sch sch mm) (\<lambda>(err, mm1).
              case err of
                Some e \<Rightarrow> Return (Some e, mm1)
              | None \<Rightarrow> validate_schemas M account alias rule contentBytes schemas mm1)
      | None \<Rightarrow> Return (Some (Wrapf ErrInvalidSchema (''invalid schema: '' @ sj_Fmt (me_context M) schema)), mm))"

definition validateModel ::
  "('g, 'c, 'l, 'b, 'x, 's, 'j, 'i, 'p) ModelEnv \<Rightarrow> string \<Rightarrow> string \<Rightarrow> bytes \<Rightarrow> string
     \<Rightarrow> ('g, 'c, 'l, 'b, 'x) ModelManager \<Rightarrow> (goerr option \<times> ('g, 'c, 'l, 'b, 'x) ModelManager) outcome" where
  "validateModel M account alias contentBytes rule mm =
     (let schemaStr = sj_Context (me_context M) contentBytes
      in if schemaStr = [] then Return (None, mm)
         else if is_array_text schemaStr then
           validate_schemas M account alias rule contentBytes (sj_Array (me_context M) schemaStr) mm
         else
           validate_against M account alias rule contentBytes (sj_ReadString (me_context M) schemaStr)
             (sj_ReadObject (me_context M) schemaStr) mm)"

section \<open>Creating a model\<close>

definition existing_already :: "Model \<Rightarrow> string" where
  "existing_already m = ''the model is exsiting already, alias: '' @ mo_Alias m @ '', dataId: '' @ mo_DataId m"

text \<open>The commit and the model that is cached for it.\<close>

definition Create_commit ::
  "('g, 'c, 'l, 'b, 'x, 's, 'j, 'i, 'p) ModelEnv \<Rightarrow> StoreProposal \<Rightarrow> JwsSignature \<Rightarrow> u64 \<Rightarrow> bytes \<Rightarrow> string
     \<Rightarrow> ('g, 'c, 'l, 'b, 'x) ModelManager \<Rightarrow> (addr res \<times> ('g, 'c, 'l, 'b, 'x) ModelManager) outcome" where
  "Create_commit M clientProposal jws orderId content alias mm =
     (case ga_CommitModel (me_gateway M) (mm_gateway mm) clientProposal jws orderId content of
        (Inl err, g) \<Rightarrow> Return (Inl err, mm\<lparr>mm_gateway := g\<rparr>)
      | (Inr result, g) \<Rightarrow>
          (case new_model
                  \<lparr>mo_DataId = cr_DataId result, mo_Alias = alias, mo_GroupId = prop_GroupId clientProposal, mo_OrderId = cr_OrderId result,
                   mo_Owner = prop_Owner clientProposal, mo_Tags = prop_Tags clientProposal, mo_Cid = cr_Cid result,
                   mo_Shards = cr_Shards result, mo_CommitId = prop_CommitId clientProposal,
                   mo_Commits = [format_commit (prop_CommitId clientProposal) (cr_Height result)], mo_Version = ''v0'',
                   mo_Content = Some content, mo_ExtendInfo = prop_ExtendInfo clientProposal\<rparr>
                  (mm\<lparr>mm_gateway := g\<rparr>) of
             (a, mm1) \<Rightarrow>
               bind_outcome (cacheModel M (prop_Owner clientProposal) a mm1) (\<lambda>mm2. Return (Inr a, mm2))))"

definition Create ::
  "('g, 'c, 'l, 'b, 'x, 's, 'j, 'i, 'p) ModelEnv \<Rightarrow> MetadataProposalCbor \<Rightarrow> StoreProposal \<Rightarrow> JwsSignature \<Rightarrow> u64 \<Rightarrow> bytes
     \<Rightarrow> ('g, 'c, 'l, 'b, 'x) ModelManager \<Rightarrow> (addr res \<times> ('g, 'c, 'l, 'b, 'x) ModelManager) outcome" where
  "Create M req clientProposal jws orderId content mm =
     (let alias = (if prop_Alias clientProposal = [] then prop_Cid clientProposal else prop_Alias clientProposal);
          owner = prop_Owner clientProposal;
          dataId = prop_DataId clientProposal
      in bind_outcome (loadModel M owner (dataId @ dataId) mm) (\<lambda>(old, mm1).
           case old of
             Some a \<Rightarrow> Return (Inl (Wrapf ErrInvalidDataId (existing_already (mm_models mm1 ! a))), mm1)
           | None \<Rightarrow>
               bind_outcome (loadModel M owner (alias @ dataId) mm1) (\<lambda>(old', mm2).
                 case old' of
                   Some a \<Rightarrow> Return (Inl (Wrapf ErrInvalidDataId (existing_already (mm_models mm2 ! a))), mm2)
                 | None \<Rightarrow>
                     (case ga_QueryMeta (me_gateway M) (mm_gateway mm2) req 0 of
                        Inr meta \<Rightarrow> Return (Inl (Wrapf ErrConflictId (existing_already meta)), mm2)
                      | Inl _ \<Rightarrow>
                          if prop_Size clientProposal = 0 \<or> content = []
                          then Return (Inl (Wrapf ErrInvalidContent ''the content is empty''), mm2)
                          else
                            bind_outcome (validateModel M owner alias content (prop_Rule clientProposal) mm2) (\<lambda>(err, mm3).
                              case err of
                                Some e \<Rightarrow> Return (Inl e, mm3)
                              | None \<Rightarrow> Create_commit M clientProposal jws orderId content alias mm3)))))"

section \<open>Updating a model\<close>

text \<open>\<^verbatim>\<open>utils.ApplyPatch\<close>: a panic of the patch library is recovered and the call returns nil without an error.\<close>

definition ApplyPatch :: "'p patch_ops \<Rightarrow> bytes \<Rightarrow> bytes \<Rightarrow> bytes res" where
  "ApplyPatch P jsonDataOrg patch =
     (case bind_outcome (pt_DecodePatch P patch) (\<lambda>decoded.
             case decoded of
               Inl err \<Rightarrow> Return (Inl (Wrap ErrCreatePatchFailed (Some err)))
             | Inr patcher \<Rightarrow>
                 bind_outcome (pt_Apply P patcher jsonDataOrg) (\<lambda>applied.
                   Return (case applied of Inl err \<Rightarrow> Inl (Wrap ErrCreatePatchFailed (Some err)) | Inr target \<Rightarrow> Inr target))) of
        Panic \<Rightarrow> Inr []
      | Return r \<Rightarrow> r)"

text \<open>The model the patch applies to: the cached one when it is the latest, otherwise the fetched one.\<close>

definition original_model ::
  "('g, 'c, 'l, 'b, 'x, 's, 'j, 'i, 'p) ModelEnv \<Rightarrow> MetadataProposalCbor \<Rightarrow> string \<Rightarrow> Model \<Rightarrow> addr option
     \<Rightarrow> ('g, 'c, 'l, 'b, 'x) ModelManager \<Rightarrow> (Model res \<times> ('g, 'c, 'l, 'b, 'x) ModelManager) outcome" where
  "original_model M req lastCommitId meta org mm =
     (let cached = (case org of None \<Rightarrow> None
                    | Some a \<Rightarrow> (let m = mm_models mm ! a
                               in if lastCommitId = mo_CommitId m \<and> slice (mo_Content m) \<noteq> [] \<and> mo_CommitId meta = mo_CommitId m
                                  then Some m else None))
      in case cached of
           Some m \<Rightarrow> Return (Inr m, mm)
         | None \<Rightarrow>
             bind_outcome (ga_FetchContent (me_gateway M) (mm_gateway mm) req meta) (\<lambda>(fetched, g).
               Return (case fetched of Inl err \<Rightarrow> Inl err
                       | Inr result \<Rightarrow> Inr ((model_of_meta meta)\<lparr>mo_Content := fr_Content result\<rparr>), mm\<lparr>mm_gateway := g\<rparr>)))"

text \<open>The checks of the patched content against the proposal.\<close>

definition patched_content ::
  "('g, 'c, 'l, 'b, 'x, 's, 'j, 'i, 'p) ModelEnv \<Rightarrow> StoreProposal \<Rightarrow> Model \<Rightarrow> bytes \<Rightarrow> bytes res" where
  "patched_content M proposal org patch =
     (case ApplyPatch (me_patch M) (slice (mo_Content org)) patch of
        Inl err \<Rightarrow> Inl err
      | Inr newContent \<Rightarrow>
          if slice (mo_Content org) = newContent then Inl (Wrapf ErrInvalidContent ''no content updated.'')
          else if int (length newContent) \<noteq> to_int64 (prop_Size proposal) then
            Inl (Wrapf ErrInvalidContent (''given size('' @ show_int (to_int64 (prop_Size proposal))
                   @ '') doesn'' @ [CHR 39] @ ''t match target content size('' @ show_nat (length newContent) @ '')''))
          else
            (case CalculateCid (me_Sum M) newContent of
               Inl err \<Rightarrow> Inl err
             | Inr newContentCid \<Rightarrow>
                 if me_cid_String M newContentCid \<noteq> prop_Cid proposal then
                   Inl (Wrapf ErrInvalidCid (''cid mismatch, expected '' @ prop_Cid proposal @ '', but got ''
                          @ me_cid_String M newContentCid))
                 else Inr newContent))"

definition Update_commit ::
  "('g, 'c, 'l, 'b, 'x, 's, 'j, 'i, 'p) ModelEnv \<Rightarrow> StoreProposal \<Rightarrow> JwsSignature \<Rightarrow> u64 \<Rightarrow> string \<Rightarrow> Model \<Rightarrow> bytes
     \<Rightarrow> ('g, 'c, 'l, 'b, 'x) ModelManager \<Rightarrow> (addr res \<times> ('g, 'c, 'l, 'b, 'x) ModelManager) outcome" where
  "Update_commit M clientProposal jws orderId commitId org newContent mm =
     (case ga_CommitModel (me_gateway M) (mm_gateway mm) clientProposal jws orderId newContent of
        (Inl err, g) \<Rightarrow> Return (Inl err, mm\<lparr>mm_gateway := g\<rparr>)
      | (Inr result, g) \<Rightarrow>
          (case new_model
                  \<lparr>mo_DataId = mo_DataId org, mo_Alias = mo_Alias org, mo_GroupId = prop_GroupId clientProposal, mo_OrderId = cr_OrderId result,
                   mo_Owner = prop_Owner clientProposal, mo_Tags = prop_Tags clientProposal, mo_Cid = cr_Cid result,
                   mo_Shards = cr_Shards result, mo_CommitId = commitId,
                   mo_Commits = mo_Commits org @ [format_commit commitId (cr_Height result)],
                   mo_Version = ''v'' @ show_nat (length (mo_Commits org)), mo_Content = Some newContent,
                   mo_ExtendInfo = prop_ExtendInfo clientProposal\<rparr>
                  (mm\<lparr>mm_gateway := g\<rparr>) of
             (a, mm1) \<Rightarrow>
               bind_outcome (cacheModel M (prop_Owner clientProposal) a mm1) (\<lambda>mm2. Return (Inr a, mm2))))"

definition Update ::
  "('g, 'c, 'l, 'b, 'x, 's, 'j, 'i, 'p) ModelEnv \<Rightarrow> MetadataProposalCbor \<Rightarrow> StoreProposal \<Rightarrow> JwsSignature \<Rightarrow> u64 \<Rightarrow> bytes
     \<Rightarrow> ('g, 'c, 'l, 'b, 'x) ModelManager \<Rightarrow> (addr res \<times> ('g, 'c, 'l, 'b, 'x) ModelManager) outcome" where
  "Update M req clientProposal jws orderId patch mm =
     (case Split (CHR ''|'') (prop_CommitId clientProposal) of
        [lastCommitId, commitId] \<Rightarrow>
          (case ga_QueryMeta (me_gateway M) (mm_gateway mm) req 0 of
             Inl err \<Rightarrow> Return (Inl err, mm)
           | Inr meta \<Rightarrow>
               bind_outcome (loadModel M (mo_Owner meta) (qp_Keyword (mpc_Proposal req) @ lastCommitId) mm) (\<lambda>(cached, mm1).
                 bind_outcome (original_model M req lastCommitId meta cached mm1) (\<lambda>(original, mm2).
                   case original of
                     Inl err \<Rightarrow> Return (Inl err, mm2)
                   | Inr org \<Rightarrow>
                       (case patched_content M clientProposal org patch of
                          Inl err \<Rightarrow> Return (Inl err, mm2)
                        | Inr newContent \<Rightarrow>
                            bind_outcome (validateModel M (prop_Owner clientProposal) (prop_Alias clientProposal) newContent
                                            (prop_Rule clientProposal) mm2) (\<lambda>(err, mm3).
                              case err of
                                Some e \<Rightarrow> Return (Inl e, mm3)
                              | None \<Rightarrow> Update_commit M clientProposal jws orderId commitId org newContent mm3)))))
      | _ \<Rightarrow> Return (Inl (Wrapf ErrInvalidCommitInfo (''invalid commitId:'' @ prop_CommitId clientProposal)), mm))"

section \<open>The other operations\<close>

definition Delete ::
  "('g, 'c, 'l, 'b, 'x, 's, 'j, 'i, 'p) ModelEnv \<Rightarrow> TerminateProposal \<times> JwsSignature \<Rightarrow> bool \<Rightarrow> ('g, 'c, 'l, 'b, 'x) ModelManager
     \<Rightarrow> ((string \<times> string) option res \<times> ('g, 'c, 'l, 'b, 'x) ModelManager) outcome" where
  "Delete M req isPublish mm =
     (case (if isPublish then ga_TerminateOrder (me_gateway M) (mm_gateway mm) req else (None, mm_gateway mm)) of
        (Some err, g) \<Rightarrow> Return (Inl err, mm\<lparr>mm_gateway := g\<rparr>)
      | (None, g) \<Rightarrow>
          bind_outcome (ca_Get (me_cache M) (mm_cache mm) (tp_Owner (fst req)) (tp_DataId (fst req))) (\<lambda>(value, c).
            case value of
              Inr (Some (CacheModel a)) \<Rightarrow>
                (let m = mm_models mm ! a
                 in bind_outcome (ca_Evict (me_cache M) c (tp_Owner (fst req)) (mo_DataId m)) (\<lambda>c1.
                      bind_outcome (ca_Evict (me_cache M) c1 (tp_Owner (fst req)) (mo_Alias m)) (\<lambda>c2.
                        Return (Inr (Some (mo_DataId m, mo_Alias m)), mm\<lparr>mm_gateway := g, mm_cache := c2\<rparr>))))
            | _ \<Rightarrow> Return (Inr None, mm\<lparr>mm_gateway := g, mm_cache := c\<rparr>)))"

definition ShowCommits ::
  "('g, 'c, 'l, 'b, 'x, 's, 'j, 'i, 'p) ModelEnv \<Rightarrow> MetadataProposalCbor \<Rightarrow> ('g, 'c, 'l, 'b, 'x) ModelManager
     \<Rightarrow> (string \<times> string \<times> string list) res" where
  "ShowCommits M req mm =
     (case ga_QueryMeta (me_gateway M) (mm_gateway mm) req 0 of
        Inl err \<Rightarrow> Inl err
      | Inr meta \<Rightarrow> Inr (mo_DataId meta, mo_Alias meta, mo_Commits meta))"

definition Renew ::
  "('g, 'c, 'l, 'b, 'x, 's, 'j, 'i, 'p) ModelEnv \<Rightarrow> RenewProposal \<times> JwsSignature \<Rightarrow> bool \<Rightarrow> ('g, 'c, 'l, 'b, 'x) ModelManager
     \<Rightarrow> (string \<times> string) list res \<times> ('g, 'c, 'l, 'b, 'x) ModelManager" where
  "Renew M req isPublish mm =
     (if isPublish then
        (case ga_RenewOrder (me_gateway M) (mm_gateway mm) req of (r, g) \<Rightarrow> (r, mm\<lparr>mm_gateway := g\<rparr>))
      else (Inr [], mm))"

definition UpdatePermission ::
  "('g, 'c, 'l, 'b, 'x, 's, 'j, 'i, 'p) ModelEnv \<Rightarrow> PermissionProposal \<times> JwsSignature \<Rightarrow> bool \<Rightarrow> ('g, 'c, 'l, 'b, 'x) ModelManager
     \<Rightarrow> string res \<times> ('g, 'c, 'l, 'b, 'x) ModelManager" where
  "UpdatePermission M req isPublish mm =
     (case (if isPublish then ga_UpdateModelPermission (me_gateway M) (mm_gateway mm) req else (None, mm_gateway mm)) of
        (Some err, g) \<Rightarrow> (Inl err, mm\<lparr>mm_gateway := g\<rparr>)
      | (None, g) \<Rightarrow> (Inr (pp_DataId (fst req)), mm\<lparr>mm_gateway := g\<rparr>))"

end
