(* ===== verification/Node_Api.thy ===== *)
theory Node_Api
  imports Model_Manager
begin

text \<open>
  The node's API (\<^verbatim>\<open>src/node/node.go\<close>): requests about models, which the node accepts with a valid signature of their owner
  and hands to the model manager, and the checks of a fishman, who asks storage nodes for their shards and reports to
  the chain the ones that cannot deliver.  DIDs, their keys and the encoding of proposals for signing are third-party code:
  \<open>ne_NewDidManager\<close>, \<open>ne_VerifyJWS\<close>, \<open>ne_Marshal*\<close>.  A shard is fetched by the gateway in a goroutine; \<open>None\<close> is no answer within
  ten seconds.
\<close>

section \<open>Signatures\<close>

record ('g, 'c, 'l, 'b, 'x, 's, 'j, 'i, 'p) NodeEnv =
  ne_manager :: "('g, 'c, 'l, 'b, 'x, 's, 'j, 'i, 'p) ModelEnv"
  ne_chain :: ChainSvc
  ne_address :: string
  ne_NewDidManager :: "string \<Rightarrow> goerr option"
  ne_VerifyJWS :: "string \<Rightarrow> bytes \<Rightarrow> JwsSignature \<Rightarrow> goerr option"
  ne_MarshalQuery :: "QueryProposal \<Rightarrow> bytes res"
  ne_MarshalStore :: "StoreProposal \<Rightarrow> bytes res"
  ne_MarshalTerminate :: "TerminateProposal \<Rightarrow> bytes res"
  ne_MarshalRenew :: "RenewProposal \<Rightarrow> bytes res"
  ne_MarshalPermission :: "PermissionProposal \<Rightarrow> bytes res"
  ne_DelegateDid :: "string res"
  ne_CreateJWS :: "bytes \<Rightarrow> JwsSignature list res"
  ne_FetchShard :: "string \<Rightarrow> string \<Rightarrow> string \<Rightarrow> string \<Rightarrow> u64 \<Rightarrow> ShardLoadResp option"
  ne_Sum :: "bytes \<Rightarrow> cid res"
  ne_cid_String :: "cid \<Rightarrow> string"
  ne_HttpFileServerAddress :: string
  ne_SaoIpfs :: bool

text \<open>\<open>proposal\<close> is the result of marshalling the proposal.\<close>

definition validSignature ::
  "('g, 'c, 'l, 'b, 'x, 's, 'j, 'i, 'p) NodeEnv \<Rightarrow> bytes res \<Rightarrow> string \<Rightarrow> JwsSignature \<Rightarrow> goerr option" where
  "validSignature N proposal owner signature =
     (if owner = ''all'' then None
      else
        (case ne_NewDidManager N owner of
           Some err \<Rightarrow> Some (Wrap ErrInvalidDid (Some err))
         | None \<Rightarrow>
             (case proposal of
                Inl err \<Rightarrow> Some (Wrap ErrMarshalFailed (Some err))
              | Inr proposalBytes \<Rightarrow>
                  (case ne_VerifyJWS N owner proposalBytes signature of
                     Some err \<Rightarrow> Some (Wrap ErrInvalidSignature (Some err))
                   | None \<Rightarrow> None))))"

definition valid_query :: "('g, 'c, 'l, 'b, 'x, 's, 'j, 'i, 'p) NodeEnv \<Rightarrow> MetadataProposalCbor \<Rightarrow> goerr option" where
  "valid_query N req = validSignature N (ne_MarshalQuery N (mpc_Proposal req)) (qp_Owner (mpc_Proposal req)) (mpc_JwsSignature req)"

definition valid_store :: "('g, 'c, 'l, 'b, 'x, 's, 'j, 'i, 'p) NodeEnv \<Rightarrow> StoreProposal \<Rightarrow> JwsSignature \<Rightarrow> goerr option" where
  "valid_store N proposal jws = validSignature N (ne_MarshalStore N proposal) (prop_Owner proposal) jws"

section \<open>Models\<close>

record CreateResp =
  cre_DataId :: string
  cre_Alias :: string
  cre_TxId :: string
  cre_Cid :: string

record UpdateResp =
  upr_DataId :: string
  upr_CommitId :: string
  upr_Alias :: string
  upr_TxId :: string
  upr_Cid :: string

record LoadResp =
  lor_DataId :: string
  lor_Alias :: string
  lor_CommitId :: string
  lor_Version :: string
  lor_Cid :: string
  lor_Content :: "bytes option"

definition create_resp :: "Model \<Rightarrow> CreateResp" where
  "create_resp model = \<lparr>cre_DataId = mo_DataId model, cre_Alias = mo_Alias model, cre_TxId = [], cre_Cid = mo_Cid model\<rparr>"

definition update_resp :: "Model \<Rightarrow> UpdateResp" where
  "update_resp model =
     \<lparr>upr_DataId = mo_DataId model, upr_CommitId = mo_CommitId model, upr_Alias = mo_Alias model, upr_TxId = [], upr_Cid = mo_Cid model\<rparr>"

definition load_resp :: "Model \<Rightarrow> LoadResp" where
  "load_resp model =
     \<lparr>lor_DataId = mo_DataId model, lor_Alias = mo_Alias model, lor_CommitId = mo_CommitId model, lor_Version = mo_Version model,
      lor_Cid = mo_Cid model, lor_Content = mo_Content model\<rparr>"

text \<open>The answer for the model a call of the manager returned.\<close>

definition respond ::
  "(Model \<Rightarrow> 'r) \<Rightarrow> (addr res \<times> ('g, 'c, 'l, 'b, 'x) ModelManager) outcome \<Rightarrow> ('r res \<times> ('g, 'c, 'l, 'b, 'x) ModelManager) outcome" where
  "respond resp call =
     bind_outcome call (\<lambda>(r, mm). Return (case r of Inl err \<Rightarrow> Inl err | Inr a \<Rightarrow> Inr (resp (mm_models mm ! a)), mm))"

definition ModelCreate ::
  "('g, 'c, 'l, 'b, 'x, 's, 'j, 'i, 'p) NodeEnv \<Rightarrow> MetadataProposalCbor \<Rightarrow> StoreProposal \<Rightarrow> JwsSignature \<Rightarrow> u64 \<Rightarrow> bytes
     \<Rightarrow> ('g, 'c, 'l, 'b, 'x) ModelManager \<Rightarrow> (CreateResp res \<times> ('g, 'c, 'l, 'b, 'x) ModelManager) outcome" where
  "ModelCreate N req proposal jws orderId content mm =
     (case valid_query N req of
        Some err \<Rightarrow> Return (Inl err, mm)
      | None \<Rightarrow>
          (case valid_store N proposal jws of
             Some err \<Rightarrow> Return (Inl err, mm)
           | None \<Rightarrow> respond create_resp (Create (ne_manager N) req proposal jws orderId content mm)))"

definition ModelLoad ::
  "('g, 'c, 'l, 'b, 'x, 's, 'j, 'i, 'p) NodeEnv \<Rightarrow> MetadataProposalCbor \<Rightarrow> ('g, 'c, 'l, 'b, 'x) ModelManager
     \<Rightarrow> (LoadResp res \<times> ('g, 'c, 'l, 'b, 'x) ModelManager) outcome" where
  "ModelLoad N req mm =
     (case valid_query N req of
        Some err \<Rightarrow> Return (Inl err, mm)
      | None \<Rightarrow> respond load_resp (Load (ne_manager N) req mm))"

text \<open>A load in the name of the node's own DID; an empty list of signatures panics.\<close>

definition ModelLoadDelegate ::
  "('g, 'c, 'l, 'b, 'x, 's, 'j, 'i, 'p) NodeEnv \<Rightarrow> MetadataProposalCbor \<Rightarrow> ('g, 'c, 'l, 'b, 'x) ModelManager
     \<Rightarrow> (LoadResp res \<times> ('g, 'c, 'l, 'b, 'x) ModelManager) outcome" where
  "ModelLoadDelegate N req mm =
     (case valid_query N req of
        Some err \<Rightarrow> Return (Inl err, mm)
      | None \<Rightarrow>
          (case ne_DelegateDid N of
             Inl err \<Rightarrow> Return (Inl err, mm)
           | Inr did \<Rightarrow>
               (let proposal = (mpc_Proposal req)\<lparr>qp_Owner := did\<rparr>
                in case ne_MarshalQuery N proposal of
                     Inl err \<Rightarrow> Return (Inl (Wrap ErrMarshalFailed (Some err)), mm)
                   | Inr proposalBytes \<Rightarrow>
                       (case ne_CreateJWS N proposalBytes of
                          Inl err \<Rightarrow> Return (Inl (Wrap ErrCreateJwsFailed (Some err)), mm)
                        | Inr [] \<Rightarrow> Panic
                        | Inr (jws # _) \<Rightarrow>
                            respond load_resp (Load (ne_manager N) \<lparr>mpc_Proposal = proposal, mpc_JwsSignature = jws\<rparr> mm)))))"

definition ModelDelete ::
  "('g, 'c, 'l, 'b, 'x, 's, 'j, 'i, 'p) NodeEnv \<Rightarrow> TerminateProposal \<times> JwsSignature \<Rightarrow> bool \<Rightarrow> ('g, 'c, 'l, 'b, 'x) ModelManager
     \<Rightarrow> (unit res \<times> ('g, 'c, 'l, 'b, 'x) ModelManager) outcome" where
  "ModelDelete N req isPublish mm =
     (case validSignature N (ne_MarshalTerminate N (fst req)) (tp_Owner (fst req)) (snd req) of
        Some err \<Rightarrow> Return (Inl err, mm)
      | None \<Rightarrow> bind_outcome (Delete (ne_manager N) req isPublish mm) (\<lambda>(r, mm'). Return (map_sum id (\<lambda>_. ()) r, mm')))"

definition ModelUpdate ::
  "('g, 'c, 'l, 'b, 'x, 's, 'j, 'i, 'p) NodeEnv \<Rightarrow> MetadataProposalCbor \<Rightarrow> StoreProposal \<Rightarrow> JwsSignature \<Rightarrow> u64 \<Rightarrow> bytes
     \<Rightarrow> ('g, 'c, 'l, 'b, 'x) ModelManager \<Rightarrow> (UpdateResp res \<times> ('g, 'c, 'l, 'b, 'x) ModelManager) outcome" where
  "ModelUpdate N req proposal jws orderId patch mm =
     (case valid_query N req of
        Some err \<Rightarrow> Return (Inl err, mm)
      | None \<Rightarrow>
          (case valid_store N proposal jws of
             Some err \<Rightarrow> Return (Inl err, mm)
           | None \<Rightarrow> respond update_resp (Update (ne_manager N) req proposal jws orderId patch mm)))"

definition ModelShowCommits ::
  "('g, 'c, 'l, 'b, 'x, 's, 'j, 'i, 'p) NodeEnv \<Rightarrow> MetadataProposalCbor \<Rightarrow> ('g, 'c, 'l, 'b, 'x) ModelManager
     \<Rightarrow> (string \<times> string \<times> string list) res" where
  "ModelShowCommits N req mm =
     (case valid_query N req of Some err \<Rightarrow> Inl err | None \<Rightarrow> ShowCommits (ne_manager N) req mm)"

definition ModelRenewOrder ::
  "('g, 'c, 'l, 'b, 'x, 's, 'j, 'i, 'p) NodeEnv \<Rightarrow> RenewProposal \<times> JwsSignature \<Rightarrow> bool \<Rightarrow> ('g, 'c, 'l, 'b, 'x) ModelManager
     \<Rightarrow> (string \<times> string) list res \<times> ('g, 'c, 'l, 'b, 'x) ModelManager" where
  "ModelRenewOrder N req isPublish mm =
     (case validSignature N (ne_MarshalRenew N (fst req)) (rn_Owner (fst req)) (snd req) of
        Some err \<Rightarrow> (Inl err, mm)
      | None \<Rightarrow> Renew (ne_manager N) req isPublish mm)"

definition ModelUpdatePermission ::
  "('g, 'c, 'l, 'b, 'x, 's, 'j, 'i, 'p) NodeEnv \<Rightarrow> PermissionProposal \<times> JwsSignature \<Rightarrow> bool \<Rightarrow> ('g, 'c, 'l, 'b, 'x) ModelManager
     \<Rightarrow> string res \<times> ('g, 'c, 'l, 'b, 'x) ModelManager" where
  "ModelUpdatePermission N req isPublish mm =
     (case validSignature N (ne_MarshalPermission N (fst req)) (pp_Owner (fst req)) (snd req) of
        Some err \<Rightarrow> (Inl err, mm)
      | None \<Rightarrow> UpdatePermission (ne_manager N) req isPublish mm)"

definition GetHttpUrl :: "('g, 'c, 'l, 'b, 'x, 's, 'j, 'i, 'p) NodeEnv \<Rightarrow> string \<Rightarrow> string res" where
  "GetHttpUrl N dataId =
     (if ne_HttpFileServerAddress N \<noteq> [] then Inr (''http://'' @ ne_HttpFileServerAddress N @ ''/saonetwork/'' @ dataId)
      else Inl (Wrapf ErrGetHttpUrlFaild ''failed to get http url''))"

definition GetIpfsUrl :: "('g, 'c, 'l, 'b, 'x, 's, 'j, 'i, 'p) NodeEnv \<Rightarrow> string \<Rightarrow> string res" where
  "GetIpfsUrl N c =
     (if ne_SaoIpfs N then Inr (''ipfs+https://'' @ ne_HttpFileServerAddress N @ ''/ipfs/'' @ c)
      else Inl (Wrapf ErrGetIpfsUrlFaild ''failed to get ipfs url''))"

section \<open>Faults\<close>

text \<open>Whether the shard of a provider could be fetched with the content of the metadata; \<open>None\<close> when the identifier of the
  content could not be computed.\<close>

definition shard_check ::
  "('g, 'c, 'l, 'b, 'x, 's, 'j, 'i, 'p) NodeEnv \<Rightarrow> Metadata \<Rightarrow> string \<Rightarrow> string \<Rightarrow> string \<Rightarrow> bool option" where
  "shard_check N meta provider shardCid peer =
     (case ne_FetchShard N provider shardCid peer (md_DataId meta) (md_OrderId meta) of
        None \<Rightarrow> Some False
      | Some resp \<Rightarrow>
          if slr_Code resp = 0 then
            (case CalculateCid (ne_Sum N) (slice (slr_Content resp)) of
               Inl _ \<Rightarrow> None
             | Inr c \<Rightarrow> Some (ne_cid_String N c = md_Cid meta))
          else Some False)"

definition add_fault :: "string \<Rightarrow> Fault \<Rightarrow> (string \<times> Fault list) list \<Rightarrow> (string \<times> Fault list) list" where
  "add_fault provider flt faultsMap =
     AList.update provider ((case map_of faultsMap provider of None \<Rightarrow> [] | Some faults \<Rightarrow> faults) @ [flt]) faultsMap"

definition shard_fault :: "('g, 'c, 'l, 'b, 'x, 's, 'j, 'i, 'p) NodeEnv \<Rightarrow> Metadata \<Rightarrow> string \<Rightarrow> ShardMeta \<Rightarrow> Fault" where
  "shard_fault N meta provider shard =
     \<lparr>flt_DataId = md_DataId meta, flt_OrderId = md_OrderId meta, flt_ShardId = sm_ShardId shard,
      flt_CommitId = last (md_Commits meta), flt_Provider = provider, flt_Reporter = ne_address N\<rparr>"

fun check_shards ::
  "('g, 'c, 'l, 'b, 'x, 's, 'j, 'i, 'p) NodeEnv \<Rightarrow> Metadata \<Rightarrow> (string \<times> ShardMeta) list \<Rightarrow> (string \<times> Fault list) list
     \<Rightarrow> (string \<times> Fault list) list outcome" where
  "check_shards N meta [] faultsMap = Return faultsMap"
| "check_shards N meta ((provider, shard) # shards) faultsMap =
     (if shard_check N meta provider (sm_Cid shard) (sm_Peer shard) = Some False then
        (if md_Commits meta = [] then Panic
         else
           check_shards N meta shards
             (add_fault provider (shard_fault N meta provider shard) faultsMap))
      else check_shards N meta shards faultsMap)"

fun check_data ::
  "('g, 'c, 'l, 'b, 'x, 's, 'j, 'i, 'p) NodeEnv \<Rightarrow> string list \<Rightarrow> (string \<times> Fault list) list \<Rightarrow> (string \<times> Fault list) list outcome" where
  "check_data N [] faultsMap = Return faultsMap"
| "check_data N (dataId # dataIds) faultsMap =
     (case ch_GetMeta (ne_chain N) dataId of
        Inl _ \<Rightarrow> check_data N dataIds faultsMap
      | Inr meta \<Rightarrow>
          bind_outcome (check_shards N meta (ch_MetaShards (ne_chain N) dataId) faultsMap) (check_data N dataIds))"

text \<open>The answer has the faults whose report the chain accepted.\<close>

definition FaultsCheck ::
  "('g, 'c, 'l, 'b, 'x, 's, 'j, 'i, 'p) NodeEnv \<Rightarrow> string list \<Rightarrow> (string \<times> Fault list) list res outcome" where
  "FaultsCheck N dataIds =
     (case ch_GetFishmen (ne_chain N) of
        Inl err \<Rightarrow> Return (Inl err)
      | Inr fishmen \<Rightarrow>
          if \<not> Contains fishmen (ne_address N) then Return (Inl (Wrapf ErrInvalidParameters ''i am not a fishmen''))
          else
            bind_outcome (check_data N dataIds []) (\<lambda>faultsMap.
              let reported = filter (\<lambda>(provider, faults). faults = [] \<or> \<not> isl (ch_ReportFaults (ne_chain N) (ne_address N) provider faults)) faultsMap
              in Return (if reported \<noteq> [] then Inr reported else Inl (Wrapf ErrInvalidParameters ''no faults found''))))"

text \<open>A reported fault whose shard is delivered again.\<close>

definition recovered ::
  "('g, 'c, 'l, 'b, 'x, 's, 'j, 'i, 'p) NodeEnv \<Rightarrow> string \<Rightarrow> string \<Rightarrow> Fault option outcome" where
  "recovered N provider faultId =
     (case ch_GetFault (ne_chain N) faultId of
        Inl _ \<Rightarrow> Return None
      | Inr flt \<Rightarrow>
          (case ch_GetMeta (ne_chain N) (flt_DataId flt) of
             Inl _ \<Rightarrow> Return None
           | Inr meta \<Rightarrow>
               (case ch_GetShard (ne_chain N) (flt_ShardId flt) of
                  Inl _ \<Rightarrow> Return None
                | Inr shardMeta \<Rightarrow>
                    (let peer = (case find (\<lambda>(prov, shard). sm_ShardId shard = flt_ShardId flt \<and> prov = flt_Provider flt)
                                   (ch_MetaShards (ne_chain N) (flt_DataId flt)) of
                                   None \<Rightarrow> [] | Some (_, shard) \<Rightarrow> sm_Peer shard)
                     in if peer = [] then Return None
                        else if shard_check N meta provider (cs_Cid shardMeta) peer = Some True then
                          (if md_Commits meta = [] then Panic
                           else Return (Some \<lparr>flt_DataId = md_DataId meta, flt_OrderId = md_OrderId meta, flt_ShardId = flt_ShardId flt,
                                   flt_CommitId = first_part (last (md_Commits meta)), flt_Provider = flt_Provider flt,
                                   flt_Reporter = ne_address N\<rparr>))
                        else Return None))))"

fun recover_all ::
  "('g, 'c, 'l, 'b, 'x, 's, 'j, 'i, 'p) NodeEnv \<Rightarrow> string \<Rightarrow> string list \<Rightarrow> Fault list outcome" where
  "recover_all N provider [] = Return []"
| "recover_all N provider (faultId # faultIds) =
     bind_outcome (recovered N provider faultId) (\<lambda>flt.
       bind_outcome (recover_all N provider faultIds) (\<lambda>flts.
         Return (case flt of None \<Rightarrow> flts | Some f \<Rightarrow> f # flts)))"

definition RecoverCheck ::
  "('g, 'c, 'l, 'b, 'x, 's, 'j, 'i, 'p) NodeEnv \<Rightarrow> string \<Rightarrow> string list \<Rightarrow> Fault list res outcome" where
  "RecoverCheck N provider faultIds =
     (case ch_GetFishmen (ne_chain N) of
        Inl err \<Rightarrow> Return (Inl err)
      | Inr fishmen \<Rightarrow>
          if \<not> Contains fishmen (ne_address N) then Return (Inl (Wrapf ErrInvalidParameters ''i am not a fishmen''))
          else
            bind_outcome (recover_all N provider faultIds) (\<lambda>recoverableFaults.
              Return
                (if recoverableFaults = [] then Inl (Wrapf ErrInvalidParameters ''no recoverable faults found'')
                 else (case ch_RecoverFaults (ne_chain N) (ne_address N) provider recoverableFaults of
                         Inl err \<Rightarrow> Inl err
                       | Inr _ \<Rightarrow> Inr recoverableFaults))))"

end
