(* ===== verification/Model_Cache.thy ===== *)
theory Model_Cache
  imports Model_Manager
begin

text \<open>
  The cache as the model manager uses it.  The locale \<open>manager_cache\<close> extends \<open>cache_api\<close> by what happens with a cache that
  does not exist: reads say so, creating it makes it empty, and a write panics.  The LRU service meets it.
  In the locale, a lookup of the manager returns what the cache holds and creates the cache when it is
  missing, and caching a model keeps the invariant \<open>mm_inv\<close>: every cached value is a pointer to a model of the heap, and
  no model of the heap has more content than the limit.
\<close>

section \<open>The interface\<close>

locale manager_cache = cache_api ok has holds "ca_Get C" "ca_Put C"
  for C :: "'c CacheApi" and ok :: "'c \<Rightarrow> bool" and has :: "'c \<Rightarrow> string \<Rightarrow> bool" and holds :: "'c \<Rightarrow> string \<Rightarrow> string \<Rightarrow> cache_value option" +
  assumes missing_get: "\<And>s n k. ok s \<Longrightarrow> \<not> has s n \<Longrightarrow>
        \<exists>err. ca_Get C s n k = Return (Inl err, s) \<and> Contains (Error err) (''the cache ['' @ n @ ''] not found'')"
    and missing_put: "\<And>s n k v. ok s \<Longrightarrow> \<not> has s n \<Longrightarrow> ca_Put C s n k v = Panic"
    and missing_holds: "\<And>s n k. ok s \<Longrightarrow> \<not> has s n \<Longrightarrow> holds s n k = None"
    and create_law: "\<And>s n cap. ok s \<Longrightarrow> \<not> has s n \<Longrightarrow> cap \<noteq> 1 \<Longrightarrow>
        \<exists>s'. ca_CreateCache C s n cap = (None, s') \<and> ok s' \<and> has s' = (has s)(n := True) \<and> holds s' = holds s"

lemma cache_not_found_text: "Contains (Error (cache_not_found n)) (''the cache ['' @ n @ ''] not found'')"
  using Error_Wrapf_contains [of ErrNotFound "[]" "''the cache ['' @ n @ ''] not found''" "[]"]
  by (simp only: cache_not_found_def append_Nil append_Nil2)

lemma svc_holds_create:
  assumes "hamt H entries" and "\<not> svc_has svc n"
  shows "svc_holds entries (snd (CreateCache H svc n cap)) = svc_holds entries svc"
  using assms(2) hamt.create_rep [OF assms(1), of cap, THEN lru_holds_rep]
  by (auto simp: svc_has_def CreateCache_def svc_holds_def fun_eq_iff)

sublocale hamt \<subseteq> lru_manager: manager_cache "lru_api H" "svc_ok entries" svc_has "svc_holds entries"
proof (intro manager_cache.intro manager_cache_axioms.intro)
  show "cache_api (svc_ok entries) svc_has (svc_holds entries) (ca_Get (lru_api H)) (ca_Put (lru_api H))"
    using svc_api by (simp add: lru_api_def)
next
  fix s :: "(cache_value, 'm) LruCacheSvc" and n k v and cap :: int
  assume ok: "svc_ok entries s" and miss: "\<not> svc_has s n"
  from miss show "\<exists>err. ca_Get (lru_api H) s n k = Return (Inl err, s) \<and> Contains (Error err) (''the cache ['' @ n @ ''] not found'')"
    using cache_not_found_text [of n] by (auto simp: svc_has_def LruSvc_Get_def lru_api_def)
  from miss show "ca_Put (lru_api H) s n k v = Panic" and "svc_holds entries s n k = None"
    by (auto simp: svc_has_def LruSvc_Put_def svc_holds_def lru_api_def)
  show "\<exists>s'. ca_CreateCache (lru_api H) s n cap = (None, s') \<and> svc_ok entries s' \<and> svc_has s' = (svc_has s)(n := True)
      \<and> svc_holds entries s' = svc_holds entries s" if "cap \<noteq> 1"
    using svc_ok_create [OF hamt_axioms ok that, of n] svc_holds_create [OF hamt_axioms miss, of cap] miss
    by (cases "CreateCache H s n cap") (auto simp: CreateCache_def svc_has_def fun_eq_iff lru_api_def)
qed

context hamt
begin

lemma lru_manager_api: "manager_cache (lru_api H) (svc_ok entries) svc_has (svc_holds entries)"
  by (rule lru_manager.manager_cache_axioms)

end

section \<open>The invariant\<close>

definition within_limit :: "int \<Rightarrow> Model \<Rightarrow> bool" where
  "within_limit limit m \<longleftrightarrow> int (length (slice (mo_Content m))) \<le> limit"

text \<open>The environment of a manager that caches.\<close>

definition manager_caching :: "'c CacheApi \<Rightarrow> int \<Rightarrow> ('g, 'c, 'l, 'b, 'x, 's, 'j, 'i, 'p) ModelEnv \<Rightarrow> bool" where
  "manager_caching C limit M \<longleftrightarrow>
     me_EnableCache M \<and> me_cache M = C \<and> me_CacheCapacity M \<noteq> 1 \<and> me_ContentLimit M = limit \<and> 0 \<le> limit"

context manager_cache
begin

definition mm_inv :: "int \<Rightarrow> ('g, 'c, 'l, 'b, 'x) ModelManager \<Rightarrow> bool" where
  "mm_inv limit mm \<longleftrightarrow> ok (mm_cache mm)
     \<and> (\<forall>n k v. holds (mm_cache mm) n k = Some v \<longrightarrow> (\<exists>a. v = CacheModel a \<and> a < length (mm_models mm)))
     \<and> (\<forall>m \<in> set (mm_models mm). within_limit limit m)"

text \<open>The pointer the cache has under a key.\<close>

definition pointer :: "'c \<Rightarrow> string \<Rightarrow> string \<Rightarrow> addr option" where
  "pointer s n k = (case holds s n k of Some (CacheModel a) \<Rightarrow> Some a | _ \<Rightarrow> None)"

lemma pointer_range: "mm_inv limit mm \<Longrightarrow> pointer (mm_cache mm) n k = Some a \<Longrightarrow> a < length (mm_models mm)"
  by (fastforce simp: mm_inv_def pointer_def split: option.splits cache_value.splits)

lemma loadModel_law:
  assumes "mm_inv limit mm" and "me_EnableCache M" and "me_cache M = C" and "me_CacheCapacity M \<noteq> 1"
  shows "\<exists>c. loadModel M account key mm = Return (pointer (mm_cache mm) account key, mm\<lparr>mm_cache := c\<rparr>)
    \<and> ok c \<and> has c = (has (mm_cache mm))(account := True) \<and> holds c = holds (mm_cache mm)"
proof (cases "has (mm_cache mm) account")
  case True
  from assms(1) have ok: "ok (mm_cache mm)" by (simp add: mm_inv_def)
  from get_law [OF ok True, of key] obtain c where
    c: "ca_Get C (mm_cache mm) account key = Return (Inr (holds (mm_cache mm) account key), c)"
      "ok c" "has c = has (mm_cache mm)" "holds c = holds (mm_cache mm)" by blast
  have "has (mm_cache mm) = (has (mm_cache mm))(account := True)" using True by (simp add: fun_eq_iff)
  moreover from assms(1) have "\<exists>a. v = CacheModel a" if "holds (mm_cache mm) account key = Some v" for v
    using that by (fastforce simp: mm_inv_def)
  ultimately show ?thesis using c assms(2,3) by (cases "holds (mm_cache mm) account key") (auto simp: loadModel_def pointer_def Let_def)
next
  case False
  from assms(1) have ok: "ok (mm_cache mm)" by (simp add: mm_inv_def)
  from missing_get [OF ok False, of key] create_law [OF ok False assms(4)] missing_holds [OF ok False, of key] assms(2,3)
  show ?thesis by (auto simp: loadModel_def pointer_def Let_def)
qed

lemma loadModel_uncached: "\<not> me_EnableCache M \<Longrightarrow> loadModel M account key mm = Return (None, mm)"
  by (simp add: loadModel_def)

lemma mm_inv_cache: "mm_inv limit mm \<Longrightarrow> ok c \<Longrightarrow> holds c = holds (mm_cache mm) \<Longrightarrow> mm_inv limit (mm\<lparr>mm_cache := c\<rparr>)"
  by (simp add: mm_inv_def)

lemma mm_inv_gateway [simp]: "mm_inv limit (mm\<lparr>mm_gateway := g\<rparr>) = mm_inv limit mm" "mm_inv limit (mm\<lparr>mm_rules := r\<rparr>) = mm_inv limit mm"
  by (simp_all add: mm_inv_def)

text \<open>Caching the object at \<open>a\<close>, whose content may exceed the limit until then.\<close>

lemma cacheModel_law:
  assumes "ok (mm_cache mm)" and "me_EnableCache M" and "me_cache M = C" and "a < length (mm_models mm)"
    and "cacheModel M account a mm = Return mm'"
  shows "has (mm_cache mm) account
    \<and> mm_models mm' = (mm_models mm)[a := (mm_models mm ! a)\<lparr>mo_Content :=
         if int (length (slice (mo_Content (mm_models mm ! a)))) > me_ContentLimit M then Some [] else mo_Content (mm_models mm ! a)\<rparr>]
    \<and> mm_gateway mm' = mm_gateway mm \<and> mm_rules mm' = mm_rules mm \<and> ok (mm_cache mm') \<and> has (mm_cache mm') = has (mm_cache mm)
    \<and> (\<forall>n k v. holds (mm_cache mm') n k = Some v \<longrightarrow> v = CacheModel a \<or> holds (mm_cache mm) n k = Some v)
    \<and> holds (mm_cache mm') account (mo_Alias (mm_models mm ! a) @ mo_CommitId (mm_models mm ! a)) = Some (CacheModel a)"
proof -
  let ?m = "mm_models mm ! a"
  let ?k1 = "mo_DataId ?m @ mo_CommitId ?m" and ?k2 = "mo_Alias ?m @ mo_CommitId ?m"
  from assms(2,3,5) obtain c1 c2 where p1: "ca_Put C (mm_cache mm) account ?k1 (CacheModel a) = Return c1"
    and p2: "ca_Put C c1 account ?k2 (CacheModel a) = Return c2"
    and mm': "mm_cache mm' = c2" "mm_gateway mm' = mm_gateway mm" "mm_rules mm' = mm_rules mm"
      "mm_models mm' = (mm_models mm)[a := ?m\<lparr>mo_Content := if int (length (slice (mo_Content ?m))) > me_ContentLimit M then Some [] else mo_Content ?m\<rparr>]"
    by (auto simp: cacheModel_def Let_def set_model_def bind_outcome_Return split: if_splits)
  have has: "has (mm_cache mm) account" using missing_put [OF assms(1)] p1 by fastforce
  from put_law [OF assms(1) has, of ?k1 "CacheModel a"] p1 have c1: "ok c1" "has c1 = has (mm_cache mm)"
    "holds c1 account ?k1 = Some (CacheModel a)"
    "\<forall>k'. k' \<noteq> ?k1 \<longrightarrow> holds c1 account k' \<in> {holds (mm_cache mm) account k', None}"
    "\<forall>n'. n' \<noteq> account \<longrightarrow> holds c1 n' = holds (mm_cache mm) n'" by auto
  from put_law [OF c1(1), of account ?k2 "CacheModel a"] has c1(2) p2 have c2: "ok c2" "has c2 = has (mm_cache mm)"
    "holds c2 account ?k2 = Some (CacheModel a)"
    "\<forall>k'. k' \<noteq> ?k2 \<longrightarrow> holds c2 account k' \<in> {holds c1 account k', None}"
    "\<forall>n'. n' \<noteq> account \<longrightarrow> holds c2 n' = holds c1 n'" by auto
  have "v = CacheModel a \<or> holds (mm_cache mm) n k = Some v" if "holds c2 n k = Some v" for n k v
  proof (cases "n = account")
    case True
    show ?thesis
    proof (cases "k = ?k2")
      case False
      with c2(4) that True have k1: "holds c1 account k = Some v" by fastforce
      show ?thesis
      proof (cases "k = ?k1")
        case False
        with c1(4) k1 True show ?thesis by fastforce
      qed (use c1(3) k1 in simp)
    qed (use c2(3) that True in simp)
  qed (use c1(5) c2(5) that in simp)
  with has mm' c2 show ?thesis by simp
qed

lemma cacheModel_uncached: "\<not> me_EnableCache M \<Longrightarrow> cacheModel M account a mm = Return mm"
  by (simp add: cacheModel_def)

text \<open>Models with content of any length that are not cached yet.\<close>

abbreviation caching :: "int \<Rightarrow> ('g, 'c, 'l, 'b, 'x, 's, 'j, 'i, 'p) ModelEnv \<Rightarrow> bool" where
  "caching \<equiv> manager_caching C"

lemmas caching_def = manager_caching_def [of C]

definition mm_inv_but :: "int \<Rightarrow> addr \<Rightarrow> ('g, 'c, 'l, 'b, 'x) ModelManager \<Rightarrow> bool" where
  "mm_inv_but limit a mm \<longleftrightarrow> ok (mm_cache mm) \<and> a < length (mm_models mm)
     \<and> (\<forall>n k v. holds (mm_cache mm) n k = Some v \<longrightarrow> (\<exists>b. v = CacheModel b \<and> b < length (mm_models mm)))
     \<and> (\<forall>b < length (mm_models mm). b \<noteq> a \<longrightarrow> within_limit limit (mm_models mm ! b))"

lemma mm_inv_but_set: "mm_inv limit mm \<Longrightarrow> a < length (mm_models mm) \<Longrightarrow> mm_inv_but limit a (set_model a m mm)"
  by (auto simp: mm_inv_def mm_inv_but_def set_model_def nth_list_update)

lemma mm_inv_but_new: "mm_inv limit mm \<Longrightarrow> mm_inv_but limit (length (mm_models mm)) (mm\<lparr>mm_models := mm_models mm @ [m]\<rparr>)"
  by (fastforce simp: mm_inv_def mm_inv_but_def nth_append)

lemma mm_inv_but_again [simp]:
  "mm_inv_but limit a (set_model a m mm) = mm_inv_but limit a mm" "mm_inv_but limit a (mm\<lparr>mm_gateway := g\<rparr>) = mm_inv_but limit a mm"
  by (auto simp: mm_inv_but_def set_model_def nth_list_update)

lemma mm_inv_butD: "mm_inv_but limit a mm \<Longrightarrow> within_limit limit (mm_models mm ! a) \<Longrightarrow> mm_inv limit mm"
  by (fastforce simp: mm_inv_def mm_inv_but_def in_set_conv_nth)

lemma cacheModel_inv:
  assumes "mm_inv_but limit a mm" and "caching limit M" and "cacheModel M account a mm = Return mm'"
  shows "mm_inv limit mm'"
proof -
  from assms have "ok (mm_cache mm)" "a < length (mm_models mm)" "me_EnableCache M" "me_cache M = C" and lim: "me_ContentLimit M = limit" "0 \<le> limit"
    by (simp_all add: mm_inv_but_def caching_def)
  from cacheModel_law [OF this(1,3,4,2) assms(3)] lim have ok: "ok (mm_cache mm')"
    and models: "mm_models mm' = (mm_models mm)[a := (mm_models mm ! a)\<lparr>mo_Content :=
         if int (length (slice (mo_Content (mm_models mm ! a)))) > limit then Some [] else mo_Content (mm_models mm ! a)\<rparr>]"
    and held: "\<forall>n k v. holds (mm_cache mm') n k = Some v \<longrightarrow> v = CacheModel a \<or> holds (mm_cache mm) n k = Some v" by simp_all
  have "mm_inv_but limit a mm'" using assms(1) ok models held by (fastforce simp: mm_inv_but_def nth_list_update)
  moreover have "within_limit limit (mm_models mm' ! a)"
    using assms(1) lim(2) by (auto simp: models mm_inv_but_def within_limit_def slice_def)
  ultimately show ?thesis by (rule mm_inv_butD)
qed

end

section \<open>The calls of the manager\<close>

text \<open>A model as it is left by a fetch of the content of \<open>meta\<close>.\<close>

definition fetched_model :: "int \<Rightarrow> string \<Rightarrow> Model \<Rightarrow> FetchResult \<Rightarrow> Model \<Rightarrow> bool" where
  "fetched_model limit version meta result m \<longleftrightarrow> mo_CommitId m = mo_CommitId meta \<and> mo_Commits m = mo_Commits meta \<and> mo_OrderId m = mo_OrderId meta
     \<and> mo_Version m = version \<and> mo_Cid m = fr_Cid result
     \<and> mo_Content m = (if int (length (slice (fr_Content result))) > limit then Some [] else fr_Content result)"

lemma refreshed:
  "within_limit limit (refresh_model m meta) = within_limit limit m" "within_limit limit (model_of_meta meta) \<longleftrightarrow> 0 \<le> limit"
  "mo_CommitId (refresh_model m meta) = mo_CommitId meta" "mo_Commits (refresh_model m meta) = mo_Commits meta"
  "mo_OrderId (refresh_model m meta) = mo_OrderId meta" "mo_CommitId (model_of_meta meta) = mo_CommitId meta"
  "mo_Commits (model_of_meta meta) = mo_Commits meta" "mo_OrderId (model_of_meta meta) = mo_OrderId meta"
  by (simp_all add: refresh_model_def model_of_meta_def within_limit_def slice_def)

context manager_cache
begin

lemma Load_fetch_law:
  assumes "mm_inv limit mm" and "caching limit M" and "\<And>a. model = Some a \<Longrightarrow> a < length (mm_models mm)"
    and "Load_fetch M req latest model mm = Return (r, mm')"
  shows "mm_inv limit mm' \<and> (\<forall>a. r = Inr a \<longrightarrow> a < length (mm_models mm')
    \<and> (\<exists>version meta result. requested_meta (me_gateway M) (mm_gateway mm) req latest = Inr (version, meta)
        \<and> ga_FetchContent (me_gateway M) (mm_gateway mm) req meta = Return (Inr result, mm_gateway mm')
        \<and> fetched_model limit version meta result (mm_models mm' ! a)))"
proof (cases "requested_meta (me_gateway M) (mm_gateway mm) req latest")
  case (Inr vm)
  then obtain version meta where vm: "requested_meta (me_gateway M) (mm_gateway mm) req latest = Inr (version, meta)" by (cases vm) auto
  define am where "am = (case model of None \<Rightarrow> new_model (model_of_meta meta) mm
                        | Some a \<Rightarrow> (a, set_model a (refresh_model (mm_models mm ! a) meta) mm))"
  obtain a mm1 where am1: "am = (a, mm1)" by (cases am)
  have but: "mm_inv_but limit a mm1" and gw: "mm_gateway mm1 = mm_gateway mm" and in1: "within_limit limit (mm_models mm1 ! a)"
    and same: "mo_CommitId (mm_models mm1 ! a) = mo_CommitId meta" "mo_Commits (mm_models mm1 ! a) = mo_Commits meta"
      "mo_OrderId (mm_models mm1 ! a) = mo_OrderId meta"
    using am1 assms(1,2,3) mm_inv_but_set [OF assms(1)] mm_inv_but_new [OF assms(1)]
    by (auto simp: am_def new_model_def set_model_def caching_def refreshed mm_inv_def split: option.splits)
  from but in1 have inv1: "mm_inv limit mm1" by (rule mm_inv_butD)
  from but have a1: "a < length (mm_models mm1)" by (simp add: mm_inv_but_def)
  from assms(4) vm am1 gw obtain fetched g where
    f: "ga_FetchContent (me_gateway M) (mm_gateway mm) req meta = Return (fetched, g)"
    by (auto simp: Load_fetch_def am_def [symmetric] bind_outcome_Return)
  show ?thesis
  proof (cases fetched)
    case (Inl err)
    with assms(4) vm am1 gw f have "r = Inl err" "mm' = mm1\<lparr>mm_gateway := g\<rparr>" by (auto simp: Load_fetch_def am_def [symmetric] Let_def)
    with inv1 show ?thesis by simp
  next
    case (Inr result)
    define mm2 where "mm2 = set_model a ((mm_models mm1 ! a)\<lparr>mo_Cid := fr_Cid result, mo_Content := fr_Content result, mo_Version := version\<rparr>)
      (mm1\<lparr>mm_gateway := g\<rparr>)"
    from assms(4) vm am1 gw f Inr have c: "cacheModel M (qp_Owner (mpc_Proposal req)) a mm2 = Return mm'" and r: "r = Inr a"
      by (auto simp: Load_fetch_def am_def [symmetric] mm2_def Let_def bind_outcome_Return)
    from but have but2: "mm_inv_but limit a mm2" by (simp add: mm2_def)
    from but2 assms(2) have "ok (mm_cache mm2)" "me_EnableCache M" "me_cache M = C" "a < length (mm_models mm2)" "me_ContentLimit M = limit"
      by (simp_all add: mm_inv_but_def caching_def)
    note law = cacheModel_law [OF this(1-4) c] this(5)
    from law a1 have "mm_gateway mm' = g" "a < length (mm_models mm')"
      "fetched_model limit version meta result (mm_models mm' ! a)"
      by (simp_all add: mm2_def set_model_def fetched_model_def same)
    with cacheModel_inv [OF but2 assms(2) c] vm f Inr r show ?thesis by auto
  qed
qed (use assms in \<open>auto simp: Load_fetch_def\<close>)

lemma Load_law:
  assumes "mm_inv limit mm" and "caching limit M" and "Load M req mm = Return (r, mm')"
  shows "mm_inv limit mm' \<and> (\<forall>a. r = Inr a \<longrightarrow> a < length (mm_models mm')
    \<and> (\<exists>latest. ga_QueryMeta (me_gateway M) (mm_gateway mm) req 0 = Inr latest
        \<and> (cached_latest req latest (mm_models mm ! a) \<and> mm_models mm' = mm_models mm \<and> mm_gateway mm' = mm_gateway mm
           \<or> (\<exists>version meta result. requested_meta (me_gateway M) (mm_gateway mm) req latest = Inr (version, meta)
                \<and> ga_FetchContent (me_gateway M) (mm_gateway mm) req meta = Return (Inr result, mm_gateway mm')
                \<and> fetched_model limit version meta result (mm_models mm' ! a)))))"
proof (cases "ga_QueryMeta (me_gateway M) (mm_gateway mm) req 0")
  case (Inr latest)
  let ?key = "qp_Keyword (mpc_Proposal req) @ first_part (mo_CommitId latest)"
  let ?model = "pointer (mm_cache mm) (mo_Owner latest) ?key"
  from loadModel_law [OF assms(1), of M "mo_Owner latest" ?key] assms(2) obtain c where
    l: "loadModel M (mo_Owner latest) ?key mm = Return (?model, mm\<lparr>mm_cache := c\<rparr>)" and c: "ok c" "holds c = holds (mm_cache mm)"
    by (auto simp: caching_def)
  note inv = mm_inv_cache [OF assms(1) c]
  note range = pointer_range [OF assms(1), of "mo_Owner latest" ?key]
  show ?thesis
  proof (cases "case ?model of None \<Rightarrow> False | Some a \<Rightarrow> cached_latest req latest (mm_models mm ! a)")
    case True
    with assms(3) Inr l have "r = Inr (the ?model)" "mm' = mm\<lparr>mm_cache := c\<rparr>" by (auto simp: Load_def split: option.splits if_splits)
    with True inv range Inr show ?thesis by (auto split: option.splits)
  next
    case False
    with assms(3) Inr l have "Load_fetch M req latest ?model (mm\<lparr>mm_cache := c\<rparr>) = Return (r, mm')" by (auto simp: Load_def split: option.splits if_splits)
    from Load_fetch_law [OF inv assms(2) _ this] range Inr show ?thesis by auto
  qed
qed (use assms in \<open>auto simp: Load_def\<close>)

end

end
