(* ===== verification/Model_Manager_Props.thy ===== *)
theory Model_Manager_Props
  imports Model_Cache Gateway_Handler_Props
begin

text \<open>
  What the model manager guarantees.  The calls that cache models form a transition system; in every reachable
  state the cache points into the heap and no model has more content than the limit.  A load returns the commit that was
  asked for, a creation commits fresh content once, an update commits exactly the patched content the owner signed for.
  The last properties are about the sharing of cached models: content of an old commit is served as the latest
  one after a failed load, and loading the model of another owner panics.
\<close>

section \<open>Validation keeps the invariant\<close>

context manager_cache
begin

lemma get_inv:
  assumes "mm_inv limit mm" and "ca_Get C (mm_cache mm) n k = Return (got, c)"
  shows "mm_inv limit (mm\<lparr>mm_cache := c\<rparr>)"
proof (cases "has (mm_cache mm) n")
  case True
  from assms(1) get_law [OF _ True, of k] assms(2) have "ok c" "holds c = holds (mm_cache mm)" by (auto simp: mm_inv_def)
  then show ?thesis by (rule mm_inv_cache [OF assms(1)])
next
  case False
  from assms missing_get [OF _ False, of k] have "c = mm_cache mm" by (fastforce simp: mm_inv_def)
  with assms(1) show ?thesis by simp
qed

lemma resolve_schema_inv:
  assumes "mm_inv limit mm" and "caching limit M" and "resolve_schema M account dataId mm = Return (r, mm')"
  shows "mm_inv limit mm'"
proof -
  from assms(2,3) obtain got c where g: "ca_Get C (mm_cache mm) account dataId = Return (got, c)"
    by (auto simp: resolve_schema_def caching_def bind_outcome_Return)
  note inv = get_inv [OF assms(1) g]
  show ?thesis
  proof (cases "got = Inr None")
    case True
    with assms(2,3) g obtain l where "Load M (public_query dataId) (mm\<lparr>mm_cache := c\<rparr>) = Return (l, mm')"
      by (cases "Load M (public_query dataId) (mm\<lparr>mm_cache := c\<rparr>)") (auto simp: resolve_schema_def caching_def Let_def split: sum.splits)
    with Load_law [OF inv assms(2)] show ?thesis by blast
  next
    case False
    with assms(2,3) g have "mm' = mm\<lparr>mm_cache := c\<rparr>"
      by (auto simp: resolve_schema_def caching_def Let_def split: sum.splits option.splits cache_value.splits)
    with inv show ?thesis by simp
  qed
qed

lemma run_validator_frame: "snd (run_validator M alias schema rule content mm) = mm\<lparr>mm_rules := mm_rules (snd (run_validator M alias schema rule content mm))\<rparr>"
  by (simp add: run_validator_def split: prod.splits sum.splits)

lemma validate_against_inv:
  assumes "mm_inv limit mm" and "caching limit M" and "validate_against M account alias rule content dataId schema mm = Return (e, mm')"
  shows "mm_inv limit mm'"
proof -
  have frame: "mm_inv limit (snd (run_validator M alias s rule content mm0)) = mm_inv limit mm0" for s mm0
    by (subst run_validator_frame) simp
  show ?thesis
  proof (cases "me_IsDataId M dataId")
    case True
    with assms(3) obtain r mm1 where r: "resolve_schema M account dataId mm = Return (r, mm1)"
      by (auto simp: validate_against_def bind_outcome_Return)
    with assms(3) True have "mm' = mm1 \<or> (\<exists>text. mm' = snd (run_validator M alias text rule content mm1))"
      by (cases r) (auto simp: validate_against_def intro!: disjI2 exI [of _ "projr r"])
    with frame resolve_schema_inv [OF assms(1,2) r] show ?thesis by auto
  next
    case False
    with assms(3) have "mm' = snd (run_validator M alias schema rule content mm)" by (simp add: validate_against_def)
    with frame assms(1) show ?thesis by simp
  qed
qed

lemma validate_schemas_inv:
  assumes "mm_inv limit mm" and "caching limit M" and "validate_schemas M account alias rule content schemas mm = Return (e, mm')"
  shows "mm_inv limit mm'"
  using assms
proof (induction schemas arbitrary: mm)
  case (Cons schema schemas)
  show ?case
  proof (cases "\<exists>sch. sj_String (me_context M) schema = Some sch \<and> sch \<noteq> []")
    case True
    then obtain sch where sch: "sj_String (me_context M) schema = Some sch" "sch \<noteq> []" by blast
    with Cons.prems(3) obtain err mm1 where v: "validate_against M account alias rule content sch sch mm = Return (err, mm1)"
      by (auto simp: bind_outcome_Return)
    note inv = validate_against_inv [OF Cons.prems(1,2) v]
    from Cons.prems(3) sch v have "mm' = mm1 \<or> validate_schemas M account alias rule content schemas mm1 = Return (e, mm')"
      by (auto split: option.splits)
    with inv Cons.IH [OF inv Cons.prems(2)] show ?thesis by blast
  qed (use Cons.prems in \<open>auto split: option.splits if_splits\<close>)
qed simp

lemma validateModel_inv:
  assumes "mm_inv limit mm" and "caching limit M" and "validateModel M account alias content rule mm = Return (e, mm')"
  shows "mm_inv limit mm'"
  using assms validate_schemas_inv [OF assms(1,2)] validate_against_inv [OF assms(1,2)]
  by (auto simp: validateModel_def Let_def split: if_splits)

lemma cache_new:
  assumes "mm_inv limit mm" and "caching limit M"
    and "cacheModel M account (length (mm_models mm)) (mm\<lparr>mm_models := mm_models mm @ [m]\<rparr>) = Return mm'"
  shows "mm_inv limit mm' \<and> mm_gateway mm' = mm_gateway mm \<and> length (mm_models mm) < length (mm_models mm')
    \<and> mm_models mm' ! length (mm_models mm) =
        m\<lparr>mo_Content := if int (length (slice (mo_Content m))) > limit then Some [] else mo_Content m\<rparr>"
proof -
  note but = mm_inv_but_new [OF assms(1), of m]
  from but assms(2) have "ok (mm_cache (mm\<lparr>mm_models := mm_models mm @ [m]\<rparr>))" "me_EnableCache M" "me_cache M = C"
    "length (mm_models mm) < length (mm_models (mm\<lparr>mm_models := mm_models mm @ [m]\<rparr>))" "me_ContentLimit M = limit"
    by (simp_all add: mm_inv_but_def caching_def)
  with cacheModel_law [OF this(1-4) assms(3)] cacheModel_inv [OF but assms(2,3)] show ?thesis by simp
qed

end

text \<open>The model a creation leaves, and the one an update leaves; content over the limit is dropped.\<close>

definition kept_content :: "int \<Rightarrow> bytes \<Rightarrow> bytes" where
  "kept_content limit content = (if int (length content) > limit then [] else content)"

definition created_model :: "int \<Rightarrow> StoreProposal \<Rightarrow> CommitResult \<Rightarrow> bytes \<Rightarrow> Model \<Rightarrow> bool" where
  "created_model limit proposal result content m \<longleftrightarrow>
     mo_DataId m = cr_DataId result \<and> mo_OrderId m = cr_OrderId result \<and> mo_Owner m = prop_Owner proposal \<and> mo_Cid m = cr_Cid result
     \<and> mo_CommitId m = prop_CommitId proposal \<and> mo_Commits m = [format_commit (prop_CommitId proposal) (cr_Height result)]
     \<and> mo_Version m = ''v0'' \<and> mo_Content m = Some (kept_content limit content)"

definition updated_model :: "int \<Rightarrow> StoreProposal \<Rightarrow> string \<Rightarrow> Model \<Rightarrow> CommitResult \<Rightarrow> bytes \<Rightarrow> Model \<Rightarrow> bool" where
  "updated_model limit proposal commitId org result content m \<longleftrightarrow>
     mo_DataId m = mo_DataId org \<and> mo_OrderId m = cr_OrderId result \<and> mo_Owner m = prop_Owner proposal \<and> mo_Cid m = cr_Cid result
     \<and> mo_CommitId m = commitId \<and> mo_Commits m = mo_Commits org @ [format_commit commitId (cr_Height result)]
     \<and> mo_Version m = ''v'' @ show_nat (length (mo_Commits org)) \<and> mo_Content m = Some (kept_content limit content)"

context manager_cache
begin

lemma Create_commit_law:
  assumes "mm_inv limit mm" and "caching limit M" and "Create_commit M proposal jws orderId content alias mm = Return (r, mm')"
  shows "mm_inv limit mm' \<and> (\<forall>a. r = Inr a \<longrightarrow> a < length (mm_models mm')
    \<and> (\<exists>result. ga_CommitModel (me_gateway M) (mm_gateway mm) proposal jws orderId content = (Inr result, mm_gateway mm')
         \<and> created_model limit proposal result content (mm_models mm' ! a)))"
proof -
  obtain res g where c: "ga_CommitModel (me_gateway M) (mm_gateway mm) proposal jws orderId content = (res, g)" by fastforce
  show ?thesis
  proof (cases res)
    case (Inr result)
    from assms(3) c Inr obtain m where m: "r = Inr (length (mm_models mm))"
      "cacheModel M (prop_Owner proposal) (length (mm_models mm)) (mm\<lparr>mm_gateway := g, mm_models := mm_models mm @ [m]\<rparr>) = Return mm'"
      "created_model limit proposal result content (m\<lparr>mo_Content := Some (kept_content limit content)\<rparr>)" "mo_Content m = Some content"
      by (auto simp: Create_commit_def new_model_def created_model_def bind_outcome_Return)
    from cache_new [OF _ assms(2), of "mm\<lparr>mm_gateway := g\<rparr>"] m(2) assms(1)
    have "mm_inv limit mm'" "mm_gateway mm' = g" "length (mm_models mm) < length (mm_models mm')"
      "mm_models mm' ! length (mm_models mm) = m\<lparr>mo_Content := Some (kept_content limit content)\<rparr>"
      by (simp_all add: m(4) slice_def kept_content_def)
    with m c Inr show ?thesis by auto
  qed (use assms c in \<open>auto simp: Create_commit_def\<close>)
qed

lemma Update_commit_law:
  assumes "mm_inv limit mm" and "caching limit M" and "Update_commit M proposal jws orderId commitId org content mm = Return (r, mm')"
  shows "mm_inv limit mm' \<and> (\<forall>a. r = Inr a \<longrightarrow> a < length (mm_models mm')
    \<and> (\<exists>result. ga_CommitModel (me_gateway M) (mm_gateway mm) proposal jws orderId content = (Inr result, mm_gateway mm')
         \<and> updated_model limit proposal commitId org result content (mm_models mm' ! a)))"
proof -
  obtain res g where c: "ga_CommitModel (me_gateway M) (mm_gateway mm) proposal jws orderId content = (res, g)" by fastforce
  show ?thesis
  proof (cases res)
    case (Inr result)
    from assms(3) c Inr obtain m where m: "r = Inr (length (mm_models mm))"
      "cacheModel M (prop_Owner proposal) (length (mm_models mm)) (mm\<lparr>mm_gateway := g, mm_models := mm_models mm @ [m]\<rparr>) = Return mm'"
      "updated_model limit proposal commitId org result content (m\<lparr>mo_Content := Some (kept_content limit content)\<rparr>)" "mo_Content m = Some content"
      by (auto simp: Update_commit_def new_model_def updated_model_def bind_outcome_Return)
    from cache_new [OF _ assms(2), of "mm\<lparr>mm_gateway := g\<rparr>"] m(2) assms(1)
    have "mm_inv limit mm'" "mm_gateway mm' = g" "length (mm_models mm) < length (mm_models mm')"
      "mm_models mm' ! length (mm_models mm) = m\<lparr>mo_Content := Some (kept_content limit content)\<rparr>"
      by (simp_all add: m(4) slice_def kept_content_def)
    with m c Inr show ?thesis by auto
  qed (use assms c in \<open>auto simp: Update_commit_def\<close>)
qed

lemma loadModel_inv:
  assumes "mm_inv limit mm" and "caching limit M" and "loadModel M account key mm = Return (p, mm1)"
  shows "mm_inv limit mm1 \<and> mm_gateway mm1 = mm_gateway mm \<and> mm_models mm1 = mm_models mm \<and> p = pointer (mm_cache mm) account key"
  using loadModel_law [OF assms(1), of M account key] assms mm_inv_cache by (auto simp: caching_def)

lemma Create_law:
  assumes "mm_inv limit mm" and "caching limit M" and "Create M req proposal jws orderId content mm = Return (r, mm')"
  shows "mm_inv limit mm' \<and> (\<forall>a. r = Inr a \<longrightarrow> isl (ga_QueryMeta (me_gateway M) (mm_gateway mm) req 0)
    \<and> prop_Size proposal \<noteq> 0 \<and> content \<noteq> [] \<and> a < length (mm_models mm')
    \<and> (\<exists>alias mm2 mm3 result. mm_models mm2 = mm_models mm \<and> mm_gateway mm2 = mm_gateway mm
         \<and> validateModel M (prop_Owner proposal) alias content (prop_Rule proposal) mm2 = Return (None, mm3)
         \<and> ga_CommitModel (me_gateway M) (mm_gateway mm3) proposal jws orderId content = (Inr result, mm_gateway mm')
         \<and> created_model limit proposal result content (mm_models mm' ! a)))"
proof -
  define al where "al = (if prop_Alias proposal = [] then prop_Cid proposal else prop_Alias proposal)"
  note create = assms(3) [unfolded Create_def Let_def, folded al_def]
  from create obtain p1 mm1 where l1: "loadModel M (prop_Owner proposal) (prop_DataId proposal @ prop_DataId proposal) mm = Return (p1, mm1)"
    by (auto simp: bind_outcome_Return)
  note i1 = loadModel_inv [OF assms(1,2) l1]
  show ?thesis
  proof (cases p1)
    case None
    with create l1 obtain p2 mm2 where l2: "loadModel M (prop_Owner proposal) (al @ prop_DataId proposal) mm1 = Return (p2, mm2)"
      by (auto simp: bind_outcome_Return)
    with i1 have i2: "mm_inv limit mm2" "mm_gateway mm2 = mm_gateway mm" "mm_models mm2 = mm_models mm"
      using loadModel_inv [OF _ assms(2) l2] by auto
    show ?thesis
    proof (cases "p2 = None \<and> isl (ga_QueryMeta (me_gateway M) (mm_gateway mm2) req 0) \<and> \<not> (prop_Size proposal = 0 \<or> content = [])")
      case True
      with create l1 l2 None obtain err mm3 where v: "validateModel M (prop_Owner proposal) al content (prop_Rule proposal) mm2 = Return (err, mm3)"
        by (auto simp: bind_outcome_Return isl_def)
      note i3 = validateModel_inv [OF i2(1) assms(2) v]
      show ?thesis
      proof (cases err)
        case None
        with create l1 l2 \<open>p1 = None\<close> True v have "Create_commit M proposal jws orderId content al mm3 = Return (r, mm')"
          by (auto simp: isl_def)
        from Create_commit_law [OF i3 assms(2) this] True v None i2(2,3) show ?thesis by fastforce
      qed (use create l1 l2 True v i3 \<open>p1 = None\<close> in \<open>auto simp: isl_def\<close>)
    qed (use create l1 l2 None i2 in \<open>auto split: option.splits sum.splits\<close>)
  qed (use create l1 i1 in auto)
qed

lemma original_model_inv:
  assumes "mm_inv limit mm" and "original_model M req lastCommitId meta org mm = Return (original, mm')"
  shows "mm_inv limit mm' \<and> (\<forall>m. original = Inr m \<longrightarrow>
     ((\<exists>a. org = Some a \<and> m = mm_models mm ! a \<and> mo_CommitId m = lastCommitId \<and> mo_CommitId m = mo_CommitId meta \<and> slice (mo_Content m) \<noteq> [])
      \<or> (\<exists>result g. ga_FetchContent (me_gateway M) (mm_gateway mm) req meta = Return (Inr result, g)
           \<and> m = (model_of_meta meta)\<lparr>mo_Content := fr_Content result\<rparr>)))"
  using assms by (auto simp: original_model_def Let_def bind_outcome_Return split: option.splits if_splits sum.splits)

lemma Update_law:
  assumes "mm_inv limit mm" and "caching limit M" and "Update M req proposal jws orderId patch mm = Return (r, mm')"
  shows "mm_inv limit mm' \<and> (\<forall>a. r = Inr a \<longrightarrow> a < length (mm_models mm')
    \<and> (\<exists>lastCommitId commitId meta org newContent mm2 mm3 result.
         Split (CHR ''|'') (prop_CommitId proposal) = [lastCommitId, commitId]
         \<and> ga_QueryMeta (me_gateway M) (mm_gateway mm) req 0 = Inr meta
         \<and> ((\<exists>b < length (mm_models mm). org = mm_models mm ! b \<and> mo_CommitId org = lastCommitId \<and> mo_CommitId org = mo_CommitId meta)
            \<or> (\<exists>result g. ga_FetchContent (me_gateway M) (mm_gateway mm) req meta = Return (Inr result, g)
                 \<and> org = (model_of_meta meta)\<lparr>mo_Content := fr_Content result\<rparr>))
         \<and> patched_content M proposal org patch = Inr newContent
         \<and> validateModel M (prop_Owner proposal) (prop_Alias proposal) newContent (prop_Rule proposal) mm2 = Return (None, mm3)
         \<and> ga_CommitModel (me_gateway M) (mm_gateway mm3) proposal jws orderId newContent = (Inr result, mm_gateway mm')
         \<and> updated_model limit proposal commitId org result newContent (mm_models mm' ! a)))"
proof (cases "\<exists>lastCommitId commitId meta. Split (CHR ''|'') (prop_CommitId proposal) = [lastCommitId, commitId]
    \<and> ga_QueryMeta (me_gateway M) (mm_gateway mm) req 0 = Inr meta")
  case True
  then obtain lastCommitId commitId meta where split: "Split (CHR ''|'') (prop_CommitId proposal) = [lastCommitId, commitId]"
    and meta: "ga_QueryMeta (me_gateway M) (mm_gateway mm) req 0 = Inr meta" by blast
  let ?key = "qp_Keyword (mpc_Proposal req) @ lastCommitId"
  from assms(3) split meta obtain p mm1 where l: "loadModel M (mo_Owner meta) ?key mm = Return (p, mm1)"
    by (auto simp: Update_def bind_outcome_Return)
  note i1 = loadModel_inv [OF assms(1,2) l]
  from assms(3) split meta l obtain original mm2 where o: "original_model M req lastCommitId meta p mm1 = Return (original, mm2)"
    by (auto simp: Update_def bind_outcome_Return)
  note i2 = original_model_inv [OF conjunct1 [OF i1] o]
  show ?thesis
  proof (cases "\<exists>org newContent. original = Inr org \<and> patched_content M proposal org patch = Inr newContent")
    case True
    then obtain org newContent where org: "original = Inr org" and new: "patched_content M proposal org patch = Inr newContent" by blast
    have orig: "(\<exists>b < length (mm_models mm). org = mm_models mm ! b \<and> mo_CommitId org = lastCommitId \<and> mo_CommitId org = mo_CommitId meta)
            \<or> (\<exists>result g. ga_FetchContent (me_gateway M) (mm_gateway mm) req meta = Return (Inr result, g)
                 \<and> org = (model_of_meta meta)\<lparr>mo_Content := fr_Content result\<rparr>)"
      using i1 i2 org pointer_range [OF assms(1), of "mo_Owner meta" ?key] by auto
    from assms(3) split meta l o org new obtain err mm3 where
      v: "validateModel M (prop_Owner proposal) (prop_Alias proposal) newContent (prop_Rule proposal) mm2 = Return (err, mm3)"
      by (auto simp: Update_def bind_outcome_Return)
    from i2 validateModel_inv [OF _ assms(2) v] have i3: "mm_inv limit mm3" by blast
    show ?thesis
    proof (cases err)
      case None
      with assms(3) split meta l o org new v have "Update_commit M proposal jws orderId commitId org newContent mm3 = Return (r, mm')"
        by (auto simp: Update_def)
      from Update_commit_law [OF i3 assms(2) this] split meta orig new v None show ?thesis by fastforce
    qed (use assms(3) split meta l o org new v i3 in \<open>auto simp: Update_def\<close>)
  qed (use assms(3) split meta l o i2 in \<open>auto simp: Update_def split: sum.splits\<close>)
qed (use assms in \<open>auto simp: Update_def split: list.splits sum.splits\<close>)

lemma Load_stale:
  assumes "mm_inv limit mm" and "caching limit M" and "qp_CommitId (mpc_Proposal req) = []" and "qp_Version (mpc_Proposal req) = []"
    and latest: "\<And>g. ga_QueryMeta (me_gateway M) g req 0 = Inr latest"
    and p: "pointer (mm_cache mm) (mo_Owner latest) (qp_Keyword (mpc_Proposal req) @ first_part (mo_CommitId latest)) = Some a"
    and old: "mo_CommitId (mm_models mm ! a) \<noteq> mo_CommitId latest" "slice (mo_Content (mm_models mm ! a)) \<noteq> []"
    and fails: "ga_FetchContent (me_gateway M) (mm_gateway mm) req latest = Return (Inl err, g')"
  shows "\<exists>mm1 mm2. Load M req mm = Return (Inl err, mm1) \<and> Load M req mm1 = Return (Inr a, mm2)
    \<and> mo_CommitId (mm_models mm2 ! a) = mo_CommitId latest \<and> mo_Content (mm_models mm2 ! a) = mo_Content (mm_models mm ! a)"
proof -
  let ?key = "qp_Keyword (mpc_Proposal req) @ first_part (mo_CommitId latest)"
  from loadModel_law [OF assms(1), of M "mo_Owner latest" ?key] assms(2) p obtain c where
    l: "loadModel M (mo_Owner latest) ?key mm = Return (Some a, mm\<lparr>mm_cache := c\<rparr>)" and c: "ok c" "holds c = holds (mm_cache mm)"
    by (auto simp: caching_def)
  note range = pointer_range [OF assms(1) p]
  define mm1 where "mm1 = (set_model a (refresh_model (mm_models mm ! a) latest) (mm\<lparr>mm_cache := c\<rparr>))\<lparr>mm_gateway := g'\<rparr>"
  from assms(3,4) have req: "\<exists>v. requested_meta (me_gateway M) (mm_gateway mm) req latest = Inr (v, latest)"
    by (simp add: requested_meta_def load_version_def load_commit_def)
  from old l latest fails req have load1: "Load M req mm = Return (Inl err, mm1)"
    by (auto simp: Load_def Load_fetch_def cached_latest_def mm1_def set_model_def)
  have but: "mm_inv_but limit a mm1"
    using mm_inv_but_set [OF mm_inv_cache [OF assms(1) c]] range by (simp add: mm1_def)
  have m1: "mm_models mm1 ! a = refresh_model (mm_models mm ! a) latest" using range by (simp add: mm1_def set_model_def)
  moreover have "within_limit limit (mm_models mm ! a)" using assms(1) range by (simp add: mm_inv_def)
  ultimately have inv1: "mm_inv limit mm1" using mm_inv_butD [OF but] by (simp add: refreshed)
  have "pointer (mm_cache mm1) (mo_Owner latest) ?key = Some a" using p c by (simp add: pointer_def mm1_def set_model_def)
  with loadModel_law [OF inv1, of M "mo_Owner latest" ?key] assms(2) obtain c' where
    l1: "loadModel M (mo_Owner latest) ?key mm1 = Return (Some a, mm1\<lparr>mm_cache := c'\<rparr>)" by (auto simp: caching_def)
  with latest m1 old(2) assms(3) have "Load M req mm1 = Return (Inr a, mm1\<lparr>mm_cache := c'\<rparr>)"
    by (simp add: Load_def cached_latest_def refresh_model_def)
  with load1 m1 show ?thesis by (auto simp: refresh_model_def)
qed

lemma Load_foreign:
  assumes "mm_inv limit mm" and "caching limit M" and "ga_QueryMeta (me_gateway M) (mm_gateway mm) req 0 = Inr latest"
    and "qp_Owner (mpc_Proposal req) \<noteq> mo_Owner latest" and "\<not> has (mm_cache mm) (qp_Owner (mpc_Proposal req))"
    and p: "pointer (mm_cache mm) (mo_Owner latest) (qp_Keyword (mpc_Proposal req) @ first_part (mo_CommitId latest)) = None"
    and vm: "requested_meta (me_gateway M) (mm_gateway mm) req latest = Inr (version, meta)"
    and f: "ga_FetchContent (me_gateway M) (mm_gateway mm) req meta = Return (Inr result, g)"
  shows "Load M req mm = Panic"
proof -
  let ?key = "qp_Keyword (mpc_Proposal req) @ first_part (mo_CommitId latest)"
  from loadModel_law [OF assms(1), of M "mo_Owner latest" ?key] assms(2) p obtain c where
    l: "loadModel M (mo_Owner latest) ?key mm = Return (None, mm\<lparr>mm_cache := c\<rparr>)" and c: "ok c" "has c = (has (mm_cache mm))(mo_Owner latest := True)"
    by (auto simp: caching_def)
  from c assms(4,5) missing_put [of c "qp_Owner (mpc_Proposal req)"] have "ca_Put C c (qp_Owner (mpc_Proposal req)) k v = Panic" for k v by simp
  with assms(2,3) l vm f show ?thesis
    by (auto simp: Load_def Load_fetch_def new_model_def set_model_def cacheModel_def caching_def Let_def)
qed

lemma cacheModel_total:
  assumes "ok (mm_cache mm)" and "has (mm_cache mm) account" and "me_cache M = C"
  shows "\<exists>mm'. cacheModel M account a mm = Return mm'"
proof -
  have put: "\<exists>c'. ca_Put C c account k v = Return c' \<and> ok c' \<and> has c' = has c" if "ok c" "has c account" for c k v
    using put_law [OF that] by blast
  show ?thesis
    using put [OF assms(1,2)] put assms by (auto simp: cacheModel_def Let_def set_model_def bind_outcome_Return) metis+
qed

lemma Load_returns:
  assumes "mm_inv limit mm" and "caching limit M" and "ga_QueryMeta (me_gateway M) (mm_gateway mm) req 0 = Inr latest"
    and "qp_Owner (mpc_Proposal req) = mo_Owner latest \<or> has (mm_cache mm) (qp_Owner (mpc_Proposal req))"
    and "requested_meta (me_gateway M) (mm_gateway mm) req latest = Inr (version, meta)"
    and "ga_FetchContent (me_gateway M) (mm_gateway mm) req meta = Return (Inr result, g)"
  shows "\<exists>a mm'. Load M req mm = Return (Inr a, mm')"
proof -
  let ?key = "qp_Keyword (mpc_Proposal req) @ first_part (mo_CommitId latest)"
  from loadModel_law [OF assms(1), of M "mo_Owner latest" ?key] assms(2) obtain c where
    l: "loadModel M (mo_Owner latest) ?key mm = Return (pointer (mm_cache mm) (mo_Owner latest) ?key, mm\<lparr>mm_cache := c\<rparr>)"
    and c: "ok c" "has c = (has (mm_cache mm))(mo_Owner latest := True)" by (auto simp: caching_def)
  have "\<exists>mm'. cacheModel M (qp_Owner (mpc_Proposal req)) a mm1 = Return mm'" if "mm_cache mm1 = c" for a mm1
    using cacheModel_total [of mm1 "qp_Owner (mpc_Proposal req)" M a] that c assms(2,4) by (auto simp: caching_def)
  with assms(3,5,6) l show ?thesis
    by (auto simp: Load_def Load_fetch_def new_model_def set_model_def bind_outcome_Return Let_def split: option.splits)
qed

end

section \<open>The manager as a transition system\<close>

text \<open>The calls that read and write the cache, each in an environment of its own among \<open>Es\<close>, and anything the gateway
  does in between.  Deletions are not among them: their eviction can break the list of the LRU cache.\<close>

inductive mm_step :: "('g, 'c, 'l, 'b, 'x, 's, 'j, 'i, 'p) ModelEnv set \<Rightarrow> ('g, 'c, 'l, 'b, 'x) ModelManager \<Rightarrow> ('g, 'c, 'l, 'b, 'x) ModelManager \<Rightarrow> bool"
  for Es where
  load: "M \<in> Es \<Longrightarrow> Load M req mm = Return (r, mm') \<Longrightarrow> mm_step Es mm mm'"
| create: "M \<in> Es \<Longrightarrow> Create M req proposal jws orderId content mm = Return (r, mm') \<Longrightarrow> mm_step Es mm mm'"
| update: "M \<in> Es \<Longrightarrow> Update M req proposal jws orderId patch mm = Return (r, mm') \<Longrightarrow> mm_step Es mm mm'"
| gateway: "mm_step Es mm (mm\<lparr>mm_gateway := g\<rparr>)"

inductive_cases mm_stepE: "mm_step Es mm mm'"

definition fresh_manager :: "'g \<Rightarrow> ('l, 'b, 'x) RuleEngineSvc \<Rightarrow> ('g, (cache_value, 'm) LruCacheSvc, 'l, 'b, 'x) ModelManager" where
  "fresh_manager g rules = \<lparr>mm_gateway = g, mm_cache = NewLruCacheSvc, mm_rules = rules, mm_models = []\<rparr>"

definition mm_reach ::
  "'m hamt_ops \<Rightarrow> int \<Rightarrow> ('g, (cache_value, 'm) LruCacheSvc, 'l, 'b, 'x, 's, 'j, 'i, 'p) ModelEnv set
     \<Rightarrow> ('g, (cache_value, 'm) LruCacheSvc, 'l, 'b, 'x) ModelManager \<Rightarrow> bool" where
  "mm_reach H limit Es mm \<longleftrightarrow> (\<forall>M \<in> Es. manager_caching (lru_api H) limit M) \<and> (\<exists>g rules. (mm_step Es)\<^sup>*\<^sup>* (fresh_manager g rules) mm)"

context manager_cache
begin

lemma mm_step_inv: "mm_step Es mm mm' \<Longrightarrow> \<forall>M \<in> Es. caching limit M \<Longrightarrow> mm_inv limit mm \<Longrightarrow> mm_inv limit mm'"
  by (erule mm_stepE) (auto dest: Load_law Create_law Update_law)

lemma mm_steps_inv: "(mm_step Es)\<^sup>*\<^sup>* mm mm' \<Longrightarrow> \<forall>M \<in> Es. caching limit M \<Longrightarrow> mm_inv limit mm \<Longrightarrow> mm_inv limit mm'"
  by (induction rule: rtranclp_induct) (auto intro: mm_step_inv)

end

abbreviation lru_mm_inv :: "('m \<Rightarrow> (string \<times> addr) list) \<Rightarrow> int \<Rightarrow> ('g, (cache_value, 'm) LruCacheSvc, 'l, 'b, 'x) ModelManager \<Rightarrow> bool" where
  "lru_mm_inv entries \<equiv> manager_cache.mm_inv (svc_ok entries) (svc_holds entries)"

lemmas lru_mm_inv_def = manager_cache.mm_inv_def [OF hamt.lru_manager_api]

lemma mm_reach_inv:
  assumes "hamt H entries" and "mm_reach H limit Es mm"
  shows "lru_mm_inv entries limit mm"
proof -
  from assms(2) obtain g rules where run: "(mm_step Es)\<^sup>*\<^sup>* (fresh_manager g rules) mm" and Es: "\<forall>M \<in> Es. manager_caching (lru_api H) limit M"
    by (auto simp: mm_reach_def)
  have "lru_mm_inv entries limit (fresh_manager g rules)"
    by (simp add: lru_mm_inv_def [OF assms(1)] fresh_manager_def svc_ok_new) (simp add: svc_holds_def NewLruCacheSvc_def)
  with manager_cache.mm_steps_inv [OF hamt.lru_manager_api [OF assms(1)] run Es] show ?thesis by blast
qed

section \<open>Samples\<close>

text \<open>A gateway with fixed answers, and an environment without schemas whose patches are the new content.\<close>

definition fixed_gateway :: "(int \<Rightarrow> Model res) \<Rightarrow> FetchResult res \<Rightarrow> CommitResult res \<Rightarrow> unit GatewayApi" where
  "fixed_gateway meta fetched committed = \<lparr>ga_QueryMeta = (\<lambda>_ _. meta), ga_FetchContent = (\<lambda>_ _ _. Return (fetched, ())),
     ga_CommitModel = (\<lambda>_ _ _ _ _. (committed, ())), ga_TerminateOrder = (\<lambda>_ _. (None, ())), ga_RenewOrder = (\<lambda>_ _. (Inr [], ())),
     ga_UpdateModelPermission = (\<lambda>_ _. (None, ()))\<rparr>"

definition sample_rules :: "(unit, unit, unit, unit) rule_ops" where
  "sample_rules = \<lparr>ru_ParseJSONRule = Inr, ru_BuildRule = (\<lambda>_ _ _ _. (None, ())), ru_NewKnowledgeBaseInstance = (\<lambda>_ _ _. Some ()),
     ru_NewDataContext = (), ru_Add = (\<lambda>_ _ _. (None, ())), ru_Reset = (\<lambda>_. ()),
     ru_Execute = (\<lambda>_ _. (None, (), \<lparr>IsValid = True, Reason = []\<rparr>))\<rparr>"

definition sample_rule_svc :: "(unit, unit, unit) RuleEngineSvc" where
  "sample_rule_svc = \<lparr>re_knowledgeLibrary = (), re_rulesMap = Map.empty, re_dataCtxMap = Map.empty\<rparr>"

definition sample_model_env ::
  "unit GatewayApi \<Rightarrow> (unit, (cache_value, (string \<times> addr) list) LruCacheSvc, unit, unit, unit, unit, unit, unit, bytes) ModelEnv" where
  "sample_model_env ga = \<lparr>me_gateway = ga, me_cache = lru_api alist_hamt, me_EnableCache = True, me_CacheCapacity = 8, me_ContentLimit = 100,
     me_rules = sample_rules, me_schema = \<lparr>sc_AddResource = (\<lambda>_ _. None), sc_Compile = (\<lambda>_ _. Inr ()), sc_Validate = (\<lambda>_ _. None)\<rparr>,
     me_json = \<lparr>js_Get = (\<lambda>_. ()), js_Marshal = (\<lambda>_. Inr []), js_GetInterface = (\<lambda>_. ())\<rparr>,
     me_context = \<lparr>sj_Context = (\<lambda>_. []), sj_Array = (\<lambda>_. []), sj_String = (\<lambda>_. None), sj_Fmt = (\<lambda>_. []), sj_ReadString = (\<lambda>s. s),
       sj_ReadObject = (\<lambda>_. [])\<rparr>,
     me_patch = \<lparr>pt_DecodePatch = (\<lambda>p. Return (Inr p)), pt_Apply = (\<lambda>p _. Return (Inr p))\<rparr>,
     me_IsDataId = (\<lambda>_. False), me_Sum = Inr, me_cid_String = (\<lambda>c. c)\<rparr>"

definition sample_meta :: Model where
  "sample_meta = \<lparr>mo_DataId = ''d1'', mo_Alias = ''notes'', mo_GroupId = ''g'', mo_OrderId = 7, mo_Owner = ''did:a'', mo_Tags = [], mo_Cid = ''data'',
     mo_Shards = [], mo_CommitId = ''c2'', mo_Commits = [format_commit ''c1'' 5, format_commit ''c2'' 9], mo_Version = [], mo_Content = None,
     mo_ExtendInfo = []\<rparr>"

definition sample_query :: "string \<Rightarrow> string \<Rightarrow> MetadataProposalCbor" where
  "sample_query owner keyword =
     \<lparr>mpc_Proposal = QueryProposal_zero\<lparr>qp_Owner := owner, qp_Keyword := keyword\<rparr>, mpc_JwsSignature = JwsSignature_zero\<rparr>"

definition sample_fetching :: "(unit, (cache_value, (string \<times> addr) list) LruCacheSvc, unit, unit, unit, unit, unit, unit, bytes) ModelEnv" where
  "sample_fetching = sample_model_env (fixed_gateway (\<lambda>_. Inr sample_meta) (Inr \<lparr>fr_Cid = ''data'', fr_Content = Some ''data''\<rparr>) (Inl (ErrText ''down'')))"

abbreviation sample_fresh_manager :: "(unit, (cache_value, (string \<times> addr) list) LruCacheSvc, unit, unit, unit) ModelManager" where
  "sample_fresh_manager \<equiv> fresh_manager () sample_rule_svc"

lemma sample_manager_caching: "manager_caching (lru_api alist_hamt) 100 (sample_model_env ga)"
  by (simp add: manager_caching_def sample_model_env_def)

lemma sample_manager_reach: "mm_reach alist_hamt 100 (range sample_model_env) sample_fresh_manager"
  by (auto simp: mm_reach_def sample_manager_caching)

section \<open>Properties\<close>





definition sample_committing :: "(unit, (cache_value, (string \<times> addr) list) LruCacheSvc, unit, unit, unit, unit, unit, unit, bytes) ModelEnv" where
  "sample_committing = sample_model_env (fixed_gateway (\<lambda>_. Inl (ErrText ''not found'')) (Inl (ErrText ''none''))
     (Inr \<lparr>cr_OrderId = 7, cr_DataId = ''d1'', cr_Commit = [], cr_Commits = [], cr_Cid = ''data'', cr_Height = 5, cr_Shards = []\<rparr>))"

lemma sample_committing_ops:
  "\<exists>err. ga_QueryMeta (me_gateway sample_committing) g req 0 = Inl err"
  "\<exists>result. ga_CommitModel (me_gateway sample_committing) g proposal jws orderId content = (Inr result, ())"
  "validateModel sample_committing owner al content rule mm = Return (None, mm)"
  by (simp_all add: sample_committing_def sample_model_env_def fixed_gateway_def validateModel_def)


lemma patched_contentD:
  assumes "patched_content M proposal org patch = Inr newContent"
  shows "ApplyPatch (me_patch M) (slice (mo_Content org)) patch = Inr newContent \<and> newContent \<noteq> slice (mo_Content org)
    \<and> int (length newContent) = to_int64 (prop_Size proposal)
    \<and> (\<exists>c. CalculateCid (me_Sum M) newContent = Inr c \<and> me_cid_String M c = prop_Cid proposal)"
  using assms by (auto simp: patched_content_def split: sum.splits if_splits)

text \<open>C18. An update that succeeds committed exactly the content its patch makes of the model's content, which has the size and
  the identifier of the owner's proposal and passes its schemas and rules; the patched model is the cached one,
  when it is both the latest and the one the proposal builds on, or the one fetched for the latest metadata.  The
  returned model has one commit more.\<close>

theorem Update_result:
  assumes "hamt H entries" and "mm_reach H limit Es mm" and "M \<in> Es" and "Update M req proposal jws orderId patch mm = Return (Inr a, mm')"
  shows "\<exists>lastCommitId commitId meta org newContent mm2 mm3 result c.
    prop_CommitId proposal = lastCommitId @ ''|'' @ commitId \<and> ga_QueryMeta (me_gateway M) (mm_gateway mm) req 0 = Inr meta
    \<and> ((\<exists>b < length (mm_models mm). org = mm_models mm ! b \<and> mo_CommitId org = lastCommitId \<and> mo_CommitId org = mo_CommitId meta)
       \<or> (\<exists>fetched g. ga_FetchContent (me_gateway M) (mm_gateway mm) req meta = Return (Inr fetched, g)
            \<and> org = (model_of_meta meta)\<lparr>mo_Content := fr_Content fetched\<rparr>))
    \<and> ApplyPatch (me_patch M) (slice (mo_Content org)) patch = Inr newContent \<and> newContent \<noteq> slice (mo_Content org)
    \<and> int (length newContent) = to_int64 (prop_Size proposal)
    \<and> CalculateCid (me_Sum M) newContent = Inr c \<and> me_cid_String M c = prop_Cid proposal
    \<and> validateModel M (prop_Owner proposal) (prop_Alias proposal) newContent (prop_Rule proposal) mm2 = Return (None, mm3)
    \<and> ga_CommitModel (me_gateway M) (mm_gateway mm3) proposal jws orderId newContent = (Inr result, mm_gateway mm')
    \<and> a < length (mm_models mm') \<and> updated_model limit proposal commitId org result newContent (mm_models mm' ! a)"
proof -
  have "manager_caching (lru_api H) limit M" using assms(2,3) by (auto simp: mm_reach_def)
  from manager_cache.Update_law [OF hamt.lru_manager_api [OF assms(1)] mm_reach_inv [OF assms(1,2)] this assms(4)]
  obtain lastCommitId commitId meta org newContent mm2 mm3 result where
    split: "Split (CHR ''|'') (prop_CommitId proposal) = [lastCommitId, commitId]"
    and new: "patched_content M proposal org patch = Inr newContent"
    and rest: "ga_QueryMeta (me_gateway M) (mm_gateway mm) req 0 = Inr meta"
      "(\<exists>b < length (mm_models mm). org = mm_models mm ! b \<and> mo_CommitId org = lastCommitId \<and> mo_CommitId org = mo_CommitId meta)
       \<or> (\<exists>fetched g. ga_FetchContent (me_gateway M) (mm_gateway mm) req meta = Return (Inr fetched, g)
            \<and> org = (model_of_meta meta)\<lparr>mo_Content := fr_Content fetched\<rparr>)"
      "validateModel M (prop_Owner proposal) (prop_Alias proposal) newContent (prop_Rule proposal) mm2 = Return (None, mm3)"
      "ga_CommitModel (me_gateway M) (mm_gateway mm3) proposal jws orderId newContent = (Inr result, mm_gateway mm')"
      "a < length (mm_models mm')" "updated_model limit proposal commitId org result newContent (mm_models mm' ! a)"
    by blast
  have "prop_CommitId proposal = lastCommitId @ ''|'' @ commitId" using Split_two [OF split] by simp
  with patched_contentD [OF new] rest show ?thesis by blast
qed

definition sample_updating :: "(unit, (cache_value, (string \<times> addr) list) LruCacheSvc, unit, unit, unit, unit, unit, unit, bytes) ModelEnv" where
  "sample_updating = sample_model_env (fixed_gateway (\<lambda>_. Inr sample_meta) (Inr \<lparr>fr_Cid = ''data'', fr_Content = Some ''data''\<rparr>)
     (Inr \<lparr>cr_OrderId = 8, cr_DataId = ''d1'', cr_Commit = [], cr_Commits = [], cr_Cid = ''next'', cr_Height = 12, cr_Shards = []\<rparr>))"

definition sample_update :: StoreProposal where
  "sample_update = sample_proposal\<lparr>prop_Owner := ''did:a'', prop_DataId := ''d1'', prop_CommitId := ''c2|c3'', prop_Cid := ''next''\<rparr>"

theorem Update_result_witness:
  "\<exists>a mm'. Update sample_updating (sample_query ''did:a'' ''d1'') sample_update JwsSignature_zero 0 ''next'' sample_fresh_manager = Return (Inr a, mm')
    \<and> mo_CommitId (mm_models mm' ! a) = ''c3'' \<and> mo_Content (mm_models mm' ! a) = Some ''next''"
proof -
  note api = hamt.lru_manager_api [OF alist_map.hamt_axioms]
  have M: "manager_caching (lru_api alist_hamt) 100 sample_updating" by (simp add: sample_updating_def sample_manager_caching)
  have env: "me_EnableCache sample_updating" "me_cache sample_updating = lru_api alist_hamt" "me_CacheCapacity sample_updating \<noteq> 1"
    using M by (simp_all add: manager_caching_def)
  note inv0 = mm_reach_inv [OF alist_map.hamt_axioms sample_manager_reach]
  from manager_cache.loadModel_law [OF api inv0 env, of "''did:a''" "''d1c2''"] obtain c1 where
    l1: "loadModel sample_updating ''did:a'' ''d1c2'' sample_fresh_manager = Return (None, sample_fresh_manager\<lparr>mm_cache := c1\<rparr>)"
    and c1: "svc_ok (\<lambda>m. m) c1" "svc_has c1 ''did:a''"
    by (auto simp: fresh_manager_def manager_cache.pointer_def [OF api] svc_holds_def NewLruCacheSvc_def)
  have total: "\<exists>mm'. cacheModel sample_updating ''did:a'' a mm1 = Return mm'" if "mm_cache mm1 = c1" for a mm1
    using manager_cache.cacheModel_total [OF api, of mm1 "''did:a''" sample_updating a] that c1 env(2) by simp
  have patched: "patched_content sample_updating sample_update ((model_of_meta sample_meta)\<lparr>mo_Content := Some ''data''\<rparr>) ''next'' = Inr ''next''"
    by (simp add: patched_content_def ApplyPatch_def sample_updating_def sample_model_env_def sample_update_def slice_def to_int64_def
        sample_proposal_def CalculateCid_def)
  have ops: "ga_QueryMeta (me_gateway sample_updating) g req 0 = Inr sample_meta"
    "ga_FetchContent (me_gateway sample_updating) g req meta = Return (Inr \<lparr>fr_Cid = ''data'', fr_Content = Some ''data''\<rparr>, ())"
    "\<exists>result. ga_CommitModel (me_gateway sample_updating) g proposal jws orderId content = (Inr result, ())"
    "validateModel sample_updating owner al content rule mm = Return (None, mm)" for g req meta proposal jws orderId content owner al rule mm
    by (simp_all add: sample_updating_def sample_model_env_def fixed_gateway_def validateModel_def)
  have names: "mo_Owner sample_meta = ''did:a''" "qp_Keyword (mpc_Proposal (sample_query ''did:a'' ''d1'')) = ''d1''"
    "Split (CHR ''|'') (prop_CommitId sample_update) = [''c2'', ''c3'']" "prop_Owner sample_update = ''did:a''"
    by (simp_all add: sample_meta_def sample_query_def sample_update_def)
  obtain result where "ga_CommitModel (me_gateway sample_updating) () sample_update JwsSignature_zero 0 ''next'' = (Inr result, ())"
    using ops(3) by blast
  then have "\<exists>a mm'. Update sample_updating (sample_query ''did:a'' ''d1'') sample_update JwsSignature_zero 0 ''next'' sample_fresh_manager = Return (Inr a, mm')"
    using l1 total by (simp add: Update_def names ops patched original_model_def Update_commit_def new_model_def bind_outcome_Return)
  then obtain a mm' where u: "Update sample_updating (sample_query ''did:a'' ''d1'') sample_update JwsSignature_zero 0 ''next'' sample_fresh_manager = Return (Inr a, mm')"
    by blast
  have "sample_updating \<in> range sample_model_env" by (simp add: sample_updating_def)
  from Update_result [OF alist_map.hamt_axioms sample_manager_reach this u] obtain newContent org commitId lastCommitId result where
    r: "updated_model 100 sample_update commitId org result newContent (mm_models mm' ! a)"
      "prop_CommitId sample_update = lastCommitId @ ''|'' @ commitId" "\<exists>c. CalculateCid (me_Sum sample_updating) newContent = Inr c
        \<and> me_cid_String sample_updating c = prop_Cid sample_update" by blast
  have "newContent = ''next''" using r(3) by (auto simp: CalculateCid_def sample_updating_def sample_model_env_def sample_update_def)
  moreover have "commitId = ''c3''" using r(2) by (cases lastCommitId rule: rev_cases) (auto simp: sample_update_def append_eq_Cons_conv Cons_eq_append_conv)
  ultimately show ?thesis using u r(1) by (auto simp: updated_model_def kept_content_def)
qed

text \<open>C39. A cached model is changed before its content is fetched.  When the object cached under the latest commit id has an older
  commit (a request for that commit was served into it) and the fetch of the latest content fails, the load reports
  the error, and the next load returns the old content from the cache as that of the latest commit.\<close>

theorem Load_stale_content:
  assumes "hamt H entries" and "mm_reach H limit Es mm" and "M \<in> Es"
    and "qp_CommitId (mpc_Proposal req) = []" and "qp_Version (mpc_Proposal req) = []"
    and "\<And>g. ga_QueryMeta (me_gateway M) g req 0 = Inr latest"
    and "svc_holds entries (mm_cache mm) (mo_Owner latest) (qp_Keyword (mpc_Proposal req) @ first_part (mo_CommitId latest)) = Some (CacheModel a)"
    and "mo_CommitId (mm_models mm ! a) \<noteq> mo_CommitId latest" and "slice (mo_Content (mm_models mm ! a)) \<noteq> []"
    and "ga_FetchContent (me_gateway M) (mm_gateway mm) req latest = Return (Inl err, g')"
  shows "\<exists>mm1 mm2. Load M req mm = Return (Inl err, mm1) \<and> Load M req mm1 = Return (Inr a, mm2)
    \<and> mo_CommitId (mm_models mm2 ! a) = mo_CommitId latest \<and> mo_Content (mm_models mm2 ! a) = mo_Content (mm_models mm ! a)"
proof -
  note api = hamt.lru_manager_api [OF assms(1)]
  have M: "manager_caching (lru_api H) limit M" using assms(2,3) by (auto simp: mm_reach_def)
  have "manager_cache.pointer (svc_holds entries) (mm_cache mm) (mo_Owner latest)
      (qp_Keyword (mpc_Proposal req) @ first_part (mo_CommitId latest)) = Some a"
    using assms(7) by (simp add: manager_cache.pointer_def [OF api])
  from manager_cache.Load_stale [OF api mm_reach_inv [OF assms(1,2)] M assms(4,5,6) this assms(8-10)] show ?thesis .
qed

text \<open>The latest commit \<open>c2\<close> is loaded, then the commit \<open>c1\<close>; then the node cannot fetch any more.\<close>

definition old_meta :: Model where
  "old_meta = sample_meta\<lparr>mo_CommitId := ''c1'', mo_Commits := [format_commit ''c1'' 5]\<rparr>"

definition sample_history :: "FetchResult res \<Rightarrow> (unit, (cache_value, (string \<times> addr) list) LruCacheSvc, unit, unit, unit, unit, unit, unit, bytes) ModelEnv" where
  "sample_history fetched =
     sample_model_env (fixed_gateway (\<lambda>height. Inr (if height = 5 then old_meta else sample_meta)) fetched (Inl (ErrText ''down'')))"

definition old_query :: MetadataProposalCbor where
  "old_query = (sample_query ''did:a'' ''d1'')\<lparr>mpc_Proposal := QueryProposal_zero\<lparr>qp_Owner := ''did:a'', qp_Keyword := ''d1'', qp_CommitId := ''c1''\<rparr>\<rparr>"

lemmas lru_eval = lru_api_def alist_hamt_def NewLruCacheSvc_def CreateCache_def CreateLruCache_def LruSvc_Get_def LruSvc_Put_def
  lru_put_def lru_get_def new_Node_def addNode_def removeNode_def refreshNode_def set_next_def set_pre_def Let_def svc_holds_def lru_holds_def

lemmas load_eval = Load_def Load_fetch_def loadModel_def cacheModel_def requested_meta_def load_version_def load_commit_def new_model_def
  set_model_def refresh_model_def model_of_meta_def cached_latest_def first_part_def slice_def

lemmas sample_eval = sample_fetching_def sample_model_env_def fixed_gateway_def sample_query_def fresh_manager_def QueryProposal_zero_def sample_meta_def

lemma sample_history_loads:
  obtains mm1 mm2 where "Load sample_fetching (sample_query ''did:a'' ''d1'') sample_fresh_manager = Return (Inr 0, mm1)"
    "Load (sample_history (Inr \<lparr>fr_Cid = ''old'', fr_Content = Some ''old''\<rparr>)) old_query mm1 = Return (Inr 0, mm2)"
    "svc_holds (\<lambda>m. m) (mm_cache mm2) ''did:a'' ''d1c2'' = Some (CacheModel 0)" "mo_CommitId (mm_models mm2 ! 0) = ''c1''"
    "mo_Content (mm_models mm2 ! 0) = Some ''old''"
proof -
  have parse: "ParseMetaCommit (format_commit ''c1'' 5) = Inr \<lparr>mc_CommitId = ''c1'', mc_Height = to_uint64 5\<rparr>"
    using ParseMetaCommit_format [of "''c1''" 5] by simp
  have height: "to_int64 (to_uint64 5) = 5" by (simp add: to_int64_def to_uint64_def)
  have "\<exists>mm1. Load sample_fetching (sample_query ''did:a'' ''d1'') sample_fresh_manager = Return (Inr 0, mm1)
    \<and> (\<exists>mm2. Load (sample_history (Inr \<lparr>fr_Cid = ''old'', fr_Content = Some ''old''\<rparr>)) old_query mm1 = Return (Inr 0, mm2)
        \<and> svc_holds (\<lambda>m. m) (mm_cache mm2) ''did:a'' ''d1c2'' = Some (CacheModel 0)
        \<and> mo_CommitId (mm_models mm2 ! 0) = ''c1'' \<and> mo_Content (mm_models mm2 ! 0) = Some ''old'')"
    using cache_not_found_text [of "''did:a''"]
    by (simp add: lru_eval load_eval sample_eval sample_history_def old_query_def old_meta_def parse height)
  with that show thesis by blast
qed

lemma sample_history_reach:
  obtains mm where "mm_reach alist_hamt 100 (range sample_model_env) mm" "svc_holds (\<lambda>m. m) (mm_cache mm) ''did:a'' ''d1c2'' = Some (CacheModel 0)"
    "mo_CommitId (mm_models mm ! 0) = ''c1''" "mo_Content (mm_models mm ! 0) = Some ''old''" "mm_gateway mm = ()"
proof -
  obtain mm1 mm2 where l: "Load sample_fetching (sample_query ''did:a'' ''d1'') sample_fresh_manager = Return (Inr 0, mm1)"
    "Load (sample_history (Inr \<lparr>fr_Cid = ''old'', fr_Content = Some ''old''\<rparr>)) old_query mm1 = Return (Inr 0, mm2)"
    and held: "svc_holds (\<lambda>m. m) (mm_cache mm2) ''did:a'' ''d1c2'' = Some (CacheModel 0)" "mo_CommitId (mm_models mm2 ! 0) = ''c1''"
      "mo_Content (mm_models mm2 ! 0) = Some ''old''" by (rule sample_history_loads)
  have "(mm_step (range sample_model_env))\<^sup>*\<^sup>* sample_fresh_manager mm2"
    using mm_step.load [OF _ l(1), of "range sample_model_env"] mm_step.load [OF _ l(2), of "range sample_model_env"]
    by (auto simp: sample_fetching_def sample_history_def)
  then have "mm_reach alist_hamt 100 (range sample_model_env) mm2" by (auto simp: mm_reach_def sample_manager_caching)
  with that held show thesis by simp
qed


theorem Load_stale_content_witness:
  "\<exists>mm mm1 mm2. mm_reach alist_hamt 100 (range sample_model_env) mm
    \<and> Load (sample_history (Inl (ErrText ''down''))) (sample_query ''did:a'' ''d1'') mm = Return (Inl (ErrText ''down''), mm1)
    \<and> Load (sample_history (Inl (ErrText ''down''))) (sample_query ''did:a'' ''d1'') mm1 = Return (Inr 0, mm2)
    \<and> mo_CommitId (mm_models mm2 ! 0) = ''c2'' \<and> mo_Content (mm_models mm2 ! 0) = Some ''old''"
proof -
  obtain mm where reach: "mm_reach alist_hamt 100 (range sample_model_env) mm"
    and held: "svc_holds (\<lambda>m. m) (mm_cache mm) ''did:a'' ''d1c2'' = Some (CacheModel 0)"
    "mo_CommitId (mm_models mm ! 0) = ''c1''" "mo_Content (mm_models mm ! 0) = Some ''old''" by (rule sample_history_reach)
  have "sample_history (Inl (ErrText ''down'')) \<in> range sample_model_env" by (simp add: sample_history_def)
  from Load_stale_content [OF alist_map.hamt_axioms reach this, of "sample_query ''did:a'' ''d1''" sample_meta 0 "ErrText ''down''" "()"] held
  show ?thesis using reach
    by (auto simp: sample_eval sample_history_def first_part_def slice_def)
qed

text \<open>C40. Loading a model of another owner panics when the requester has no cache yet: the model is looked up in the cache of its
  owner, which is created, and put into the cache of the requester, which is not.  The requests for schemas, made for
  the owner \<open>all\<close>, are of this kind.\<close>

theorem Load_foreign_owner_panics:
  assumes "hamt H entries" and "mm_reach H limit Es mm" and "M \<in> Es"
    and "ga_QueryMeta (me_gateway M) (mm_gateway mm) req 0 = Inr latest"
    and "qp_Owner (mpc_Proposal req) \<noteq> mo_Owner latest" and "\<not> svc_has (mm_cache mm) (qp_Owner (mpc_Proposal req))"
    and "svc_holds entries (mm_cache mm) (mo_Owner latest) (qp_Keyword (mpc_Proposal req) @ first_part (mo_CommitId latest)) = None"
    and "requested_meta (me_gateway M) (mm_gateway mm) req latest = Inr (version, meta)"
    and "ga_FetchContent (me_gateway M) (mm_gateway mm) req meta = Return (Inr result, g)"
  shows "Load M req mm = Panic"
proof -
  note api = hamt.lru_manager_api [OF assms(1)]
  have M: "manager_caching (lru_api H) limit M" using assms(2,3) by (auto simp: mm_reach_def)
  have "manager_cache.pointer (svc_holds entries) (mm_cache mm) (mo_Owner latest)
      (qp_Keyword (mpc_Proposal req) @ first_part (mo_CommitId latest)) = None"
    using assms(7) by (simp add: manager_cache.pointer_def [OF api])
  from manager_cache.Load_foreign [OF api mm_reach_inv [OF assms(1,2)] M assms(4-6) this assms(8,9)] show ?thesis .
qed

theorem Load_foreign_owner_panics_witness:
  "Load sample_fetching (sample_query ''all'' ''d1'') sample_fresh_manager = Panic"
proof (rule Load_foreign_owner_panics [OF alist_map.hamt_axioms sample_manager_reach])
  show "sample_fetching \<in> range sample_model_env" by (simp add: sample_fetching_def)
  show "requested_meta (me_gateway sample_fetching) (mm_gateway sample_fresh_manager) (sample_query ''all'' ''d1'') sample_meta
      = Inr (''v'' @ show_int 1, sample_meta)"
    by (simp add: requested_meta_def load_version_def load_commit_def sample_query_def QueryProposal_zero_def sample_meta_def)
qed (simp_all add: sample_eval svc_has_def NewLruCacheSvc_def svc_holds_def)

end
