(* ===== verification/Node_Api_Props.thy ===== *)
theory Node_Api_Props
  imports Node_Api Model_Manager_Props
begin

text \<open>
  What the API guarantees: unsigned requests change nothing, and the faults a fishman reports are exactly those of the shards that
  failed the check.  The check compares a shard's content with the identifier of the whole content: the provider
  of a fragment is reported although it delivers its fragment.
\<close>

section \<open>A sample node\<close>

definition sample_node ::
  "(string \<Rightarrow> bytes \<Rightarrow> JwsSignature \<Rightarrow> goerr option)
     \<Rightarrow> (unit, (cache_value, (string \<times> addr) list) LruCacheSvc, unit, unit, unit, unit, unit, unit, bytes) NodeEnv" where
  "sample_node verify = \<lparr>ne_manager = sample_fetching,
     ne_chain = sample_chain\<lparr>ch_GetMeta := (\<lambda>_. Inr (sample_metadata\<lparr>md_Commits := [''c1'']\<rparr>)), ch_GetFishmen := Inr ''gw1,gw2'',
       ch_MetaShards := (\<lambda>_. [(''sp1'', \<lparr>sm_ShardId = 5, sm_Peer = ''peer1'', sm_Cid = ''part'', sm_Provider = ''sp1'', sm_Sp = ''sp1''\<rparr>)])\<rparr>,
     ne_address = ''gw1'', ne_NewDidManager = (\<lambda>_. None), ne_VerifyJWS = verify, ne_MarshalQuery = (\<lambda>_. Inr []), ne_MarshalStore = (\<lambda>_. Inr []),
     ne_MarshalTerminate = (\<lambda>_. Inr []), ne_MarshalRenew = (\<lambda>_. Inr []), ne_MarshalPermission = (\<lambda>_. Inr []), ne_DelegateDid = Inr ''did:n'',
     ne_CreateJWS = (\<lambda>_. Inr [JwsSignature_zero]), ne_FetchShard = (\<lambda>_ _ _ _ _. None), ne_Sum = Inr, ne_cid_String = (\<lambda>c. c),
     ne_HttpFileServerAddress = [], ne_SaoIpfs = False\<rparr>"

section \<open>Signed requests\<close>

definition signed_by :: "('g, 'c, 'l, 'b, 'x, 's, 'j, 'i, 'p) NodeEnv \<Rightarrow> bytes res \<Rightarrow> string \<Rightarrow> JwsSignature \<Rightarrow> bool" where
  "signed_by N proposal owner jws \<longleftrightarrow> owner = ''all''
     \<or> (ne_NewDidManager N owner = None \<and> \<not> isl proposal \<and> ne_VerifyJWS N owner (projr proposal) jws = None)"

lemma validSignature_None: "validSignature N proposal owner jws = None \<longleftrightarrow> signed_by N proposal owner jws"
  by (auto simp: validSignature_def signed_by_def split: option.splits sum.splits)



section \<open>The faults that are reported\<close>

definition faults_in :: "(string \<times> Fault list) list \<Rightarrow> (string \<times> Fault) set" where
  "faults_in m = {(p, f). \<exists>fs. (p, fs) \<in> set m \<and> f \<in> set fs}"

definition failing_shards :: "('g, 'c, 'l, 'b, 'x, 's, 'j, 'i, 'p) NodeEnv \<Rightarrow> Metadata \<Rightarrow> (string \<times> ShardMeta) list \<Rightarrow> (string \<times> Fault) set" where
  "failing_shards N meta shards = {(p, f). \<exists>shard. (p, shard) \<in> set shards \<and> f = shard_fault N meta p shard
     \<and> shard_check N meta p (sm_Cid shard) (sm_Peer shard) = Some False}"

definition failing :: "('g, 'c, 'l, 'b, 'x, 's, 'j, 'i, 'p) NodeEnv \<Rightarrow> string list \<Rightarrow> (string \<times> Fault) set" where
  "failing N dataIds = {x. \<exists>dataId \<in> set dataIds. \<exists>meta. ch_GetMeta (ne_chain N) dataId = Inr meta
     \<and> x \<in> failing_shards N meta (ch_MetaShards (ne_chain N) dataId)}"

lemma faults_in_map_of: "distinct (map fst m) \<Longrightarrow> faults_in m = {(p, f). \<exists>fs. map_of m p = Some fs \<and> f \<in> set fs}"
  by (auto simp: faults_in_def)

lemma add_fault_keys: "distinct (map fst m) \<Longrightarrow> distinct (map fst (add_fault p f m))"
  by (simp add: add_fault_def distinct_update)

lemma add_fault_in:
  assumes "distinct (map fst m)"
  shows "faults_in (add_fault p f m) = insert (p, f) (faults_in m)"
proof -
  have "map_of (add_fault p f m) q = (if q = p then Some ((case map_of m p of None \<Rightarrow> [] | Some fs \<Rightarrow> fs) @ [f]) else map_of m q)" for q
    by (simp add: add_fault_def update_conv')
  then show ?thesis
    unfolding faults_in_map_of [OF assms] faults_in_map_of [OF add_fault_keys [OF assms]]
    by (auto simp del: map_of_eq_Some_iff split: option.splits if_splits)
qed

lemma check_shards_faults:
  assumes "check_shards N meta shards m = Return m'" and "distinct (map fst m)"
  shows "distinct (map fst m') \<and> faults_in m' = faults_in m \<union> failing_shards N meta shards"
  using assms
proof (induction N meta shards m rule: check_shards.induct)
  case (2 N meta provider shard shards m)
  have "failing_shards N meta ((provider, shard) # shards) =
      (if shard_check N meta provider (sm_Cid shard) (sm_Peer shard) = Some False then {(provider, shard_fault N meta provider shard)} else {})
      \<union> failing_shards N meta shards" by (auto simp: failing_shards_def)
  with 2 show ?case by (auto simp: add_fault_keys add_fault_in split: if_splits)
qed (simp add: failing_shards_def)

lemma check_data_faults:
  assumes "check_data N dataIds m = Return m'" and "distinct (map fst m)"
  shows "distinct (map fst m') \<and> faults_in m' = faults_in m \<union> failing N dataIds"
  using assms
proof (induction dataIds arbitrary: m)
  case (Cons dataId dataIds)
  have cons: "failing N (dataId # dataIds) = (case ch_GetMeta (ne_chain N) dataId of Inl _ \<Rightarrow> {}
      | Inr meta \<Rightarrow> failing_shards N meta (ch_MetaShards (ne_chain N) dataId)) \<union> failing N dataIds"
    by (auto simp: failing_def split: sum.splits)
  show ?case
  proof (cases "ch_GetMeta (ne_chain N) dataId")
    case (Inr meta)
    with Cons.prems(1) obtain m1 where "check_shards N meta (ch_MetaShards (ne_chain N) dataId) m = Return m1" "check_data N dataIds m1 = Return m'"
      by (auto simp: bind_outcome_Return)
    with check_shards_faults Cons cons Inr show ?thesis by fastforce
  qed (use Cons cons in simp)
qed (simp add: failing_def)



text \<open>A provider that delivers its fragment, with the fragment's own identifier, fails the check.\<close>

lemma fragment_fails_check:
  assumes "ne_FetchShard N provider (sm_Cid shard) (sm_Peer shard) (md_DataId meta) (md_OrderId meta) = Some resp" and "slr_Code resp = 0"
    and "CalculateCid (ne_Sum N) (slice (slr_Content resp)) = Inr c" and "ne_cid_String N c = sm_Cid shard" and "sm_Cid shard \<noteq> md_Cid meta"
  shows "(provider, shard_fault N meta provider shard) \<in> failing_shards N meta [(provider, shard)]"
  using assms by (simp add: failing_shards_def shard_check_def)

end
