(* ===== verification/Address_Pool.thy ===== *)
theory Address_Pool
  imports Go_Errors "HOL-Library.AList"
begin

text \<open>
  The pool of addresses the node signs transactions with (\<^verbatim>\<open>src/chain/tx_addr_pool.go\<close>) and the accounts behind it
  (\<^verbatim>\<open>src/chain/account.go\<close>).  The keyring and the generation of mnemonics are third-party code: \<open>keyring_ops\<close>.  A pool is a Go
  map from addresses to their status; \<^verbatim>\<open>rand.Intn\<close> is the parameter \<open>intn\<close>.

  Transactions run concurrently: \<open>pool_step\<close> is a transaction that takes an address, or one that ends and gives it back, and
  the state has the addresses of the transactions in flight.  In every reachable state no two of them share an
  address, and every address that is in use belongs to one of them, as long as the node's own address is not in the
  pool: a transaction that got the node's own address does not give it back.
\<close>

section \<open>Accounts\<close>

definition ADDRESS_PREFIX :: string where "ADDRESS_PREFIX = ''sao''"

record ('k, 'a) keyring_ops =
  kr_Registry :: "'k \<Rightarrow> goerr option"
  kr_GetByName :: "'k \<Rightarrow> string \<Rightarrow> 'a res"
  kr_Address :: "'a \<Rightarrow> string \<Rightarrow> string res"
  kr_SigningAlgo :: "'k \<Rightarrow> goerr option"
  kr_NewAccount :: "'k \<Rightarrow> string \<Rightarrow> string \<Rightarrow> 'a res \<times> 'k"
  kr_NewEntropy :: "'k \<Rightarrow> bytes res \<times> 'k"
  kr_NewMnemonic :: "bytes \<Rightarrow> string res"

definition wrap_err :: "sentinel \<Rightarrow> 'a res \<Rightarrow> 'a res" where
  "wrap_err s r = map_sum (\<lambda>err. Wrap s (Some err)) id r"

lemma wrap_err_Inr: "wrap_err s r = Inr x \<longleftrightarrow> r = Inr x" "Inr x = wrap_err s r \<longleftrightarrow> r = Inr x"
  by (cases r; auto simp: wrap_err_def)+

definition GetAddress :: "('k, 'a) keyring_ops \<Rightarrow> 'k \<Rightarrow> string \<Rightarrow> string res" where
  "GetAddress K k name =
     (case kr_Registry K k of
        Some err \<Rightarrow> Inl (Wrap ErrGetAddressFailed (Some err))
      | None \<Rightarrow>
          (case kr_GetByName K k name of
             Inl err \<Rightarrow> Inl (Wrap ErrGetAddressFailed (Some err))
           | Inr account \<Rightarrow> wrap_err ErrGetAddressFailed (kr_Address K account ADDRESS_PREFIX)))"

definition GenerateMnemonic :: "('k, 'a) keyring_ops \<Rightarrow> 'k \<Rightarrow> string res \<times> 'k" where
  "GenerateMnemonic K k =
     (case kr_NewEntropy K k of
        (Inl err, k') \<Rightarrow> (Inl (Wrap ErrGenerateMnemonicFailed (Some err)), k')
      | (Inr entropySeed, k') \<Rightarrow> (wrap_err ErrGenerateMnemonicFailed (kr_NewMnemonic K entropySeed), k'))"

definition GenerateAccount :: "('k, 'a) keyring_ops \<Rightarrow> 'k \<Rightarrow> string \<Rightarrow> string \<Rightarrow> string res \<times> 'k" where
  "GenerateAccount K k name mnemonic =
     (case kr_Registry K k of
        Some err \<Rightarrow> (Inl (Wrap ErrCreateAccountFailed (Some err)), k)
      | None \<Rightarrow>
          (case kr_SigningAlgo K k of
             Some err \<Rightarrow> (Inl (Wrap ErrCreateAccountFailed (Some err)), k)
           | None \<Rightarrow>
               (case kr_NewAccount K k name mnemonic of
                  (Inl err, k') \<Rightarrow> (Inl (Wrap ErrCreateAccountFailed (Some err)), k')
                | (Inr account, k') \<Rightarrow> (wrap_err ErrCreateAccountFailed (kr_Address K account ADDRESS_PREFIX), k'))))"

section \<open>Creating and loading a pool\<close>

definition tx_addr :: "nat \<Rightarrow> string" where
  "tx_addr i = ''tx_addr_'' @ show_nat i"

definition generateAddressFromMnemonic :: "('k, 'a) keyring_ops \<Rightarrow> 'k \<Rightarrow> string \<Rightarrow> nat \<Rightarrow> string res \<times> 'k" where
  "generateAddressFromMnemonic K k mnemonic index = GenerateAccount K k (tx_addr index) mnemonic"

text \<open>One address: kept when the keyring has it, generated otherwise.\<close>

definition create_address :: "('k, 'a) keyring_ops \<Rightarrow> nat \<Rightarrow> 'k \<Rightarrow> goerr option \<times> 'k" where
  "create_address K i k =
     (case GetAddress K k (tx_addr i) of
        Inr _ \<Rightarrow> (None, k)
      | Inl _ \<Rightarrow>
          (case GenerateMnemonic K k of
             (Inl err, k') \<Rightarrow> (Some err, k')
           | (Inr mnemonic, k') \<Rightarrow>
               (case generateAddressFromMnemonic K k' mnemonic i of (r, k'') \<Rightarrow> (err_of r, k''))))"

fun create_addresses :: "('k, 'a) keyring_ops \<Rightarrow> nat list \<Rightarrow> 'k \<Rightarrow> goerr option \<times> 'k" where
  "create_addresses K [] k = (None, k)"
| "create_addresses K (i # is) k =
     (case create_address K i k of
        (Some err, k') \<Rightarrow> (Some err, k')
      | (None, k') \<Rightarrow> create_addresses K is k')"

definition CreateAddressPool :: "('k, 'a) keyring_ops \<Rightarrow> nat \<Rightarrow> 'k \<Rightarrow> goerr option \<times> 'k" where
  "CreateAddressPool K sz k = create_addresses K (0 # [1..<sz]) k"

record AddressPool =
  ap_Addresses :: "(string \<times> string) list"
  ap_RootAddress :: string

definition Available :: string where "Available = ''Available''"

definition InUse :: string where "InUse = ''InUse''"

definition Root :: string where "Root = ''root''"

definition load_address :: "('k, 'a) keyring_ops \<Rightarrow> 'k \<Rightarrow> nat \<Rightarrow> (string \<times> string) list \<Rightarrow> (string \<times> string) list" where
  "load_address K k i addresses =
     (case GetAddress K k (tx_addr i) of Inl _ \<Rightarrow> addresses | Inr address \<Rightarrow> AList.update address Available addresses)"

definition LoadAddressPool :: "('k, 'a) keyring_ops \<Rightarrow> 'k \<Rightarrow> nat \<Rightarrow> AddressPool option res" where
  "LoadAddressPool K k sz =
     (if sz = 0 then Inr None
      else
        (case GetAddress K k (tx_addr 0) of
           Inl err \<Rightarrow> Inl err
         | Inr rootAddress \<Rightarrow>
             Inr (Some \<lparr>ap_Addresses = fold (load_address K k) [1..<sz] [(rootAddress, Available)], ap_RootAddress = rootAddress\<rparr>)))"

section \<open>Taking and giving back addresses\<close>

definition SetRootAddress :: "AddressPool \<Rightarrow> string \<Rightarrow> AddressPool" where
  "SetRootAddress ap address = ap\<lparr>ap_RootAddress := address, ap_Addresses := AList.update address Root (ap_Addresses ap)\<rparr>"

definition available :: "AddressPool \<Rightarrow> string list" where
  "available p = map fst (filter (\<lambda>(_, status). status = Available) (ap_Addresses p))"

definition GetRandomAddress :: "(nat \<Rightarrow> nat) \<Rightarrow> AddressPool \<Rightarrow> string res \<times> AddressPool" where
  "GetRandomAddress intn p =
     (if ap_Addresses p = [] then (Inl (ErrText ''address pool is empty''), p)
      else if available p = [] then (Inl (ErrText ''no available addresses''), p)
      else
        (let randomAddress = available p ! intn (length (available p))
         in (Inr randomAddress, p\<lparr>ap_Addresses := AList.update randomAddress InUse (ap_Addresses p)\<rparr>)))"

definition SetAddressAvailable :: "AddressPool \<Rightarrow> string \<Rightarrow> goerr option \<times> AddressPool" where
  "SetAddressAvailable p address =
     (case map_of (ap_Addresses p) address of
        None \<Rightarrow> (Some (ErrText ''address not found in pool''), p)
      | Some status \<Rightarrow>
          if status \<noteq> InUse then (Some (ErrText ''address is not in use''), p)
          else (None, p\<lparr>ap_Addresses := AList.update address Available (ap_Addresses p)\<rparr>))"

section \<open>Transactions in flight\<close>

text \<open>\<open>provider\<close> is the node's own address, which a transaction does not give back.\<close>

inductive pool_step :: "string \<Rightarrow> AddressPool \<times> string list \<Rightarrow> AddressPool \<times> string list \<Rightarrow> bool" for provider where
  take: "(\<And>n. 0 < n \<Longrightarrow> intn n < n) \<Longrightarrow> GetRandomAddress intn p = (Inr address, p') \<Longrightarrow>
     pool_step provider (p, flight) (p', address # flight)"
| give: "address \<in> set flight \<Longrightarrow> address \<noteq> provider \<Longrightarrow> SetAddressAvailable p address = (e, p') \<Longrightarrow>
     pool_step provider (p, flight) (p', remove1 address flight)"
| keep: "provider \<in> set flight \<Longrightarrow> pool_step provider (p, flight) (p, remove1 provider flight)"

inductive_cases pool_stepE: "pool_step provider (p, flight) s"

definition status_of :: "AddressPool \<Rightarrow> string \<Rightarrow> string option" where
  "status_of p a = map_of (ap_Addresses p) a"

definition loaded :: "AddressPool \<Rightarrow> bool" where
  "loaded p \<longleftrightarrow> distinct (map fst (ap_Addresses p)) \<and> list_all (\<lambda>(_, status). status = Available) (ap_Addresses p)"

text \<open>The invariant: the keys of the map are distinct, an address in flight is in use, and an address in use is in
  flight or the node's own.\<close>

definition pool_inv :: "string \<Rightarrow> AddressPool \<times> string list \<Rightarrow> bool" where
  "pool_inv provider s \<longleftrightarrow> (case s of (p, flight) \<Rightarrow> distinct (map fst (ap_Addresses p)) \<and> distinct flight
     \<and> (\<forall>a. status_of p a \<in> {None, Some Available, Some InUse})
     \<and> (\<forall>a \<in> set flight. status_of p a = Some InUse)
     \<and> (\<forall>a. status_of p a = Some InUse \<longrightarrow> a \<in> set flight \<or> a = provider))"

lemma statuses_differ [simp]: "Available \<noteq> InUse" "InUse \<noteq> Available"
  by (simp_all add: Available_def InUse_def)

lemma available_status:
  assumes "distinct (map fst (ap_Addresses p))"
  shows "a \<in> set (available p) \<longleftrightarrow> status_of p a = Some Available"
  using assms by (force simp: available_def status_of_def dest: map_of_SomeD intro: map_of_is_SomeI)

lemma status_of_update [simp]:
  "status_of (p\<lparr>ap_Addresses := AList.update a st (ap_Addresses p)\<rparr>) = (status_of p)(a \<mapsto> st)"
  by (simp add: status_of_def fun_eq_iff update_conv')

lemma GetRandomAddress_takes:
  assumes "GetRandomAddress intn p = (Inr a, p')" and "\<And>n. 0 < n \<Longrightarrow> intn n < n" and "distinct (map fst (ap_Addresses p))"
  shows "status_of p a = Some Available \<and> p' = p\<lparr>ap_Addresses := AList.update a InUse (ap_Addresses p)\<rparr>"
proof -
  from assms(1) have ne: "available p \<noteq> []" and a: "a = available p ! intn (length (available p))"
    and p': "p' = p\<lparr>ap_Addresses := AList.update a InUse (ap_Addresses p)\<rparr>"
    by (auto simp: GetRandomAddress_def Let_def split: if_splits)
  from a ne assms(2) have "a \<in> set (available p)" by simp
  with p' available_status [OF assms(3)] show ?thesis by simp
qed

lemma pool_step_inv: "pool_step provider s s' \<Longrightarrow> pool_inv provider s \<Longrightarrow> pool_inv provider s'"
proof (induction rule: pool_step.induct)
  case (take intn p address p' flight)
  from take.prems have d: "distinct (map fst (ap_Addresses p))" by (simp add: pool_inv_def)
  from GetRandomAddress_takes [OF take.hyps(2) _ d] take.hyps(1) have t: "status_of p address = Some Available"
    "p' = p\<lparr>ap_Addresses := AList.update address InUse (ap_Addresses p)\<rparr>" by auto
  from take.prems t(1) have "address \<notin> set flight" by (auto simp: pool_inv_def)
  with take.prems t show ?case by (auto simp: pool_inv_def distinct_update)
next
  case (give address flight p e p')
  from give.prems give.hyps(1) have "status_of p address = Some InUse" by (auto simp: pool_inv_def)
  with give.hyps(3) have "p' = p\<lparr>ap_Addresses := AList.update address Available (ap_Addresses p)\<rparr>"
    by (auto simp: SetAddressAvailable_def status_of_def)
  with give.prems give.hyps(2) show ?case by (auto simp: pool_inv_def distinct_update)
next
  case (keep flight p)
  then show ?case by (auto simp: pool_inv_def dest: in_set_remove1)
qed

lemma pool_steps_inv: "(pool_step provider)\<^sup>*\<^sup>* s s' \<Longrightarrow> pool_inv provider s \<Longrightarrow> pool_inv provider s'"
  by (induction rule: rtranclp_induct) (auto intro: pool_step_inv)

lemma loaded_inv: "loaded p \<Longrightarrow> pool_inv provider (p, [])"
  by (auto simp: loaded_def pool_inv_def status_of_def list_all_iff dest: map_of_SomeD split: option.splits)

lemma pool_step_keys: "pool_step provider s s' \<Longrightarrow> pool_inv provider s \<Longrightarrow> dom (status_of (fst s')) = dom (status_of (fst s))"
proof (induction rule: pool_step.induct)
  case (take intn p address p' flight)
  from take.prems have "distinct (map fst (ap_Addresses p))" by (simp add: pool_inv_def)
  from GetRandomAddress_takes [OF take.hyps(2) take.hyps(1) this] show ?case by (auto split: if_splits)
qed (auto simp: SetAddressAvailable_def status_of_def update_conv' split: option.splits if_splits)

lemma pool_steps_keys:
  assumes "(pool_step provider)\<^sup>*\<^sup>* s s'" and "pool_inv provider s"
  shows "dom (status_of (fst s')) = dom (status_of (fst s))"
  using assms by (induction rule: rtranclp_induct) (blast dest: pool_step_keys [OF _ pool_steps_inv])+

section \<open>The contract of a keyring\<close>

text \<open>\<open>named k\<close> are the accounts of the keyring by name.\<close>

locale account_keyring =
  fixes K :: "('k, 'a) keyring_ops" and named :: "'k \<Rightarrow> string \<Rightarrow> 'a option"
  assumes get_by_name: "\<And>k n a. kr_GetByName K k n = Inr a \<longleftrightarrow> named k n = Some a"
    and new_account: "\<And>k n m a k'. kr_NewAccount K k n m = (Inr a, k') \<Longrightarrow> named k' = (named k)(n \<mapsto> a)"
    and new_entropy: "\<And>k r k'. kr_NewEntropy K k = (r, k') \<Longrightarrow> named k' = named k"
    and registry: "\<And>k n m r k'. kr_NewAccount K k n m = (r, k') \<Longrightarrow> kr_Registry K k' = kr_Registry K k"
      "\<And>k r k'. kr_NewEntropy K k = (r, k') \<Longrightarrow> kr_Registry K k' = kr_Registry K k"
begin

lemma GetAddress_named:
  "GetAddress K k n = Inr a \<longleftrightarrow> kr_Registry K k = None \<and> (\<exists>acc. named k n = Some acc \<and> kr_Address K acc ADDRESS_PREFIX = Inr a)"
proof (cases "kr_GetByName K k n")
  case (Inl e)
  then have "named k n = None" using get_by_name [of k n] by (metis Inl_Inr_False not_None_eq)
  with Inl show ?thesis by (auto simp: GetAddress_def split: option.splits)
next
  case (Inr acc)
  then have "named k n = Some acc" using get_by_name by blast
  with Inr show ?thesis by (auto simp: GetAddress_def wrap_err_Inr split: option.splits)
qed

lemma create_address_named:
  assumes "create_address K i k = (None, k')"
  shows "\<exists>a. GetAddress K k' (tx_addr i) = Inr a \<and> (\<forall>n b. n \<noteq> tx_addr i \<longrightarrow> GetAddress K k n = Inr b \<longrightarrow> GetAddress K k' n = Inr b)"
proof (cases "GetAddress K k (tx_addr i)")
  case (Inl e)
  with assms obtain mnemonic k1 a where g: "GenerateMnemonic K k = (Inr mnemonic, k1)" and n: "GenerateAccount K k1 (tx_addr i) mnemonic = (Inr a, k')"
    by (auto simp: create_address_def generateAddressFromMnemonic_def err_of_def split: prod.splits sum.splits)
  from g have k1: "named k1 = named k" "kr_Registry K k1 = kr_Registry K k"
    using new_entropy registry(2) by (auto simp: GenerateMnemonic_def split: prod.splits sum.splits)
  from n obtain acc where acc: "kr_NewAccount K k1 (tx_addr i) mnemonic = (Inr acc, k')" "kr_Address K acc ADDRESS_PREFIX = Inr a" "kr_Registry K k1 = None"
    by (auto simp: GenerateAccount_def wrap_err_Inr split: prod.splits sum.splits option.splits)
  from new_account [OF acc(1)] registry(1) [OF acc(1)] acc k1 show ?thesis by (auto simp: GetAddress_named)
qed (use assms in \<open>auto simp: create_address_def\<close>)

lemma create_addresses_named:
  assumes "create_addresses K is k = (None, k')" and "distinct is" and "i \<in> set is"
  shows "\<exists>a. GetAddress K k' (tx_addr i) = Inr a"
proof -
  have keep: "GetAddress K k' (tx_addr j) = Inr b"
    if "create_addresses K js k = (None, k')" "j \<notin> set js" "GetAddress K k (tx_addr j) = Inr b" for js j b k
    using that
  proof (induction js arbitrary: k)
    case (Cons l js)
    then obtain k1 where k1: "create_address K l k = (None, k1)" "create_addresses K js k1 = (None, k')" by (auto split: prod.splits option.splits)
    with Cons.prems create_address_named [OF k1(1)] have "GetAddress K k1 (tx_addr j) = Inr b" by (auto simp: tx_addr_def)
    with Cons k1 show ?case by simp
  qed simp
  from assms show ?thesis
  proof (induction "is" arbitrary: k)
    case (Cons l js)
    then obtain k1 where k1: "create_address K l k = (None, k1)" "create_addresses K js k1 = (None, k')" by (auto split: prod.splits option.splits)
    from create_address_named [OF k1(1)] obtain a where "GetAddress K k1 (tx_addr l) = Inr a" by blast
    with keep [OF k1(2)] Cons k1 show ?case by (cases "i = l") auto
  qed simp
qed

end

lemma load_address_step:
  assumes "distinct (map fst addresses)" and "\<forall>x \<in> set addresses. snd x = Available"
  shows "distinct (map fst (load_address K k j addresses))" "\<forall>x \<in> set (load_address K k j addresses). snd x = Available"
    "fst ` set (load_address K k j addresses) = fst ` set addresses \<union> {a. GetAddress K k (tx_addr j) = Inr a}"
proof -
  have "set (AList.update b Available xs) \<subseteq> insert (b, Available) (set xs)" for b and xs :: "(string \<times> string) list"
    by (induction xs) auto
  with assms show "distinct (map fst (load_address K k j addresses))" "\<forall>x \<in> set (load_address K k j addresses). snd x = Available"
    by (fastforce simp: load_address_def distinct_update split: sum.splits)+
  show "fst ` set (load_address K k j addresses) = fst ` set addresses \<union> {a. GetAddress K k (tx_addr j) = Inr a}"
    by (auto simp: load_address_def dom_update split: sum.splits)
qed

lemma load_addresses:
  assumes "distinct (map fst addresses)" and "\<forall>x \<in> set addresses. snd x = Available"
  shows "distinct (map fst (fold (load_address K k) is addresses)) \<and> (\<forall>x \<in> set (fold (load_address K k) is addresses). snd x = Available)
    \<and> fst ` set (fold (load_address K k) is addresses) = fst ` set addresses \<union> {a. \<exists>i \<in> set is. GetAddress K k (tx_addr i) = Inr a}"
  using assms
proof (induction "is" arbitrary: addresses)
  case (Cons j js)
  note step = load_address_step [OF Cons.prems, of K k j]
  from Cons.IH [OF step(1,2)] step(3) show ?case by auto
qed simp

section \<open>Properties\<close>

text \<open>C22. From a loaded pool, in every state of the concurrent transactions: no two transactions in flight have the same
  address, every address of the pool is available or in use and their set never changes, and, when the node's own
  address is not in the pool, exactly the addresses in flight are in use, so that the pool fails to give an address only
  when all are in flight.\<close>

theorem pool_exclusive:
  assumes "loaded p0" and "(pool_step provider)\<^sup>*\<^sup>* (p0, []) (p, flight)"
  shows "distinct flight \<and> dom (status_of p) = dom (status_of p0) \<and> ran (status_of p) \<subseteq> {Available, InUse}
    \<and> (status_of p0 provider = None \<longrightarrow> {a. status_of p a = Some InUse} = set flight
         \<and> (isl (fst (GetRandomAddress intn p)) \<longleftrightarrow> dom (status_of p0) \<subseteq> set flight))"
proof -
  note inv = pool_steps_inv [OF assms(2) loaded_inv [OF assms(1)]]
  have keys: "dom (status_of p) = dom (status_of p0)" using pool_steps_keys [OF assms(2) loaded_inv [OF assms(1)]] by simp
  from inv have d: "distinct (map fst (ap_Addresses p))" by (simp add: pool_inv_def)
  have empty: "isl (fst (GetRandomAddress intn p)) \<longleftrightarrow> available p = []"
    by (auto simp: GetRandomAddress_def available_def Let_def)
  from inv have ty: "status_of p a \<in> {None, Some Available, Some InUse}" for a by (simp add: pool_inv_def)
  have own: "{a. status_of p a = Some InUse} = set flight" if "status_of p0 provider = None"
  proof -
    from that keys have "status_of p provider = None" by (metis domIff)
    with inv show ?thesis by (auto simp: pool_inv_def)
  qed
  have "available p = [] \<longleftrightarrow> (\<forall>a. status_of p a \<noteq> Some Available)" 
  proof -
    have "available p = [] \<longleftrightarrow> (\<forall>a. a \<notin> set (available p))" by (cases "available p") auto
    then show ?thesis by (simp only: available_status [OF d])
  qed
  also have "\<dots> \<longleftrightarrow> dom (status_of p) \<subseteq> {a. status_of p a = Some InUse}"
  proof
    assume A: "\<forall>a. status_of p a \<noteq> Some Available"
    have "status_of p x = Some InUse" if "status_of p x = Some y" for x y using ty [of x] A that by auto
    then show "dom (status_of p) \<subseteq> {a. status_of p a = Some InUse}" by auto
  next
    assume "dom (status_of p) \<subseteq> {a. status_of p a = Some InUse}"
    then show "\<forall>a. status_of p a \<noteq> Some Available" by (auto simp: dom_def)
  qed
  finally have none: "available p = [] \<longleftrightarrow> dom (status_of p0) \<subseteq> {a. status_of p a = Some InUse}" by (simp add: keys)
  have "ran (status_of p) \<subseteq> {Available, InUse}"
  proof
    fix x assume "x \<in> ran (status_of p)"
    then obtain a where "status_of p a = Some x" by (auto simp: ran_def)
    with ty [of a] show "x \<in> {Available, InUse}" by auto
  qed
  moreover have "distinct flight" using inv by (simp add: pool_inv_def)
  ultimately show ?thesis using keys empty none own by simp
qed

definition sample_pool :: AddressPool where
  "sample_pool = \<lparr>ap_Addresses = [(''sao1a'', Available), (''sao1b'', Available)], ap_RootAddress = ''sao1a''\<rparr>"

lemma sample_take:
  "GetRandomAddress (\<lambda>_. 0) sample_pool = (Inr ''sao1a'', sample_pool\<lparr>ap_Addresses := [(''sao1a'', InUse), (''sao1b'', Available)]\<rparr>)"
  by (simp add: GetRandomAddress_def available_def sample_pool_def Let_def)

lemma sample_flight:
  "(pool_step provider)\<^sup>*\<^sup>* (sample_pool, []) (sample_pool\<lparr>ap_Addresses := [(''sao1a'', InUse), (''sao1b'', Available)]\<rparr>, [''sao1a''])"
  using pool_step.take [OF _ sample_take, of provider "[]"] by auto

theorem pool_exclusive_witness:
  "{a. status_of (sample_pool\<lparr>ap_Addresses := [(''sao1a'', InUse), (''sao1b'', Available)]\<rparr>) a = Some InUse} = {''sao1a''}"
proof -
  have "loaded sample_pool" "status_of sample_pool ''sao1n'' = None" by (simp_all add: loaded_def sample_pool_def status_of_def)
  with pool_exclusive [OF _ sample_flight, of "''sao1n''"] show ?thesis by simp
qed

text \<open>An address of the pool that is the node's own is lost after its first transaction: once it is in use and no
  transaction holds it, it stays in use in every later state and is never given to a transaction again.\<close>

theorem pool_own_address_lost:
  assumes "distinct (map fst (ap_Addresses p))" and "status_of p provider = Some InUse" and "provider \<notin> set flight"
    and "(pool_step provider)\<^sup>*\<^sup>* (p, flight) (p', flight')"
  shows "status_of p' provider = Some InUse \<and> provider \<notin> set flight'"
proof -
  have "distinct (map fst (ap_Addresses (fst s))) \<and> status_of (fst s) provider = Some InUse \<and> provider \<notin> set (snd s)"
    if "(pool_step provider)\<^sup>*\<^sup>* (p, flight) s" for s
    using that
  proof (induction rule: rtranclp_induct)
    case (step y z)
    from step.hyps(2) step.IH show ?case
    proof (induction rule: pool_step.induct)
      case (take intn q address q' fl)
      then show ?case using GetRandomAddress_takes [OF take.hyps(2,1)] by (auto simp: distinct_update)
    next
      case (give address fl q e q')
      then show ?case by (auto simp: SetAddressAvailable_def distinct_update dest: in_set_remove1 notin_set_remove1 split: option.splits if_splits)
    qed auto
  qed (use assms in auto)
  from this [OF assms(4)] show ?thesis by simp
qed

theorem pool_own_address_lost_witness:
  "\<exists>p. (pool_step ''sao1a'')\<^sup>*\<^sup>* (sample_pool, []) (p, []) \<and> status_of p ''sao1a'' = Some InUse
    \<and> (\<forall>p' flight'. (pool_step ''sao1a'')\<^sup>*\<^sup>* (p, []) (p', flight') \<longrightarrow> ''sao1a'' \<notin> set flight')"
proof -
  let ?p = "sample_pool\<lparr>ap_Addresses := [(''sao1a'', InUse), (''sao1b'', Available)]\<rparr>"
  have "pool_step ''sao1a'' (?p, [''sao1a'']) (?p, [])" using pool_step.keep [of "''sao1a''" "[''sao1a'']" ?p] by simp
  with sample_flight [of "''sao1a''"] have "(pool_step ''sao1a'')\<^sup>*\<^sup>* (sample_pool, []) (?p, [])" by (rule rtranclp.rtrancl_into_rtrancl)
  moreover have lost: "distinct (map fst (ap_Addresses ?p))" "status_of ?p ''sao1a'' = Some InUse" "''sao1a'' \<notin> set []" by (simp_all add: status_of_def)
  ultimately show ?thesis using pool_own_address_lost [OF lost] by blast
qed

text \<open>C23. A pool that was created can be loaded: it then has one available entry for each of its accounts and no other.\<close>

theorem CreateAddressPool_LoadAddressPool:
  assumes "account_keyring K named" and "CreateAddressPool K sz k = (None, k')" and "0 < sz"
  shows "\<exists>p. LoadAddressPool K k' sz = Inr (Some p) \<and> loaded p
    \<and> (\<forall>i < sz. \<exists>a. GetAddress K k' (tx_addr i) = Inr a \<and> status_of p a = Some Available)
    \<and> dom (status_of p) = {a. \<exists>i < sz. GetAddress K k' (tx_addr i) = Inr a}"
proof -
  have idx: "set (0 # [1..<sz]) = {i. i < sz}" using assms(3) by auto
  have addr: "\<exists>a. GetAddress K k' (tx_addr i) = Inr a" if "i < sz" for i
  proof -
    from that idx have "i \<in> set (0 # [1..<sz])" by blast
    then show ?thesis using account_keyring.create_addresses_named [OF assms(1) assms(2) [unfolded CreateAddressPool_def]] by simp
  qed
  then obtain root where root: "GetAddress K k' (tx_addr 0) = Inr root" using assms(3) by blast
  define p where "p = \<lparr>ap_Addresses = fold (load_address K k') [1..<sz] [(root, Available)], ap_RootAddress = root\<rparr>"
  note load = load_addresses [of "[(root, Available)]" K k' "[1..<sz]"]
  from load have ok: "loaded p" by (auto simp: p_def loaded_def list_all_iff)
  have "dom (status_of p) = fst ` set (ap_Addresses p)" by (simp add: status_of_def [abs_def] dom_map_of_conv_image_fst)
  also have "\<dots> = {root} \<union> {a. \<exists>i \<in> set [1..<sz]. GetAddress K k' (tx_addr i) = Inr a}" using load by (simp add: p_def)
  also have "\<dots> = {a. \<exists>i \<in> set (0 # [1..<sz]). GetAddress K k' (tx_addr i) = Inr a}" using root by auto
  finally have keys: "dom (status_of p) = {a. \<exists>i < sz. GetAddress K k' (tx_addr i) = Inr a}" unfolding idx by simp
  have "status_of p a = Some Available" if "a \<in> dom (status_of p)" for a
    using that ok by (auto simp: loaded_def list_all_iff status_of_def dest: map_of_SomeD)
  with addr keys have "\<forall>i < sz. \<exists>a. GetAddress K k' (tx_addr i) = Inr a \<and> status_of p a = Some Available" by blast
  with ok keys root assms(3) show ?thesis by (auto simp: LoadAddressPool_def p_def)
qed

text \<open>A keyring in memory: a map from names to addresses.\<close>

definition mem_keyring :: "(string \<Rightarrow> string option, string) keyring_ops" where
  "mem_keyring = \<lparr>kr_Registry = (\<lambda>_. None), kr_GetByName = (\<lambda>k n. case k n of None \<Rightarrow> Inl (ErrText ''not found'') | Some a \<Rightarrow> Inr a),
     kr_Address = (\<lambda>a prefix. Inr (prefix @ a)), kr_SigningAlgo = (\<lambda>_. None), kr_NewAccount = (\<lambda>k n m. (Inr n, k(n \<mapsto> n))),
     kr_NewEntropy = (\<lambda>k. (Inr [], k)), kr_NewMnemonic = (\<lambda>_. Inr ''word'')\<rparr>"

interpretation mem_keyring: account_keyring mem_keyring "\<lambda>k n. k n"
  by unfold_locales (auto simp: mem_keyring_def split: option.splits)

theorem CreateAddressPool_LoadAddressPool_witness:
  "\<exists>k p. CreateAddressPool mem_keyring 2 Map.empty = (None, k) \<and> LoadAddressPool mem_keyring k 2 = Inr (Some p) \<and> loaded p"
proof -
  have "\<exists>k. CreateAddressPool mem_keyring 2 Map.empty = (None, k)"
    by (simp add: CreateAddressPool_def create_address_def GetAddress_def GenerateMnemonic_def generateAddressFromMnemonic_def GenerateAccount_def
        wrap_err_def err_of_def mem_keyring_def upt_rec split: option.splits)
  then show ?thesis using CreateAddressPool_LoadAddressPool [OF mem_keyring.account_keyring_axioms] by fastforce
qed

end
