(* ===== verification/Chain_Client.thy ===== *)
theory Chain_Client
  imports Chain_Api Address_Pool
begin

text \<open>
  The chain client (\<^verbatim>\<open>src/chain/chain.go\<close>, \<^verbatim>\<open>order.go\<close>, \<^verbatim>\<open>model.go\<close>, \<^verbatim>\<open>node.go\<close>, \<^verbatim>\<open>did.go\<close>): transactions, which are broadcast by one loop
  for each signer, and queries.  The Cosmos client below it is third-party code: \<open>Cosmos\<close> has its answers and the decoding of
  the chain's responses, \<open>Queries\<close> the answers of its query clients.  A transaction of a provider that has a pool takes
  an address of the pool as its signer and gives it back; the state \<open>ChainClient\<close> has the pool, the signers whose
  loop runs and, as a trace, every message that was handed to the network with its signer.  A call returns when its
  loop has answered, so a call is one step here; the interleaving of transactions on the pool is in \<open>Address_Pool\<close>.
\<close>

section \<open>Messages and answers\<close>

datatype tx_msg =
    MsgReady string u64 string
  | MsgStore string StoreProposal JwsSignature string
  | MsgComplete_tx string u64 string u64 string
  | MsgRenew string RenewProposal JwsSignature string
  | MsgMigrate string "string list" string
  | MsgTerminate string TerminateProposal JwsSignature string
  | MsgUpdataPermission string PermissionProposal JwsSignature string
  | MsgCreate string
  | MsgReset string string "32 word" "string list" "string option"
  | MsgClaimReward string
  | MsgReportFaults string string "Fault list"
  | MsgRecoverFaults string string "Fault list"
  | MsgAddVstorage string u64
  | MsgRemoveVstorage string u64
  | MsgUpdatePaymentAddress string string string

record TxResponse =
  tr_Code :: "32 word"
  tr_TxHash :: string
  tr_Height :: int
  tr_Data :: bytes

record Cosmos =
  co_Account :: "string \<Rightarrow> goerr option"
  co_BroadcastTx :: "string \<Rightarrow> tx_msg \<Rightarrow> TxResponse res"
  co_Intn :: "nat \<Rightarrow> nat"
  co_ReadyResponse :: "bytes \<Rightarrow> (u64 \<times> ShardMeta list) res"
  co_StoreResponse :: "bytes \<Rightarrow> (u64 \<times> ShardMeta list) res"
  co_RenewResponse :: "bytes \<Rightarrow> (string \<times> string) list res"
  co_MigrateResponse :: "bytes \<Rightarrow> (string \<times> string) list res"
  co_ReportFaultsResponse :: "bytes \<Rightarrow> string list res"

record ChainClient =
  cc_ap :: "AddressPool option"
  cc_broadcastChanMap :: "string list"
  cc_trace :: "(string \<times> tx_msg) list"

section \<open>Broadcasting\<close>

text \<open>One round of the loop of a signer.\<close>

definition broadcastLoop_one :: "Cosmos \<Rightarrow> string \<Rightarrow> tx_msg \<Rightarrow> ChainClient \<Rightarrow> TxResponse res \<times> ChainClient" where
  "broadcastLoop_one E signer msg cc =
     (case co_Account E signer of
        Some err \<Rightarrow> (Inl (Wrap ErrAccountNotFound (Some err)), cc)
      | None \<Rightarrow>
          (wrap_err ErrTxProcessFailed (co_BroadcastTx E signer msg), cc\<lparr>cc_trace := cc_trace cc @ [(signer, msg)]\<rparr>))"

definition broadcastMsg :: "Cosmos \<Rightarrow> string \<Rightarrow> tx_msg \<Rightarrow> ChainClient \<Rightarrow> TxResponse res \<times> ChainClient" where
  "broadcastMsg E signer msg cc =
     broadcastLoop_one E signer msg
       (if signer \<in> set (cc_broadcastChanMap cc) then cc else cc\<lparr>cc_broadcastChanMap := cc_broadcastChanMap cc @ [signer]\<rparr>)"

text \<open>What every transaction does with the answer.\<close>

definition tx_refused :: "string \<Rightarrow> TxResponse \<Rightarrow> goerr" where
  "tx_refused name resp =
     Wrapf ErrTxProcessFailed (name @ '' tx hash='' @ tr_TxHash resp @ '', code='' @ show_nat (unat (tr_Code resp)))"

definition transact ::
  "Cosmos \<Rightarrow> string \<Rightarrow> string \<Rightarrow> tx_msg \<Rightarrow> (TxResponse \<Rightarrow> 'a res) \<Rightarrow> ChainClient \<Rightarrow> 'a res \<times> ChainClient" where
  "transact E name signer msg answer cc =
     (case broadcastMsg E signer msg cc of
        (Inl err, cc') \<Rightarrow> (Inl (Wrap ErrTxProcessFailed (Some err)), cc')
      | (Inr resp, cc') \<Rightarrow> (if tr_Code resp \<noteq> 0 then Inl (tx_refused name resp) else answer resp, cc'))"

section \<open>Signers from the pool\<close>

text \<open>The deferred function of a transaction.\<close>

definition release :: "string \<Rightarrow> string \<Rightarrow> ChainClient \<Rightarrow> ChainClient" where
  "release provider txAddress cc =
     (case cc_ap cc of
        None \<Rightarrow> cc
      | Some p \<Rightarrow> if txAddress \<noteq> provider then cc\<lparr>cc_ap := Some (snd (SetAddressAvailable p txAddress))\<rparr> else cc)"

definition with_account :: "Cosmos \<Rightarrow> string \<Rightarrow> (ChainClient \<Rightarrow> 'a res \<times> ChainClient) \<Rightarrow> ChainClient \<Rightarrow> 'a res \<times> ChainClient" where
  "with_account E address body cc =
     (case co_Account E address of Some err \<Rightarrow> (Inl (Wrap ErrAccountNotFound (Some err)), cc) | None \<Rightarrow> body cc)"

text \<open>The start and the end of a transaction.  \<open>always\<close>: the account is checked without a pool too.  When no address is
  available the deferred function runs with the empty address.\<close>

definition with_signer ::
  "Cosmos \<Rightarrow> string \<Rightarrow> bool \<Rightarrow> (string \<Rightarrow> ChainClient \<Rightarrow> 'a res \<times> ChainClient) \<Rightarrow> ChainClient \<Rightarrow> 'a res \<times> ChainClient" where
  "with_signer E provider always body cc =
     (case cc_ap cc of
        None \<Rightarrow> if always then with_account E provider (body provider) cc else body provider cc
      | Some p \<Rightarrow>
          (case GetRandomAddress (co_Intn E) p of
             (Inl err, p') \<Rightarrow> (Inl (Wrap ErrAccountNotFound (Some err)), release provider [] (cc\<lparr>cc_ap := Some p'\<rparr>))
           | (Inr txAddress, p') \<Rightarrow>
               (case with_account E txAddress (body txAddress) (cc\<lparr>cc_ap := Some p'\<rparr>) of
                  (r, cc') \<Rightarrow> (r, release provider txAddress cc'))))"

section \<open>Transactions of the services\<close>

definition decode_failed :: "string \<Rightarrow> goerr \<Rightarrow> goerr" where
  "decode_failed name err = Wrapf ErrTxProcessFailed (''failed to decode '' @ name @ '', due to '' @ Error err)"

definition OrderReady :: "Cosmos \<Rightarrow> string \<Rightarrow> u64 \<Rightarrow> ChainClient \<Rightarrow> (u64 \<times> ShardMeta list \<times> string \<times> int) res \<times> ChainClient" where
  "OrderReady E provider orderId =
     with_signer E provider True (\<lambda>txAddress.
       transact E ''MsgReady'' txAddress (MsgReady txAddress orderId provider) (\<lambda>resp.
         case co_ReadyResponse E (tr_Data resp) of
           Inl err \<Rightarrow> Inl (decode_failed ''MsgReadyResponse'' err)
         | Inr (oid, shards) \<Rightarrow> Inr (oid, shards, tr_TxHash resp, tr_Height resp)))"

definition StoreOrder ::
  "Cosmos \<Rightarrow> string \<Rightarrow> StoreProposal \<times> JwsSignature \<Rightarrow> ChainClient \<Rightarrow> (u64 \<times> ShardMeta list \<times> string \<times> int) res \<times> ChainClient" where
  "StoreOrder E signer clientProposal =
     with_signer E signer False (\<lambda>txAddress.
       transact E ''MsgStore'' txAddress (MsgStore txAddress (fst clientProposal) (snd clientProposal) signer) (\<lambda>resp.
         case co_StoreResponse E (tr_Data resp) of
           Inl err \<Rightarrow> Inl (decode_failed ''MsgStoreResponse'' err)
         | Inr (oid, shards) \<Rightarrow> Inr (oid, shards, tr_TxHash resp, tr_Height resp)))"

definition CompleteOrder ::
  "(cid \<Rightarrow> string) \<Rightarrow> Cosmos \<Rightarrow> string \<Rightarrow> u64 \<Rightarrow> cid \<Rightarrow> u64 \<Rightarrow> ChainClient \<Rightarrow> (string \<times> int) res \<times> ChainClient" where
  "CompleteOrder cid_text E creator orderId c sz =
     with_signer E creator True (\<lambda>txAddress.
       transact E ''MsgComplete'' txAddress (MsgComplete_tx txAddress orderId (cid_text c) sz creator)
         (\<lambda>resp. Inr (tr_TxHash resp, tr_Height resp)))"

text \<open>A Go map of the entries of a response.\<close>

definition result_map :: "(string \<times> string) list \<Rightarrow> (string \<times> string) list" where
  "result_map result = fold (\<lambda>(k, v). AList.update k v) result []"

definition chain_RenewOrder ::
  "Cosmos \<Rightarrow> string \<Rightarrow> RenewProposal \<times> JwsSignature \<Rightarrow> ChainClient \<Rightarrow> (string \<times> (string \<times> string) list) res \<times> ChainClient" where
  "chain_RenewOrder E creator orderRenewProposal =
     with_signer E creator False (\<lambda>txAddress.
       transact E ''MsgRenew'' txAddress (MsgRenew txAddress (fst orderRenewProposal) (snd orderRenewProposal) creator) (\<lambda>resp.
         case co_RenewResponse E (tr_Data resp) of
           Inl err \<Rightarrow> Inl err
         | Inr result \<Rightarrow> Inr (tr_TxHash resp, result_map result)))"

definition MigrateOrder ::
  "Cosmos \<Rightarrow> string \<Rightarrow> string list \<Rightarrow> ChainClient \<Rightarrow> (string \<times> (string \<times> string) list \<times> int) res \<times> ChainClient" where
  "MigrateOrder E creator dataIds =
     with_signer E creator False (\<lambda>txAddress.
       transact E ''MsgMigrate'' txAddress (MsgMigrate txAddress dataIds creator) (\<lambda>resp.
         case co_MigrateResponse E (tr_Data resp) of
           Inl err \<Rightarrow> Inl err
         | Inr result \<Rightarrow> Inr (tr_TxHash resp, result_map result, tr_Height resp)))"

definition chain_TerminateOrder ::
  "Cosmos \<Rightarrow> string \<Rightarrow> TerminateProposal \<times> JwsSignature \<Rightarrow> ChainClient \<Rightarrow> string res \<times> ChainClient" where
  "chain_TerminateOrder E creator terminateProposal =
     with_signer E creator False (\<lambda>txAddress.
       transact E ''MsgTerminate'' txAddress (MsgTerminate txAddress (fst terminateProposal) (snd terminateProposal) creator)
         (\<lambda>resp. Inr (tr_TxHash resp)))"

definition chain_UpdatePermission ::
  "Cosmos \<Rightarrow> string \<Rightarrow> PermissionProposal \<times> JwsSignature \<Rightarrow> ChainClient \<Rightarrow> string res \<times> ChainClient" where
  "chain_UpdatePermission E signer proposal =
     with_signer E signer False (\<lambda>txAddress.
       transact E ''MsgUpdataPermission'' txAddress (MsgUpdataPermission txAddress (fst proposal) (snd proposal) signer)
         (\<lambda>resp. Inr (tr_TxHash resp)))"

section \<open>Transactions of the node's own account\<close>

definition chain_Create :: "Cosmos \<Rightarrow> string \<Rightarrow> ChainClient \<Rightarrow> string res \<times> ChainClient" where
  "chain_Create E creator = transact E ''MsgCreate'' creator (MsgCreate creator) (\<lambda>resp. Inr (tr_TxHash resp))"

text \<open>The description of a node is its text, \<open>None\<close> for a nil pointer.\<close>

definition chain_Reset ::
  "Cosmos \<Rightarrow> string \<Rightarrow> string \<Rightarrow> 32 word \<Rightarrow> string list \<Rightarrow> string option \<Rightarrow> ChainClient \<Rightarrow> string res \<times> ChainClient" where
  "chain_Reset E creator peerInfo status txAddresses description =
     with_account E creator
       (transact E ''MsgReset'' creator (MsgReset creator peerInfo status txAddresses description) (\<lambda>resp. Inr (tr_TxHash resp)))"

definition ClaimReward :: "Cosmos \<Rightarrow> string \<Rightarrow> ChainClient \<Rightarrow> string res \<times> ChainClient" where
  "ClaimReward E creator = transact E ''MsgClaimReward'' creator (MsgClaimReward creator) (\<lambda>resp. Inr (tr_TxHash resp))"

definition ReportFaults :: "Cosmos \<Rightarrow> string \<Rightarrow> string \<Rightarrow> Fault list \<Rightarrow> ChainClient \<Rightarrow> string list res \<times> ChainClient" where
  "ReportFaults E creator provider faults =
     transact E ''MsgReportFaults'' creator (MsgReportFaults creator provider faults) (\<lambda>resp.
       case co_ReportFaultsResponse E (tr_Data resp) of
         Inl err \<Rightarrow> Inl (decode_failed ''MsgReportFaultsResponse'' err)
       | Inr faultIds \<Rightarrow> Inr faultIds)"

definition RecoverFaults :: "Cosmos \<Rightarrow> string \<Rightarrow> string \<Rightarrow> Fault list \<Rightarrow> ChainClient \<Rightarrow> string list res \<times> ChainClient" where
  "RecoverFaults E creator provider faults =
     transact E ''MsgRecoverFaults'' creator (MsgRecoverFaults creator provider faults) (\<lambda>_. Inr [])"

definition AddVstorage :: "Cosmos \<Rightarrow> string \<Rightarrow> u64 \<Rightarrow> ChainClient \<Rightarrow> string res \<times> ChainClient" where
  "AddVstorage E creator sz =
     with_account E creator (transact E ''MsgAddVstorage'' creator (MsgAddVstorage creator sz) (\<lambda>resp. Inr (tr_TxHash resp)))"

definition RemoveVstorage :: "Cosmos \<Rightarrow> string \<Rightarrow> u64 \<Rightarrow> ChainClient \<Rightarrow> string res \<times> ChainClient" where
  "RemoveVstorage E creator sz =
     with_account E creator (transact E ''MsgRemoveVstorage'' creator (MsgRemoveVstorage creator sz) (\<lambda>resp. Inr (tr_TxHash resp)))"

definition UpdateDidBinding :: "Cosmos \<Rightarrow> string \<Rightarrow> string \<Rightarrow> string \<Rightarrow> ChainClient \<Rightarrow> string res \<times> ChainClient" where
  "UpdateDidBinding E creator did accountId =
     transact E ''MsgUpdatePaymentAddress'' creator (MsgUpdatePaymentAddress creator did accountId) (\<lambda>resp. Inr (tr_TxHash resp))"

definition SetAddressPool :: "AddressPool option \<Rightarrow> ChainClient \<Rightarrow> ChainClient" where
  "SetAddressPool ap cc = cc\<lparr>cc_ap := ap\<rparr>"

section \<open>Properties\<close>

text \<open>Who may sign for a provider: an available address of its pool, or itself without one.\<close>

definition can_sign :: "ChainClient \<Rightarrow> string \<Rightarrow> string \<Rightarrow> bool" where
  "can_sign cc provider a \<longleftrightarrow> (case cc_ap cc of None \<Rightarrow> a = provider | Some p \<Rightarrow> status_of p a = Some Available)"

text \<open>The contract of a transaction: the pool is as before, and either nothing was sent, with an error that has its reason in
  the pool or the accounts, or the message was sent once, by someone who may sign, and the call succeeds only if the
  network took it.\<close>

definition tx_sound :: "Cosmos \<Rightarrow> string \<Rightarrow> (string \<Rightarrow> tx_msg) \<Rightarrow> ChainClient \<Rightarrow> 'a res \<times> ChainClient \<Rightarrow> bool" where
  "tx_sound E provider msg cc out \<longleftrightarrow> (case out of (r, cc') \<Rightarrow>
     map_option status_of (cc_ap cc') = map_option status_of (cc_ap cc)
     \<and> (isl r \<and> cc_trace cc' = cc_trace cc \<and> ((\<nexists>a. can_sign cc provider a) \<or> (\<exists>a. can_sign cc provider a \<and> co_Account E a \<noteq> None))
        \<or> (\<exists>a. can_sign cc provider a \<and> co_Account E a = None \<and> cc_trace cc' = cc_trace cc @ [(a, msg a)]
              \<and> (isl r \<or> (\<exists>resp. co_BroadcastTx E a (msg a) = Inr resp \<and> tr_Code resp = 0)))))"

definition pool_ok :: "Cosmos \<Rightarrow> string \<Rightarrow> ChainClient \<Rightarrow> bool" where
  "pool_ok E provider cc \<longleftrightarrow> (\<forall>n > 0. co_Intn E n < n) \<and> (case cc_ap cc of None \<Rightarrow> True
     | Some p \<Rightarrow> distinct (map fst (ap_Addresses p)) \<and> status_of p provider = None \<and> status_of p [] = None)"

lemma transact_cases:
  "case transact E name a msg f cc of (r, cc') \<Rightarrow> cc_ap cc' = cc_ap cc
     \<and> (case co_Account E a of Some err \<Rightarrow> isl r \<and> cc_trace cc' = cc_trace cc
        | None \<Rightarrow> cc_trace cc' = cc_trace cc @ [(a, msg)] \<and> (isl r \<or> (\<exists>resp. co_BroadcastTx E a msg = Inr resp \<and> tr_Code resp = 0)))"
  by (auto simp: transact_def broadcastMsg_def broadcastLoop_one_def wrap_err_Inr split: option.splits sum.splits)

lemma release_keeps: "cc_trace (release provider a cc) = cc_trace cc"
  by (simp add: release_def split: option.split)

text \<open>An address that was taken and given back leaves the statuses as they were.\<close>

lemma release_taken:
  assumes "GetRandomAddress intn p = (Inr a, p')" and "\<And>n. 0 < n \<Longrightarrow> intn n < n" and "distinct (map fst (ap_Addresses p))"
    and "cc_ap cc = Some p'" and "status_of p provider = None"
  shows "map_option status_of (cc_ap (release provider a cc)) = Some (status_of p)"
proof -
  from GetRandomAddress_takes [OF assms(1-3)] have st: "status_of p a = Some Available"
    "p' = p\<lparr>ap_Addresses := AList.update a InUse (ap_Addresses p)\<rparr>" by auto
  then have "map_of (ap_Addresses p') a = Some InUse" using status_of_update [where p=p and a=a and st=InUse] by (simp add: status_of_def)
  then have "snd (SetAddressAvailable p' a) = p'\<lparr>ap_Addresses := AList.update a Available (ap_Addresses p')\<rparr>"
    by (simp add: SetAddressAvailable_def)
  then have "status_of (snd (SetAddressAvailable p' a)) = status_of p" using st by (auto simp: fun_eq_iff)
  moreover have "a \<noteq> provider" using st(1) assms(5) by auto
  ultimately show ?thesis using assms(4) by (simp add: release_def)
qed

lemma GetRandomAddress_none:
  assumes "GetRandomAddress intn p = (Inl err, p')" and "distinct (map fst (ap_Addresses p))"
  shows "p' = p \<and> (\<nexists>a. status_of p a = Some Available)"
proof -
  from assms(1) have "p' = p" "available p = []" by (auto simp: GetRandomAddress_def available_def Let_def split: if_splits)
  with available_status [OF assms(2)] show ?thesis by auto
qed

lemma with_signer_sound:
  assumes "pool_ok E provider cc"
  shows "tx_sound E provider msg cc (with_signer E provider always (\<lambda>a. transact E name a (msg a) f) cc)"
proof (cases "cc_ap cc")
  case None
  then show ?thesis using transact_cases [where E=E and name=name and a=provider and msg="msg provider" and f=f and cc=cc]
    by (auto simp: tx_sound_def with_signer_def with_account_def can_sign_def split: option.splits prod.splits)
next
  case (Some p)
  with assms have d: "distinct (map fst (ap_Addresses p))" and own: "status_of p provider = None" "status_of p [] = None"
    and intn: "\<And>n. 0 < n \<Longrightarrow> co_Intn E n < n" by (auto simp: pool_ok_def)
  show ?thesis
  proof (cases "GetRandomAddress (co_Intn E) p")
    case (Pair g p')
    show ?thesis
    proof (cases g)
      case (Inl err)
      with Pair GetRandomAddress_none [OF _ d] have "p' = p" "\<nexists>a. status_of p a = Some Available" by auto
      moreover have "map_of (ap_Addresses p) [] = None" using own(2) by (simp add: status_of_def)
      ultimately show ?thesis using Some Pair Inl
        by (auto simp: tx_sound_def with_signer_def release_def can_sign_def SetAddressAvailable_def)
    next
      case (Inr a)
      with Pair have take: "GetRandomAddress (co_Intn E) p = (Inr a, p')" by simp
      from GetRandomAddress_takes [OF take intn d] have can: "can_sign cc provider a" by (simp add: can_sign_def Some)
      obtain r cc' where run: "with_account E a (transact E name a (msg a) f) (cc\<lparr>cc_ap := Some p'\<rparr>) = (r, cc')" by fastforce
      have ran: "cc_ap cc' = Some p' \<and> (case co_Account E a of Some err \<Rightarrow> isl r \<and> cc_trace cc' = cc_trace cc
        | None \<Rightarrow> cc_trace cc' = cc_trace cc @ [(a, msg a)] \<and> (isl r \<or> (\<exists>resp. co_BroadcastTx E a (msg a) = Inr resp \<and> tr_Code resp = 0)))"
        using run transact_cases [where E=E and name=name and a=a and msg="msg a" and f=f and cc="cc\<lparr>cc_ap := Some p'\<rparr>"] by (auto simp: with_account_def split: option.splits)
      then have "map_option status_of (cc_ap (release provider a cc')) = Some (status_of p)"
        using release_taken [OF take intn d _ own(1)] by blast
      with ran can show ?thesis unfolding tx_sound_def with_signer_def
        by (auto simp: Some take run release_keeps split: option.splits)
    qed
  qed
qed

text \<open>C24. Every transaction of the services is signed by an available address of the provider's pool (or by the provider
  itself without a pool), is sent at most once, with the signer as its creator and the provider named in it, succeeds
  only if the network took it, and leaves the pool as it found it, on success and on every error.  The provider's own
  address is not in the pool.\<close>

theorem transactions_sound:
  assumes "pool_ok E provider cc"
  shows "tx_sound E provider (\<lambda>a. MsgReady a orderId provider) cc (OrderReady E provider orderId cc)
    \<and> tx_sound E provider (\<lambda>a. MsgStore a proposal jws provider) cc (StoreOrder E provider (proposal, jws) cc)
    \<and> tx_sound E provider (\<lambda>a. MsgComplete_tx a orderId (cid_text c) sz provider) cc (CompleteOrder cid_text E provider orderId c sz cc)
    \<and> tx_sound E provider (\<lambda>a. MsgRenew a renewal jws provider) cc (chain_RenewOrder E provider (renewal, jws) cc)
    \<and> tx_sound E provider (\<lambda>a. MsgMigrate a dataIds provider) cc (MigrateOrder E provider dataIds cc)
    \<and> tx_sound E provider (\<lambda>a. MsgTerminate a termination jws provider) cc (chain_TerminateOrder E provider (termination, jws) cc)
    \<and> tx_sound E provider (\<lambda>a. MsgUpdataPermission a permission jws provider) cc (chain_UpdatePermission E provider (permission, jws) cc)"
  unfolding OrderReady_def StoreOrder_def CompleteOrder_def chain_RenewOrder_def MigrateOrder_def chain_TerminateOrder_def
    chain_UpdatePermission_def fst_conv snd_conv
  by (intro conjI with_signer_sound [OF assms])

definition sample_cosmos :: Cosmos where
  "sample_cosmos = \<lparr>co_Account = (\<lambda>_. None),
     co_BroadcastTx = (\<lambda>_ _. Inr \<lparr>tr_Code = 0, tr_TxHash = ''HASH'', tr_Height = 7, tr_Data = []\<rparr>), co_Intn = (\<lambda>_. 0),
     co_ReadyResponse = (\<lambda>_. Inr (1, [])), co_StoreResponse = (\<lambda>_. Inr (1, [])), co_RenewResponse = (\<lambda>_. Inr []),
     co_MigrateResponse = (\<lambda>_. Inr [(''data'', ''ok'')]), co_ReportFaultsResponse = (\<lambda>_. Inr [])\<rparr>"

definition sample_client :: ChainClient where
  "sample_client = \<lparr>cc_ap = Some sample_pool, cc_broadcastChanMap = [], cc_trace = []\<rparr>"

theorem transactions_sound_witness:
  "case MigrateOrder sample_cosmos ''sao1n'' [''data''] sample_client of (r, cc) \<Rightarrow>
     r = Inr (''HASH'', [(''data'', ''ok'')], 7) \<and> cc_trace cc = [(''sao1a'', MsgMigrate ''sao1a'' [''data''] ''sao1n'')]
     \<and> map_option status_of (cc_ap cc) = Some (status_of sample_pool)"
proof -
  have "pool_ok sample_cosmos ''sao1n'' sample_client"
    by (simp add: pool_ok_def sample_cosmos_def sample_client_def sample_pool_def status_of_def)
  from transactions_sound [OF this] have "tx_sound sample_cosmos ''sao1n'' (\<lambda>a. MsgMigrate a [''data''] ''sao1n'') sample_client
    (MigrateOrder sample_cosmos ''sao1n'' [''data''] sample_client)" by blast
  then show ?thesis
    by (simp add: tx_sound_def MigrateOrder_def with_signer_def with_account_def transact_def broadcastMsg_def broadcastLoop_one_def
        wrap_err_def result_map_def sample_cosmos_def sample_client_def sample_take release_keeps split: prod.splits)
qed

end
