(* ===== verification/Chain_Queries.thy ===== *)
theory Chain_Queries
  imports Chain_Client
begin

text \<open>
  The queries of the chain client (\<^verbatim>\<open>src/chain/order.go\<close>, \<^verbatim>\<open>model.go\<close>, \<^verbatim>\<open>node.go\<close>, \<^verbatim>\<open>did.go\<close>, \<^verbatim>\<open>chain.go\<close>).  The generated query clients are
  the record \<open>Queries\<close> of their answers.  Most queries wrap the error of the client; \<^verbatim>\<open>ListMetaByDid\<close> reads all pages of the
  metadata, and \<^verbatim>\<open>GetDidInfo\<close> puts the description of a DID together.  \<open>chain_service\<close> fills the record of answers the services
  take (\<open>ChainSvc\<close>) with this client.
\<close>

section \<open>The query clients\<close>

record did_document =
  dd_Version :: string
  dd_Document :: string

record account_auth =
  aa_AccountDid :: string
  aa_AccountEncryptedSeed :: string
  aa_SidEncryptedAccount :: string

record Queries =
  qc_Order :: "u64 \<Rightarrow> FullOrder res"
  qc_Shard :: "u64 \<Rightarrow> ChainShard res"
  qc_ShardAll :: "u64 \<Rightarrow> u64 \<Rightarrow> (ChainShard list \<times> u64) res"
  qc_MetadataAll :: "u64 \<Rightarrow> u64 \<Rightarrow> (Metadata list \<times> u64) res"
  qc_Metadata :: "string \<Rightarrow> Metadata res"
  qc_MetadataAt :: "int option \<Rightarrow> QueryProposal \<Rightarrow> JwsSignature \<Rightarrow> (Metadata \<times> (string \<times> ShardMeta) list) res"
  qc_Fault :: "string \<Rightarrow> Fault res"
  qc_AllFaults :: "string \<Rightarrow> string list res"
  qc_Node :: "string \<Rightarrow> (string \<times> 32 word) res"
  qc_NodeAll :: "(string \<times> string) list res"
  qc_Fishmen :: "string res"
  qc_BuiltinDid :: "string res"
  qc_SidDocument :: "string \<Rightarrow> (string \<times> (string \<times> string) list) res"
  qc_PaymentAddress :: "string \<Rightarrow> string res"
  qc_ValidateDid :: "string \<Rightarrow> goerr option"
  qc_AccountAuths :: "string \<Rightarrow> account_auth list res"
  qc_AccountId :: "string \<Rightarrow> string res"
  qc_PastSeeds :: "string \<Rightarrow> string list res"
  qc_SidDocumentVersion :: "string \<Rightarrow> string list res"

section \<open>Orders, models and nodes\<close>

definition chain_GetOrder :: "Queries \<Rightarrow> u64 \<Rightarrow> FullOrder res" where
  "chain_GetOrder Q orderId = wrap_err ErrQueryOrderFailed (qc_Order Q orderId)"

definition chain_GetShard :: "Queries \<Rightarrow> u64 \<Rightarrow> ChainShard res" where
  "chain_GetShard Q shardId = wrap_err ErrQueryShardFailed (qc_Shard Q shardId)"

definition ListShards :: "Queries \<Rightarrow> u64 \<Rightarrow> u64 \<Rightarrow> (ChainShard list \<times> u64) res" where
  "ListShards Q offset limit = wrap_err ErrQueryOrderFailed (qc_ShardAll Q offset limit)"

definition ListMeta :: "Queries \<Rightarrow> u64 \<Rightarrow> u64 \<Rightarrow> (Metadata list \<times> u64) res" where
  "ListMeta Q offset limit = wrap_err ErrQueryNodeFailed (qc_MetadataAll Q offset limit)"

definition GetMeta :: "Queries \<Rightarrow> string \<Rightarrow> Metadata res" where
  "GetMeta Q dataId = qc_Metadata Q dataId"

text \<open>The metadata at a height, the latest one for a height that is not positive.  The type of the keyword is converted
  to 32 bits.\<close>

definition QueryMetadata :: "Queries \<Rightarrow> MetadataProposalCbor \<Rightarrow> int \<Rightarrow> (Metadata \<times> (string \<times> ShardMeta) list) res" where
  "QueryMetadata Q req height =
     (let p = mpc_Proposal req
      in wrap_err ErrQueryMetadataFailed
           (qc_MetadataAt Q (if height > 0 then Some height else None)
              (p\<lparr>qp_KeywordType := ucast (ucast (qp_KeywordType p) :: 32 word)\<rparr>) (mpc_JwsSignature req)))"

text \<open>All pages of 100 entries; \<open>None\<close> when the loop does not end.\<close>

partial_function (option) ListMetaByDid_loop ::
  "Queries \<Rightarrow> string \<Rightarrow> u64 \<Rightarrow> Metadata list \<Rightarrow> Metadata list res option" where
  [code]: "ListMetaByDid_loop Q did offset allMetadatas =
     (case ListMeta Q offset 100 of
        Inl err \<Rightarrow> Some (Inl err)
      | Inr (metaList, entries) \<Rightarrow>
          (if offset + 100 \<le> entries
           then ListMetaByDid_loop Q did (offset + 100) (allMetadatas @ filter (\<lambda>meta. md_Owner meta = did) metaList)
           else Some (Inr (allMetadatas @ filter (\<lambda>meta. md_Owner meta = did) metaList))))"

definition ListMetaByDid :: "Queries \<Rightarrow> string \<Rightarrow> Metadata list res option" where
  "ListMetaByDid Q did = ListMetaByDid_loop Q did 0 []"

definition chain_GetFault :: "Queries \<Rightarrow> string \<Rightarrow> Fault res" where
  "chain_GetFault Q faultId = wrap_err ErrQueryFaultFailed (qc_Fault Q faultId)"

definition GetMyFaults :: "Queries \<Rightarrow> string \<Rightarrow> string list res" where
  "GetMyFaults Q provider = wrap_err ErrQueryFaultsFailed (qc_AllFaults Q provider)"

definition GetNodePeer :: "Queries \<Rightarrow> string \<Rightarrow> string res" where
  "GetNodePeer Q creator = map_sum id fst (wrap_err ErrQueryNodeFailed (qc_Node Q creator))"

definition GetNodeStatus :: "Queries \<Rightarrow> string \<Rightarrow> 32 word res" where
  "GetNodeStatus Q creator = map_sum id snd (wrap_err ErrQueryNodeFailed (qc_Node Q creator))"

definition ListNodes :: "Queries \<Rightarrow> (string \<times> string) list res" where
  "ListNodes Q = wrap_err ErrQueryNodeFailed (qc_NodeAll Q)"

definition GetFishmen :: "Queries \<Rightarrow> string res" where
  "GetFishmen Q = wrap_err ErrCreateChainServiceFailed (qc_Fishmen Q)"

text \<open>One tick of the status reporter; the faults are only logged.\<close>

definition status_report :: "Cosmos \<Rightarrow> string \<Rightarrow> 32 word \<Rightarrow> ChainClient \<Rightarrow> ChainClient" where
  "status_report E creator status cc = snd (chain_Reset E creator [] status [] None cc)"

section \<open>DIDs\<close>

definition QueryDidParams :: "Queries \<Rightarrow> string res" where
  "QueryDidParams Q = wrap_err ErrQueryDidParamFailed (qc_BuiltinDid Q)"

text \<open>The version and the keys of a document; a document without a version is nil.\<close>

definition GetSidDocument :: "Queries \<Rightarrow> string \<Rightarrow> (string \<times> (string \<times> string) list) option res" where
  "GetSidDocument Q versionId =
     (case qc_SidDocument Q versionId of
        Inl err \<Rightarrow> Inl (Wrap ErrGetSidDocumentFailed (Some err))
      | Inr (version, keys) \<Rightarrow> Inr (if version = [] then None else Some (version, keys)))"

definition QueryPaymentAddress :: "Queries \<Rightarrow> string \<Rightarrow> string res" where
  "QueryPaymentAddress Q did = qc_PaymentAddress Q did"

record Account =
  acc_AccountId :: string
  acc_AccountDid :: string
  acc_AccountEncryptedSeed :: string
  acc_SidEncryptedAccount :: string

datatype DidInfo =
    SidInfo string string "Account list" "string list" "did_document list"
  | KidInfo string string string

text \<open>The DID library: the method and the identifier of a DID, and its resolution, given the documents of the chain: an
  error of its manager, or the error text and the document of the result.\<close>

record did_lib =
  dl_Parse :: "string \<Rightarrow> (string \<times> string) res"
  dl_Resolve :: "(string \<Rightarrow> (string \<times> (string \<times> string) list) option res) \<Rightarrow> string \<Rightarrow> (string \<times> string) res"

definition resolve_did :: "did_lib \<Rightarrow> Queries \<Rightarrow> string \<Rightarrow> string res" where
  "resolve_did L Q did =
     (case dl_Resolve L (GetSidDocument Q) did of
        Inl err \<Rightarrow> Inl err
      | Inr (error, document) \<Rightarrow> if error \<noteq> [] then Inl (ErrText error) else Inr document)"

fun did_accounts :: "Queries \<Rightarrow> account_auth list \<Rightarrow> Account list res" where
  "did_accounts Q [] = Inr []"
| "did_accounts Q (accAuth # auths) =
     (case qc_AccountId Q (aa_AccountDid accAuth) of
        Inl err \<Rightarrow> Inl err
      | Inr accountId \<Rightarrow>
          map_sum id (Cons \<lparr>acc_AccountId = accountId, acc_AccountDid = aa_AccountDid accAuth,
                           acc_AccountEncryptedSeed = aa_AccountEncryptedSeed accAuth, acc_SidEncryptedAccount = aa_SidEncryptedAccount accAuth\<rparr>)
            (did_accounts Q auths))"

fun did_documents :: "did_lib \<Rightarrow> Queries \<Rightarrow> string \<Rightarrow> string list \<Rightarrow> did_document list res" where
  "did_documents L Q did [] = Inr []"
| "did_documents L Q did (version # versions) =
     (case resolve_did L Q (''did:sid:'' @ did @ ''?versionId='' @ version) of
        Inl err \<Rightarrow> Inl err
      | Inr document \<Rightarrow> map_sum id (Cons \<lparr>dd_Version = version, dd_Document = document\<rparr>) (did_documents L Q did versions))"

definition sid_info :: "did_lib \<Rightarrow> Queries \<Rightarrow> string \<Rightarrow> string \<Rightarrow> string \<Rightarrow> DidInfo res" where
  "sid_info L Q did ident paymentAddress =
     (case qc_AccountAuths Q did of
        Inl err \<Rightarrow> Inl err
      | Inr auths \<Rightarrow>
          (case did_accounts Q auths of
             Inl err \<Rightarrow> Inl err
           | Inr accounts \<Rightarrow>
               (let pastSeeds = (case qc_PastSeeds Q did of Inl _ \<Rightarrow> [] | Inr seeds \<Rightarrow> seeds)
                in case qc_SidDocumentVersion Q ident of
                     Inl err \<Rightarrow> Inl err
                   | Inr versions \<Rightarrow> map_sum id (SidInfo did paymentAddress accounts pastSeeds) (did_documents L Q ident versions))))"

definition GetDidInfo :: "did_lib \<Rightarrow> Queries \<Rightarrow> string \<Rightarrow> DidInfo res" where
  "GetDidInfo L Q did =
     (case qc_ValidateDid Q did of
        Some err \<Rightarrow> Inl err
      | None \<Rightarrow>
          (case qc_PaymentAddress Q did of
             Inl err \<Rightarrow> Inl err
           | Inr paymentAddress \<Rightarrow>
               (case dl_Parse L did of
                  Inl err \<Rightarrow> Inl err
                | Inr (didMethod, ident) \<Rightarrow>
                    if didMethod = ''sid'' then sid_info L Q did ident paymentAddress
                    else if didMethod = ''key'' then map_sum id (KidInfo did paymentAddress) (resolve_did L Q did)
                    else Inl (ErrText ''Unsupported did type''))))"

section \<open>The client as the services use it\<close>

text \<open>A transaction that failed answers with zero values and its error.\<close>

definition migrate_answer :: "(string \<times> (string \<times> string) list \<times> int) res \<Rightarrow> string \<times> (string \<times> string) list \<times> int \<times> goerr option" where
  "migrate_answer r = (case r of Inl err \<Rightarrow> ([], [], - 1, Some err) | Inr (h, m, t) \<Rightarrow> (h, m, t, None))"

text \<open>The answers during one call of a service, from the state the client is in; \<open>base\<close> answers what is not modelled here.\<close>

definition chain_service :: "(cid \<Rightarrow> string) \<Rightarrow> Cosmos \<Rightarrow> Queries \<Rightarrow> ChainSvc \<Rightarrow> ChainClient \<Rightarrow> ChainSvc" where
  "chain_service cid_text E Q base cc = base\<lparr>
     ch_GetNodePeer := GetNodePeer Q, ch_GetOrder := chain_GetOrder Q, ch_GetMeta := GetMeta Q, ch_GetFishmen := GetFishmen Q,
     ch_ListShards := ListShards Q, ch_CompleteOrder := (\<lambda>creator orderId c sz. fst (CompleteOrder cid_text E creator orderId c sz cc)),
     ch_MigrateOrder := (\<lambda>creator dataIds. migrate_answer (fst (MigrateOrder E creator dataIds cc))),
     ch_StoreOrder := (\<lambda>signer proposal. fst (StoreOrder E signer proposal cc)),
     ch_OrderReady := (\<lambda>provider orderId. fst (OrderReady E provider orderId cc)),
     ch_QueryMetadata := QueryMetadata Q,
     ch_TerminateOrder := (\<lambda>creator proposal. fst (chain_TerminateOrder E creator proposal cc)),
     ch_RenewOrder := (\<lambda>creator proposal. fst (chain_RenewOrder E creator proposal cc)),
     ch_UpdatePermission := (\<lambda>signer proposal. fst (chain_UpdatePermission E signer proposal cc)),
     ch_GetFault := chain_GetFault Q, ch_GetShard := chain_GetShard Q,
     ch_ReportFaults := (\<lambda>creator provider faults. fst (ReportFaults E creator provider faults cc)),
     ch_RecoverFaults := (\<lambda>creator provider faults. fst (RecoverFaults E creator provider faults cc))\<rparr>"

section \<open>Reading all pages\<close>

text \<open>A paginated query over a fixed list: its page at an offset and the number of all entries.\<close>

definition pages :: "Queries \<Rightarrow> Metadata list \<Rightarrow> bool" where
  "pages Q metas \<longleftrightarrow> (\<forall>offset limit. qc_MetadataAll Q offset limit = Inr (take (unat limit) (drop (unat offset) metas), of_nat (length metas)))"

lemma ListMetaByDid_loop_pages:
  assumes "pages Q metas" and "length metas + 100 < 2 ^ 64" and "unat offset \<le> length metas"
  shows "ListMetaByDid_loop Q did offset (filter (\<lambda>m. md_Owner m = did) (take (unat offset) metas)) =
    Some (Inr (filter (\<lambda>m. md_Owner m = did) metas))"
  using assms(3)
proof (induction "length metas - unat offset" arbitrary: offset rule: less_induct)
  case less
  let ?owned = "filter (\<lambda>m. md_Owner m = did)"
  have next_offset: "unat (offset + 100) = unat offset + 100"
    using less.prems assms(2) by (subst unat_add_lem [THEN iffD1]) auto
  have entries: "unat (of_nat (length metas) :: u64) = length metas" using assms(2) by (simp add: unat_of_nat take_bit_nat_eq_self)
  have more: "offset + 100 \<le> (of_nat (length metas) :: u64) \<longleftrightarrow> unat offset + 100 \<le> length metas"
    by (simp add: word_le_nat_alt next_offset entries)
  have page: "ListMeta Q offset 100 = Inr (take 100 (drop (unat offset) metas), of_nat (length metas))"
    using assms(1) by (simp add: pages_def ListMeta_def wrap_err_def)
  have shown: "?owned (take (unat offset) metas) @ ?owned (take 100 (drop (unat offset) metas)) = ?owned (take (unat offset + 100) metas)"
    by (simp add: take_add)
  show ?case
  proof (cases "unat offset + 100 \<le> length metas")
    case True
    have "ListMetaByDid_loop Q did (offset + 100) (?owned (take (unat (offset + 100)) metas)) = Some (Inr (?owned metas))"
      using True by (intro less.hyps) (auto simp: next_offset)
    then show ?thesis
      by (subst ListMetaByDid_loop.simps) (simp add: page more True shown next_offset)
  next
    case False
    then show ?thesis
      by (subst ListMetaByDid_loop.simps) (simp add: page more filter_append [symmetric] del: filter_append)
  qed
qed

text \<open>C26. Listing the metadata of a DID ends and returns exactly the entries on chain whose owner it is, in their order, however many
  pages there are: every page is read once, also when the last one is full.\<close>

theorem ListMetaByDid_complete:
  assumes "pages Q metas" and "length metas + 100 < 2 ^ 64"
  shows "ListMetaByDid Q did = Some (Inr (filter (\<lambda>m. md_Owner m = did) metas))"
  using ListMetaByDid_loop_pages [OF assms, of 0] by (simp add: ListMetaByDid_def)

definition owned_meta :: "string \<Rightarrow> string \<Rightarrow> Metadata" where
  "owned_meta dataId owner = \<lparr>md_DataId = dataId, md_Alias = [], md_GroupId = [], md_Owner = owner, md_OrderId = 1, md_Tags = [], md_Cid = [],
     md_Commits = [], md_ExtendInfo = [], md_Orders = [], md_Complete = True\<rparr>"

definition sample_metas :: "Metadata list" where
  "sample_metas = [owned_meta ''a'' ''did:key:1'', owned_meta ''b'' ''did:key:2'', owned_meta ''c'' ''did:key:1'']"

definition no_answer :: "'q \<Rightarrow> 'a res" where
  "no_answer q = Inl (ErrText ''not found'')"

definition sample_queries :: "Metadata list \<Rightarrow> Queries" where
  "sample_queries metas =
     \<lparr>qc_Order = no_answer, qc_Shard = no_answer, qc_ShardAll = (\<lambda>_ _. Inr ([], 0)),
      qc_MetadataAll = (\<lambda>offset limit. Inr (take (unat limit) (drop (unat offset) metas), of_nat (length metas))),
      qc_Metadata = no_answer, qc_MetadataAt = (\<lambda>_ _ _. Inl (ErrText ''not found'')), qc_Fault = no_answer, qc_AllFaults = no_answer,
      qc_Node = no_answer, qc_NodeAll = Inr [], qc_Fishmen = Inr [], qc_BuiltinDid = Inr [], qc_SidDocument = no_answer,
      qc_PaymentAddress = no_answer, qc_ValidateDid = (\<lambda>_. None), qc_AccountAuths = no_answer, qc_AccountId = no_answer,
      qc_PastSeeds = no_answer, qc_SidDocumentVersion = no_answer\<rparr>"

theorem ListMetaByDid_complete_witness:
  "ListMetaByDid (sample_queries sample_metas) ''did:key:1'' = Some (Inr [owned_meta ''a'' ''did:key:1'', owned_meta ''c'' ''did:key:1''])"
proof -
  have "pages (sample_queries sample_metas) sample_metas" by (simp add: pages_def sample_queries_def)
  from ListMetaByDid_complete [OF this, of "''did:key:1''"] show ?thesis by (simp add: sample_metas_def owned_meta_def)
qed

end
