(* ===== verification/Upload.thy ===== *)
theory Upload
  imports Node_Api
begin

text \<open>
  Requests over libp2p (\<^verbatim>\<open>src/node/transport/rpc_handler.go\<close>, \<^verbatim>\<open>libp2p_udp_rpc.go\<close>) and models from uploaded files (\<^verbatim>\<open>ModelCreateFile\<close> of
  \<^verbatim>\<open>src/node/node.go\<close>).  A client uploads a file in chunks: each chunk is written to a file named by its identifier, and a record
  in the datastore lists the chunks; a request without content ends the upload and writes the chunks, one after the other,
  to a file named by the identifier of the whole.  The datastore, the files and JSON are parameters, as before; a size that
  does not fit the memory is not modelled.
\<close>

section \<open>Data\<close>

definition FILE_INFO_PREFIX :: string where "FILE_INFO_PREFIX = ''fileInfo_''"

record FileChunkReq =
  fcr_ChunkId :: int
  fcr_TotalLength :: int
  fcr_TotalChunks :: int
  fcr_ChunkCid :: string
  fcr_Cid :: string
  fcr_Content :: bytes

record ReceivedFileInfo =
  rfi_Cid :: string
  rfi_TotalLength :: int
  rfi_TotalChunks :: int
  rfi_ReceivedLength :: int
  rfi_Path :: string
  rfi_ChunkCids :: "string list"

text \<open>\<^verbatim>\<open>os.Stat\<close>: a size, a missing file or another error.\<close>

datatype stat = StatSize int | StatNotExist goerr | StatError goerr

text \<open>\<open>None\<close> from \<open>up_UnmarshalInfo\<close> is the nil pointer of a JSON null.\<close>

record ('d, 'k, 'f) UploadEnv =
  up_ds :: "('d, 'k) ds_ops"
  up_fs :: "'f fs_ops"
  up_Stat :: "'f \<Rightarrow> string \<Rightarrow> stat"
  up_Open :: "'f \<Rightarrow> string \<Rightarrow> goerr option"
  up_UnmarshalReq :: "string \<Rightarrow> FileChunkReq res"
  up_MarshalInfo :: "ReceivedFileInfo \<Rightarrow> bytes res"
  up_UnmarshalInfo :: "bytes \<Rightarrow> ReceivedFileInfo option res"
  up_Sum :: "bytes \<Rightarrow> cid res"
  up_cid_String :: "cid \<Rightarrow> string"
  up_StagingPath :: string
  up_StagingSapceSize :: int

record ('d, 'f) RpcHandler =
  rh_Db :: 'd
  rh_files :: 'f

definition info_key :: "('d, 'k, 'f) UploadEnv \<Rightarrow> string \<Rightarrow> 'k" where
  "info_key U c = ds_NewKey (up_ds U) (FILE_INFO_PREFIX @ c)"

section \<open>Receiving chunks\<close>

text \<open>The record after a chunk; \<open>None\<close> when the record is left as it is.  An index out of range and a negative number of chunks
  panic.\<close>

definition chunk_info ::
  "('d, 'k, 'f) UploadEnv \<Rightarrow> FileChunkReq \<Rightarrow> string \<Rightarrow> 'd \<Rightarrow> ReceivedFileInfo option outcome" where
  "chunk_info U req path db =
     (if fcr_ChunkId req = 0 then
        (if fcr_TotalChunks req \<le> 0 then Panic
         else Return (Some \<lparr>rfi_Cid = fcr_Cid req, rfi_TotalLength = fcr_TotalLength req, rfi_TotalChunks = fcr_TotalChunks req,
                rfi_ReceivedLength = int (length (fcr_Content req)), rfi_Path = path,
                rfi_ChunkCids = (replicate (nat (fcr_TotalChunks req)) [])[0 := fcr_ChunkCid req]\<rparr>))
      else
        (case ds_Get (up_ds U) db (info_key U (fcr_Cid req)) of
           Inl _ \<Rightarrow> Return None
         | Inr bs \<Rightarrow>
             (case up_UnmarshalInfo U bs of
                Inl _ \<Rightarrow> Return None
              | Inr None \<Rightarrow> Panic
              | Inr (Some info) \<Rightarrow>
                  if fcr_ChunkId req < 0 \<or> int (length (rfi_ChunkCids info)) \<le> fcr_ChunkId req then Panic
                  else if rfi_ChunkCids info ! nat (fcr_ChunkId req) = [] then
                    Return (Some (info\<lparr>rfi_ChunkCids := (rfi_ChunkCids info)[nat (fcr_ChunkId req) := fcr_ChunkCid req],
                                      rfi_ReceivedLength := rfi_ReceivedLength info + int (length (fcr_Content req))\<rparr>))
                  else Return None)))"

text \<open>Errors of encoding and of the datastore are only logged.\<close>

definition handleChunkInfo :: "('d, 'k, 'f) UploadEnv \<Rightarrow> FileChunkReq \<Rightarrow> string \<Rightarrow> 'd \<Rightarrow> 'd outcome" where
  "handleChunkInfo U req path db =
     bind_outcome (chunk_info U req path db) (\<lambda>info.
       case info of
         None \<Rightarrow> Return db
       | Some i \<Rightarrow>
           (case up_MarshalInfo U i of
              Inl _ \<Rightarrow> Return db
            | Inr bs \<Rightarrow> Return (snd (ds_Put (up_ds U) db (info_key U (fcr_Cid req)) bs))))"

definition no_space :: "('d, 'k, 'f) UploadEnv \<Rightarrow> FileChunkReq \<Rightarrow> int \<Rightarrow> goerr" where
  "no_space U req used =
     Wrapf ErrInvalidParameters (''not enough staging space under '' @ up_StagingPath U @ '', need '' @ show_nat (length (fcr_Content req))
       @ '' but only '' @ show_int (up_StagingSapceSize U - used) @ '' left'')"

text \<open>The check of the staging directory.  When the directory was missing and the space is too small, the message reads the
  size from a nil value.\<close>

definition staging_space ::
  "('d, 'k, 'f) UploadEnv \<Rightarrow> FileChunkReq \<Rightarrow> 'f \<Rightarrow> (goerr option \<times> 'f) outcome" where
  "staging_space U req f =
     (case fs_Expand (up_fs U) (up_StagingPath U) of
        Inl err \<Rightarrow> Return (Some err, f)
      | Inr stagingPath \<Rightarrow>
          (case up_Stat U f stagingPath of
             StatNotExist _ \<Rightarrow>
               (case fs_MkdirAll (up_fs U) f stagingPath of
                  (Some err, f') \<Rightarrow> Return (Some err, f')
                | (None, f') \<Rightarrow>
                    if int (length (fcr_Content req)) > up_StagingSapceSize U then Panic else Return (None, f'))
           | StatError err \<Rightarrow> Return (Some err, f)
           | StatSize used \<Rightarrow>
               Return (if used + int (length (fcr_Content req)) > up_StagingSapceSize U then Some (no_space U req used) else None, f)))"

definition write_file :: "'f fs_ops \<Rightarrow> string \<Rightarrow> bytes \<Rightarrow> 'f \<Rightarrow> goerr option \<times> 'f" where
  "write_file F file content f =
     (case fs_Create F f file of (Some err, f') \<Rightarrow> (Some err, f') | (None, f') \<Rightarrow> fs_Write F f' file content)"

text \<open>The directory is made when it cannot be found; the error is the one the call ends with.\<close>

definition ensure_dir :: "('d, 'k, 'f) UploadEnv \<Rightarrow> string \<Rightarrow> 'f \<Rightarrow> goerr option \<times> 'f" where
  "ensure_dir U dir f =
     (let make = (\<lambda>err.
            if fs_IsExist (up_fs U) err then (Some err, f)
            else (case fs_MkdirAll (up_fs U) f dir of
                    (Some e, f') \<Rightarrow> (if fs_IsExist (up_fs U) e then None else Some e, f')
                  | (None, f') \<Rightarrow> (None, f')))
      in case up_Stat U f dir of StatSize _ \<Rightarrow> (None, f) | StatNotExist err \<Rightarrow> make err | StatError err \<Rightarrow> make err)"

definition write_chunk :: "('d, 'k, 'f) UploadEnv \<Rightarrow> FileChunkReq \<Rightarrow> string \<Rightarrow> 'f \<Rightarrow> goerr option \<times> 'f" where
  "write_chunk U req path f =
     (case fs_Expand (up_fs U) path of
        Inl err \<Rightarrow> (Some err, f)
      | Inr dir \<Rightarrow>
          (case ensure_dir U dir f of
             (Some err, f') \<Rightarrow> (Some err, f')
           | (None, f') \<Rightarrow> write_file (up_fs U) (path_Join [dir, fcr_ChunkCid req]) (fcr_Content req) f'))"

section \<open>The end of an upload\<close>

definition read_file :: "('d, 'k, 'f) UploadEnv \<Rightarrow> 'f \<Rightarrow> string \<Rightarrow> bytes res" where
  "read_file U f path = (case up_Open U f path of Some err \<Rightarrow> Inl err | None \<Rightarrow> fs_ReadFile (up_fs U) f path)"

fun read_chunks :: "('d, 'k, 'f) UploadEnv \<Rightarrow> 'f \<Rightarrow> string \<Rightarrow> string list \<Rightarrow> bytes res" where
  "read_chunks U f basePath [] = Inr []"
| "read_chunks U f basePath (chunkCid # chunkCids) =
     (case read_file U f (path_Join [basePath, chunkCid]) of
        Inl err \<Rightarrow> Inl err
      | Inr content \<Rightarrow> map_sum id (append content) (read_chunks U f basePath chunkCids))"

definition upload_done ::
  "('d, 'k, 'f) UploadEnv \<Rightarrow> FileChunkReq \<Rightarrow> ('d, 'f) RpcHandler \<Rightarrow> (goerr option \<times> ('d, 'f) RpcHandler) outcome" where
  "upload_done U req rs =
     (case ds_Get (up_ds U) (rh_Db rs) (info_key U (fcr_Cid req)) of
        Inl err \<Rightarrow> Return (Some err, rs)
      | Inr bs \<Rightarrow>
          (case up_UnmarshalInfo U bs of
             Inl err \<Rightarrow> Return (Some err, rs)
           | Inr None \<Rightarrow> Panic
           | Inr (Some info) \<Rightarrow>
               (case fs_Expand (up_fs U) (rfi_Path info) of
                  Inl err \<Rightarrow> Return (Some err, rs)
                | Inr basePath \<Rightarrow>
                    (case read_chunks U (rh_files rs) basePath (rfi_ChunkCids info) of
                       Inl err \<Rightarrow> Return (Some err, rs)
                     | Inr fileContent \<Rightarrow>
                         (case CalculateCid (up_Sum U) fileContent of
                            Inl err \<Rightarrow> Return (Some err, rs)
                          | Inr contentCid \<Rightarrow>
                              (case write_file (up_fs U) (path_Join [basePath, fcr_Cid req]) fileContent (rh_files rs) of
                                 (err, f) \<Rightarrow> Return (err, rs\<lparr>rh_files := f\<rparr>)))))))"

text \<open>A request with content: the space, the record, the file.\<close>

definition upload_chunk ::
  "('d, 'k, 'f) UploadEnv \<Rightarrow> FileChunkReq \<Rightarrow> string \<Rightarrow> ('d, 'f) RpcHandler \<Rightarrow> (goerr option \<times> ('d, 'f) RpcHandler) outcome" where
  "upload_chunk U req target rs =
     bind_outcome (staging_space U req (rh_files rs)) (\<lambda>(err, f).
       let rs1 = rs\<lparr>rh_files := f\<rparr>
       in case err of
            Some e \<Rightarrow> Return (Some e, rs1)
          | None \<Rightarrow>
              bind_outcome (handleChunkInfo U req (path_Join [target, fcr_Cid req]) (rh_Db rs1)) (\<lambda>db.
                case write_chunk U req (path_Join [target, fcr_Cid req]) f of
                  (err', f') \<Rightarrow> Return (err', rs1\<lparr>rh_Db := db, rh_files := f'\<rparr>)))"

definition Upload_req ::
  "('d, 'k, 'f) UploadEnv \<Rightarrow> FileChunkReq \<Rightarrow> string \<Rightarrow> ('d, 'f) RpcHandler \<Rightarrow> (string res \<times> ('d, 'f) RpcHandler) outcome" where
  "Upload_req U req target rs =
     (case CalculateCid (up_Sum U) (fcr_Content req) of
        Inl err \<Rightarrow> Return (Inl err, rs)
      | Inr localCid \<Rightarrow>
          bind_outcome (if fcr_Content req \<noteq> [] then upload_chunk U req target rs else upload_done U req rs) (\<lambda>(err, rs').
            Return (case err of Some e \<Rightarrow> Inl e | None \<Rightarrow> Inr (up_cid_String U localCid), rs')))"

definition invalid_params :: goerr where
  "invalid_params = Wrapf ErrInvalidParameters ''invalid params length''"

definition Upload :: "('d, 'k, 'f) UploadEnv \<Rightarrow> string list \<Rightarrow> ('d, 'f) RpcHandler \<Rightarrow> (string res \<times> ('d, 'f) RpcHandler) outcome" where
  "Upload U params rs =
     (case params of
        [request, target] \<Rightarrow>
          (case up_UnmarshalReq U request of
             Inl err \<Rightarrow> Return (Inl err, rs)
           | Inr req \<Rightarrow> Upload_req U req target rs)
      | _ \<Rightarrow> Return (Inl invalid_params, rs))"

section \<open>A model from an uploaded file\<close>

definition ModelCreateFile ::
  "('d, 'k, 'f) UploadEnv \<Rightarrow> ('g, 'c, 'l, 'b, 'x, 's, 'j, 'i, 'p) NodeEnv \<Rightarrow> MetadataProposalCbor \<Rightarrow> StoreProposal \<Rightarrow> JwsSignature \<Rightarrow> u64
     \<Rightarrow> ('d, 'f) RpcHandler \<Rightarrow> ('g, 'c, 'l, 'b, 'x) ModelManager \<Rightarrow> (CreateResp res \<times> ('g, 'c, 'l, 'b, 'x) ModelManager) outcome" where
  "ModelCreateFile U N req proposal jws orderId rs mm =
     (case ds_Get (up_ds U) (rh_Db rs) (info_key U (prop_Cid proposal)) of
        Inl _ \<Rightarrow> Return (Inl (Wrapf ErrInvalidCid (''invliad CID: '' @ prop_Cid proposal)), mm)
      | Inr bs \<Rightarrow>
          (case up_UnmarshalInfo U bs of
             Inl err \<Rightarrow> Return (Inl (Wrap ErrUnMarshalFailed (Some err)), mm)
           | Inr None \<Rightarrow> Panic
           | Inr (Some info) \<Rightarrow>
               (case fs_Expand (up_fs U) (rfi_Path info) of
                  Inl err \<Rightarrow> Return (Inl (Wrap ErrInvalidPath (Some err)), mm)
                | Inr basePath \<Rightarrow>
                    (case up_Open U (rh_files rs) (path_Join [basePath, prop_Cid proposal]) of
                       Some err \<Rightarrow> Return (Inl (Wrap ErrOpenFileFailed (Some err)), mm)
                     | None \<Rightarrow>
                         (case fs_ReadFile (up_fs U) (rh_files rs) (path_Join [basePath, prop_Cid proposal]) of
                            Inl err \<Rightarrow> Return (Inl (Wrap ErrReadFileFailed (Some err)), mm)
                          | Inr content \<Rightarrow> ModelCreate N req proposal jws orderId content mm)))))"

section \<open>Requests over libp2p\<close>

record rpc_json =
  rj_UnmarshalReq :: "bytes \<Rightarrow> (string \<times> string list) res"
  rj_UnmarshalMetadata :: "string \<Rightarrow> MetadataProposalCbor res"
  rj_UnmarshalStore :: "string \<Rightarrow> (StoreProposal \<times> JwsSignature) res"
  rj_MarshalCreate :: "CreateResp \<Rightarrow> string res"
  rj_MarshalLoad :: "LoadResp \<Rightarrow> string res"
  rj_MarshalUpdate :: "UpdateResp \<Rightarrow> string res"
  rj_MarshalResp :: "string \<Rightarrow> string \<Rightarrow> bytes res"

text \<open>The answer of a method: every error is logged and answered as an empty text.\<close>

definition rpc_answer :: "('r \<Rightarrow> string res) \<Rightarrow> ('r res \<times> 'm) outcome \<Rightarrow> (string res \<times> 'm) outcome" where
  "rpc_answer marshal call =
     bind_outcome call (\<lambda>(r, m). Return (Inr (case r of Inl _ \<Rightarrow> [] | Inr resp \<Rightarrow> (case marshal resp of Inl _ \<Rightarrow> [] | Inr text \<Rightarrow> text)), m))"

definition rpc_store ::
  "rpc_json \<Rightarrow> (MetadataProposalCbor \<Rightarrow> StoreProposal \<Rightarrow> JwsSignature \<Rightarrow> u64 \<Rightarrow> bytes \<Rightarrow> (string res \<times> 'm) outcome)
     \<Rightarrow> string list \<Rightarrow> 'm \<Rightarrow> (string res \<times> 'm) outcome" where
  "rpc_store R call params m =
     (case params of
        [p0, p1, p2] \<Rightarrow>
          (case rj_UnmarshalMetadata R p0 of
             Inl _ \<Rightarrow> Return (Inr [], m)
           | Inr req \<Rightarrow>
               (case rj_UnmarshalStore R p1 of
                  Inl _ \<Rightarrow> Return (Inr [], m)
                | Inr (proposal, jws) \<Rightarrow>
                    (case ParseInt p2 of
                       Inl err \<Rightarrow> Return (Inl (Wrap ErrInvalidParameters (Some err)), m)
                     | Inr orderId \<Rightarrow> call req proposal jws (word_of_int orderId) p2)))
      | _ \<Rightarrow> Return (Inl invalid_params, m))"

definition Rpc_Create ::
  "rpc_json \<Rightarrow> ('g, 'c, 'l, 'b, 'x, 's, 'j, 'i, 'p) NodeEnv \<Rightarrow> string list \<Rightarrow> ('g, 'c, 'l, 'b, 'x) ModelManager
     \<Rightarrow> (string res \<times> ('g, 'c, 'l, 'b, 'x) ModelManager) outcome" where
  "Rpc_Create R N params mm =
     rpc_store R (\<lambda>req proposal jws orderId content.
       rpc_answer (rj_MarshalCreate R) (ModelCreate N req proposal jws orderId content mm)) params mm"

definition Rpc_Update ::
  "rpc_json \<Rightarrow> ('g, 'c, 'l, 'b, 'x, 's, 'j, 'i, 'p) NodeEnv \<Rightarrow> string list \<Rightarrow> ('g, 'c, 'l, 'b, 'x) ModelManager
     \<Rightarrow> (string res \<times> ('g, 'c, 'l, 'b, 'x) ModelManager) outcome" where
  "Rpc_Update R N params mm =
     rpc_store R (\<lambda>req proposal jws orderId patch.
       rpc_answer (rj_MarshalUpdate R) (ModelUpdate N req proposal jws orderId patch mm)) params mm"

definition Rpc_Load ::
  "rpc_json \<Rightarrow> ('g, 'c, 'l, 'b, 'x, 's, 'j, 'i, 'p) NodeEnv \<Rightarrow> string list \<Rightarrow> ('g, 'c, 'l, 'b, 'x) ModelManager
     \<Rightarrow> (string res \<times> ('g, 'c, 'l, 'b, 'x) ModelManager) outcome" where
  "Rpc_Load R N params mm =
     (case params of
        [p0] \<Rightarrow>
          (case rj_UnmarshalMetadata R p0 of
             Inl _ \<Rightarrow> Return (Inr [], mm)
           | Inr req \<Rightarrow> rpc_answer (rj_MarshalLoad R) (ModelLoad N req mm))
      | _ \<Rightarrow> Return (Inl invalid_params, mm))"

text \<open>A request on a stream: the method is called and its data or its error is written back; the answer that cannot be encoded is
  not sent.  An unknown method answers with both an error and empty data.  \<open>peer\<close> is the remote peer, below whose directory
  uploads are staged.\<close>

definition rpc_call ::
  "rpc_json \<Rightarrow> ('d, 'k, 'f) UploadEnv \<Rightarrow> ('g, 'c, 'l, 'b, 'x, 's, 'j, 'i, 'p) NodeEnv \<Rightarrow> string \<Rightarrow> string \<Rightarrow> string list
     \<Rightarrow> ('d, 'f) RpcHandler \<times> ('g, 'c, 'l, 'b, 'x) ModelManager
     \<Rightarrow> ((string res \<times> string) \<times> ('d, 'f) RpcHandler \<times> ('g, 'c, 'l, 'b, 'x) ModelManager) outcome" where
  "rpc_call R U N peer called params st =
     (case st of (rs, mm) \<Rightarrow>
        if called = ''Sao.Upload'' then
          bind_outcome (Upload U (params @ [path_Join [up_StagingPath U, peer]]) rs) (\<lambda>(r, rs'). Return ((r, []), rs', mm))
        else if called = ''Sao.ModelCreate'' then bind_outcome (Rpc_Create R N params mm) (\<lambda>(r, mm'). Return ((r, []), rs, mm'))
        else if called = ''Sao.ModelLoad'' then bind_outcome (Rpc_Load R N params mm) (\<lambda>(r, mm'). Return ((r, []), rs, mm'))
        else if called = ''Sao.ModelUpdate'' then bind_outcome (Rpc_Update R N params mm) (\<lambda>(r, mm'). Return ((r, []), rs, mm'))
        else Return ((Inr [], ''N/a''), rs, mm))"

definition HandleStream ::
  "rpc_json \<Rightarrow> ('d, 'k, 'f) UploadEnv \<Rightarrow> ('g, 'c, 'l, 'b, 'x, 's, 'j, 'i, 'p) NodeEnv \<Rightarrow> string \<Rightarrow> bytes
     \<Rightarrow> ('d, 'f) RpcHandler \<times> ('g, 'c, 'l, 'b, 'x) ModelManager
     \<Rightarrow> (bytes option \<times> ('d, 'f) RpcHandler \<times> ('g, 'c, 'l, 'b, 'x) ModelManager) outcome" where
  "HandleStream R U N peer received st =
     (let send = (\<lambda>data error. case rj_MarshalResp R data error of Inl _ \<Rightarrow> None | Inr bs \<Rightarrow> Some bs)
      in case rj_UnmarshalReq R received of
           Inl err \<Rightarrow> Return (send [] (Error err), st)
         | Inr (called, params) \<Rightarrow>
             bind_outcome (rpc_call R U N peer called params st) (\<lambda>((r, error), st').
               Return (case r of Inl err \<Rightarrow> send [] (Error err) | Inr data \<Rightarrow> send data error, st')))"

end
