(* ===== verification/Upload_Props.thy ===== *)
theory Upload_Props
  imports Upload Node_Api_Props
begin

text \<open>
  Uploads are put together: when the chunks of a file have been uploaded in their order and the upload is ended, the file
  with the identifier of the whole has the content of the chunks one after the other, and a model created from it is
  created with that content.  The locale \<open>upload_libs\<close> has what is relied on: the file system, a datastore that answers, and JSON,
  which reads back a record whose texts are valid (\<open>text_ok\<close>).
\<close>

section \<open>Names in a directory\<close>

lemma path_Join_dir:
  assumes "dir \<noteq> []" and "plain_name n"
  shows "path_Join [dir, n] = (if HasPrefix dir ''/'' then ''/'' else []) @ join_parts (dir_parts dir @ [n])"
proof -
  have j: "join_parts [dir, n] = dir @ CHR ''/'' # n" by simp
  have r: "HasPrefix (join_parts [dir, n]) ''/'' = HasPrefix dir ''/''" using assms(1) by (cases dir) (simp_all add: HasPrefix_def)
  have "Split (CHR ''/'') n = [n]" using assms(2) by (simp add: plain_name_def)
  then have s: "Split (CHR ''/'') (join_parts [dir, n]) = Split (CHR ''/'') dir @ [n]" unfolding j Split_append by simp
  have f: "rev (foldl (clean_part (HasPrefix dir ''/'')) [] (Split (CHR ''/'') (join_parts [dir, n]))) = dir_parts dir @ [n]"
    unfolding s using clean_part_plain [OF assms(2)] by (simp add: dir_parts_def)
  have "dropWhile (\<lambda>e. e = []) [dir, n] = [dir, n]" using assms(1) by simp
  then show ?thesis unfolding path_Join_def by (simp only: list.case path_Clean_def Let_def r f) simp
qed

lemma path_Join_inj:
  assumes "dir \<noteq> []" and "plain_name n" and "plain_name n'" and "path_Join [dir, n] = path_Join [dir, n']"
  shows "n = n'"
proof -
  have "\<forall>p \<in> set (dir_parts dir @ [n]). CHR ''/'' \<notin> set p" "\<forall>p \<in> set (dir_parts dir @ [n']). CHR ''/'' \<notin> set p"
    using assms(2,3) dir_parts_flat [of dir] by (auto simp: plain_name_def)
  moreover have "join_parts (dir_parts dir @ [n]) = join_parts (dir_parts dir @ [n'])"
    using assms(4) unfolding path_Join_dir [OF assms(1,2)] path_Join_dir [OF assms(1,3)] by (simp only: same_append_eq)
  ultimately have "dir_parts dir @ [n] = dir_parts dir @ [n']" using Split_join by (metis append_is_Nil_conv list.distinct(1))
  then show ?thesis by simp
qed

section \<open>A whole upload\<close>

text \<open>The requests of a client for the chunks of a file, each with its identifier.\<close>

definition chunk_req :: "string \<Rightarrow> int \<Rightarrow> (string \<times> bytes) list \<Rightarrow> nat \<Rightarrow> FileChunkReq" where
  "chunk_req c len chunks k = \<lparr>fcr_ChunkId = int k, fcr_TotalLength = len, fcr_TotalChunks = int (length chunks),
     fcr_ChunkCid = fst (chunks ! k), fcr_Cid = c, fcr_Content = snd (chunks ! k)\<rparr>"

text \<open>The state after uploads that were all answered without an error.\<close>

fun upload_all :: "('d, 'k, 'f) UploadEnv \<Rightarrow> string \<Rightarrow> FileChunkReq list \<Rightarrow> ('d, 'f) RpcHandler \<Rightarrow> ('d, 'f) RpcHandler option" where
  "upload_all U target [] rs = Some rs"
| "upload_all U target (req # reqs) rs =
     (case Upload_req U req target rs of Return (Inr _, rs') \<Rightarrow> upload_all U target reqs rs' | _ \<Rightarrow> None)"

lemma upload_all_append:
  "upload_all U target (reqs @ reqs') rs = Option.bind (upload_all U target reqs rs) (upload_all U target reqs')"
  by (induction reqs arbitrary: rs) (auto split: outcome.splits sum.splits prod.splits)

lemma upload_all_one: "upload_all U target [req] rs = Some rs' \<longleftrightarrow> (\<exists>r. Upload_req U req target rs = Return (Inr r, rs'))"
proof (cases "Upload_req U req target rs")
  case (Return p)
  then show ?thesis by (cases "fst p"; cases p) simp_all
qed simp

lemma read_chunks_Cons:
  "read_chunks U f dir (c # cs) = Inr b \<longleftrightarrow>
   (\<exists>b1 b2. read_file U f (path_Join [dir, c]) = Inr b1 \<and> read_chunks U f dir cs = Inr b2 \<and> b = b1 @ b2)"
  by (cases "read_file U f (path_Join [dir, c])"; cases "read_chunks U f dir cs") auto

text \<open>The record after the first \<open>k\<close> chunks.\<close>

definition info_after :: "string \<Rightarrow> string \<Rightarrow> (string \<times> bytes) list \<Rightarrow> nat \<Rightarrow> ReceivedFileInfo \<Rightarrow> bool" where
  "info_after c path chunks k info \<longleftrightarrow>
     rfi_Cid info = c \<and> rfi_Path info = path \<and> rfi_ChunkCids info = map fst (take k chunks) @ replicate (length chunks - k) []"

lemma cids_step:
  fixes chunks :: "(string \<times> bytes) list"
  assumes "k < length chunks"
  shows "(map fst (take k chunks) @ replicate (length chunks - k) []) ! k = []"
    and "(map fst (take k chunks) @ replicate (length chunks - k) [])[k := fst (chunks ! k)] =
      map fst (take (Suc k) chunks) @ replicate (length chunks - Suc k) []"
proof -
  have r: "replicate (length chunks - k) [] = [] # replicate (length chunks - Suc k) ([] :: string)"
    using assms by (cases "length chunks - k") auto
  show "(map fst (take k chunks) @ replicate (length chunks - k) []) ! k = []" using assms by (simp add: nth_append)
  show "(map fst (take k chunks) @ replicate (length chunks - k) [])[k := fst (chunks ! k)] =
      map fst (take (Suc k) chunks) @ replicate (length chunks - Suc k) []"
    using assms by (simp add: r list_update_append take_Suc_conv_app_nth)
qed

locale upload_libs = file_system "up_fs U" content + datastore "up_ds U" contents
  for U :: "('d, 'k, 'f) UploadEnv" and content :: "'f \<Rightarrow> string \<Rightarrow> bytes option" and contents :: "'d \<Rightarrow> 'k \<Rightarrow> bytes option" +
  fixes text_ok :: "string \<Rightarrow> bool"
  assumes put_ok: "\<And>d k v. fst (ds_Put (up_ds U) d k v) = None"
    and get_ok: "\<And>d k v. contents d k = Some v \<Longrightarrow> ds_Get (up_ds U) d k = Inr v"
    and json: "\<And>info. list_all text_ok (rfi_Cid info # rfi_Path info # rfi_ChunkCids info) \<Longrightarrow>
      \<exists>bs. up_MarshalInfo U info = Inr bs \<and> up_UnmarshalInfo U bs = Inr (Some info)"
    and empty_ok: "text_ok []"
begin

lemma write_file_content:
  assumes "write_file (up_fs U) p b f = (None, f')"
  shows "content f' = (content f)(p \<mapsto> b)"
proof -
  from assms obtain f1 where c: "fs_Create (up_fs U) f p = (None, f1)" and w: "fs_Write (up_fs U) f1 p b = (None, f')"
    by (auto simp: write_file_def split: prod.splits option.splits)
  from create [OF c] write_all [OF _ w] show ?thesis by simp
qed

lemma mkdir_snd: "content (snd (fs_MkdirAll (up_fs U) f p)) = content f"
  using mkdir by (metis surjective_pairing)

lemma ensure_dir_content: "content (snd (ensure_dir U dir f)) = content f"
  using mkdir_snd [of f dir] by (auto simp: ensure_dir_def Let_def split: stat.split prod.splits option.split)

lemma staging_space_content: "staging_space U req f = Return (e, f') \<Longrightarrow> content f' = content f"
  using mkdir_snd [of f] by (auto simp: staging_space_def split: stat.splits if_splits prod.splits option.splits sum.splits) (metis snd_conv)+

lemma write_chunk_content:
  assumes "write_chunk U req path f = (None, f')" and "fs_Expand (up_fs U) path = Inr dir"
  shows "content f' = (content f)(path_Join [dir, fcr_ChunkCid req] \<mapsto> fcr_Content req)"
proof -
  from assms obtain f1 where "ensure_dir U dir f = (None, f1)" "write_file (up_fs U) (path_Join [dir, fcr_ChunkCid req]) (fcr_Content req) f1 = (None, f')"
    by (auto simp: write_chunk_def split: prod.splits option.splits)
  then show ?thesis using ensure_dir_content [of dir f] write_file_content by simp
qed

text \<open>The record of an upload in the datastore.\<close>

definition stored_info :: "'d \<Rightarrow> string \<Rightarrow> ReceivedFileInfo \<Rightarrow> bool" where
  "stored_info db c info \<longleftrightarrow> (\<exists>bs. contents db (info_key U c) = Some bs \<and> up_UnmarshalInfo U bs = Inr (Some info))"

lemma stored_info_get: "stored_info db c info \<Longrightarrow> \<exists>bs. ds_Get (up_ds U) db (info_key U c) = Inr bs \<and> up_UnmarshalInfo U bs = Inr (Some info)"
  unfolding stored_info_def using get_ok by blast

lemma handleChunkInfo_stores:
  assumes "chunk_info U req path db = Return (Some info)" and "handleChunkInfo U req path db = Return db'"
    and "list_all text_ok (rfi_Cid info # rfi_Path info # rfi_ChunkCids info)"
  shows "stored_info db' (fcr_Cid req) info"
proof -
  from json [OF assms(3)] obtain bs where bs: "up_MarshalInfo U info = Inr bs" "up_UnmarshalInfo U bs = Inr (Some info)" by blast
  have "ds_Put (up_ds U) db (info_key U (fcr_Cid req)) bs = (None, db')"
    using assms(1,2) bs(1) put_ok [of db "info_key U (fcr_Cid req)" bs]
    by (cases "ds_Put (up_ds U) db (info_key U (fcr_Cid req)) bs") (simp add: handleChunkInfo_def)
  with put bs(2) show ?thesis unfolding stored_info_def by blast
qed

lemma chunk_info_after:
  assumes "k < length chunks" and "k = 0 \<or> (\<exists>info. stored_info db c info \<and> info_after c path chunks k info)"
  shows "\<exists>info. chunk_info U (chunk_req c len chunks k) path db = Return (Some info) \<and> info_after c path chunks (Suc k) info"
proof (cases "k = 0")
  case True
  with assms(1) have "(replicate (length chunks) [])[0 := fst (chunks ! 0)] = map fst (take (Suc 0) chunks) @ replicate (length chunks - Suc 0) []"
    using cids_step(2) [of 0 chunks] by simp
  with True assms(1) show ?thesis by (auto simp: chunk_info_def chunk_req_def info_after_def)
next
  case False
  with assms(2) obtain info where info: "stored_info db c info" "info_after c path chunks k info" by blast
  from stored_info_get [OF info(1)] obtain bs where "ds_Get (up_ds U) db (info_key U c) = Inr bs" "up_UnmarshalInfo U bs = Inr (Some info)" by blast
  with False info(2) assms(1) show ?thesis using cids_step [OF assms(1)]
    by (simp add: chunk_info_def chunk_req_def info_after_def)
qed

lemma upload_step:
  assumes "Upload_req U (chunk_req c len chunks k) target rs = Return (Inr r, rs')" and "k < length chunks"
    and "fs_Expand (up_fs U) (path_Join [target, c]) = Inr dir" and "snd (chunks ! k) \<noteq> []"
    and "text_ok c" "text_ok (path_Join [target, c])" "\<forall>x \<in> set chunks. text_ok (fst x)"
    and "k = 0 \<or> (\<exists>info. stored_info (rh_Db rs) c info \<and> info_after c (path_Join [target, c]) chunks k info)"
  shows "(\<exists>info. stored_info (rh_Db rs') c info \<and> info_after c (path_Join [target, c]) chunks (Suc k) info)
    \<and> content (rh_files rs') = (content (rh_files rs))(path_Join [dir, fst (chunks ! k)] \<mapsto> snd (chunks ! k))"
proof -
  let ?req = "chunk_req c len chunks k" and ?path = "path_Join [target, c]"
  have req: "fcr_Cid ?req = c" "fcr_Content ?req = snd (chunks ! k)" "fcr_ChunkCid ?req = fst (chunks ! k)" by (simp_all add: chunk_req_def)
  from assms(1,4) obtain f db f' where run: "staging_space U ?req (rh_files rs) = Return (None, f)" "handleChunkInfo U ?req ?path (rh_Db rs) = Return db"
    "write_chunk U ?req ?path f = (None, f')" and rs': "rs' = rs\<lparr>rh_files := f', rh_Db := db\<rparr>"
    by (auto simp: Upload_req_def upload_chunk_def req bind_outcome_case Let_def split: sum.splits outcome.splits prod.splits option.splits)
  from chunk_info_after [OF assms(2,8)] obtain info where
    info: "chunk_info U ?req ?path (rh_Db rs) = Return (Some info)" "info_after c ?path chunks (Suc k) info" by blast
  have "list_all text_ok (rfi_Cid info # rfi_Path info # rfi_ChunkCids info)"
    using info(2) assms(5-7) empty_ok by (auto simp: info_after_def list_all_iff dest: in_set_takeD)
  from handleChunkInfo_stores [OF info(1) run(2) this] have "stored_info db c info" by (simp add: req)
  with info(2) staging_space_content [OF run(1)] write_chunk_content [OF run(3) assms(3)] show ?thesis by (auto simp: rs' req)
qed

lemma upload_chunks:
  assumes "upload_all U target (map (chunk_req c len chunks) [0..<k]) rs = Some rs'" and "k \<le> length chunks"
    and "fs_Expand (up_fs U) (path_Join [target, c]) = Inr dir" and "dir \<noteq> []"
    and "\<forall>x \<in> set chunks. plain_name (fst x) \<and> text_ok (fst x) \<and> snd x \<noteq> []"
    and "\<forall>x \<in> set chunks. \<forall>y \<in> set chunks. fst x = fst y \<longrightarrow> snd x = snd y"
    and "text_ok c" "text_ok (path_Join [target, c])"
  shows "(k = 0 \<or> (\<exists>info. stored_info (rh_Db rs') c info \<and> info_after c (path_Join [target, c]) chunks k info))
    \<and> (\<forall>j < k. content (rh_files rs') (path_Join [dir, fst (chunks ! j)]) = Some (snd (chunks ! j)))"
  using assms(1,2)
proof (induction k arbitrary: rs')
  case (Suc k)
  from Suc.prems obtain rs1 r where pre: "upload_all U target (map (chunk_req c len chunks) [0..<k]) rs = Some rs1"
    and step: "Upload_req U (chunk_req c len chunks k) target rs1 = Return (Inr r, rs')"
    by (auto simp: upload_all_append bind_eq_Some_conv upload_all_one simp del: upload_all.simps)
  from Suc.prems(2) have k: "k < length chunks" by simp
  then have "chunks ! k \<in> set chunks" by simp
  with assms(5) have ne: "snd (chunks ! k) \<noteq> []" by blast
  have ih: "k = 0 \<or> (\<exists>info. stored_info (rh_Db rs1) c info \<and> info_after c (path_Join [target, c]) chunks k info)"
    "\<forall>j < k. content (rh_files rs1) (path_Join [dir, fst (chunks ! j)]) = Some (snd (chunks ! j))"
    using Suc.IH [OF pre] k by auto
  have "\<forall>x \<in> set chunks. text_ok (fst x)" using assms(5) by blast
  from upload_step [OF step k assms(3) ne assms(7,8) this ih(1)] have
    st: "\<exists>info. stored_info (rh_Db rs') c info \<and> info_after c (path_Join [target, c]) chunks (Suc k) info"
    and files: "content (rh_files rs') = (content (rh_files rs1))(path_Join [dir, fst (chunks ! k)] \<mapsto> snd (chunks ! k))" by auto
  have "content (rh_files rs') (path_Join [dir, fst (chunks ! j)]) = Some (snd (chunks ! j))" if "j < Suc k" for j
  proof (cases "path_Join [dir, fst (chunks ! j)] = path_Join [dir, fst (chunks ! k)]")
    case True
    have "chunks ! j \<in> set chunks" "chunks ! k \<in> set chunks" using that k by simp_all
    moreover from this have "fst (chunks ! j) = fst (chunks ! k)" using path_Join_inj [OF assms(4) _ _ True] assms(5) by blast
    ultimately have "snd (chunks ! j) = snd (chunks ! k)" using assms(6) by blast
    with True show ?thesis by (simp add: files)
  next
    case False
    with that have "j < k" by (cases "j = k") auto
    with False ih(2) show ?thesis by (simp add: files)
  qed
  with st show ?case by blast
qed simp

lemma read_chunks_concat:
  "read_chunks U f dir (map fst chunks) = Inr b \<Longrightarrow> \<forall>x \<in> set chunks. content f (path_Join [dir, fst x]) = Some (snd x) \<Longrightarrow>
   b = concat (map snd chunks)"
proof (induction chunks arbitrary: b)
  case (Cons x chunks)
  from Cons.prems(1) obtain b1 b2 where "read_file U f (path_Join [dir, fst x]) = Inr b1" "read_chunks U f dir (map fst chunks) = Inr b2" "b = b1 @ b2"
    unfolding list.map read_chunks_Cons by blast
  moreover from this(1) have "content f (path_Join [dir, fst x]) = Some b1" using read by (simp add: read_file_def split: option.splits)
  ultimately show ?case using Cons.IH [of b2] Cons.prems(2) by simp
qed simp

lemma upload_done_file:
  assumes "Upload_req U req target rs = Return (Inr r, rs')" and "fcr_Content req = []" and "stored_info (rh_Db rs) (fcr_Cid req) info"
    and "info_after (fcr_Cid req) path chunks (length chunks) info" and "fs_Expand (up_fs U) path = Inr dir"
    and "\<forall>x \<in> set chunks. content (rh_files rs) (path_Join [dir, fst x]) = Some (snd x)"
  shows "content (rh_files rs') (path_Join [dir, fcr_Cid req]) = Some (concat (map snd chunks)) \<and> rh_Db rs' = rh_Db rs"
proof -
  from stored_info_get [OF assms(3)] obtain bs where bs: "ds_Get (up_ds U) (rh_Db rs) (info_key U (fcr_Cid req)) = Inr bs"
    "up_UnmarshalInfo U bs = Inr (Some info)" by blast
  have info: "rfi_Path info = path" "rfi_ChunkCids info = map fst chunks" using assms(4) by (simp_all add: info_after_def)
  from assms(1,2) obtain b f where read: "read_chunks U (rh_files rs) dir (map fst chunks) = Inr b"
    and w: "write_file (up_fs U) (path_Join [dir, fcr_Cid req]) b (rh_files rs) = (None, f)" and rs': "rs' = rs\<lparr>rh_files := f\<rparr>"
    by (auto simp: Upload_req_def upload_done_def bs info assms(5) split: sum.splits prod.splits option.splits)
  from write_file_content [OF w] read_chunks_concat [OF read assms(6)] show ?thesis by (simp add: rs')
qed

end

section \<open>A concrete site\<close>

text \<open>Records as lines: numbers in unary with a sign, texts without line breaks.\<close>

fun join_lines :: "string list \<Rightarrow> string" where
  "join_lines [] = []"
| "join_lines [l] = l"
| "join_lines (l # m # ls) = l @ CHR 10 # join_lines (m # ls)"

definition unary :: "int \<Rightarrow> string" where
  "unary i = (if i < 0 then CHR ''-'' else CHR ''+'') # replicate (nat \<bar>i\<bar>) (CHR ''1'')"

definition of_unary :: "string \<Rightarrow> int" where
  "of_unary s = (if hd s = CHR ''-'' then - int (length s - 1) else int (length s - 1))"

definition lines_of_info :: "ReceivedFileInfo \<Rightarrow> string list" where
  "lines_of_info i = rfi_Cid i # unary (rfi_TotalLength i) # unary (rfi_TotalChunks i) # unary (rfi_ReceivedLength i) # rfi_Path i # rfi_ChunkCids i"

fun info_of_lines :: "string list \<Rightarrow> ReceivedFileInfo option res" where
  "info_of_lines (c # len # n # received # path # cids) =
     Inr (Some \<lparr>rfi_Cid = c, rfi_TotalLength = of_unary len, rfi_TotalChunks = of_unary n, rfi_ReceivedLength = of_unary received,
       rfi_Path = path, rfi_ChunkCids = cids\<rparr>)"
| "info_of_lines _ = Inl (ErrText ''invalid record'')"

lemma of_unary_unary: "of_unary (unary i) = i"
  by (simp add: of_unary_def unary_def)

lemma Split_join_lines: "ls \<noteq> [] \<Longrightarrow> \<forall>l \<in> set ls. CHR 10 \<notin> set l \<Longrightarrow> Split (CHR 10) (join_lines ls) = ls"
  by (induction ls rule: join_lines.induct) (auto simp: Split_append)

definition mem_upload :: "(mem, string, string \<Rightarrow> bytes option) UploadEnv" where
  "mem_upload = \<lparr>up_ds = mem_ds, up_fs = mem_fs, up_Stat = (\<lambda>_ _. StatSize 0), up_Open = (\<lambda>_ _. None),
     up_UnmarshalReq = (\<lambda>_. Inl (ErrText ''no request'')), up_MarshalInfo = (\<lambda>i. Inr (join_lines (lines_of_info i))),
     up_UnmarshalInfo = (\<lambda>bs. info_of_lines (Split (CHR 10) bs)), up_Sum = Inr, up_cid_String = (\<lambda>c. c), up_StagingPath = ''/stage'',
     up_StagingSapceSize = 1000\<rparr>"

interpretation mem_upload: upload_libs mem_upload "\<lambda>f. f" mem_contents "\<lambda>s. CHR 10 \<notin> set s"
proof -
  have "up_fs mem_upload = mem_fs" "up_ds mem_upload = mem_ds" by (simp_all add: mem_upload_def)
  moreover have "\<exists>bs. up_MarshalInfo mem_upload info = Inr bs \<and> up_UnmarshalInfo mem_upload bs = Inr (Some info)"
    if "list_all (\<lambda>s. CHR 10 \<notin> set s) (rfi_Cid info # rfi_Path info # rfi_ChunkCids info)" for info
  proof -
    have "\<forall>l \<in> set (lines_of_info info). CHR 10 \<notin> set l" using that by (auto simp: lines_of_info_def unary_def list_all_iff)
    then have "Split (CHR 10) (join_lines (lines_of_info info)) = lines_of_info info" by (intro Split_join_lines) (simp_all add: lines_of_info_def)
    then show ?thesis by (simp add: mem_upload_def lines_of_info_def of_unary_unary)
  qed
  ultimately show "upload_libs mem_upload (\<lambda>f. f) mem_contents (\<lambda>s. CHR 10 \<notin> set s)"
    unfolding upload_libs_def upload_libs_axioms_def using mem_fs.file_system_axioms mem_store.datastore_axioms
    by (auto simp: mem_ds_def mem_contents_def)
qed

section \<open>The uploaded file\<close>

text \<open>When the chunks of a file were uploaded in order and the upload was ended, all without an error, the file named by the
  identifier of the whole has the contents of the chunks one after the other, and creating a model from it is
  creating it with that content.  Two chunks may share an identifier if they have the same content.\<close>

lemma upload_then_create:
  assumes "upload_libs U content contents text_ok" and "fs_Expand (up_fs U) (path_Join [target, c]) = Inr dir" and "dir \<noteq> []"
    and "chunks \<noteq> []" and "\<forall>x \<in> set chunks. plain_name (fst x) \<and> text_ok (fst x) \<and> snd x \<noteq> []"
    and "\<forall>x \<in> set chunks. \<forall>y \<in> set chunks. fst x = fst y \<longrightarrow> snd x = snd y" and "text_ok c" and "text_ok (path_Join [target, c])"
    and "upload_all U target (map (chunk_req c len chunks) [0..<length chunks]) rs = Some rs1"
    and "fcr_Content done_req = []" and "fcr_Cid done_req = c" and "Upload_req U done_req target rs1 = Return (Inr r, rs2)"
  shows "content (rh_files rs2) (path_Join [dir, c]) = Some (concat (map snd chunks))
    \<and> (prop_Cid proposal = c \<and> \<not> isl (read_file U (rh_files rs2) (path_Join [dir, c])) \<longrightarrow>
       ModelCreateFile U N req proposal jws orderId rs2 mm = ModelCreate N req proposal jws orderId (concat (map snd chunks)) mm)"
proof -
  note chunks = upload_libs.upload_chunks [OF assms(1,9) order_refl assms(2,3,5,6,7,8)]
  then obtain info where info: "upload_libs.stored_info U contents (rh_Db rs1) c info" "info_after c (path_Join [target, c]) chunks (length chunks) info"
    using assms(4) by auto
  have "\<forall>x \<in> set chunks. content (rh_files rs1) (path_Join [dir, fst x]) = Some (snd x)"
    using chunks by (metis in_set_conv_nth)
  from upload_libs.upload_done_file [OF assms(1,12,10) _ _ assms(2) this] info assms(11)
  have out: "content (rh_files rs2) (path_Join [dir, c]) = Some (concat (map snd chunks))" "rh_Db rs2 = rh_Db rs1" by auto
  from upload_libs.stored_info_get [OF assms(1) info(1)] obtain bs where
    bs: "ds_Get (up_ds U) (rh_Db rs2) (info_key U c) = Inr bs" "up_UnmarshalInfo U bs = Inr (Some info)" by (auto simp: out(2))
  have path: "rfi_Path info = path_Join [target, c]" using info(2) by (simp add: info_after_def)
  have "ModelCreateFile U N req proposal jws orderId rs2 mm = ModelCreate N req proposal jws orderId (concat (map snd chunks)) mm"
    if ok: "prop_Cid proposal = c" "\<not> isl (read_file U (rh_files rs2) (path_Join [dir, c]))"
  proof -
    from ok(2) obtain b where b: "up_Open U (rh_files rs2) (path_Join [dir, c]) = None" "fs_ReadFile (up_fs U) (rh_files rs2) (path_Join [dir, c]) = Inr b"
      by (auto simp: read_file_def isl_def split: option.splits) (metis obj_sumE)
    with file_system.read [OF upload_libs.axioms(1) [OF assms(1)] b(2)] out(1) have "b = concat (map snd chunks)" by simp
    with b bs path ok(1) assms(2) show ?thesis by (simp add: ModelCreateFile_def)
  qed
  with out(1) show ?thesis by blast
qed

end
