(* ===== verification/Upload_Client.thy ===== *)
theory Upload_Client
  imports Upload_Props
begin

text \<open>
  The client's side of an upload (\<^verbatim>\<open>DoTransport\<close> and \<^verbatim>\<open>DoTransportTCP\<close> of \<^verbatim>\<open>src/client/transport.go\<close>): a file is cut into chunks of 32 MiB, each is
  sent in a request of its own and the answer is compared with the chunk's identifier; requests without content follow.
  The connection is the parameter \<open>call\<close>, which answers a request with the data of the response or an error.  With the node's
  handler as the other end, an upload that the client reports as done has delivered the file, and a model
  created from it has the client's content.
\<close>

section \<open>Sending a file\<close>

definition CHUNK_SIZE :: nat where "CHUNK_SIZE = 32 * 1024 * 1024"

definition chunk_at :: "nat \<Rightarrow> bytes \<Rightarrow> nat \<Rightarrow> bytes" where
  "chunk_at sz content chunkId =
     (if (chunkId + 1) * sz < length content then take sz (drop (chunkId * sz) content)
      else if chunkId * sz < length content then drop (chunkId * sz) content
      else [])"

definition totalChunks :: "nat \<Rightarrow> bytes \<Rightarrow> nat" where
  "totalChunks sz content = length content div sz + 1"

definition client_req :: "nat \<Rightarrow> bytes \<Rightarrow> string \<Rightarrow> string \<Rightarrow> nat \<Rightarrow> FileChunkReq" where
  "client_req sz content contentCid chunkCid chunkId =
     \<lparr>fcr_ChunkId = int chunkId, fcr_TotalLength = int (length content), fcr_TotalChunks = int (totalChunks sz content),
      fcr_ChunkCid = chunkCid, fcr_Cid = contentCid, fcr_Content = chunk_at sz content chunkId\<rparr>"

text \<open>The loop over the chunks; the answer is the identifier of the content or \<open>None\<close> for \<^verbatim>\<open>cid.Undef\<close>.\<close>

function send_chunks ::
  "(FileChunkReq \<Rightarrow> 's \<Rightarrow> string res \<times> 's) \<Rightarrow> (bytes \<Rightarrow> cid res) \<Rightarrow> (cid \<Rightarrow> string) \<Rightarrow> nat \<Rightarrow> bytes \<Rightarrow> cid \<Rightarrow> nat \<Rightarrow> 's \<Rightarrow> cid option \<times> 's" where
  "send_chunks call hash text sz content contentCid chunkId st =
     (if chunkId > totalChunks sz content then (Some contentCid, st)
      else
        (case CalculateCid hash (chunk_at sz content chunkId) of
           Inl _ \<Rightarrow> (None, st)
         | Inr chunkCid \<Rightarrow>
             (case call (client_req sz content (text contentCid) (text chunkCid) chunkId) st of
                (Inl _, st') \<Rightarrow> (None, st')
              | (Inr remoteCid, st') \<Rightarrow>
                  if remoteCid = text chunkCid then send_chunks call hash text sz content contentCid (chunkId + 1) st'
                  else if remoteCid = text contentCid \<and> chunk_at sz content chunkId = [] then (Some contentCid, st')
                  else (None, st'))))"
  by pat_completeness auto

termination
  by (relation "measure (\<lambda>(call, hash, text, sz, content, contentCid, chunkId, st). Suc (totalChunks sz content) - chunkId)") auto

declare send_chunks.simps [simp del]

text \<open>The transport of the content of a file, once the connection is there.\<close>

definition DoTransport ::
  "(FileChunkReq \<Rightarrow> 's \<Rightarrow> string res \<times> 's) \<Rightarrow> (bytes \<Rightarrow> cid res) \<Rightarrow> (cid \<Rightarrow> string) \<Rightarrow> bytes res \<Rightarrow> 's \<Rightarrow> cid option \<times> 's" where
  "DoTransport call hash text read_all st =
     (case read_all of
        Inl _ \<Rightarrow> (None, st)
      | Inr content \<Rightarrow>
          (case CalculateCid hash content of
             Inl _ \<Rightarrow> (None, st)
           | Inr contentCid \<Rightarrow> send_chunks call hash text CHUNK_SIZE content contentCid 0 st))"

text \<open>The variant over TCP has the same loop after another start: \<open>key\<close> is whether there is a key for the connection, \<open>host\<close> whether the host could be
  made and the address of the peer be read.  The errors of these are only printed, and the nil values used.\<close>

definition DoTransportTCP ::
  "bool \<Rightarrow> bool \<Rightarrow> (FileChunkReq \<Rightarrow> 's \<Rightarrow> string res \<times> 's) \<Rightarrow> (bytes \<Rightarrow> cid res) \<Rightarrow> (cid \<Rightarrow> string) \<Rightarrow> bytes res \<Rightarrow> 's \<Rightarrow> (cid option \<times> 's) outcome" where
  "DoTransportTCP key host call hash text read_all st =
     (if \<not> key then Return (None, st) else if \<not> host then Panic else Return (DoTransport call hash text read_all st))"

section \<open>The chunks are the content\<close>

lemma concat_chunks:
  assumes "0 < sz"
  shows "concat (map (chunk_at sz content) [0..<totalChunks sz content]) = content"
proof -
  have pre: "concat (map (chunk_at sz content) [0..<k]) = take (k * sz) content" if "k \<le> length content div sz" for k
    using that
  proof (induction k)
    case (Suc k)
    from Suc.prems have le: "(k + 1) * sz \<le> length content" using assms by (simp add: less_eq_div_iff_mult_less_eq)
    have "chunk_at sz content k = take sz (drop (k * sz) content)" using le assms by (cases "(k + 1) * sz < length content") (auto simp: chunk_at_def)
    moreover have "take (k * sz) content @ take sz (drop (k * sz) content) = take (sz + k * sz) content" by (simp add: take_add [symmetric] add.commute)
    ultimately show ?case using Suc by simp
  qed simp
  let ?m = "length content div sz"
  have "\<not> (?m + 1) * sz < length content" using assms by (metis Suc_eq_plus1 dividend_less_div_times add.commute mult_Suc not_less_iff_gr_or_eq)
  then have last: "chunk_at sz content ?m = drop (?m * sz) content" by (simp add: chunk_at_def)
  show ?thesis using pre [of ?m] last by (simp add: totalChunks_def)
qed

lemma chunk_at_nonempty:
  assumes "0 < sz" and "length content mod sz \<noteq> 0" and "k < totalChunks sz content"
  shows "chunk_at sz content k \<noteq> []"
proof -
  have "k * sz \<le> length content div sz * sz" using assms(3) by (simp add: totalChunks_def)
  also have "\<dots> < length content" using assms(2) by (metis div_mult_mod_eq less_add_same_cancel1 neq0_conv)
  finally show ?thesis using assms(1) by (simp add: chunk_at_def)
qed

lemma chunk_at_end: "0 < sz \<Longrightarrow> chunk_at sz content (totalChunks sz content) = []"
  by (auto simp: chunk_at_def totalChunks_def dividend_less_div_times not_less less_imp_le)

section \<open>A client and a node\<close>

text \<open>The node's handler as the other end: a request is decoded as it was encoded, and a panic resets the stream.\<close>

definition server_call :: "('d, 'k, 'f) UploadEnv \<Rightarrow> string \<Rightarrow> FileChunkReq \<Rightarrow> ('d, 'f) RpcHandler \<Rightarrow> string res \<times> ('d, 'f) RpcHandler" where
  "server_call U target req rs = (case Upload_req U req target rs of Return p \<Rightarrow> p | Panic \<Rightarrow> (Inl (ErrText ''stream reset''), rs))"

text \<open>The identifier of a chunk, as text.\<close>

definition chunk_ident :: "('d, 'k, 'f) UploadEnv \<Rightarrow> bytes \<Rightarrow> string" where
  "chunk_ident U b = up_cid_String U (projr (CalculateCid (up_Sum U) b))"

lemma Upload_req_answer:
  "Upload_req U req target rs = Return (Inr r, rs') \<Longrightarrow> r = chunk_ident U (fcr_Content req)"
  by (auto simp: Upload_req_def chunk_ident_def bind_outcome_case split: sum.splits outcome.splits prod.splits option.splits if_splits)

lemma send_chunks_uploads:
  assumes "send_chunks (server_call U target) (up_Sum U) (up_cid_String U) sz content contentCid k rs = (Some c, rs')"
    and "k \<le> Suc (totalChunks sz content)"
  shows "c = contentCid
    \<and> upload_all U target (map (\<lambda>i. client_req sz content (up_cid_String U contentCid) (chunk_ident U (chunk_at sz content i)) i)
        [k..<Suc (totalChunks sz content)]) rs = Some rs'"
  using assms
proof (induction "Suc (totalChunks sz content) - k" arbitrary: k rs)
  case 0
  then have "k = Suc (totalChunks sz content)" by simp
  with 0(2) show ?case by (simp add: send_chunks.simps [where chunkId="Suc (totalChunks sz content)"])
next
  case (Suc m)
  then have le: "k \<le> totalChunks sz content" by simp
  let ?chunk = "chunk_at sz content k"
  let ?req = "client_req sz content (up_cid_String U contentCid) (chunk_ident U ?chunk) k"
  from Suc.prems(1) le obtain chunkCid where cid: "CalculateCid (up_Sum U) ?chunk = Inr chunkCid"
    by (subst (asm) send_chunks.simps) (auto split: sum.splits)
  then have ident: "chunk_ident U ?chunk = up_cid_String U chunkCid" by (simp add: chunk_ident_def)
  have content: "fcr_Content ?req = ?chunk" by (simp add: client_req_def)
  from Suc.prems(1) le cid obtain r rs1 where call: "server_call U target ?req rs = (Inr r, rs1)"
    by (subst (asm) send_chunks.simps) (auto simp: ident split: sum.splits prod.splits)
  then have up: "Upload_req U ?req target rs = Return (Inr r, rs1)" by (simp add: server_call_def split: outcome.splits)
  from Upload_req_answer [OF up] have "r = chunk_ident U ?chunk" unfolding content .
  with ident have r: "r = up_cid_String U chunkCid" by simp
  from Suc.prems(1) le cid call r have "send_chunks (server_call U target) (up_Sum U) (up_cid_String U) sz content contentCid (k + 1) rs1 = (Some c, rs')"
    by (subst (asm) send_chunks.simps) (simp add: ident)
  from Suc.hyps(1) [OF _ this] Suc.hyps(2) le have ih: "c = contentCid" "upload_all U target
    (map (\<lambda>i. client_req sz content (up_cid_String U contentCid) (chunk_ident U (chunk_at sz content i)) i) [k + 1..<Suc (totalChunks sz content)]) rs1 = Some rs'"
    by simp_all
  have "[k..<Suc (totalChunks sz content)] = k # [k + 1..<Suc (totalChunks sz content)]" using le by (simp add: upt_conv_Cons del: upt_Suc)
  with ih up show ?case by (simp del: upt_Suc)
qed

section \<open>Properties\<close>

text \<open>C25. When the client's upload of a file returns its identifier, the node has the file: what was cut, sent, recorded and put
  together is the client's content, and a model created from the upload is created with it.  The length of the
  file is not a multiple of the chunk size (such an upload ends with a chunk that is never sent), and chunks with the same
  identifier are equal.\<close>

theorem DoTransport_then_create:
  assumes "upload_libs U stored contents text_ok"
    and "DoTransport (server_call U target) (up_Sum U) (up_cid_String U) (Inr content) rs = (Some contentCid, rs2)"
    and "fs_Expand (up_fs U) (path_Join [target, up_cid_String U contentCid]) = Inr dir" and "dir \<noteq> []"
    and "length content mod CHUNK_SIZE \<noteq> 0"
    and "\<forall>k < totalChunks CHUNK_SIZE content. plain_name (chunk_ident U (chunk_at CHUNK_SIZE content k)) \<and> text_ok (chunk_ident U (chunk_at CHUNK_SIZE content k))"
    and "inj_on (chunk_ident U) (range (chunk_at CHUNK_SIZE content))"
    and "text_ok (up_cid_String U contentCid)" and "text_ok (path_Join [target, up_cid_String U contentCid])"
  shows "stored (rh_files rs2) (path_Join [dir, up_cid_String U contentCid]) = Some content
    \<and> (prop_Cid proposal = up_cid_String U contentCid \<and> \<not> isl (read_file U (rh_files rs2) (path_Join [dir, up_cid_String U contentCid])) \<longrightarrow>
       ModelCreateFile U N req proposal jws orderId rs2 mm = ModelCreate N req proposal jws orderId content mm)"
proof -
  define n where "n = totalChunks CHUNK_SIZE content"
  define chunks where "chunks = map (\<lambda>k. (chunk_ident U (chunk_at CHUNK_SIZE content k), chunk_at CHUNK_SIZE content k)) [0..<n]"
  let ?c = "up_cid_String U contentCid"
  let ?req = "\<lambda>i. client_req CHUNK_SIZE content ?c (chunk_ident U (chunk_at CHUNK_SIZE content i)) i"
  have sz: "0 < CHUNK_SIZE" by (simp add: CHUNK_SIZE_def)
  from assms(2) obtain c0 where sent: "send_chunks (server_call U target) (up_Sum U) (up_cid_String U) CHUNK_SIZE content c0 0 rs = (Some contentCid, rs2)"
    by (auto simp: DoTransport_def split: sum.splits)
  note all = send_chunks_uploads [OF sent]
  then have "upload_all U target (map ?req [0..<n] @ [?req n]) rs = Some rs2" by (simp add: n_def)
  then obtain rs1 r where up: "upload_all U target (map ?req [0..<n]) rs = Some rs1" and last: "Upload_req U (?req n) target rs1 = Return (Inr r, rs2)"
    unfolding upload_all_append bind_eq_Some_conv upload_all_one by blast
  have "map ?req [0..<n] = map (chunk_req ?c (int (length content)) chunks) [0..<length chunks]"
    by (simp add: chunks_def client_req_def chunk_req_def n_def)
  with up have up: "upload_all U target (map (chunk_req ?c (int (length content)) chunks) [0..<length chunks]) rs = Some rs1" by simp
  have ok: "\<forall>x \<in> set chunks. plain_name (fst x) \<and> text_ok (fst x) \<and> snd x \<noteq> []" "\<forall>x \<in> set chunks. \<forall>y \<in> set chunks. fst x = fst y \<longrightarrow> snd x = snd y"
    using assms(6,7) chunk_at_nonempty [OF sz assms(5)] by (auto simp: chunks_def n_def inj_on_def)
  have whole: "concat (map snd chunks) = content" using concat_chunks [OF sz, of content] by (simp add: chunks_def n_def comp_def)
  have "chunks \<noteq> []" by (simp add: chunks_def n_def totalChunks_def)
  from upload_then_create [OF assms(1,3,4) this ok assms(8,9) up _ _ last, unfolded whole] show ?thesis
    using chunk_at_end [OF sz, of content] by (simp add: client_req_def n_def)
qed

definition sample_part :: "nat \<Rightarrow> FileChunkReq" where
  "sample_part k = \<lparr>fcr_ChunkId = int k, fcr_TotalLength = 4, fcr_TotalChunks = 1, fcr_ChunkCid = (if k = 0 then ''abcd'' else []), fcr_Cid = ''abcd'',
     fcr_Content = (if k = 0 then ''abcd'' else [])\<rparr>"

definition sample_handler :: "(mem, string \<Rightarrow> bytes option) RpcHandler" where
  "sample_handler = \<lparr>rh_Db = Map.empty, rh_files = Map.empty\<rparr>"

lemma sample_received:
  "case Upload_req mem_upload (sample_part 0) ''/stage/p1'' sample_handler of
     Return p \<Rightarrow> \<not> isl (fst p) \<and> (case Upload_req mem_upload (sample_part (Suc 0)) ''/stage/p1'' (snd p) of Return q \<Rightarrow> \<not> isl (fst q) | Panic \<Rightarrow> False)
   | Panic \<Rightarrow> False"
  by code_simp

lemma sample_sent:
  "\<exists>rs2. DoTransport (server_call mem_upload ''/stage/p1'') (up_Sum mem_upload) (up_cid_String mem_upload) (Inr ''abcd'') sample_handler = (Some ''abcd'', rs2)"
proof -
  from sample_received obtain r0 rs1 r1 rs2 where
    up: "Upload_req mem_upload (sample_part 0) ''/stage/p1'' sample_handler = Return (Inr r0, rs1)"
      "Upload_req mem_upload (sample_part (Suc 0)) ''/stage/p1'' rs1 = Return (Inr r1, rs2)"
    by (auto simp: isl_def split: outcome.splits) (metis obj_sumE surjective_pairing)
  have "r0 = ''abcd''" "r1 = []" using up [THEN Upload_req_answer]
    by (simp_all add: sample_part_def chunk_ident_def CalculateCid_def mem_upload_def)
  with up have call: "server_call mem_upload ''/stage/p1'' (sample_part 0) sample_handler = (Inr ''abcd'', rs1)"
    "server_call mem_upload ''/stage/p1'' (sample_part (Suc 0)) rs1 = (Inr [], rs2)" by (simp_all add: server_call_def)
  have chunk: "chunk_at CHUNK_SIZE ''abcd'' 0 = ''abcd''" "chunk_at CHUNK_SIZE ''abcd'' (Suc 0) = []" "totalChunks CHUNK_SIZE ''abcd'' = 1"
    by (simp_all add: chunk_at_def CHUNK_SIZE_def totalChunks_def)
  have req: "client_req CHUNK_SIZE ''abcd'' ''abcd'' ''abcd'' 0 = sample_part 0" "client_req CHUNK_SIZE ''abcd'' ''abcd'' [] (Suc 0) = sample_part (Suc 0)"
    by (simp_all add: client_req_def sample_part_def chunk)
  have env: "up_Sum mem_upload = Inr" "up_cid_String mem_upload = (\<lambda>c. c)" by (simp_all add: mem_upload_def)
  show ?thesis by (simp add: DoTransport_def CalculateCid_def env send_chunks.simps chunk req call)
qed

theorem DoTransport_then_create_witness:
  "\<exists>rs2. DoTransport (server_call mem_upload ''/stage/p1'') (up_Sum mem_upload) (up_cid_String mem_upload) (Inr ''abcd'') sample_handler = (Some ''abcd'', rs2)
     \<and> rh_files rs2 (path_Join [''/stage/p1/abcd'', ''abcd'']) = Some ''abcd''"
proof -
  from sample_sent obtain rs2 where sent: "DoTransport (server_call mem_upload ''/stage/p1'') (up_Sum mem_upload) (up_cid_String mem_upload) (Inr ''abcd'')
    sample_handler = (Some ''abcd'', rs2)" by blast
  have name: "path_Join [''/stage/p1'', ''abcd''] = ''/stage/p1/abcd''" by code_simp
  have env: "up_cid_String mem_upload c = c" "chunk_ident mem_upload b = b" "fs_Expand (up_fs mem_upload) ''/stage/p1/abcd'' = Inr ''/stage/p1/abcd''" for c b
    by (simp_all add: mem_upload_def chunk_ident_def CalculateCid_def mem_fs_def)
  have chunk: "chunk_at CHUNK_SIZE ''abcd'' 0 = ''abcd''" "totalChunks CHUNK_SIZE ''abcd'' = 1" "length ''abcd'' mod CHUNK_SIZE \<noteq> 0"
    by (simp_all add: chunk_at_def CHUNK_SIZE_def totalChunks_def)
  have "rh_files rs2 (path_Join [''/stage/p1/abcd'', up_cid_String mem_upload ''abcd'']) = Some ''abcd''"
    by (rule DoTransport_then_create [OF mem_upload.upload_libs_axioms sent _ _ chunk(3), THEN conjunct1])
      (simp_all add: env name chunk(1,2) plain_name_def inj_on_def)
  with sent show ?thesis by (auto simp: env)
qed

end
