(* ===== verification/Http_File_Server.thy ===== *)
theory Http_File_Server
  imports Model_Cache
begin

text \<open>
  The HTTP file server of the gateway (\<^verbatim>\<open>src/node/gateway/file_http_service.go\<close>): it serves the files of loaded models.  A cache
  remembers which data id a requested path stands for, and a file \<open>dataid.info\<close> beside each file lists the paths that led to it; files
  that no cached path leads to are removed from time to time.  The cache is a \<open>CacheApi\<close>; files, JSON, and the client that loads
  a model through the gateway are parameters.
\<close>

section \<open>Requests\<close>

text \<open>\<^verbatim>\<open>strings.Replace(s, old, "", 1)\<close> for a text \<open>old\<close> that is not empty.\<close>

fun remove_first :: "string \<Rightarrow> string \<Rightarrow> string" where
  "remove_first old [] = []"
| "remove_first old (c # s) = (if HasPrefix (c # s) old then drop (length old) (c # s) else c # remove_first old s)"

text \<open>\<^verbatim>\<open>strings.SplitN(s, "/", n)\<close> for \<open>n > 0\<close>.\<close>

fun SplitN :: "nat \<Rightarrow> string \<Rightarrow> string list" where
  "SplitN n [] = [[]]"
| "SplitN n (c # s) =
     (if n > 1 \<and> c = CHR ''/'' then [] # SplitN (n - 1) s
      else (case SplitN n s of [] \<Rightarrow> [[c]] | p # ps \<Rightarrow> (c # p) # ps))"

text \<open>The regular expression of a UUID, which matches the whole text or not at all.\<close>

definition is_hex :: "char \<Rightarrow> bool" where
  "is_hex c \<longleftrightarrow> c \<in> set ''0123456789abcdefABCDEF''"

definition is_uuid :: "string \<Rightarrow> bool" where
  "is_uuid s \<longleftrightarrow> map length (Split (CHR ''-'') s) = [8, 4, 4, 4, 12] \<and> list_all (list_all is_hex) (Split (CHR ''-'') s)"

text \<open>The keyword and the group of a path.\<close>

definition path_keyword :: "string \<Rightarrow> string \<times> string" where
  "path_keyword uri =
     (if is_uuid uri then (uri, [])
      else (case SplitN 2 uri of [groupId, keyword] \<Rightarrow> (keyword, groupId) | _ \<Rightarrow> ([], [])))"

section \<open>The server\<close>

text \<open>\<open>hf_Exists\<close> is whether \<^verbatim>\<open>os.Stat\<close> succeeds; \<open>hf_ReadDir\<close> lists names, with whether they are directories; \<open>hf_Unmarshal\<close> are the keys that
  decoding leaves, its error is ignored; \<open>hf_Client\<close> is the creation of the client, \<open>hf_GetModel\<close> its lookup and \<open>hf_Fetch\<close> its loading of a
  model for a keyword, a group and a type of keyword.\<close>

record ('c, 'f) HttpEnv =
  hf_cache :: "'c CacheApi"
  hf_fs :: "'f fs_ops"
  hf_Exists :: "'f \<Rightarrow> string \<Rightarrow> bool"
  hf_ReadDir :: "'f \<Rightarrow> string \<Rightarrow> (string \<times> bool) list res"
  hf_Unmarshal :: "bytes \<Rightarrow> string list"
  hf_Marshal :: "string list \<Rightarrow> bytes"
  hf_IsDataId :: "string \<Rightarrow> bool"
  hf_Client :: "goerr option"
  hf_GetModel :: "string \<Rightarrow> string res"
  hf_Fetch :: "string \<Rightarrow> string \<Rightarrow> nat \<Rightarrow> string res"
  hf_ServerPath :: string

record ('c, 'f) HttpFileServer =
  hs_cache :: 'c
  hs_files :: 'f

definition sao_http :: string where "sao_http = ''sao-http''"

definition info_file :: "('c, 'f) HttpEnv \<Rightarrow> string \<Rightarrow> string" where
  "info_file H dataId = hf_ServerPath H @ ''/'' @ dataId @ ''.info''"

definition file_of :: "('c, 'f) HttpEnv \<Rightarrow> string \<Rightarrow> string" where
  "file_of H name = hf_ServerPath H @ ''/'' @ name"

definition WriteFile :: "'f fs_ops \<Rightarrow> 'f \<Rightarrow> string \<Rightarrow> bytes \<Rightarrow> 'f" where
  "WriteFile F f path content = (case fs_Create F f path of (Some _, f') \<Rightarrow> f' | (None, f') \<Rightarrow> snd (fs_Write F f' path content))"

text \<open>The keys of a file are replaced when its list could be read.\<close>

definition updateCacheInfo :: "('c, 'f) HttpEnv \<Rightarrow> string \<Rightarrow> string \<Rightarrow> 'f \<Rightarrow> 'f" where
  "updateCacheInfo H dataId key f =
     (let keys = (case fs_ReadFile (hf_fs H) f (info_file H dataId) of
                    Inl _ \<Rightarrow> hf_Unmarshal H [] @ [key]
                  | Inr _ \<Rightarrow> [key])
      in WriteFile (hf_fs H) f (info_file H dataId) (hf_Marshal H keys))"

definition put_keys :: "('c, 'f) HttpEnv \<Rightarrow> string \<Rightarrow> string list \<Rightarrow> 'c \<Rightarrow> 'c outcome" where
  "put_keys H name keys c =
     fold (\<lambda>key r. bind_outcome r (\<lambda>c. ca_Put (hf_cache H) c sao_http key (CacheString name))) keys (Return c)"

definition model_files :: "(string \<times> bool) list \<Rightarrow> string list" where
  "model_files entries = map fst (filter (\<lambda>(name, dir). \<not> dir \<and> length name = 36) entries)"

definition loadCacheFiles :: "('c, 'f) HttpEnv \<Rightarrow> ('c, 'f) HttpFileServer \<Rightarrow> ('c, 'f) HttpFileServer outcome" where
  "loadCacheFiles H hs =
     (case hf_ReadDir H (hs_files hs) (hf_ServerPath H) of
        Inl _ \<Rightarrow> Return (hs\<lparr>hs_files := snd (fs_MkdirAll (hf_fs H) (hs_files hs) (hf_ServerPath H))\<rparr>)
      | Inr entries \<Rightarrow>
          bind_outcome
            (fold (\<lambda>name r. bind_outcome r (\<lambda>c.
               case fs_ReadFile (hf_fs H) (hs_files hs) (info_file H name) of
                 Inl _ \<Rightarrow> Return c
               | Inr bs \<Rightarrow> put_keys H name (hf_Unmarshal H bs) c)) (model_files entries) (Return (hs_cache hs)))
            (\<lambda>c. Return (hs\<lparr>hs_cache := c\<rparr>)))"

section \<open>Removing files\<close>

text \<open>Whether a cached key leads to the file; every key is looked up.  A cached value that is not a string panics.\<close>

fun key_leads :: "('c, 'f) HttpEnv \<Rightarrow> string \<Rightarrow> string list \<Rightarrow> 'c \<Rightarrow> (bool \<times> 'c) outcome" where
  "key_leads H name [] c = Return (False, c)"
| "key_leads H name (key # keys) c =
     bind_outcome (ca_Get (hf_cache H) c sao_http key) (\<lambda>(value, c1).
       case value of
         Inr (Some (CacheString dataId)) \<Rightarrow>
           bind_outcome (key_leads H name keys c1) (\<lambda>(leads, c2). Return (dataId = name \<or> leads, c2))
       | Inr (Some (CacheModel _)) \<Rightarrow> Panic
       | _ \<Rightarrow> key_leads H name keys c1)"

definition clean_file :: "('c, 'f) HttpEnv \<Rightarrow> string \<Rightarrow> ('c, 'f) HttpFileServer \<Rightarrow> ('c, 'f) HttpFileServer outcome" where
  "clean_file H name hs =
     bind_outcome
       (case fs_ReadFile (hf_fs H) (hs_files hs) (info_file H name) of
          Inl _ \<Rightarrow> Return (False, hs_cache hs)
        | Inr bs \<Rightarrow> key_leads H name (hf_Unmarshal H bs) (hs_cache hs))
       (\<lambda>(used, c).
         let f = hs_files hs;
             f1 = snd (fs_Remove (hf_fs H) f (file_of H name));
             f2 = (if hf_Exists H f1 (info_file H name) then snd (fs_Remove (hf_fs H) f1 (info_file H name)) else f1)
         in Return (hs\<lparr>hs_cache := c, hs_files := (if used then f else f2)\<rparr>))"

text \<open>One round of the cleaner; \<open>None\<close>: the directory could not be read, and the loop starts again at once.\<close>

definition CleanCacheFiles_round :: "('c, 'f) HttpEnv \<Rightarrow> ('c, 'f) HttpFileServer \<Rightarrow> ('c, 'f) HttpFileServer outcome option" where
  "CleanCacheFiles_round H hs =
     (case hf_ReadDir H (hs_files hs) (hf_ServerPath H) of
        Inl _ \<Rightarrow> None
      | Inr entries \<Rightarrow> Some (fold (\<lambda>name r. bind_outcome r (clean_file H name)) (model_files entries) (Return hs)))"

section \<open>Serving a request\<close>

datatype http_answer = NotFound string | ServeFile string

text \<open>The texts written with a not-found answer, one after the other.  The keyword of a request that the cache does not answer; the lookup of a model by a path of three parts follows only when there is
  neither a keyword nor a group.\<close>

definition request_keyword :: "('c, 'f) HttpEnv \<Rightarrow> string \<Rightarrow> string \<times> string" where
  "request_keyword H uri =
     (case path_keyword uri of (keyword, groupId) \<Rightarrow>
        if keyword = [] \<and> groupId = [] then
          (case SplitN 3 uri of
             [p0, p1, p2] \<Rightarrow> (case hf_GetModel H (p0 @ ''-'' @ p2 @ ''-'' @ p1) of Inl _ \<Rightarrow> ([], []) | Inr data \<Rightarrow> (data, []))
           | _ \<Rightarrow> ([], []))
        else (keyword, groupId))"

definition fetch_model :: "('c, 'f) HttpEnv \<Rightarrow> string \<Rightarrow> ('c, 'f) HttpFileServer \<Rightarrow> (http_answer res \<times> ('c, 'f) HttpFileServer) outcome" where
  "fetch_model H uri hs =
     (case hf_Client H of
        Some err \<Rightarrow> Return (Inl err, hs)
      | None \<Rightarrow>
          (case request_keyword H uri of (keyword, groupId) \<Rightarrow>
             if keyword = [] then
               Return (Inr (NotFound ((if path_keyword uri = ([], []) then ''invalid keyword and group'' else []) @ ''invalid request'')), hs)
             else
               (case hf_Fetch H keyword groupId (if hf_IsDataId H keyword then 1 else 2) of
                  Inl err \<Rightarrow>
                    Return (if Contains (Error err) ''NotFound'' \<and> \<not> HasPrefix (Error err) ''NotFound''
                            then Inr (NotFound ''model not found'') else Inl err, hs)
                | Inr dataId \<Rightarrow>
                    bind_outcome (ca_Put (hf_cache H) (hs_cache hs) sao_http uri (CacheString dataId)) (\<lambda>c.
                      Return (Inr (ServeFile (path_Join [hf_ServerPath H, dataId])),
                              hs\<lparr>hs_cache := c, hs_files := updateCacheInfo H dataId uri (hs_files hs)\<rparr>)))))"

definition load_file :: "('c, 'f) HttpEnv \<Rightarrow> string \<Rightarrow> ('c, 'f) HttpFileServer \<Rightarrow> (http_answer res \<times> ('c, 'f) HttpFileServer) outcome" where
  "load_file H url hs =
     (let uri = remove_first ''/sao/'' url
      in bind_outcome (ca_Get (hf_cache H) (hs_cache hs) sao_http uri) (\<lambda>(value, c).
           let hs1 = hs\<lparr>hs_cache := c\<rparr>
           in case value of
                Inr (Some (CacheString dataId)) \<Rightarrow>
                  if hf_Exists H (hs_files hs) (file_of H dataId)
                  then Return (Inr (ServeFile (path_Join [hf_ServerPath H, dataId])), hs1)
                  else fetch_model H uri hs1
              | Inr (Some (CacheModel _)) \<Rightarrow> Panic
              | _ \<Rightarrow> fetch_model H uri hs1))"

section \<open>Properties\<close>

text \<open>The lookup of a model by its path never happens: a path with a slash has a keyword or a group.\<close>

lemma SplitN_parts: "length (SplitN 3 uri) = 3 \<Longrightarrow> \<exists>g k. SplitN 2 uri = [g, k] \<and> (g, k) \<noteq> ([], [])"
proof -
  have one: "length (SplitN (Suc 0) s) = 1" for s by (induction s) (auto split: list.splits)
  have two: "length (SplitN 2 s) \<le> 2" for s
    by (induction s) (auto simp: one split: list.splits)
  have ne: "SplitN n s \<noteq> []" for n s by (cases s) (auto split: list.splits)
  have none: "SplitN n s = [s]" if "CHR ''/'' \<notin> set s" for n s using that by (induction s) auto
  have some: "\<exists>g k. SplitN 2 s = [g, k] \<and> s = g @ CHR ''/'' # k" if "CHR ''/'' \<in> set s" for s
    using that
  proof (induction s)
    case (Cons c s)
    have whole: "SplitN (Suc 0) t = [t]" for t by (induction t) auto
    show ?case
    proof (cases "c = CHR ''/''")
      case True
      then show ?thesis by (simp add: whole)
    next
      case False
      with Cons obtain g k where "SplitN 2 s = [g, k]" "s = g @ CHR ''/'' # k" by auto
      with False show ?thesis by auto
    qed
  qed simp
  have three: "length (SplitN 3 s) \<le> 2" if "s = ''/''" for s using that by simp
  assume l: "length (SplitN 3 uri) = 3"
  have "CHR ''/'' \<in> set uri" using l none [of uri 3] by (cases "CHR ''/'' \<in> set uri") auto
  from some [OF this] obtain g k where gk: "SplitN 2 uri = [g, k]" "uri = g @ CHR ''/'' # k" by blast
  with three l show ?thesis by (cases "g = [] \<and> k = []") auto
qed

lemma request_keyword_path: "request_keyword H uri = path_keyword uri"
proof (cases "path_keyword uri = ([], [])")
  case True
  have "length (SplitN 3 uri) \<noteq> 3"
  proof
    assume "length (SplitN 3 uri) = 3"
    from SplitN_parts [OF this] True show False by (auto simp: path_keyword_def is_uuid_def split: if_splits)
  qed
  with True show ?thesis by (auto simp: request_keyword_def split: list.splits)
qed (auto simp: request_keyword_def split: prod.splits)

text \<open>What the cleaner relies on: the cache of strings, and files that can be read when they exist.\<close>

lemma info_file_inj [simp]: "info_file H a = info_file H b \<longleftrightarrow> a = b"
  by (simp add: info_file_def)

lemma info_not_file: "length b = 36 \<Longrightarrow> length a = 36 \<Longrightarrow> info_file H a \<noteq> file_of H b"
  by (auto simp: info_file_def file_of_def dest: arg_cong [where f = length])

definition string_cache :: "('c \<Rightarrow> bool) \<Rightarrow> ('c \<Rightarrow> string \<Rightarrow> bool) \<Rightarrow> ('c \<Rightarrow> string \<Rightarrow> string \<Rightarrow> cache_value option) \<Rightarrow> 'c \<Rightarrow> bool" where
  "string_cache ok has holds c \<longleftrightarrow> ok c \<and> has c sao_http \<and> (\<forall>key v. holds c sao_http key = Some v \<longrightarrow> (\<exists>d. v = CacheString d))"

text \<open>A file that a cached path leads to.\<close>

definition cached_file ::
  "('c, 'f) HttpEnv \<Rightarrow> ('c \<Rightarrow> string \<Rightarrow> string \<Rightarrow> cache_value option) \<Rightarrow> ('f \<Rightarrow> string \<Rightarrow> bytes option) \<Rightarrow> ('c, 'f) HttpFileServer \<Rightarrow> string \<Rightarrow> bool" where
  "cached_file H holds content hs name \<longleftrightarrow>
     (\<exists>bs. content (hs_files hs) (info_file H name) = Some bs
        \<and> (\<exists>key \<in> set (hf_Unmarshal H bs). holds (hs_cache hs) sao_http key = Some (CacheString name)))"

locale http_site = cache_api ok has holds "ca_Get (hf_cache H)" "ca_Put (hf_cache H)" + file_system "hf_fs H" content
  for H :: "('c, 'f) HttpEnv" and ok :: "'c \<Rightarrow> bool" and has :: "'c \<Rightarrow> string \<Rightarrow> bool" and holds :: "'c \<Rightarrow> string \<Rightarrow> string \<Rightarrow> cache_value option"
    and content :: "'f \<Rightarrow> string \<Rightarrow> bytes option" +
  assumes readable: "\<And>f p b. content f p = Some b \<Longrightarrow> fs_ReadFile (hf_fs H) f p = Inr b"
begin

lemma key_leads_law:
  "string_cache ok has holds c \<Longrightarrow> \<exists>c'. key_leads H name keys c = Return (\<exists>key \<in> set keys. holds c sao_http key = Some (CacheString name), c')
     \<and> string_cache ok has holds c' \<and> holds c' = holds c"
proof (induction keys arbitrary: c)
  case (Cons key keys)
  then have c: "ok c" "has c sao_http" by (auto simp: string_cache_def)
  from get_law [OF c, of key] obtain c1 where get: "ca_Get (hf_cache H) c sao_http key = Return (Inr (holds c sao_http key), c1)"
    and c1: "ok c1" "has c1 = has c" "holds c1 = holds c" by blast
  with Cons.prems have "string_cache ok has holds c1" by (simp add: string_cache_def)
  from Cons.IH [OF this] c1(3) obtain c2 where ih: "key_leads H name keys c1 = Return (\<exists>key \<in> set keys. holds c sao_http key = Some (CacheString name), c2)"
    "string_cache ok has holds c2" "holds c2 = holds c" by auto
  show ?case
  proof (cases "holds c sao_http key")
    case None
    with get ih show ?thesis by auto
  next
    case (Some v)
    with Cons.prems obtain d where "v = CacheString d" by (auto simp: string_cache_def)
    with Some get ih show ?thesis by auto
  qed
qed simp

lemma remove_frame: "q \<noteq> p \<Longrightarrow> content (snd (fs_Remove (hf_fs H) f p)) q = content f q"
  using remove [of f p] remove_fail [of f p] by (cases "fs_Remove (hf_fs H) f p"; cases "fst (fs_Remove (hf_fs H) f p)") auto

lemma clean_file_law:
  assumes "string_cache ok has holds (hs_cache hs)"
  shows "\<exists>hs'. clean_file H name hs = Return hs' \<and> string_cache ok has holds (hs_cache hs') \<and> holds (hs_cache hs') = holds (hs_cache hs)
    \<and> (\<forall>q. content (hs_files hs') q \<noteq> content (hs_files hs) q \<longrightarrow> \<not> cached_file H holds content hs name \<and> q \<in> {file_of H name, info_file H name})"
proof -
  let ?look = "case fs_ReadFile (hf_fs H) (hs_files hs) (info_file H name) of
      Inl _ \<Rightarrow> Return (False, hs_cache hs) | Inr bs \<Rightarrow> key_leads H name (hf_Unmarshal H bs) (hs_cache hs)"
  obtain c where look: "?look = Return (cached_file H holds content hs name, c)" and c: "string_cache ok has holds c" "holds c = holds (hs_cache hs)"
  proof (cases "fs_ReadFile (hf_fs H) (hs_files hs) (info_file H name)")
    case (Inl e)
    with readable have "\<not> cached_file H holds content hs name" by (fastforce simp: cached_file_def)
    with that [of "hs_cache hs"] Inl assms show thesis by simp
  next
    case (Inr bs)
    with read have "content (hs_files hs) (info_file H name) = Some bs" by blast
    with key_leads_law [OF assms, of name "hf_Unmarshal H bs"] that Inr show thesis by (auto simp: cached_file_def)
  qed
  show ?thesis
  proof (cases "cached_file H holds content hs name")
    case True
    with look c show ?thesis unfolding clean_file_def look by (simp add: Let_def)
  next
    case False
    with look c show ?thesis unfolding clean_file_def look
      by (auto simp: Let_def remove_frame split: if_splits) (metis remove_frame)+
  qed
qed

lemma clean_files_law:
  assumes "string_cache ok has holds (hs_cache hs)" and "\<forall>name \<in> set names. length name = 36"
  shows "\<exists>hs'. fold (\<lambda>name r. bind_outcome r (clean_file H name)) names (Return hs) = Return hs'
    \<and> string_cache ok has holds (hs_cache hs') \<and> holds (hs_cache hs') = holds (hs_cache hs)
    \<and> (\<forall>q. content (hs_files hs') q \<noteq> content (hs_files hs) q \<longrightarrow>
         (\<exists>name \<in> set names. \<not> cached_file H holds content hs name \<and> q \<in> {file_of H name, info_file H name}))"
  using assms
proof (induction names arbitrary: hs)
  case (Cons a names)
  from clean_file_law [OF Cons.prems(1), of a] obtain hs1 where first: "clean_file H a hs = Return hs1" "string_cache ok has holds (hs_cache hs1)"
    "holds (hs_cache hs1) = holds (hs_cache hs)" and ch1: "\<And>q. content (hs_files hs1) q \<noteq> content (hs_files hs) q \<Longrightarrow>
      \<not> cached_file H holds content hs a \<and> q \<in> {file_of H a, info_file H a}" by blast
  from Cons.IH [OF first(2)] Cons.prems(2) obtain hs' where rest: "fold (\<lambda>name r. bind_outcome r (clean_file H name)) names (Return hs1) = Return hs'"
    "string_cache ok has holds (hs_cache hs')" "holds (hs_cache hs') = holds (hs_cache hs1)" and ch2: "\<And>q. content (hs_files hs') q \<noteq> content (hs_files hs1) q \<Longrightarrow>
      \<exists>name \<in> set names. \<not> cached_file H holds content hs1 name \<and> q \<in> {file_of H name, info_file H name}" by auto
  have still: "cached_file H holds content hs1 name" if n: "name \<in> set names" "cached_file H holds content hs name" for name
  proof (cases "content (hs_files hs1) (info_file H name) = content (hs_files hs) (info_file H name)")
    case True
    with n(2) first(3) show ?thesis by (simp add: cached_file_def)
  next
    case False
    from ch1 [OF False] info_not_file [of a name H] Cons.prems(2) n show ?thesis by auto
  qed
  have "\<exists>name \<in> set (a # names). \<not> cached_file H holds content hs name \<and> q \<in> {file_of H name, info_file H name}"
    if "content (hs_files hs') q \<noteq> content (hs_files hs) q" for q
  proof (cases "content (hs_files hs1) q = content (hs_files hs) q")
    case True
    with that ch2 [of q] still show ?thesis by (metis list.set_intros(2))
  next
    case False
    from ch1 [OF False] show ?thesis by auto
  qed
  with first rest show ?case by auto
qed auto

end

definition sample_name :: string where "sample_name = replicate 36 (CHR ''a'')"

definition mem_http :: "((cache_value, (string \<times> addr) list) LruCacheSvc, string \<Rightarrow> bytes option) HttpEnv" where
  "mem_http = \<lparr>hf_cache = lru_api alist_hamt, hf_fs = mem_fs, hf_Exists = (\<lambda>f p. f p \<noteq> None), hf_ReadDir = (\<lambda>_ _. Inr [(sample_name, False)]),
     hf_Unmarshal = (\<lambda>bs. [bs]), hf_Marshal = concat, hf_IsDataId = (\<lambda>_. True), hf_Client = None, hf_GetModel = (\<lambda>_. Inl (ErrText ''none'')),
     hf_Fetch = (\<lambda>_ _ _. Inl (ErrText ''none'')), hf_ServerPath = ''/srv''\<rparr>"

interpretation mem_http: http_site mem_http "svc_ok (\<lambda>m. m)" svc_has "svc_holds (\<lambda>m. m)" "\<lambda>f. f"
proof -
  have fields: "hf_cache mem_http = lru_api alist_hamt" "hf_fs mem_http = mem_fs" by (simp_all add: mem_http_def)
  have "cache_api (svc_ok (\<lambda>m. m)) svc_has (svc_holds (\<lambda>m. m)) (ca_Get (lru_api alist_hamt)) (ca_Put (lru_api alist_hamt))"
    using alist_map.svc_api by (simp add: lru_api_def)
  then show "http_site mem_http (svc_ok (\<lambda>m. m)) svc_has (svc_holds (\<lambda>m. m)) (\<lambda>f. f)"
    unfolding http_site_def http_site_axioms_def fields using mem_fs.file_system_axioms by (simp add: mem_fs_def)
qed



end
