(* ===== verification/Indexer.thy ===== *)
theory Indexer
  imports Request_Queue
begin

text \<open>
  The indexer (\<^verbatim>\<open>src/node/indexer\<close>): a service that runs queued jobs (\<^verbatim>\<open>index_service.go\<close>, \<^verbatim>\<open>types/job.go\<close>), and the two jobs that copy
  metadata and shards from the chain into an SQL database (\<^verbatim>\<open>jobs/*.go\<close>).  The database is third-party code: \<open>db_ops\<close> counts
  the rows of a key and executes statements.  The jobs live in a heap, since the queue and the service share pointers to them.
  A job that does not end is \<open>None\<close>.
\<close>

section \<open>Jobs\<close>

definition JobStatusPending :: string where "JobStatusPending = ''Pending''"

definition JobStatusRuning :: string where "JobStatusRuning = ''Runing''"

definition JobStatusSuccessed :: string where "JobStatusSuccessed = ''Successed''"

definition JobStatusFailed :: string where "JobStatusFailed = ''Failed''"

record ('a, 'r, 'q) Job =
  jb_ID :: string
  jb_Description :: string
  jb_Status :: string
  jb_ExecFunc :: "'a list \<Rightarrow> 'q \<Rightarrow> ('r res \<times> 'q) option"
  jb_Args :: "'a list"
  jb_Result :: "'r option"
  jb_Error :: "goerr option"

definition Job_Execute :: "('a, 'r, 'q) Job \<Rightarrow> 'q \<Rightarrow> ('r res \<times> 'q) option" where
  "Job_Execute j db = jb_ExecFunc j (jb_Args j) db"

text \<open>The state of the service: the queued requests, as pointers to their jobs (\<open>None\<close> is a nil job), the jobs, and the
  database.\<close>

record ('a, 'r, 'q) IndexSvc =
  is_schedQueue :: "nat option RequestQueue"
  is_jobs :: "('a, 'r, 'q) Job list"
  is_Db :: 'q

definition upd_job :: "nat \<Rightarrow> (('a, 'r, 'q) Job \<Rightarrow> ('a, 'r, 'q) Job) \<Rightarrow> ('a, 'r, 'q) IndexSvc \<Rightarrow> ('a, 'r, 'q) IndexSvc" where
  "upd_job a f svc = svc\<lparr>is_jobs := (is_jobs svc)[a := f (is_jobs svc ! a)]\<rparr>"

definition excute :: "nat \<Rightarrow> ('a, 'r, 'q) IndexSvc \<Rightarrow> (goerr option \<times> ('a, 'r, 'q) IndexSvc) option" where
  "excute a svc =
     (let svc1 = upd_job a (\<lambda>j. j\<lparr>jb_Status := JobStatusRuning\<rparr>) svc
      in case Job_Execute (is_jobs svc1 ! a) (is_Db svc1) of
           None \<Rightarrow> None
         | Some (Inl err, db) \<Rightarrow>
             Some (Some err, upd_job a (\<lambda>j. j\<lparr>jb_Error := Some err, jb_Status := JobStatusFailed\<rparr>) (svc1\<lparr>is_Db := db\<rparr>))
         | Some (Inr result, db) \<Rightarrow>
             Some (None, upd_job a (\<lambda>j. j\<lparr>jb_Result := Some result, jb_Status := JobStatusSuccessed\<rparr>) (svc1\<lparr>is_Db := db\<rparr>)))"

text \<open>One goroutine of the scheduler.  A request without a job is a nil dereference.\<close>

definition runSched_one :: "('a, 'r, 'q) IndexSvc \<Rightarrow> ('a, 'r, 'q) IndexSvc outcome option" where
  "runSched_one svc =
     (case PopFront (is_schedQueue svc) of
        (None, q) \<Rightarrow> Some (Return (svc\<lparr>is_schedQueue := q\<rparr>))
      | (Some None, q) \<Rightarrow> Some Panic
      | (Some (Some a), q) \<Rightarrow>
          (let svc1 = svc\<lparr>is_schedQueue := q\<rparr>
           in if jb_ID (is_jobs svc1 ! a) = [] then Some (Return svc1)
              else
                (case excute a svc1 of
                   None \<Rightarrow> None
                 | Some (None, svc2) \<Rightarrow> Some (Return svc2)
                 | Some (Some err, svc2) \<Rightarrow>
                     Some (Return (upd_job a (\<lambda>j. j\<lparr>jb_Status := JobStatusPending\<rparr>)
                             (svc2\<lparr>is_schedQueue := Push (is_schedQueue svc2) (Some a)\<rparr>))))))"

text \<open>Restoring the pending jobs from what the datastore has.  The loop pushes the address of its variable, which after the loop
  holds the last request.\<close>

definition processPendingJobs :: "bytes res \<Rightarrow> (bytes \<Rightarrow> ('a, 'r, 'q) Job option list res) \<Rightarrow> ('a, 'r, 'q) IndexSvc \<Rightarrow> ('a, 'r, 'q) IndexSvc" where
  "processPendingJobs stored unmarshal svc =
     (case stored of
        Inl _ \<Rightarrow> svc
      | Inr bs \<Rightarrow>
          (case unmarshal bs of
             Inl _ \<Rightarrow> svc
           | Inr [] \<Rightarrow> svc
           | Inr pendingJobs \<Rightarrow>
               (let (a, svc1) = (case last pendingJobs of
                                   None \<Rightarrow> (None, svc)
                                 | Some j \<Rightarrow> (Some (length (is_jobs svc)), svc\<lparr>is_jobs := is_jobs svc @ [j]\<rparr>))
                in fold (\<lambda>_ s. s\<lparr>is_schedQueue := Push (is_schedQueue s) a\<rparr>) pendingJobs svc1)))"

section \<open>Reading the chain\<close>

text \<open>The loop over the pages of a listing: \<open>known\<close> is the number of rows the database has for an entry.\<close>

fun collect :: "('x \<Rightarrow> nat res) \<Rightarrow> ('x \<Rightarrow> bool) \<Rightarrow> 'x list \<Rightarrow> 'x list res" where
  "collect known wanted [] = Inr []"
| "collect known wanted (x # xs) =
     (case known x of
        Inl err \<Rightarrow> Inl err
      | Inr rows \<Rightarrow>
          if rows > 0 then collect known wanted xs
          else map_sum id (if wanted x then Cons x else id) (collect known wanted xs))"

partial_function (option) scan_loop ::
  "(u64 \<Rightarrow> u64 \<Rightarrow> ('x list \<times> u64) res) \<Rightarrow> ('x \<Rightarrow> nat res) \<Rightarrow> ('x \<Rightarrow> bool) \<Rightarrow> u64 \<Rightarrow> 'x list \<Rightarrow> 'x list res option" where
  [code]: "scan_loop listing known wanted offset found =
     (case listing offset 100 of
        Inl err \<Rightarrow> Some (Inl err)
      | Inr (entries, size_all) \<Rightarrow>
          (if offset * 100 \<le> size_all then
             (case collect known wanted entries of
                Inl err \<Rightarrow> Some (Inl err)
              | Inr new \<Rightarrow> scan_loop listing known wanted (offset + 1) (found @ new))
           else Some (Inr found)))"

section \<open>Writing the database\<close>

record 'q db_ops =
  db_CountMetadata :: "'q \<Rightarrow> string \<Rightarrow> nat res"
  db_CountShard :: "'q \<Rightarrow> u64 \<Rightarrow> u64 \<Rightarrow> nat res"
  db_Exec :: "'q \<Rightarrow> string \<Rightarrow> goerr option \<times> 'q"

text \<open>The rows are inserted by one statement for the first 501 and then for every 500 of them.\<close>

fun save_rows :: "'q db_ops \<Rightarrow> string \<Rightarrow> nat \<Rightarrow> string \<Rightarrow> string list \<Rightarrow> 'q \<Rightarrow> goerr option \<times> 'q" where
  "save_rows D into index valueArgs [] db = (if valueArgs \<noteq> [] then db_Exec D db (into @ valueArgs) else (None, db))"
| "save_rows D into index valueArgs (row # rows) db =
     (let args = (if valueArgs \<noteq> [] then valueArgs @ '', '' else valueArgs) @ row
      in if index > 0 \<and> index mod 500 = 0 then
           (case db_Exec D db (into @ args) of
              (Some err, db') \<Rightarrow> (Some err, db')
            | (None, db') \<Rightarrow> save_rows D into (index + 1) [] rows db')
         else save_rows D into (index + 1) args rows db)"

definition quoted :: "string \<Rightarrow> string" where
  "quoted s = [CHR 34] @ s @ [CHR 34]"

text \<open>\<^verbatim>\<open>%s\<close> of a slice of strings.\<close>

fun spaced :: "string list \<Rightarrow> string" where
  "spaced [] = []"
| "spaced [s] = s"
| "spaced (s # t # ss) = s @ '' '' @ spaced (t # ss)"

definition show_slice :: "string list \<Rightarrow> string" where
  "show_slice ss = ''['' @ spaced ss @ '']''"

section \<open>The jobs\<close>

text \<open>What the jobs read of the chain's metadata and shards.\<close>

record IndexedMeta =
  im_Owner :: string
  im_DataId :: string
  im_Alias :: string
  im_GroupId :: string
  im_Commit :: string
  im_Commits :: "string list"
  im_Size :: nat
  im_CreatedAt :: u64
  im_Duration :: u64
  im_ReadonlyDids :: "string list"
  im_ReadwriteDids :: "string list"

record Shard =
  sh_ShardId :: u64
  sh_OrderId :: u64
  sh_Sp :: string
  sh_Cid :: string

definition metadata_row :: "IndexedMeta \<Rightarrow> string" where
  "metadata_row meta =
     ''('' @ quoted (im_Owner meta) @ '', '' @ quoted (im_DataId meta) @ '', '' @ quoted (im_Alias meta) @ '', '' @ quoted (im_GroupId meta)
     @ '', '' @ quoted (im_Commit meta) @ '', '' @ quoted (''v'' @ show_nat (length (im_Commits meta))) @ '', '' @ show_nat (im_Size meta)
     @ '', '' @ show_u64 (im_CreatedAt meta + im_Duration meta) @ '', '' @ quoted (show_slice (im_ReadonlyDids meta))
     @ '', '' @ quoted (show_slice (im_ReadwriteDids meta)) @ '')''"

definition insert_metadata :: string where
  "insert_metadata = ''INSERT INTO METADATA (DID, DATAID, ALIAS, PLAT, COMMITID, VER, SIZE, EXPIRATION, READER, WRITER) VALUES ''"

definition shard_row :: "Shard \<Rightarrow> string" where
  "shard_row shard =
     ''('' @ show_u64 (sh_ShardId shard) @ '', '' @ show_u64 (sh_OrderId shard) @ '', '' @ quoted (sh_Sp shard) @ '', '' @ quoted (sh_Cid shard) @ '')''"

definition insert_shard :: string where
  "insert_shard = ''INSERT INTO SP_SHARD (SHARDID, ORDERID, SP, CID) VALUES ''"

text \<open>What a job does with the entries it found.\<close>

definition run_index :: "'q db_ops \<Rightarrow> string \<Rightarrow> ('x \<Rightarrow> string) \<Rightarrow> 'x list res option \<Rightarrow> 'q \<Rightarrow> (unit res \<times> 'q) option" where
  "run_index D into row found db =
     (case found of
        None \<Rightarrow> None
      | Some (Inl err) \<Rightarrow> Some (Inl err, db)
      | Some (Inr entries) \<Rightarrow>
          Some (case save_rows D into 0 [] (map row entries) db of
                  (Some err, db') \<Rightarrow> (Inl err, db')
                | (None, db') \<Rightarrow> (Inr (), db')))"

definition metadata_exec ::
  "'q db_ops \<Rightarrow> (u64 \<Rightarrow> u64 \<Rightarrow> (IndexedMeta list \<times> u64) res) \<Rightarrow> string \<Rightarrow> 'q \<Rightarrow> (unit res \<times> 'q) option" where
  "metadata_exec D listMeta platFormIds db =
     run_index D insert_metadata metadata_row
       (scan_loop listMeta (\<lambda>meta. db_CountMetadata D db (im_Commit meta)) (\<lambda>meta. Contains platFormIds (im_GroupId meta)) 0 []) db"

definition shard_exec ::
  "'q db_ops \<Rightarrow> (u64 \<Rightarrow> u64 \<Rightarrow> (Shard list \<times> u64) res) \<Rightarrow> string \<Rightarrow> 'q \<Rightarrow> (unit res \<times> 'q) option" where
  "shard_exec D listShards providers db =
     run_index D insert_shard shard_row
       (scan_loop listShards (\<lambda>shard. db_CountShard D db (sh_OrderId shard) (sh_ShardId shard)) (\<lambda>shard. Contains providers (sh_Sp shard)) 0 []) db"

text \<open>The tables are created first; an error is only logged.  \<open>ident\<close> is a generated identifier and \<open>create\<close> the embedded SQL file.\<close>

definition BuildMetadataIndexJob ::
  "'q db_ops \<Rightarrow> string \<Rightarrow> (u64 \<Rightarrow> u64 \<Rightarrow> (IndexedMeta list \<times> u64) res) \<Rightarrow> string \<Rightarrow> string \<Rightarrow> 'q \<Rightarrow> ('a, unit, 'q) Job \<times> 'q" where
  "BuildMetadataIndexJob D create listMeta platFormIds ident db =
     (\<lparr>jb_ID = ident, jb_Description = ''build metadata index for models with specified groupIds'', jb_Status = JobStatusPending,
       jb_ExecFunc = (\<lambda>_. metadata_exec D listMeta platFormIds), jb_Args = [], jb_Result = None, jb_Error = None\<rparr>,
      snd (db_Exec D db create))"

definition BuildSpShardIndexJob ::
  "'q db_ops \<Rightarrow> string \<Rightarrow> (u64 \<Rightarrow> u64 \<Rightarrow> (Shard list \<times> u64) res) \<Rightarrow> string \<Rightarrow> string \<Rightarrow> 'q \<Rightarrow> ('a, unit, 'q) Job \<times> 'q" where
  "BuildSpShardIndexJob D create listShards providers ident db =
     (\<lparr>jb_ID = ident, jb_Description = ''build sp shard index for order with specified sp address'', jb_Status = JobStatusPending,
       jb_ExecFunc = (\<lambda>_. shard_exec D listShards providers), jb_Args = [], jb_Result = None, jb_Error = None\<rparr>,
      snd (db_Exec D db create))"

section \<open>Statements\<close>

fun commas :: "string list \<Rightarrow> string" where
  "commas [] = []"
| "commas [r] = r"
| "commas (r # s # rs) = r @ '', '' @ commas (s # rs)"

fun exec_all :: "'q db_ops \<Rightarrow> string list \<Rightarrow> 'q \<Rightarrow> goerr option \<times> 'q" where
  "exec_all D [] db = (None, db)"
| "exec_all D (stmt # stmts) db = (case db_Exec D db stmt of (Some err, db') \<Rightarrow> (Some err, db') | (None, db') \<Rightarrow> exec_all D stmts db')"

text \<open>The rows of each statement.\<close>

fun batches :: "nat \<Rightarrow> 'x list \<Rightarrow> 'x list \<Rightarrow> 'x list list" where
  "batches i acc [] = (if acc = [] then [] else [acc])"
| "batches i acc (x # xs) =
     (if i > 0 \<and> i mod 500 = 0 then (acc @ [x]) # batches (i + 1) [] xs else batches (i + 1) (acc @ [x]) xs)"

lemma commas_empty: "list_all (\<lambda>r. r \<noteq> []) rs \<Longrightarrow> commas rs = [] \<longleftrightarrow> rs = []"
  by (cases rs rule: commas.cases) auto

lemma commas_snoc: "rs \<noteq> [] \<Longrightarrow> commas (rs @ [r]) = commas rs @ '', '' @ r"
  by (induction rs rule: commas.induct) auto

lemma concat_batches: "concat (batches i acc xs) = acc @ xs"
  by (induction i acc xs rule: batches.induct) auto

lemma mod_500_Suc: "i > 500 \<Longrightarrow> i mod 500 \<noteq> 0 \<Longrightarrow> Suc ((i - 1) mod 500) = i mod 500" for i :: nat
  by (cases i; simp) (simp add: mod_Suc split: if_splits)

lemma batches_size:
  "length acc = (if i \<le> 500 then i else (i - 1) mod 500) \<Longrightarrow> b \<in> set (batches i acc xs) \<Longrightarrow> 0 < length b \<and> length b \<le> 501"
proof (induction i acc xs rule: batches.induct)
  case (2 i acc x xs)
  have grown: "length (acc @ [x]) = (if i + 1 \<le> 500 then i + 1 else (i + 1 - 1) mod 500)" if nz: "\<not> (i > 0 \<and> i mod 500 = 0)"
  proof -
    have "i \<noteq> 500" using nz by (intro notI) simp
    then show ?thesis using nz 2(3) mod_500_Suc [of i] by (cases "i > 500") simp_all
  qed
  show ?case
  proof (cases "i > 0 \<and> i mod 500 = 0")
    case True
    then have "500 \<le> i" by (simp add: mod_eq_0_iff_dvd dvd_imp_le)
    with True have full: "length acc \<le> 500" "(i + 1 - 1) mod 500 = 0" "\<not> i + 1 \<le> 500"
      using 2(3) by (simp_all split: if_splits)
    with True 2 show ?thesis by (cases "b = acc @ [x]") auto
  next
    case False
    with 2 grown show ?thesis by simp
  qed
qed (auto split: if_splits)

lemma save_rows_batches:
  "list_all (\<lambda>r. r \<noteq> []) acc \<Longrightarrow> list_all (\<lambda>r. r \<noteq> []) rows \<Longrightarrow>
   save_rows D into i (commas acc) rows db = exec_all D (map (\<lambda>b. into @ commas b) (batches i acc rows)) db"
proof (induction rows arbitrary: i acc db)
  case Nil
  then show ?case by (auto simp: commas_empty split: prod.splits option.splits)
next
  case (Cons row rows)
  have args: "(if commas acc \<noteq> [] then commas acc @ '', '' else commas acc) @ row = commas (acc @ [row])"
    using Cons.prems(1) by (cases "acc = []") (auto simp: commas_empty commas_snoc)
  show ?case using Cons.prems Cons.IH [of "[]" "i + 1"] Cons.IH [of "acc @ [row]" "i + 1" db]
    by (simp add: args Let_def split: prod.splits option.splits)
qed

section \<open>What the jobs find\<close>

text \<open>A listing of a fixed list, and the entries a job is to add: wanted ones without rows.\<close>

definition lists :: "(u64 \<Rightarrow> u64 \<Rightarrow> ('x list \<times> u64) res) \<Rightarrow> 'x list \<Rightarrow> bool" where
  "lists listing xs \<longleftrightarrow> (\<forall>offset limit. listing offset limit = Inr (take (unat limit) (drop (unat offset) xs), of_nat (length xs)))"

definition missing :: "('x \<Rightarrow> nat res) \<Rightarrow> ('x \<Rightarrow> bool) \<Rightarrow> 'x \<Rightarrow> bool" where
  "missing known wanted x \<longleftrightarrow> known x = Inr 0 \<and> wanted x"

lemma collect_filter: "\<forall>x \<in> set xs. \<not> isl (known x) \<Longrightarrow> collect known wanted xs = Inr (filter (missing known wanted) xs)"
  by (induction xs) (auto simp: missing_def split: sum.splits)

lemma scan_loop_windows:
  assumes "lists listing xs" and "\<forall>x \<in> set xs. \<not> isl (known x)" and "length xs + 200 < 2 ^ 64" and "unat offset \<le> length xs div 100 + 1"
  shows "scan_loop listing known wanted offset found =
    Some (Inr (found @ concat (map (\<lambda>k. filter (missing known wanted) (take 100 (drop k xs))) [unat offset..<length xs div 100 + 1])))"
  using assms(4)
proof (induction "length xs div 100 + 1 - unat offset" arbitrary: offset found rule: less_induct)
  case less
  let ?n = "length xs"
  have small: "unat offset * 100 \<le> ?n + 100" using less.prems by simp
  have times: "unat (offset * 100) = unat offset * 100"
    using small assms(3) by (subst unat_mult_lem [THEN iffD1]) auto
  have plus: "unat (offset + 1) = unat offset + 1"
    using small assms(3) by (subst unat_add_lem [THEN iffD1]) auto
  have n: "unat (of_nat ?n :: u64) = ?n" using assms(3) by (simp add: unat_of_nat take_bit_nat_eq_self)
  have more: "offset * 100 \<le> (of_nat ?n :: u64) \<longleftrightarrow> unat offset \<le> ?n div 100"
    by (simp add: word_le_nat_alt times n less_eq_div_iff_mult_less_eq)
  have page: "listing offset 100 = Inr (take 100 (drop (unat offset) xs), of_nat ?n)" using assms(1) by (simp add: lists_def)
  have known: "collect known wanted (take 100 (drop (unat offset) xs)) = Inr (filter (missing known wanted) (take 100 (drop (unat offset) xs)))"
    using assms(2) by (intro collect_filter) (auto dest: in_set_takeD in_set_dropD)
  show ?case
  proof (cases "unat offset \<le> ?n div 100")
    case True
    then have step: "[unat offset..<Suc (?n div 100)] = unat offset # [Suc (unat offset)..<Suc (?n div 100)]"
      by (simp add: upt_conv_Cons del: upt_Suc)
    from True less.hyps [of "offset + 1"] show ?thesis
      by (subst scan_loop.simps) (simp add: page more known plus step del: upt_Suc)
  next
    case False
    then show ?thesis by (subst scan_loop.simps) (simp add: page more)
  qed
qed

lemma windows_take: "0 < m \<Longrightarrow> (\<Union>k < m. set (take 100 (drop k xs))) = set (take (m + 99) xs)"
proof (induction m)
  case (Suc m)
  show ?case
  proof (cases m)
    case 0
    then show ?thesis by (simp add: lessThan_Suc)
  next
    case (Suc l)
    have "set (take 100 (drop m xs)) \<union> set (take (m + 99) xs) = set (take (m + 100) xs)"
    proof -
      have "set (take (m + 99) xs) = set (take m xs) \<union> set (take 99 (drop m xs))" by (simp add: take_add)
      moreover have "set (take 99 (drop m xs)) \<subseteq> set (take 100 (drop m xs))" by (rule set_take_subset_set_take) simp
      moreover have "set (take (m + 100) xs) = set (take m xs) \<union> set (take 100 (drop m xs))" by (simp add: take_add)
      ultimately show ?thesis by auto
    qed
    with Suc.IH \<open>m = Suc l\<close> show ?thesis by (simp add: lessThan_Suc numeral_eq_Suc)
  qed
qed simp

text \<open>What a job inserts, and the entries its windows reach.\<close>

lemma run_index_result:
  assumes "lists listing xs" and "\<forall>x \<in> set xs. \<not> isl (known x)" and "length xs + 200 < 2 ^ 64" and "\<And>x. row x \<noteq> []"
  shows "\<exists>bs. set (concat bs) = set (filter (missing known wanted) (take (length xs div 100 + 100) xs))
    \<and> (\<forall>b \<in> set bs. 0 < length b \<and> length b \<le> 501)
    \<and> run_index D into row (scan_loop listing known wanted 0 []) db =
        Some (case exec_all D (map (\<lambda>b. into @ commas (map row b)) bs) db of (None, db') \<Rightarrow> (Inr (), db') | (Some err, db') \<Rightarrow> (Inl err, db'))"
proof -
  define found where "found = concat (map (\<lambda>k. filter (missing known wanted) (take 100 (drop k xs))) [0..<length xs div 100 + 1])"
  have scan: "scan_loop listing known wanted 0 [] = Some (Inr found)"
    using scan_loop_windows [OF assms(1-3), of 0 wanted "[]"] by (simp add: found_def)
  have reach: "(\<Union>k < length xs div 100 + 1. set (take 100 (drop k xs))) = set (take (length xs div 100 + 100) xs)"
    using windows_take [of "length xs div 100 + 1" xs] by (simp only: add.assoc) simp
  have "set found = {x \<in> (\<Union>k < length xs div 100 + 1. set (take 100 (drop k xs))). missing known wanted x}"
    by (auto simp: found_def simp del: upt_Suc)
  then have found: "set found = set (filter (missing known wanted) (take (length xs div 100 + 100) xs))"
    by (simp only: reach set_filter)
  have maps: "batches i (map row acc) (map row ys) = map (map row) (batches i acc ys)" for i acc ys
    by (induction i acc ys rule: batches.induct) auto
  have saved: "save_rows D into 0 [] (map row found) db = exec_all D (map (\<lambda>b. into @ commas (map row b)) (batches 0 [] found)) db"
    using save_rows_batches [of "[]" "map row found" D into 0 db] assms(4) maps [of 0 "[]" found] by (simp add: list_all_iff comp_def)
  have "set (concat (batches 0 [] found)) = set (filter (missing known wanted) (take (length xs div 100 + 100) xs))"
    using found by (simp only: concat_batches append_Nil)
  moreover have "\<forall>b \<in> set (batches 0 [] found). 0 < length b \<and> length b \<le> 501" using batches_size [of "[]" 0] by auto
  moreover have "run_index D into row (scan_loop listing known wanted 0 []) db =
      Some (case exec_all D (map (\<lambda>b. into @ commas (map row b)) (batches 0 [] found)) db of (None, db') \<Rightarrow> (Inr (), db') | (Some err, db') \<Rightarrow> (Inl err, db'))"
    by (auto simp: run_index_def scan saved split: prod.splits option.splits)
  ultimately show ?thesis by blast
qed

text \<open>C28. The shard job ends, and inserts, in statements of at most 501 rows, exactly the shards of the given providers
  that the database does not have, as far as its windows reach: the offset advances by one entry for each hundred the
  chain has, so of \<open>n\<close> shards only the first \<open>n div 100 + 100\<close> are ever seen.\<close>

theorem shard_exec_result:
  assumes "lists listShards xs" and "\<forall>x \<in> set xs. \<not> isl (db_CountShard D db (sh_OrderId x) (sh_ShardId x))" and "length xs + 200 < 2 ^ 64"
  shows "\<exists>bs. set (concat bs) = {x \<in> set (take (length xs div 100 + 100) xs).
        db_CountShard D db (sh_OrderId x) (sh_ShardId x) = Inr 0 \<and> Contains providers (sh_Sp x)}
    \<and> (\<forall>b \<in> set bs. 0 < length b \<and> length b \<le> 501)
    \<and> shard_exec D listShards providers db =
        Some (case exec_all D (map (\<lambda>b. insert_shard @ commas (map shard_row b)) bs) db of (None, db') \<Rightarrow> (Inr (), db') | (Some err, db') \<Rightarrow> (Inl err, db'))"
proof -
  have "shard_row x \<noteq> []" for x by (simp add: shard_row_def)
  from run_index_result [OF assms this] show ?thesis unfolding shard_exec_def missing_def set_filter .
qed

definition sample_shards :: "Shard list" where
  "sample_shards = [\<lparr>sh_ShardId = 1, sh_OrderId = 5, sh_Sp = ''sao1a'', sh_Cid = ''c1''\<rparr>, \<lparr>sh_ShardId = 2, sh_OrderId = 5, sh_Sp = ''sao1b'', sh_Cid = ''c2''\<rparr>]"

text \<open>A database that keeps the statements it executed.\<close>

definition sample_db :: "string list db_ops" where
  "sample_db = \<lparr>db_CountMetadata = (\<lambda>_ _. Inr 0), db_CountShard = (\<lambda>_ _ _. Inr 0), db_Exec = (\<lambda>db stmt. (None, db @ [stmt]))\<rparr>"

definition sample_listing :: "u64 \<Rightarrow> u64 \<Rightarrow> (Shard list \<times> u64) res" where
  "sample_listing offset limit = Inr (take (unat limit) (drop (unat offset) sample_shards), of_nat (length sample_shards))"

theorem shard_exec_result_witness:
  "\<exists>db. shard_exec sample_db sample_listing ''sao1a,sao1c'' [] = Some (Inr (), db) \<and> db \<noteq> []"
proof -
  have ok: "lists sample_listing sample_shards" "\<forall>x \<in> set sample_shards. \<not> isl (db_CountShard sample_db [] (sh_OrderId x) (sh_ShardId x))"
    "length sample_shards + 200 < 2 ^ 64" by (simp_all add: lists_def sample_listing_def sample_db_def sample_shards_def)
  have all: "exec_all sample_db stmts db = (None, db @ stmts)" for stmts db
    by (induction stmts arbitrary: db) (simp_all add: sample_db_def)
  from shard_exec_result [OF ok, of "''sao1a,sao1c''"] obtain bs where
    bs: "set (concat bs) = {x \<in> set (take (length sample_shards div 100 + 100) sample_shards).
      db_CountShard sample_db [] (sh_OrderId x) (sh_ShardId x) = Inr 0 \<and> Contains ''sao1a,sao1c'' (sh_Sp x)}"
    and run: "shard_exec sample_db sample_listing ''sao1a,sao1c'' [] = Some (Inr (), map (\<lambda>b. insert_shard @ commas (map shard_row b)) bs)"
    by (auto simp: all)
  have "Contains ''sao1a,sao1c'' ''sao1a''" by code_simp
  then have "hd sample_shards \<in> set (concat bs)" unfolding bs by (simp add: sample_shards_def sample_db_def)
  then have "bs \<noteq> []" by auto
  with run show ?thesis by simp
qed

end
