(* ===== verification/Spec2Isabelle.thy ===== *)
theory Spec2Isabelle
  imports Node_State Cache_Service Request_Queue Maplock Store_Manager Storage_Handler_Props Gateway_Handler_Props Protocol_Props
    Node_Api_Props Chain_Queries Upload_Client Http_File_Server Indexer
begin

text \<open>
  A verification of the SAO network node (\<^verbatim>\<open>src/\<close>, written in Go).

  \<^bold>\<open>The program.\<close>  A node stores data models for their owners.  Its gateway (\<^verbatim>\<open>src/node/gateway\<close>) receives the
  content of a model, stages it in a file, creates an order on the chain and tells the storage nodes the chain
  chose that a shard is theirs; its storage service (\<^verbatim>\<open>src/node/storage\<close>) is assigned shards, fetches their
  content from the gateway, stores it, completes the shard on chain and reports the completion to the gateway.
  Both keep their work in queues (\<^verbatim>\<open>src/node/queue\<close>) and its state in a datastore (\<^verbatim>\<open>src/utils/state_utils.go\<close>) as
  CBOR records (\<^verbatim>\<open>src/types\<close>), so that a restarted node resumes it.  They talk over libp2p streams, or by calls when
  they are one node (\<^verbatim>\<open>src/node/transport\<close>, \<^verbatim>\<open>*_protocol_*.go\<close>).  The content is kept by \<^verbatim>\<open>src/store\<close>.  Above the gateway the model
  manager (\<^verbatim>\<open>src/node/model\<close>) validates and caches models, and the node (\<^verbatim>\<open>src/node/node.go\<close>) answers signed requests of clients; below
  it the chain client (\<^verbatim>\<open>src/chain\<close>) sends transactions and queries.

  \<^bold>\<open>Foundations.\<close>
  \<^item> \<open>Prelude\<close>: strings and byte slices as character lists, \<^verbatim>\<open>uint64\<close> as 64-bit words, \<^verbatim>\<open>int64\<close> as integers in
    range, the pieces of \<^verbatim>\<open>strconv\<close>, \<^verbatim>\<open>strings\<close> and \<^verbatim>\<open>fmt\<close> the sources use, and the outcome of a call, which returns or
    panics.
  \<^item> \<open>Go_Errors\<close>: \<^verbatim>\<open>types/errors.go\<close>, every registered error, \<^verbatim>\<open>Wrap\<close> and \<^verbatim>\<open>Wrapf\<close>; the codes of a module are distinct.
  \<^item> \<open>Node_Types\<close>: the structs of \<^verbatim>\<open>types/state.go\<close>, \<^verbatim>\<open>types/protocol.go\<close> and \<^verbatim>\<open>types/types.go\<close> as records, with
    \<^verbatim>\<open>ParseMetaCommit\<close> and its round trip.
  \<^item> \<open>Chain_Api\<close>: what the services read of the chain, as a record of its answers.

  \<^bold>\<open>Encoding\<close> (\<^verbatim>\<open>types/cbor_gen.go\<close>).  \<open>Cbor_Base\<close> has the pieces of the generated code and the contract \<open>cbor_lib\<close> of
  the library below it, \<open>Cbor_Rfc\<close> an implementation of that contract by RFC 8949; \<open>Cbor_Codec\<close> and \<open>Cbor_Messages\<close>
  are the encoders and decoders of the thirteen states and the fourteen messages.  Each decoder reads back what the
  encoder wrote, in any position of the input, for values whose strings and lists are within the limits.

  \<^bold>\<open>Persisted state\<close> (\<^verbatim>\<open>utils/state_utils.go\<close>).  \<open>State_Store\<close> has the operations on orders, shards, migrations and
  shard expirations; \<open>Store_Tables\<close> the contract \<open>node_libs\<close> of the datastore and the content identifiers, and the locale
  \<open>record_table\<close>, in which a save is a map update and the index lists the records; \<open>Node_State\<close> instantiates it
  four times, and shows that every reachable state is sound and that a save of one kind leaves the others;
  \<open>Store_Mem\<close> is a concrete datastore; \<open>Record_Reads\<close> says that a decoded record is well formed.

  \<^bold>\<open>Caches, queues, locks, content.\<close>  \<open>Lru_Cache\<close> (\<^verbatim>\<open>node/cache/lru_cache.go\<close>) is the doubly linked list on an explicit heap;
  it refines a bounded list of entries in the order of their use.  \<open>Cache_Service\<close> has the three cache services.
  \<open>Request_Queue\<close> is first in first out.  \<open>Maplock\<close> (\<^verbatim>\<open>utils/maplock.go\<close>) is a step relation of threads: mutual exclusion,
  cleanup of unused locks, progress.  \<open>Store_Manager\<close> (\<^verbatim>\<open>store/*.go\<close>) stores content in the first backend and returns
  it under its identifier.

  \<^bold>\<open>Storage service\<close> (\<^verbatim>\<open>node/storage/storage_service.go\<close>).  \<open>Storage_Service\<close> has the processing of a shard, \<open>Storage_Handlers\<close>
  the protocol handlers, migration, expiration and recovery.  \<open>Storage_Invariant\<close> is the transition system of its calls
  and crashes; \<open>Storage_Props\<close> and \<open>Storage_Handler_Props\<close> are the properties; \<open>Retry\<close> is the contract of retried work,
  which both services meet.

  \<^bold>\<open>Gateway\<close> (\<^verbatim>\<open>node/gateway/gateway_service.go\<close>, \<^verbatim>\<open>stage.go\<close>).  \<open>Staging\<close> has the staging area and the paths of its files;
  \<open>Gateway_Service\<close> the scheduling and the assignment of shards; \<open>Gateway_Handlers\<close> commits, fetches, completions,
  timeouts and recovery.  \<open>Gateway_Invariant\<close>, \<open>Gateway_Props\<close> and \<open>Gateway_Handler_Props\<close> are as for the storage service.

  \<^bold>\<open>Communication.\<close>  \<open>Transport\<close> has requests with their attempts and relays and the pings; \<open>Protocols\<close> the
  local and the stream protocols, clients and handlers; \<open>Protocol_Props\<close> that a remote call returns the answer of the
  handler, and that content committed to a node is what its storage service stores.

  \<^bold>\<open>Models\<close> (\<^verbatim>\<open>node/model\<close>, \<^verbatim>\<open>node/node.go\<close>).  \<open>Validator\<close> has the rule engine service and the validation of a model against its schema;
  \<open>Model_Manager\<close> creating, loading, updating, deleting and renewing models over the gateway and a cache whose entries are
  pointers to models; \<open>Model_Cache\<close> the contract of that cache, which the LRU service meets; \<open>Model_Manager_Props\<close> what loads,
  creations and updates return and commit, and that cached content is within its limit.  \<open>Node_Api\<close> has the requests of the
  API with their signatures, and the checks of a fishman; \<open>Node_Api_Props\<close> that nothing happens without a signature
  and that exactly the faulty shards are reported.

  \<^bold>\<open>Chain client\<close> (\<^verbatim>\<open>chain/*.go\<close>).  \<open>Address_Pool\<close> has the pool of signing addresses and the interleaving of the transactions that
  take them; \<open>Chain_Client\<close> every transaction and the loop that broadcasts it; \<open>Chain_Queries\<close> the queries, with the record of
  answers the services use (\<open>chain_service\<close>).  Transactions are signed by an address of the pool, sent at most once, and
  give the address back; the listing of an owner's metadata reads all pages.

  \<^bold>\<open>Uploads\<close> (\<^verbatim>\<open>node/transport/rpc_handler.go\<close>, \<^verbatim>\<open>libp2p_udp_rpc.go\<close>, \<^verbatim>\<open>client/transport.go\<close>).  \<open>Upload\<close> has the handler that receives chunks, the
  requests about models on a stream and models from uploaded files; \<open>Upload_Props\<close> its contract; \<open>Upload_Client\<close> the client's
  loop, and that an upload followed by a creation creates the model with the client's content.

  \<^bold>\<open>Files and index.\<close>  \<open>Http_File_Server\<close> (\<^verbatim>\<open>node/gateway/file_http_service.go\<close>) serves files of models, and its cleaner keeps every file a cached path
  leads to.  \<open>Indexer\<close> (\<^verbatim>\<open>node/indexer\<close>) runs queued jobs; what the shard job inserts is characterised, including the shards that it
  never reaches.

  \<^bold>\<open>Not modelled.\<close>  The command line (\<^verbatim>\<open>cmd\<close>) and the client library around it, generators (\<^verbatim>\<open>gen\<close>), proxies and servers of JSON-RPC, GraphQL and HTTP,
  configuration and repository files, the embedded IPFS daemon, and the constructors, goroutines and shutdown of the services: they
  are flags, prompts, printing, reflection and calls of third-party libraries.

  \<^bold>\<open>Conventions and limits.\<close>  A call of a service is one step: two calls of one service do not interleave (the locks of
  the code are modelled in \<open>Maplock\<close>, not around each call), and during one call the chain, the clock and the other
  nodes answer as the environment record says.  Code that is not part of the repository is a field of such a
  record: the chain client, the DID library, IPFS, libp2p hosts and streams, the file system, the persistent hash
  map, JSON and protobuf coding; what is relied on is a locale with an instance, or a named hypothesis.  Slices and maps
  are values; sharing is modelled where the code depends on it (the list nodes of the LRU cache, the models in the cache of the model
  manager, the jobs of the indexer).  Messages of errors are
  built with their text; a format verb applied to a value of another type prints by a parameter.  Go maps are
  association lists with distinct keys, and a loop over a map that depends on the order takes the order as a parameter.
  \<open>ListMetaByDid_loop\<close> and \<open>scan_loop\<close> are partial functions into \<open>option\<close>, shown to end.
  \<^verbatim>\<open>GetAllShards\<close> and the loop of \<^verbatim>\<open>ReSize\<close> may run for ever and take fuel, with \<open>None\<close> when it runs out: \<open>GetAllShards_terminates_iff\<close>
  characterises when some fuel is enough.
\<close>

end
